(* ===== verification/Prelude.thy ===== *)
theory Prelude
  imports Main "HOL-Library.Word" "HOL-Library.List_Lexorder" "HOL-Library.Char_ord"
    "HOL-Library.Sublist"
begin

text \<open>
  The vocabulary every component of the development shares: identifiers, fallible results, and
  the part of Rust's standard library on strings that the modelled code calls.

  A Rust \<^verbatim>\<open>String\<close> or \<^verbatim>\<open>&str\<close> is its sequence of UTF-8 bytes, a \<^typ>\<open>string\<close> here
  (a \<^typ>\<open>char\<close> is one byte). So \<^verbatim>\<open>s.len()\<close> is \<open>length\<close>; the ASCII predicates on
  \<^verbatim>\<open>char\<close> hold of a character exactly when they hold of its bytes; and the predicates on
  characters beyond ASCII (\<^verbatim>\<open>char::is_whitespace\<close>, \<^verbatim>\<open>char::is_control\<close>) are stated on the
  byte sequences that encode them.
\<close>

named_theorems rust_str "evaluation of the string functions of Rust's standard library"
named_theorems frame "what an operation leaves unchanged"

section \<open>Identifiers and results\<close>

text \<open>
  A \<^verbatim>\<open>Uuid\<close> is opaque: the code compares identifiers and draws fresh ones with
  \<^verbatim>\<open>Uuid::new_v4\<close>. A fresh identifier is an argument of the operation that draws it.
\<close>

type_synonym uuid = nat

text \<open>\<^verbatim>\<open>Result<T, E>\<close>: \<open>Inl\<close> is \<^verbatim>\<open>Err\<close>, \<open>Inr\<close> is \<^verbatim>\<open>Ok\<close>.\<close>

abbreviation Err :: "'e \<Rightarrow> 'e + 'a" where
  "Err \<equiv> Inl"

abbreviation Ok :: "'a \<Rightarrow> 'e + 'a" where
  "Ok \<equiv> Inr"

definition is_ok :: "'e + 'a \<Rightarrow> bool" where
  "is_ok r = (case r of Inl _ \<Rightarrow> False | Inr _ \<Rightarrow> True)"

definition is_err :: "'e + 'a \<Rightarrow> bool" where
  "is_err r = (case r of Inl _ \<Rightarrow> True | Inr _ \<Rightarrow> False)"

lemma is_ok_simps [simp]: "is_ok (Ok x)" "\<not> is_ok (Err e)"
  by (simp_all add: is_ok_def)

lemma is_err_simps [simp]: "is_err (Err e)" "\<not> is_err (Ok x)"
  by (simp_all add: is_err_def)

lemma is_err_iff: "is_err r \<longleftrightarrow> \<not> is_ok r"
  by (cases r) simp_all

text \<open>The \<^verbatim>\<open>?\<close> operator: an error returns at once.\<close>

definition rbind :: "'e + 'a \<Rightarrow> ('a \<Rightarrow> 'e + 'b) \<Rightarrow> 'e + 'b" where
  "rbind r f = (case r of Inl e \<Rightarrow> Inl e | Inr x \<Rightarrow> f x)"

lemma rbind_simps [simp]: "rbind (Err e) f = Err e" "rbind (Ok x) f = f x"
  by (simp_all add: rbind_def)

lemma rbind_eq_Ok: "rbind r f = Ok y \<longleftrightarrow> (\<exists>x. r = Ok x \<and> f x = Ok y)"
  by (cases r) simp_all

text \<open>An option turned into a result, \<^verbatim>\<open>opt.ok_or(e)\<close>.\<close>

definition ok_or :: "'a option \<Rightarrow> 'e \<Rightarrow> 'e + 'a" where
  "ok_or x e = (case x of None \<Rightarrow> Err e | Some v \<Rightarrow> Ok v)"

lemma ok_or_simps [simp]: "ok_or None e = Err e" "ok_or (Some v) e = Ok v"
  by (simp_all add: ok_or_def)

section \<open>ASCII classes of characters\<close>

definition is_ascii_lowercase :: "char \<Rightarrow> bool" where
  "is_ascii_lowercase c \<longleftrightarrow> 97 \<le> (of_char c :: nat) \<and> (of_char c :: nat) \<le> 122"

definition is_ascii_uppercase :: "char \<Rightarrow> bool" where
  "is_ascii_uppercase c \<longleftrightarrow> 65 \<le> (of_char c :: nat) \<and> (of_char c :: nat) \<le> 90"

definition is_ascii_digit :: "char \<Rightarrow> bool" where
  "is_ascii_digit c \<longleftrightarrow> 48 \<le> (of_char c :: nat) \<and> (of_char c :: nat) \<le> 57"

definition is_ascii_alphabetic :: "char \<Rightarrow> bool" where
  "is_ascii_alphabetic c \<longleftrightarrow> is_ascii_lowercase c \<or> is_ascii_uppercase c"

definition is_ascii_alphanumeric :: "char \<Rightarrow> bool" where
  "is_ascii_alphanumeric c \<longleftrightarrow> is_ascii_alphabetic c \<or> is_ascii_digit c"

definition is_ascii_hexdigit :: "char \<Rightarrow> bool" where
  "is_ascii_hexdigit c \<longleftrightarrow> is_ascii_digit c
     \<or> 97 \<le> (of_char c :: nat) \<and> (of_char c :: nat) \<le> 102
     \<or> 65 \<le> (of_char c :: nat) \<and> (of_char c :: nat) \<le> 70"

lemmas ascii_defs = is_ascii_lowercase_def is_ascii_uppercase_def is_ascii_digit_def
  is_ascii_alphabetic_def is_ascii_alphanumeric_def is_ascii_hexdigit_def

declare ascii_defs [rust_str]

definition ascii_lower :: "char \<Rightarrow> char" where
  "ascii_lower c = (if is_ascii_uppercase c then char_of ((of_char c :: nat) + 32) else c)"

definition ascii_upper :: "char \<Rightarrow> char" where
  "ascii_upper c = (if is_ascii_lowercase c then char_of ((of_char c :: nat) - 32) else c)"

definition to_ascii_lowercase :: "string \<Rightarrow> string" where
  "to_ascii_lowercase s = map ascii_lower s"

definition to_ascii_uppercase :: "string \<Rightarrow> string" where
  "to_ascii_uppercase s = map ascii_upper s"

declare ascii_lower_def [rust_str] ascii_upper_def [rust_str]
  to_ascii_lowercase_def [rust_str] to_ascii_uppercase_def [rust_str]

lemma ascii_lower_idem [simp]: "ascii_lower (ascii_lower c) = ascii_lower c"
proof (cases "is_ascii_uppercase c")
  case True
  then have "(of_char (ascii_lower c) :: nat) = of_char c + 32"
    by (simp add: ascii_lower_def is_ascii_uppercase_def)
  with True have "\<not> is_ascii_uppercase (ascii_lower c)"
    by (simp add: is_ascii_uppercase_def)
  then show ?thesis by (simp add: ascii_lower_def [of "ascii_lower c"])
qed (simp add: ascii_lower_def)

lemma to_ascii_lowercase_idem [simp]:
  "to_ascii_lowercase (to_ascii_lowercase s) = to_ascii_lowercase s"
  by (simp add: to_ascii_lowercase_def)

lemma length_to_ascii_lowercase [simp]: "length (to_ascii_lowercase s) = length s"
  by (simp add: to_ascii_lowercase_def)

section \<open>White space and control characters beyond ASCII\<close>

text \<open>
  \<open>ws_len s\<close> is the number of bytes of the white-space character \<open>s\<close> starts with, 0 if it
  starts with none: U+0009 to U+000D, U+0020, U+0085, U+00A0, U+1680, U+2000 to U+200A, U+2028,
  U+2029, U+202F, U+205F and U+3000, the characters of \<^verbatim>\<open>char::is_whitespace\<close>.
\<close>

definition ws1 :: "nat \<Rightarrow> bool" where
  "ws1 a \<longleftrightarrow> (9 \<le> a \<and> a \<le> 13) \<or> a = 32"

definition ws2 :: "nat \<Rightarrow> nat \<Rightarrow> bool" where
  "ws2 a b \<longleftrightarrow> a = 0xC2 \<and> (b = 0x85 \<or> b = 0xA0)"

definition ws3 :: "nat \<Rightarrow> nat \<Rightarrow> nat \<Rightarrow> bool" where
  "ws3 a b c \<longleftrightarrow> (a = 0xE1 \<and> b = 0x9A \<and> c = 0x80)
     \<or> (a = 0xE2 \<and> b = 0x80 \<and> ((0x80 \<le> c \<and> c \<le> 0x8A) \<or> c = 0xA8 \<or> c = 0xA9 \<or> c = 0xAF))
     \<or> (a = 0xE2 \<and> b = 0x81 \<and> c = 0x9F)
     \<or> (a = 0xE3 \<and> b = 0x80 \<and> c = 0x80)"

declare ws1_def [rust_str] ws2_def [rust_str] ws3_def [rust_str]

fun ws_len :: "string \<Rightarrow> nat" where
  "ws_len [] = 0"
| "ws_len [a] = (if ws1 (of_char a) then 1 else 0)"
| "ws_len [a, b] = (if ws1 (of_char a) then 1 else if ws2 (of_char a) (of_char b) then 2 else 0)"
| "ws_len (a # b # c # s) =
     (if ws1 (of_char a) then 1 else if ws2 (of_char a) (of_char b) then 2
      else if ws3 (of_char a) (of_char b) (of_char c) then 3 else 0)"

text \<open>The same at the end of a string, which is given reversed.\<close>

fun ws_len_rev :: "string \<Rightarrow> nat" where
  "ws_len_rev [] = 0"
| "ws_len_rev [a] = (if ws1 (of_char a) then 1 else 0)"
| "ws_len_rev [a, b] =
     (if ws1 (of_char a) then 1 else if ws2 (of_char b) (of_char a) then 2 else 0)"
| "ws_len_rev (a # b # c # s) =
     (if ws1 (of_char a) then 1 else if ws2 (of_char b) (of_char a) then 2
      else if ws3 (of_char c) (of_char b) (of_char a) then 3 else 0)"

lemma ws_len_le: "ws_len s \<le> length s"
  by (induction s rule: ws_len.induct) auto

lemma ws_len_rev_le: "ws_len_rev s \<le> length s"
  by (induction s rule: ws_len_rev.induct) auto

text \<open>A control character (category Cc): U+0000 to U+001F, U+007F, and U+0080 to U+009F.\<close>

definition ctl1 :: "nat \<Rightarrow> bool" where
  "ctl1 a \<longleftrightarrow> a < 32 \<or> a = 127"

definition ctl2 :: "nat \<Rightarrow> nat \<Rightarrow> bool" where
  "ctl2 a b \<longleftrightarrow> a = 0xC2 \<and> 0x80 \<le> b \<and> b \<le> 0x9F"

declare ctl1_def [rust_str] ctl2_def [rust_str]

fun contains_control :: "string \<Rightarrow> bool" where
  "contains_control [] = False"
| "contains_control [a] = ctl1 (of_char a)"
| "contains_control (a # b # s) =
     (ctl1 (of_char a) \<or> ctl2 (of_char a) (of_char b) \<or> contains_control (b # s))"

fun contains_whitespace :: "string \<Rightarrow> bool" where
  "contains_whitespace [] = False"
| "contains_whitespace (a # s) = (0 < ws_len (a # s) \<or> contains_whitespace s)"

lemma contains_control_no_newline:
  "\<not> contains_control s \<Longrightarrow> c \<in> set s \<Longrightarrow> \<not> (of_char c :: nat) < 32"
  by (induction s rule: contains_control.induct) (auto simp: ctl1_def)

lemma not_contains_control_newline:
  "\<not> contains_control s \<Longrightarrow> CHR 0x0A \<notin> set s \<and> CHR 0x0D \<notin> set s \<and> CHR 0x00 \<notin> set s"
  using contains_control_no_newline by force

section \<open>Trimming, prefixes, suffixes, substrings\<close>

function trim_start :: "string \<Rightarrow> string" where
  "trim_start s = (if ws_len s = 0 then s else trim_start (drop (ws_len s) s))"
  by pat_completeness auto
termination
proof (relation "measure length", simp)
  fix s :: string
  assume "ws_len s \<noteq> 0"
  with ws_len_le [of s] show "(drop (ws_len s) s, s) \<in> measure length" by simp
qed

function trim_rev :: "string \<Rightarrow> string" where
  "trim_rev s = (if ws_len_rev s = 0 then s else trim_rev (drop (ws_len_rev s) s))"
  by pat_completeness auto
termination
proof (relation "measure length", simp)
  fix s :: string
  assume "ws_len_rev s \<noteq> 0"
  with ws_len_rev_le [of s] show "(drop (ws_len_rev s) s, s) \<in> measure length" by simp
qed

declare trim_start.simps [simp del] trim_rev.simps [simp del]

definition trim :: "string \<Rightarrow> string" where
  "trim s = trim_start (rev (trim_rev (rev s)))"

lemma trim_rev_suffix: "suffix (trim_rev s) s"
proof (induction s rule: trim_rev.induct)
  case (1 s)
  show ?case
  proof (cases "ws_len_rev s = 0")
    case False
    with "1.IH" have "suffix (trim_rev (drop (ws_len_rev s) s)) s"
      by (meson suffix_drop suffix_order.trans)
    with False show ?thesis by (subst trim_rev.simps) simp
  qed (subst trim_rev.simps, simp)
qed

lemma trim_start_suffix: "suffix (trim_start s) s"
proof (induction s rule: trim_start.induct)
  case (1 s)
  show ?case
  proof (cases "ws_len s = 0")
    case False
    with "1.IH" have "suffix (trim_start (drop (ws_len s) s)) s"
      by (meson suffix_drop suffix_order.trans)
    with False show ?thesis by (subst trim_start.simps) simp
  qed (subst trim_start.simps, simp)
qed

lemma set_trim_subset: "set (trim s) \<subseteq> set s"
  using set_mono_suffix [OF trim_start_suffix [of "rev (trim_rev (rev s))"]]
    set_mono_suffix [OF trim_rev_suffix [of "rev s"]]
  by (auto simp: trim_def)

lemma length_trim: "length (trim s) \<le> length s"
  using suffix_length_le [OF trim_start_suffix [of "rev (trim_rev (rev s))"]]
    suffix_length_le [OF trim_rev_suffix [of "rev s"]]
  by (simp add: trim_def)

text \<open>A printable ASCII character that is not the space, \<^verbatim>\<open>char::is_ascii_graphic\<close>: nothing to trim.\<close>

definition is_ascii_graphic :: "char \<Rightarrow> bool" where
  "is_ascii_graphic c \<longleftrightarrow> 33 \<le> (of_char c :: nat) \<and> (of_char c :: nat) \<le> 126"

declare is_ascii_graphic_def [rust_str]

lemma graphic_ws_len:
  "list_all is_ascii_graphic s \<Longrightarrow> ws_len s = 0"
  "list_all is_ascii_graphic s \<Longrightarrow> ws_len_rev s = 0"
  by (induction s rule: ws_len.induct; simp add: rust_str)
    (induction s rule: ws_len_rev.induct; simp add: rust_str)

lemma trim_graphic: "list_all is_ascii_graphic s \<Longrightarrow> trim s = s"
  by (simp add: trim_def trim_start.simps trim_rev.simps graphic_ws_len list_all_rev)

lemma sublist_trim: "sublist (trim s) s"
proof -
  have "suffix (trim_rev (rev s)) (rev s)" by (rule trim_rev_suffix)
  then have "prefix (rev (trim_rev (rev s))) s" by (simp add: suffix_to_prefix)
  with trim_start_suffix [of "rev (trim_rev (rev s))"] show ?thesis
    unfolding trim_def by (meson prefix_imp_sublist sublist_order.order.trans suffix_imp_sublist)
qed

definition starts_with :: "string \<Rightarrow> string \<Rightarrow> bool" where
  "starts_with s p \<longleftrightarrow> prefix p s"

definition ends_with :: "string \<Rightarrow> string \<Rightarrow> bool" where
  "ends_with s p \<longleftrightarrow> suffix p s"

definition strip_prefix :: "string \<Rightarrow> string \<Rightarrow> string option" where
  "strip_prefix s p = (if prefix p s then Some (drop (length p) s) else None)"

definition strip_suffix :: "string \<Rightarrow> string \<Rightarrow> string option" where
  "strip_suffix s p = (if suffix p s then Some (take (length s - length p) s) else None)"

fun contains_str :: "string \<Rightarrow> string \<Rightarrow> bool" where
  "contains_str [] p \<longleftrightarrow> p = []"
| "contains_str (c # s) p \<longleftrightarrow> prefix p (c # s) \<or> contains_str s p"

lemma contains_str_sublist: "contains_str s p \<longleftrightarrow> sublist p s"
  by (induction s) (auto simp: sublist_Cons_right)

lemma suffix_code [code]: "suffix xs ys \<longleftrightarrow> prefix (rev xs) (rev ys)"
  by (rule suffix_to_prefix)

declare starts_with_def [rust_str] ends_with_def [rust_str] strip_prefix_def [rust_str]
  strip_suffix_def [rust_str] suffix_to_prefix [rust_str]

text \<open>\<^verbatim>\<open>trim_matches\<close>, \<^verbatim>\<open>trim_start_matches\<close>, \<^verbatim>\<open>trim_end_matches\<close> with a predicate on ASCII.\<close>

definition trim_start_matches :: "(char \<Rightarrow> bool) \<Rightarrow> string \<Rightarrow> string" where
  "trim_start_matches P s = dropWhile P s"

definition trim_end_matches :: "(char \<Rightarrow> bool) \<Rightarrow> string \<Rightarrow> string" where
  "trim_end_matches P s = rev (dropWhile P (rev s))"

declare trim_start_matches_def [rust_str] trim_end_matches_def [rust_str]

section \<open>Splitting\<close>

text \<open>\<^verbatim>\<open>s.split(p)\<close> with a predicate on ASCII characters: never empty.\<close>

fun split_on :: "(char \<Rightarrow> bool) \<Rightarrow> string \<Rightarrow> string list" where
  "split_on P [] = [[]]"
| "split_on P (c # s) =
     (if P c then [] # split_on P s
      else (case split_on P s of [] \<Rightarrow> [[c]] | t # ts \<Rightarrow> (c # t) # ts))"

lemma split_on_not_Nil [simp]: "split_on P s \<noteq> []"
  by (induction s) (auto split: list.splits)

lemma split_on_parts: "t \<in> set (split_on P s) \<Longrightarrow> c \<in> set t \<Longrightarrow> c \<in> set s \<and> \<not> P c"
proof (induction s arbitrary: t)
  case (Cons d s)
  obtain u us where u: "split_on P s = u # us" by (cases "split_on P s") auto
  show ?case
  proof (cases "P d")
    case True
    with Cons u show ?thesis by auto
  next
    case False
    with Cons.prems u have "t = d # u \<or> t \<in> set us" by simp
    with Cons.IH [of u] Cons.IH [of t] Cons.prems(2) False u show ?thesis by auto
  qed
qed simp

lemma split_on_none: "\<forall>c\<in>set s. \<not> P c \<Longrightarrow> split_on P s = [s]"
  by (induction s) auto

lemma split_on_chars: "c \<in> set s \<Longrightarrow> \<not> P c \<Longrightarrow> \<exists>t\<in>set (split_on P s). c \<in> set t"
proof (induction s)
  case (Cons d s)
  show ?case
  proof (cases "P d")
    case True
    with Cons show ?thesis by (auto split: list.splits)
  next
    case False
    obtain t ts where "split_on P s = t # ts" by (cases "split_on P s") auto
    with False Cons show ?thesis by (auto split: list.splits)
  qed
qed simp

lemma split_on_append:
  assumes "\<forall>c\<in>set u. \<not> P c" and "split_on P s = t # ts"
  shows "split_on P (u @ s) = (u @ t) # ts"
  using assms by (induction u) auto

lemma split_on_concat:
  assumes "\<And>t c. t \<in> set ts \<Longrightarrow> c \<in> set t \<Longrightarrow> c \<noteq> d"
  shows "split_on (\<lambda>c. c = d) (concat (map (\<lambda>t. d # t) ts)) = [] # ts"
  using assms
proof (induction ts)
  case (Cons t ts)
  then have t: "\<forall>c\<in>set t. c \<noteq> d"
    and "split_on (\<lambda>c. c = d) (concat (map (\<lambda>t. d # t) ts)) = [] # ts" by auto
  from split_on_append [OF t this(2)] show ?case by simp
qed simp

text \<open>\<^verbatim>\<open>s.split_once(c)\<close> and \<^verbatim>\<open>s.rsplit_once(c)\<close>.\<close>

definition split_once :: "char \<Rightarrow> string \<Rightarrow> (string \<times> string) option" where
  "split_once c s = (if c \<in> set s
     then Some (takeWhile (\<lambda>d. d \<noteq> c) s, tl (dropWhile (\<lambda>d. d \<noteq> c) s)) else None)"

definition rsplit_once :: "char \<Rightarrow> string \<Rightarrow> (string \<times> string) option" where
  "rsplit_once c s = (case split_once c (rev s) of None \<Rightarrow> None
     | Some (b, a) \<Rightarrow> Some (rev a, rev b))"

declare split_once_def [rust_str] rsplit_once_def [rust_str]

lemma dropWhile_neq_Cons: "c \<in> set s \<Longrightarrow> \<exists>t. dropWhile (\<lambda>d. d \<noteq> c) s = c # t"
  by (induction s) auto

lemma split_once_append: "split_once c s = Some (a, b) \<Longrightarrow> s = a @ c # b"
proof -
  assume h: "split_once c s = Some (a, b)"
  then have c: "c \<in> set s" by (simp add: split_once_def split: if_splits)
  obtain t where t: "dropWhile (\<lambda>d. d \<noteq> c) s = c # t" using dropWhile_neq_Cons [OF c] ..
  with h c have "a = takeWhile (\<lambda>d. d \<noteq> c) s" "b = t" by (simp_all add: split_once_def)
  with t show ?thesis using takeWhile_dropWhile_id [of "\<lambda>d. d \<noteq> c" s] by simp
qed

lemma split_on_last: "P d \<Longrightarrow> last (split_on P (u @ d # v)) = last (split_on P v)"
proof (induction u)
  case (Cons c u)
  obtain t ts where t: "split_on P (u @ d # v) = t # ts" by (cases "split_on P (u @ d # v)") auto
  have "ts \<noteq> []" using Cons.prems t
  proof (induction u arbitrary: t ts)
    case (Cons e u)
    then show ?case by (cases "split_on P (u @ d # v)") (auto split: if_splits)
  qed auto
  then show ?case using Cons t by simp
qed simp

text \<open>\<^verbatim>\<open>s.lines()\<close>: the parts between line feeds, each without the CR before its line feed, and what follows
  the last line feed unless it is empty.\<close>

definition strip_cr :: "string \<Rightarrow> string" where
  "strip_cr l = (if l \<noteq> [] \<and> last l = CHR 0x0D then butlast l else l)"

definition rust_lines :: "string \<Rightarrow> string list" where
  "rust_lines s = (let parts = split_on (\<lambda>c. c = CHR 0x0A) s in
     map strip_cr (butlast parts) @ (if last parts = [] then [] else [last parts]))"

text \<open>\<^verbatim>\<open>s.split_whitespace()\<close>: the maximal runs of characters that are not white space.\<close>

function split_ws :: "string \<Rightarrow> string \<Rightarrow> string list" where
  "split_ws acc [] = (if acc = [] then [] else [rev acc])"
| "split_ws acc (c # s) =
     (if ws_len (c # s) = 0 then split_ws (c # acc) s
      else (if acc = [] then [] else [rev acc]) @ split_ws [] (drop (ws_len (c # s)) (c # s)))"
  by pat_completeness auto
termination
proof (relation "measure (\<lambda>(acc, s). length s)", simp, simp)
  fix acc :: string and c s
  assume "ws_len (c # s) \<noteq> 0"
  with ws_len_le [of "c # s"]
  show "(([], drop (ws_len (c # s)) (c # s)), acc, c # s) \<in> measure (\<lambda>(acc, s). length s)"
    by simp
qed

definition split_whitespace :: "string \<Rightarrow> string list" where
  "split_whitespace s = split_ws [] s"

section \<open>Numbers in messages\<close>

fun dec_digits :: "nat \<Rightarrow> string" where
  "dec_digits n = (if n < 10 then [''0123456789'' ! n]
     else dec_digits (n div 10) @ [''0123456789'' ! (n mod 10)])"

declare dec_digits.simps [simp del]

definition join :: "string \<Rightarrow> string list \<Rightarrow> string" where
  "join sep xs = (case xs of [] \<Rightarrow> [] | x # xs' \<Rightarrow> x @ concat (map (\<lambda>y. sep @ y) xs'))"

end
