(* ===== verification/Permissions.thy ===== *)
theory Permissions
  imports Prelude
begin

text \<open>
  The catalogue of permissions (\<^verbatim>\<open>crates/core/src/permission.rs\<close>), the authorization context
  of a request and the two checks every handler makes on it (\<^verbatim>\<open>crates/rbac/src/\<close>), and the
  application's error type (\<^verbatim>\<open>crates/core/src/error.rs\<close>).
\<close>

section \<open>The permission enum and its stable keys\<close>

datatype permission =
    UsersView
  | UsersCreate
  | UsersModify
  | UsersDelete
  | SystemsView
  | SystemsManage
  | HostUsersView
  | HostUsersManage
  | NetworkView
  | NetworkManage
  | NetworkScan
  | NetworkNac
  | SecurityView
  | SecurityManage
  | ContainersView
  | ContainersManage
  | StorageView
  | StorageManage
  | BackupsView
  | BackupsCreate
  | BackupsRestore
  | IncidentsView
  | IncidentsRespond
  | AuditView
  | AuditExport
  | AuditManage
  | RolesManage
  | ModulesManage
  | SettingsManage
  | NotificationsManage
  | HostsView
  | HostsEnroll
  | HostsManage
  | HostsElevate
  | MacrosManageAll
  | StorageConnectionsView
  | StorageConnectionsManage
  | ScourgeView
  | ScourgeManage
  | DirectoryView
  | DirectoryHelpdesk
  | DirectoryManage
  | DirectoryDelete
  | DirectoryPrivileged
  | DirectoryConfigure

primrec as_key :: "permission \<Rightarrow> string" where
    "as_key UsersView = ''users.view''"
  | "as_key UsersCreate = ''users.create''"
  | "as_key UsersModify = ''users.modify''"
  | "as_key UsersDelete = ''users.delete''"
  | "as_key SystemsView = ''systems.view''"
  | "as_key SystemsManage = ''systems.manage''"
  | "as_key HostUsersView = ''host_users.view''"
  | "as_key HostUsersManage = ''host_users.manage''"
  | "as_key NetworkView = ''network.view''"
  | "as_key NetworkManage = ''network.manage''"
  | "as_key NetworkScan = ''network.scan''"
  | "as_key NetworkNac = ''network.nac''"
  | "as_key SecurityView = ''security.view''"
  | "as_key SecurityManage = ''security.manage''"
  | "as_key ContainersView = ''containers.view''"
  | "as_key ContainersManage = ''containers.manage''"
  | "as_key StorageView = ''storage.view''"
  | "as_key StorageManage = ''storage.manage''"
  | "as_key BackupsView = ''backups.view''"
  | "as_key BackupsCreate = ''backups.create''"
  | "as_key BackupsRestore = ''backups.restore''"
  | "as_key IncidentsView = ''incidents.view''"
  | "as_key IncidentsRespond = ''incidents.respond''"
  | "as_key AuditView = ''audit.view''"
  | "as_key AuditExport = ''audit.export''"
  | "as_key AuditManage = ''audit.manage''"
  | "as_key RolesManage = ''roles.manage''"
  | "as_key ModulesManage = ''modules.manage''"
  | "as_key SettingsManage = ''settings.manage''"
  | "as_key NotificationsManage = ''notifications.manage''"
  | "as_key HostsView = ''hosts.view''"
  | "as_key HostsEnroll = ''hosts.enroll''"
  | "as_key HostsManage = ''hosts.manage''"
  | "as_key HostsElevate = ''hosts.elevate''"
  | "as_key MacrosManageAll = ''macros.manage_all''"
  | "as_key StorageConnectionsView = ''storage_connections.view''"
  | "as_key StorageConnectionsManage = ''storage_connections.manage''"
  | "as_key ScourgeView = ''scourge.view''"
  | "as_key ScourgeManage = ''scourge.manage''"
  | "as_key DirectoryView = ''directory.view''"
  | "as_key DirectoryHelpdesk = ''directory.helpdesk''"
  | "as_key DirectoryManage = ''directory.manage''"
  | "as_key DirectoryDelete = ''directory.delete''"
  | "as_key DirectoryPrivileged = ''directory.privileged''"
  | "as_key DirectoryConfigure = ''directory.configure''"

definition permission_ALL :: "permission list" where
  "permission_ALL = [
    UsersView, UsersCreate, UsersModify, UsersDelete,
    SystemsView, SystemsManage, HostUsersView, HostUsersManage,
    NetworkView, NetworkManage, NetworkScan, NetworkNac,
    SecurityView, SecurityManage, ContainersView, ContainersManage,
    StorageView, StorageManage, BackupsView, BackupsCreate,
    BackupsRestore, IncidentsView, IncidentsRespond, AuditView,
    AuditExport, AuditManage, RolesManage, ModulesManage,
    SettingsManage, NotificationsManage, HostsView, HostsEnroll,
    HostsManage, HostsElevate, MacrosManageAll, StorageConnectionsView,
    StorageConnectionsManage, ScourgeView, ScourgeManage, DirectoryView,
    DirectoryHelpdesk, DirectoryManage, DirectoryDelete, DirectoryPrivileged,
    DirectoryConfigure]"

definition from_key :: "string \<Rightarrow> permission option" where
  "from_key key = find (\<lambda>p. as_key p = key) permission_ALL"

lemma permission_ALL_UNIV: "set permission_ALL = UNIV"
proof -
  have "p \<in> set permission_ALL" for p
    by (cases p) (simp_all add: permission_ALL_def)
  then show ?thesis by blast
qed

lemma in_permission_ALL [simp]: "p \<in> set permission_ALL"
  by (simp add: permission_ALL_UNIV)

lemma distinct_permission_ALL: "distinct permission_ALL"
  by (simp add: permission_ALL_def)

lemma distinct_permission_keys: "distinct (map as_key permission_ALL)"
  by (simp add: permission_ALL_def)

lemma inj_as_key: "inj as_key"
  using distinct_permission_keys permission_ALL_UNIV by (simp add: distinct_map)

lemma as_key_eq [simp]: "as_key p = as_key q \<longleftrightarrow> p = q"
  using inj_as_key by (auto dest: injD)

lemma find_unique:
  assumes "x \<in> set xs" "P x" "\<forall>y. P y \<longrightarrow> y = x"
  shows "find P xs = Some x"
proof -
  have "find P xs \<noteq> None" using assms(1,2) by (auto simp: find_None_iff)
  then obtain y where y: "find P xs = Some y" by blast
  then have "P y" by (auto simp: find_Some_iff)
  with assms(3) y show ?thesis by simp
qed

lemma from_key_as_key [simp]: "from_key (as_key p) = Some p"
  by (simp add: from_key_def find_unique)

lemma from_key_Some: "from_key k = Some p \<longleftrightarrow> k = as_key p"
proof
  assume "from_key k = Some p"
  then show "k = as_key p" by (auto simp: from_key_def find_Some_iff)
qed simp

section \<open>Errors of the application\<close>

datatype app_error =
    NotFound
  | Unauthenticated
  | Forbidden
  | MustChangePassword
  | Validation string
  | Conflict string
  | Internal string

section \<open>The authorization context\<close>

text \<open>
  The context holds the user and the permissions resolved for this request. Of the user the
  modelled code reads the identifier and the name.
\<close>

record auth_context =
  user_id :: uuid
  username :: string
  permissions :: "permission set"

definition has :: "auth_context \<Rightarrow> permission \<Rightarrow> bool" where
  "has ctx perm \<longleftrightarrow> perm \<in> permissions ctx"

definition ensure :: "auth_context \<Rightarrow> permission \<Rightarrow> app_error + unit" where
  "ensure ctx perm = (if has ctx perm then Ok () else Err Forbidden)"

definition ensure_any :: "auth_context \<Rightarrow> permission list \<Rightarrow> app_error + unit" where
  "ensure_any ctx perms = (if list_ex (has ctx) perms then Ok () else Err Forbidden)"

text \<open>C40: \<^verbatim>\<open>Permission::from_key\<close> inverts \<^verbatim>\<open>Permission::as_key\<close> on every permission, and a key that
  is no permission's key resolves to nothing: a stored grant names at most one permission.\<close>

theorem permission_key_roundtrip:
  "from_key (as_key p) = Some p \<and> (from_key k = Some q \<longleftrightarrow> k = as_key q)"
  by (simp add: from_key_Some)

end
