(* ===== verification/Ancestry.thy ===== *)
theory Ancestry
  imports Prelude
begin

text \<open>
  Walks up a parent pointer, cut off after a number of hops. This is the shape of every loop over
  the role hierarchy in \<^verbatim>\<open>crates/database/src/repo/roles.rs\<close>; the lemmas say when a cut-off walk
  has seen every ancestor and what re-parenting one node does to it.
\<close>

fun walk :: "('a \<Rightarrow> 'a option) \<Rightarrow> nat \<Rightarrow> 'a \<Rightarrow> 'a list" where
  "walk p 0 x = []"
| "walk p (Suc n) x = (case p x of None \<Rightarrow> [] | Some y \<Rightarrow> y # walk p n y)"

definition parent_rel :: "('a \<Rightarrow> 'a option) \<Rightarrow> ('a \<times> 'a) set" where
  "parent_rel p = {(x, y). p x = Some y}"

text \<open>\<open>depth p x d\<close>: going up from \<open>x\<close> reaches a root, which is the \<open>d\<close>-th node counted from \<open>x\<close>.\<close>

inductive depth :: "('a \<Rightarrow> 'a option) \<Rightarrow> 'a \<Rightarrow> nat \<Rightarrow> bool" for p where
  root: "p x = None \<Longrightarrow> depth p x (Suc 0)"
| child: "p x = Some y \<Longrightarrow> depth p y d \<Longrightarrow> depth p x (Suc d)"

inductive_cases depth_cases: "depth p x d"

lemma parent_rel_iff: "(x, y) \<in> parent_rel p \<longleftrightarrow> p x = Some y"
  by (simp add: parent_rel_def)

lemma ancestors_root:
  assumes "p x = None"
  shows "(x, y) \<in> (parent_rel p)\<^sup>* \<longleftrightarrow> y = x"
proof
  assume "(x, y) \<in> (parent_rel p)\<^sup>*"
  then show "y = x"
    by (cases rule: converse_rtranclE) (use assms in \<open>simp_all add: parent_rel_iff\<close>)
qed simp

lemma ancestors_child:
  assumes "p x = Some z"
  shows "(x, y) \<in> (parent_rel p)\<^sup>* \<longleftrightarrow> y = x \<or> (z, y) \<in> (parent_rel p)\<^sup>*"
proof
  assume "(x, y) \<in> (parent_rel p)\<^sup>*"
  then show "y = x \<or> (z, y) \<in> (parent_rel p)\<^sup>*"
    by (cases rule: converse_rtranclE) (use assms in \<open>simp_all add: parent_rel_iff\<close>)
next
  assume "y = x \<or> (z, y) \<in> (parent_rel p)\<^sup>*"
  moreover have "(x, z) \<in> parent_rel p" using assms by (simp add: parent_rel_iff)
  ultimately show "(x, y) \<in> (parent_rel p)\<^sup>*" by (blast intro: converse_rtrancl_into_rtrancl)
qed

lemma ex_leI: "P e \<Longrightarrow> e \<le> d \<Longrightarrow> \<exists>e \<le> d. P e" for d :: nat
  by blast

lemma depth_pos: "depth p x d \<Longrightarrow> 0 < d"
  by (induction rule: depth.induct) auto

lemma depth_unique: "depth p x d \<Longrightarrow> depth p x e \<Longrightarrow> d = e"
proof (induction arbitrary: e rule: depth.induct)
  case (root x)
  from root.prems show ?case
    by (cases rule: depth.cases) (use root.hyps in simp_all)
next
  case (child x y d)
  from child.prems show ?case
  proof (cases rule: depth.cases)
    case (child z f)
    with \<open>p x = Some y\<close> have "depth p y f" by simp
    with child.IH child show ?thesis by simp
  qed (use child.hyps in simp)
qed

lemma length_walk: "length (walk p n x) \<le> n"
  by (induction n arbitrary: x) (auto split: option.splits)

lemma length_walk_depth: "depth p x d \<Longrightarrow> length (walk p n x) = min n (d - 1)"
proof (induction arbitrary: n rule: depth.induct)
  case (root x)
  then show ?case by (cases n) auto
next
  case (child x y d)
  then show ?case using depth_pos [OF child.hyps(2)] by (cases n) auto
qed

lemma walk_cut: "depth p x d \<Longrightarrow> d \<le> Suc n \<Longrightarrow> walk p n x = walk p (d - 1) x"
proof (induction arbitrary: n rule: depth.induct)
  case (root x)
  then show ?case by (cases n) auto
next
  case (child x y d)
  obtain m where n: "n = Suc m" using child.prems depth_pos [OF child.hyps(2)] by (cases n) auto
  have "walk p m y = walk p (d - 1) y" using child.IH [of m] child.prems n by simp
  with child.hyps n depth_pos [OF child.hyps(2)] show ?case by (cases d) auto
qed

text \<open>A walk that stopped before its limit stopped at a root.\<close>

lemma walk_stopped: "length (walk p n x) < n \<Longrightarrow> depth p x (Suc (length (walk p n x)))"
proof (induction n arbitrary: x)
  case (Suc n)
  then show ?case
    by (cases "p x") (auto intro: depth.intros simp: depth.root [of p x, simplified])
qed simp

lemma walk_trancl: "y \<in> set (walk p n x) \<Longrightarrow> (x, y) \<in> (parent_rel p)\<^sup>+"
proof (induction n arbitrary: x)
  case (Suc n)
  then obtain z where z: "p x = Some z" "y = z \<or> y \<in> set (walk p n z)"
    by (cases "p x") auto
  then have "(x, z) \<in> parent_rel p" by (simp add: parent_rel_def)
  with z Suc.IH [of z] show ?case by (metis r_into_trancl' trancl_into_trancl2)
qed simp

lemma walk_all_ancestors:
  "depth p x d \<Longrightarrow> d \<le> Suc n \<Longrightarrow> y \<in> set (x # walk p n x) \<longleftrightarrow> (x, y) \<in> (parent_rel p)\<^sup>*"
proof (induction arbitrary: n rule: depth.induct)
  case (root x)
  have "walk p n x = []" using root by (cases n) auto
  with ancestors_root [of p x, OF root.hyps] show ?case by simp
next
  case (child x z d)
  obtain m where n: "n = Suc m" using child.prems depth_pos [OF child.hyps(2)] by (cases n) auto
  with child.IH [of m] child.prems child.hyps(1) show ?case
    by (simp add: ancestors_child [of p x, OF child.hyps(1)])
qed

lemma depth_not_above: "depth p x d \<Longrightarrow> (x, y) \<in> (parent_rel p)\<^sup>* \<Longrightarrow> \<exists>e \<le> d. depth p y e"
proof (induction rule: depth.induct)
  case (root x)
  then have "y = x" by (simp add: ancestors_root)
  with root.hyps show ?case by (auto intro: depth.root)
next
  case (child x z d)
  from child.prems consider "y = x" | "(z, y) \<in> (parent_rel p)\<^sup>*"
    by (auto simp: ancestors_child [of p x, OF child.hyps(1)])
  then show ?case
  proof cases
    case 1
    with child.hyps have "depth p y (Suc d)" by (auto intro: depth.child)
    then show ?thesis by blast
  next
    case 2
    with child.IH obtain e where "e \<le> d" "depth p y e" by blast
    then show ?thesis by (blast intro: le_SucI)
  qed
qed

lemma depth_irrefl: "depth p x d \<Longrightarrow> (x, x) \<notin> (parent_rel p)\<^sup>+"
proof
  assume d: "depth p x d" and "(x, x) \<in> (parent_rel p)\<^sup>+"
  from tranclD [OF this(2)] obtain y where y: "p x = Some y" "(y, x) \<in> (parent_rel p)\<^sup>*"
    by (auto simp: parent_rel_iff)
  from d show False
  proof (cases rule: depth.cases)
    case (child z e)
    with y have "depth p y e" by simp
    from depth_not_above [OF this y(2)] obtain f where f: "f \<le> e" "depth p x f" by blast
    from depth_unique [OF d f(2)] f(1) child(1) show ?thesis by simp
  qed (use y in simp)
qed

lemma ancestors_antisym:
  assumes "depth p x d" "(x, y) \<in> (parent_rel p)\<^sup>*" "(y, x) \<in> (parent_rel p)\<^sup>*"
  shows "x = y"
proof (rule ccontr)
  assume "x \<noteq> y"
  with assms(2) have "(x, y) \<in> (parent_rel p)\<^sup>+" by (simp add: rtrancl_eq_or_trancl)
  with assms(3) have "(x, x) \<in> (parent_rel p)\<^sup>+" by simp
  with depth_irrefl [OF assms(1)] show False ..
qed

text \<open>Walks and depths depend only on the parents of the nodes they pass.\<close>

lemma walk_agree: "(\<And>z. z \<in> set (x # walk p n x) \<Longrightarrow> q z = p z) \<Longrightarrow> walk q n x = walk p n x"
  by (induction n arbitrary: x) (auto split: option.splits)

lemma depth_agree:
  "depth p x d \<Longrightarrow> (\<And>z. (x, z) \<in> (parent_rel p)\<^sup>* \<Longrightarrow> q z = p z) \<Longrightarrow> depth q x d"
proof (induction rule: depth.induct)
  case (root x)
  then have "q x = None" by simp
  then show ?case by (rule depth.root)
next
  case (child x y d)
  have "(x, y) \<in> parent_rel p" using child.hyps by (simp add: parent_rel_def)
  then have "depth q y d"
    using child.IH child.prems by (blast intro: converse_rtrancl_into_rtrancl)
  moreover have "q x = Some y" using child.prems [of x] child.hyps by simp
  ultimately show ?case by (rule depth.child [rotated])
qed

text \<open>
  Re-parenting: \<open>r\<close> moves under \<open>y\<close>, which does not lie below \<open>r\<close>. Nodes that had a depth keep one,
  deeper by at most the depth of \<open>y\<close>; the ancestors of a node below \<open>r\<close> are then those of \<open>y\<close>
  and what is between.
\<close>

lemma depth_reparent_above:
  assumes "depth p y dy" and "(y, r) \<notin> (parent_rel p)\<^sup>*"
  shows "depth (p(r := v)) y dy"
  using assms by (blast intro: depth_agree fun_upd_other)

lemma depth_reparent:
  assumes "depth p x d" and y: "depth p y dy" "(y, r) \<notin> (parent_rel p)\<^sup>*"
  shows "\<exists>e \<le> d + dy. depth (p(r \<mapsto> y)) x e"
  using assms(1)
proof (induction rule: depth.induct)
  case (root x)
  show ?case
  proof (cases "x = r")
    case True
    then have "depth (p(r \<mapsto> y)) x (Suc dy)"
      using depth_reparent_above [OF y] by (auto intro: depth.child)
    then show ?thesis by (rule ex_leI) simp
  next
    case False
    with root have "depth (p(r \<mapsto> y)) x (Suc 0)" by (auto intro: depth.root)
    then show ?thesis by (rule ex_leI) simp
  qed
next
  case (child x z d)
  show ?case
  proof (cases "x = r")
    case True
    then have "depth (p(r \<mapsto> y)) x (Suc dy)"
      using depth_reparent_above [OF y] by (auto intro: depth.child)
    then show ?thesis by (rule ex_leI) simp
  next
    case False
    from child.IH obtain e where e: "e \<le> d + dy" "depth (p(r \<mapsto> y)) z e" by blast
    with False child.hyps have "depth (p(r \<mapsto> y)) x (Suc e)" by (auto intro: depth.child)
    then show ?thesis by (rule ex_leI) (use e in simp)
  qed
qed

lemma depth_uproot:
  assumes "depth p x d"
  shows "\<exists>e \<le> d. depth (p(r := None)) x e"
  using assms
proof (induction rule: depth.induct)
  case (root x)
  then have "depth (p(r := None)) x (Suc 0)" by (auto intro: depth.root)
  then show ?case by (rule ex_leI) simp
next
  case (child x z d)
  show ?case
  proof (cases "x = r")
    case True
    then have "depth (p(r := None)) x (Suc 0)" by (auto intro: depth.root)
    then show ?thesis by (rule ex_leI) simp
  next
    case False
    from child.IH obtain e where e: "e \<le> d" "depth (p(r := None)) z e" by blast
    with False child.hyps have "depth (p(r := None)) x (Suc e)" by (auto intro: depth.child)
    then show ?thesis by (rule ex_leI) (use e in simp)
  qed
qed

lemma ancestors_unchanged:
  assumes "(x, r) \<notin> (parent_rel p)\<^sup>*"
  shows "(x, y) \<in> (parent_rel (p(r := v)))\<^sup>* \<longleftrightarrow> (x, y) \<in> (parent_rel p)\<^sup>*"
proof
  assume "(x, y) \<in> (parent_rel (p(r := v)))\<^sup>*"
  then show "(x, y) \<in> (parent_rel p)\<^sup>*"
  proof (induction rule: rtrancl_induct)
    case (step u w)
    with assms have "u \<noteq> r" by blast
    with step have "(u, w) \<in> parent_rel p" by (auto simp: parent_rel_def split: if_splits)
    with step.IH show ?case by (rule rtrancl_into_rtrancl)
  qed simp
next
  assume "(x, y) \<in> (parent_rel p)\<^sup>*"
  then show "(x, y) \<in> (parent_rel (p(r := v)))\<^sup>*"
  proof (induction rule: rtrancl_induct)
    case (step u w)
    with assms have "u \<noteq> r" by blast
    with step have "(u, w) \<in> parent_rel (p(r := v))" by (auto simp: parent_rel_def)
    with step.IH show ?case by (rule rtrancl_into_rtrancl)
  qed simp
qed

lemma ancestors_to_moved: "(x, r) \<in> (parent_rel p)\<^sup>* \<Longrightarrow> (x, r) \<in> (parent_rel (p(r := v)))\<^sup>*"
proof (induction rule: converse_rtrancl_induct)
  case (step u w)
  show ?case
  proof (cases "u = r")
    case False
    with step have "(u, w) \<in> parent_rel (p(r := v))" by (auto simp: parent_rel_def)
    then show ?thesis using step.IH by (rule converse_rtrancl_into_rtrancl)
  qed simp
qed simp

end
