(* ===== verification/Audit_Events.thy ===== *)
theory Audit_Events
  imports Complex_Main Prelude
begin

text \<open>
  The audit trail's vocabulary: the actions of \<^verbatim>\<open>crates/audit/src/action.rs\<close>, the event a caller
  builds and the row \<^verbatim>\<open>writer.rs::record\<close> makes of it, and the JSON values of its metadata. The
  ninety-five variants of \<^verbatim>\<open>AuditAction\<close> are kept in their order, cut into consecutive groups.
\<close>

section \<open>JSON values\<close>

text \<open>
  \<^verbatim>\<open>serde_json::Value\<close>. A number is an unsigned or a negative 64-bit integer or a finite
  floating-point value, which is a rational number. An object lists its members by key.
\<close>

datatype json_number = PosInt "64 word" | NegInt "64 word" | Float rat

datatype json =
    JNull | JBool bool | JNumber json_number | JString string | JArray "json list"
  | JObject "(string \<times> json) list"

section \<open>Actions and outcomes\<close>

datatype account_action =
    UserCreated | UserEnabled | UserDisabled | UserDeleted | SessionsRevoked | RoleChanged |
    LoginSuccess | LoginFailure | Logout | PasswordChanged | PasswordResetRequested |
    PasswordReset | SsoLogin

datatype platform_action =
    ModuleEnabled | ModuleDisabled | SystemCommandExecuted | ConfigurationChanged |
    AuditExported | SecretAccessed | BackupCreated | BackupRestored | BackupVerified |
    BackupDeleted | BackupDownloaded | BackupSettingsChanged

datatype host_action =
    HostEnrolled | HostApproved | HostControlPlaneChanged | HostOfflineAcknowledged |
    SanitizationSignedOff | HostRevoked | HostRemoved | HostElevated | HostElevationFailed |
    HostDeescalated | HostElevationExpired

datatype network_action =
    NetworkDeviceRemoved | NetworkSubnetRemoved | NetworkSubnetsRederived |
    NetworkDeviceClassified | NetworkDeviceDiscovered | NetworkUntrustedDeviceSeen |
    NetworkSwitchAdded | NetworkSwitchUpdated | NetworkSwitchRemoved |
    NetworkDhcpLeasesImported | NetworkPortEnforced | NetworkPortReleased | UserProfileUpdated

datatype fleet_action =
    HostDeployStarted | HostDeploySucceeded | HostDeployFailed | WorkflowEvaluationFailed |
    MacroCreated | MacroUpdated | MacroDeleted | RoleCreated | RoleDeleted | UserRoleAssigned

datatype security_action =
    SecurityEventScanRun | SecurityAlertRaised | SecurityEventAcknowledged |
    SecurityEventResolved | SecurityEventSuppressed | AutomatedResponseTriggered

datatype storage_action =
    StorageConnectionCreated | StorageConnectionChanged | StorageConnectionDeleted |
    StorageConnectionValidated | StorageSecretReplaced | StorageKeypairGenerated |
    StorageKeypairImported | StorageShareProvisioned | StorageShareRemoved |
    StorageMountProvisioned | StorageMountRemoved

datatype scourge_action =
    ScourgeSensorConfigured | ScourgeRuleChanged | ScourgeModeChanged | ScourgeCaptureStarted |
    ScourgePcapDeleted | ScourgeSensorRemoved | ScourgeEventScanRun

datatype directory_action =
    DirectoryDomainConfigured | DirectoryServiceAccountValidated | DirectoryDomainRemoved |
    DirectoryAccountUnlocked | DirectoryAccountPasswordReset | DirectoryAccountEnabledChanged |
    DirectoryAccountCreated | DirectoryGroupCreated | DirectoryGroupMembershipChanged |
    DirectoryObjectDeleted | DirectoryObjectMoved | DirectoryAccountOffboarded

datatype audit_action =
    AccountAction account_action | PlatformAction platform_action | HostAction host_action |
    NetworkAction network_action | FleetAction fleet_action | SecurityAction security_action |
    StorageAction storage_action | ScourgeAction scourge_action |
    DirectoryAction directory_action

fun account_action_key :: "account_action \<Rightarrow> string" where
  "account_action_key UserCreated = ''USER_CREATED''"
| "account_action_key UserEnabled = ''USER_ENABLED''"
| "account_action_key UserDisabled = ''USER_DISABLED''"
| "account_action_key UserDeleted = ''USER_DELETED''"
| "account_action_key SessionsRevoked = ''SESSIONS_REVOKED''"
| "account_action_key RoleChanged = ''ROLE_CHANGED''"
| "account_action_key LoginSuccess = ''LOGIN_SUCCESS''"
| "account_action_key LoginFailure = ''LOGIN_FAILURE''"
| "account_action_key Logout = ''LOGOUT''"
| "account_action_key PasswordChanged = ''PASSWORD_CHANGED''"
| "account_action_key PasswordResetRequested = ''PASSWORD_RESET_REQUESTED''"
| "account_action_key PasswordReset = ''PASSWORD_RESET''"
| "account_action_key SsoLogin = ''SSO_LOGIN''"

fun platform_action_key :: "platform_action \<Rightarrow> string" where
  "platform_action_key ModuleEnabled = ''MODULE_ENABLED''"
| "platform_action_key ModuleDisabled = ''MODULE_DISABLED''"
| "platform_action_key SystemCommandExecuted = ''SYSTEM_COMMAND_EXECUTED''"
| "platform_action_key ConfigurationChanged = ''CONFIGURATION_CHANGED''"
| "platform_action_key AuditExported = ''AUDIT_EXPORTED''"
| "platform_action_key SecretAccessed = ''SECRET_ACCESSED''"
| "platform_action_key BackupCreated = ''BACKUP_CREATED''"
| "platform_action_key BackupRestored = ''BACKUP_RESTORED''"
| "platform_action_key BackupVerified = ''BACKUP_VERIFIED''"
| "platform_action_key BackupDeleted = ''BACKUP_DELETED''"
| "platform_action_key BackupDownloaded = ''BACKUP_DOWNLOADED''"
| "platform_action_key BackupSettingsChanged = ''BACKUP_SETTINGS_CHANGED''"

fun host_action_key :: "host_action \<Rightarrow> string" where
  "host_action_key HostEnrolled = ''HOST_ENROLLED''"
| "host_action_key HostApproved = ''HOST_APPROVED''"
| "host_action_key HostControlPlaneChanged = ''HOST_CONTROL_PLANE_CHANGED''"
| "host_action_key HostOfflineAcknowledged = ''HOST_OFFLINE_ACKNOWLEDGED''"
| "host_action_key SanitizationSignedOff = ''SANITIZATION_SIGNED_OFF''"
| "host_action_key HostRevoked = ''HOST_REVOKED''"
| "host_action_key HostRemoved = ''HOST_REMOVED''"
| "host_action_key HostElevated = ''HOST_ELEVATED''"
| "host_action_key HostElevationFailed = ''HOST_ELEVATION_FAILED''"
| "host_action_key HostDeescalated = ''HOST_DEESCALATED''"
| "host_action_key HostElevationExpired = ''HOST_ELEVATION_EXPIRED''"

fun network_action_key :: "network_action \<Rightarrow> string" where
  "network_action_key NetworkDeviceRemoved = ''NETWORK_DEVICE_REMOVED''"
| "network_action_key NetworkSubnetRemoved = ''NETWORK_SUBNET_REMOVED''"
| "network_action_key NetworkSubnetsRederived = ''NETWORK_SUBNETS_REDERIVED''"
| "network_action_key NetworkDeviceClassified = ''NETWORK_DEVICE_CLASSIFIED''"
| "network_action_key NetworkDeviceDiscovered = ''NETWORK_DEVICE_DISCOVERED''"
| "network_action_key NetworkUntrustedDeviceSeen = ''NETWORK_UNTRUSTED_DEVICE_SEEN''"
| "network_action_key NetworkSwitchAdded = ''NETWORK_SWITCH_ADDED''"
| "network_action_key NetworkSwitchUpdated = ''NETWORK_SWITCH_UPDATED''"
| "network_action_key NetworkSwitchRemoved = ''NETWORK_SWITCH_REMOVED''"
| "network_action_key NetworkDhcpLeasesImported = ''NETWORK_DHCP_LEASES_IMPORTED''"
| "network_action_key NetworkPortEnforced = ''NETWORK_PORT_ENFORCED''"
| "network_action_key NetworkPortReleased = ''NETWORK_PORT_RELEASED''"
| "network_action_key UserProfileUpdated = ''USER_PROFILE_UPDATED''"

fun fleet_action_key :: "fleet_action \<Rightarrow> string" where
  "fleet_action_key HostDeployStarted = ''HOST_DEPLOY_STARTED''"
| "fleet_action_key HostDeploySucceeded = ''HOST_DEPLOY_SUCCEEDED''"
| "fleet_action_key HostDeployFailed = ''HOST_DEPLOY_FAILED''"
| "fleet_action_key WorkflowEvaluationFailed = ''WORKFLOW_EVALUATION_FAILED''"
| "fleet_action_key MacroCreated = ''MACRO_CREATED''"
| "fleet_action_key MacroUpdated = ''MACRO_UPDATED''"
| "fleet_action_key MacroDeleted = ''MACRO_DELETED''"
| "fleet_action_key RoleCreated = ''ROLE_CREATED''"
| "fleet_action_key RoleDeleted = ''ROLE_DELETED''"
| "fleet_action_key UserRoleAssigned = ''USER_ROLE_ASSIGNED''"

fun security_action_key :: "security_action \<Rightarrow> string" where
  "security_action_key SecurityEventScanRun = ''SECURITY_EVENT_SCAN_RUN''"
| "security_action_key SecurityAlertRaised = ''SECURITY_ALERT_RAISED''"
| "security_action_key SecurityEventAcknowledged = ''SECURITY_EVENT_ACKNOWLEDGED''"
| "security_action_key SecurityEventResolved = ''SECURITY_EVENT_RESOLVED''"
| "security_action_key SecurityEventSuppressed = ''SECURITY_EVENT_SUPPRESSED''"
| "security_action_key AutomatedResponseTriggered = ''AUTOMATED_RESPONSE_TRIGGERED''"

fun storage_action_key :: "storage_action \<Rightarrow> string" where
  "storage_action_key StorageConnectionCreated = ''STORAGE_CONNECTION_CREATED''"
| "storage_action_key StorageConnectionChanged = ''STORAGE_CONNECTION_CHANGED''"
| "storage_action_key StorageConnectionDeleted = ''STORAGE_CONNECTION_DELETED''"
| "storage_action_key StorageConnectionValidated = ''STORAGE_CONNECTION_VALIDATED''"
| "storage_action_key StorageSecretReplaced = ''STORAGE_SECRET_REPLACED''"
| "storage_action_key StorageKeypairGenerated = ''STORAGE_KEYPAIR_GENERATED''"
| "storage_action_key StorageKeypairImported = ''STORAGE_KEYPAIR_IMPORTED''"
| "storage_action_key StorageShareProvisioned = ''STORAGE_SHARE_PROVISIONED''"
| "storage_action_key StorageShareRemoved = ''STORAGE_SHARE_REMOVED''"
| "storage_action_key StorageMountProvisioned = ''STORAGE_MOUNT_PROVISIONED''"
| "storage_action_key StorageMountRemoved = ''STORAGE_MOUNT_REMOVED''"

fun scourge_action_key :: "scourge_action \<Rightarrow> string" where
  "scourge_action_key ScourgeSensorConfigured = ''SCOURGE_SENSOR_CONFIGURED''"
| "scourge_action_key ScourgeRuleChanged = ''SCOURGE_RULE_CHANGED''"
| "scourge_action_key ScourgeModeChanged = ''SCOURGE_MODE_CHANGED''"
| "scourge_action_key ScourgeCaptureStarted = ''SCOURGE_CAPTURE_STARTED''"
| "scourge_action_key ScourgePcapDeleted = ''SCOURGE_PCAP_DELETED''"
| "scourge_action_key ScourgeSensorRemoved = ''SCOURGE_SENSOR_REMOVED''"
| "scourge_action_key ScourgeEventScanRun = ''SCOURGE_EVENT_SCAN_RUN''"

fun directory_action_key :: "directory_action \<Rightarrow> string" where
  "directory_action_key DirectoryDomainConfigured = ''DIRECTORY_DOMAIN_CONFIGURED''"
| "directory_action_key DirectoryServiceAccountValidated = ''DIRECTORY_SERVICE_ACCOUNT_VALIDATED''"
| "directory_action_key DirectoryDomainRemoved = ''DIRECTORY_DOMAIN_REMOVED''"
| "directory_action_key DirectoryAccountUnlocked = ''DIRECTORY_ACCOUNT_UNLOCKED''"
| "directory_action_key DirectoryAccountPasswordReset = ''DIRECTORY_ACCOUNT_PASSWORD_RESET''"
| "directory_action_key DirectoryAccountEnabledChanged = ''DIRECTORY_ACCOUNT_ENABLED_CHANGED''"
| "directory_action_key DirectoryAccountCreated = ''DIRECTORY_ACCOUNT_CREATED''"
| "directory_action_key DirectoryGroupCreated = ''DIRECTORY_GROUP_CREATED''"
| "directory_action_key DirectoryGroupMembershipChanged = ''DIRECTORY_GROUP_MEMBERSHIP_CHANGED''"
| "directory_action_key DirectoryObjectDeleted = ''DIRECTORY_OBJECT_DELETED''"
| "directory_action_key DirectoryObjectMoved = ''DIRECTORY_OBJECT_MOVED''"
| "directory_action_key DirectoryAccountOffboarded = ''DIRECTORY_ACCOUNT_OFFBOARDED''"

fun audit_action_key :: "audit_action \<Rightarrow> string" where
  "audit_action_key (AccountAction a) = account_action_key a"
| "audit_action_key (PlatformAction a) = platform_action_key a"
| "audit_action_key (HostAction a) = host_action_key a"
| "audit_action_key (NetworkAction a) = network_action_key a"
| "audit_action_key (FleetAction a) = fleet_action_key a"
| "audit_action_key (SecurityAction a) = security_action_key a"
| "audit_action_key (StorageAction a) = storage_action_key a"
| "audit_action_key (ScourgeAction a) = scourge_action_key a"
| "audit_action_key (DirectoryAction a) = directory_action_key a"

definition audit_action_ALL :: "audit_action list" where
  "audit_action_ALL = [
    AccountAction UserCreated, AccountAction UserEnabled, AccountAction UserDisabled,
    AccountAction UserDeleted, AccountAction SessionsRevoked, AccountAction RoleChanged,
    AccountAction LoginSuccess, AccountAction LoginFailure, AccountAction Logout,
    AccountAction PasswordChanged, AccountAction PasswordResetRequested,
    AccountAction PasswordReset, AccountAction SsoLogin, PlatformAction ModuleEnabled,
    PlatformAction ModuleDisabled, PlatformAction SystemCommandExecuted,
    PlatformAction ConfigurationChanged, PlatformAction AuditExported,
    PlatformAction SecretAccessed, PlatformAction BackupCreated, PlatformAction BackupRestored,
    PlatformAction BackupVerified, PlatformAction BackupDeleted,
    PlatformAction BackupDownloaded, PlatformAction BackupSettingsChanged,
    HostAction HostEnrolled, HostAction HostApproved, HostAction HostControlPlaneChanged,
    HostAction HostOfflineAcknowledged, HostAction SanitizationSignedOff,
    HostAction HostRevoked, HostAction HostRemoved, HostAction HostElevated,
    HostAction HostElevationFailed, HostAction HostDeescalated, HostAction HostElevationExpired,
    NetworkAction NetworkDeviceRemoved, NetworkAction NetworkSubnetRemoved,
    NetworkAction NetworkSubnetsRederived, NetworkAction NetworkDeviceClassified,
    NetworkAction NetworkDeviceDiscovered, NetworkAction NetworkUntrustedDeviceSeen,
    NetworkAction NetworkSwitchAdded, NetworkAction NetworkSwitchUpdated,
    NetworkAction NetworkSwitchRemoved, NetworkAction NetworkDhcpLeasesImported,
    NetworkAction NetworkPortEnforced, NetworkAction NetworkPortReleased,
    NetworkAction UserProfileUpdated, FleetAction HostDeployStarted,
    FleetAction HostDeploySucceeded, FleetAction HostDeployFailed,
    FleetAction WorkflowEvaluationFailed, FleetAction MacroCreated, FleetAction MacroUpdated,
    FleetAction MacroDeleted, FleetAction RoleCreated, FleetAction RoleDeleted,
    FleetAction UserRoleAssigned, SecurityAction SecurityEventScanRun,
    SecurityAction SecurityAlertRaised, SecurityAction SecurityEventAcknowledged,
    SecurityAction SecurityEventResolved, SecurityAction SecurityEventSuppressed,
    SecurityAction AutomatedResponseTriggered, StorageAction StorageConnectionCreated,
    StorageAction StorageConnectionChanged, StorageAction StorageConnectionDeleted,
    StorageAction StorageConnectionValidated, StorageAction StorageSecretReplaced,
    StorageAction StorageKeypairGenerated, StorageAction StorageKeypairImported,
    StorageAction StorageShareProvisioned, StorageAction StorageShareRemoved,
    StorageAction StorageMountProvisioned, StorageAction StorageMountRemoved,
    ScourgeAction ScourgeSensorConfigured, ScourgeAction ScourgeRuleChanged,
    ScourgeAction ScourgeModeChanged, ScourgeAction ScourgeCaptureStarted,
    ScourgeAction ScourgePcapDeleted, ScourgeAction ScourgeSensorRemoved,
    ScourgeAction ScourgeEventScanRun, DirectoryAction DirectoryDomainConfigured,
    DirectoryAction DirectoryServiceAccountValidated, DirectoryAction DirectoryDomainRemoved,
    DirectoryAction DirectoryAccountUnlocked, DirectoryAction DirectoryAccountPasswordReset,
    DirectoryAction DirectoryAccountEnabledChanged, DirectoryAction DirectoryAccountCreated,
    DirectoryAction DirectoryGroupCreated, DirectoryAction DirectoryGroupMembershipChanged,
    DirectoryAction DirectoryObjectDeleted, DirectoryAction DirectoryObjectMoved,
    DirectoryAction DirectoryAccountOffboarded]"


datatype audit_outcome = Success | Failure

fun audit_outcome_key :: "audit_outcome \<Rightarrow> string" where
  "audit_outcome_key Success = ''SUCCESS''"
| "audit_outcome_key Failure = ''FAILURE''"

lemma audit_action_ALL_complete [simp]: "a \<in> set audit_action_ALL"
proof (cases a)
  case (AccountAction b) then show ?thesis by (cases b) (simp_all add: audit_action_ALL_def)
next
  case (PlatformAction b) then show ?thesis by (cases b) (simp_all add: audit_action_ALL_def)
next
  case (HostAction b) then show ?thesis by (cases b) (simp_all add: audit_action_ALL_def)
next
  case (NetworkAction b) then show ?thesis by (cases b) (simp_all add: audit_action_ALL_def)
next
  case (FleetAction b) then show ?thesis by (cases b) (simp_all add: audit_action_ALL_def)
next
  case (SecurityAction b) then show ?thesis by (cases b) (simp_all add: audit_action_ALL_def)
next
  case (StorageAction b) then show ?thesis by (cases b) (simp_all add: audit_action_ALL_def)
next
  case (ScourgeAction b) then show ?thesis by (cases b) (simp_all add: audit_action_ALL_def)
next
  case (DirectoryAction b) then show ?thesis by (cases b) (simp_all add: audit_action_ALL_def)
qed

lemma distinct_audit_action_keys: "distinct (map audit_action_key audit_action_ALL)"
  by (simp add: audit_action_ALL_def)

lemma inj_audit_action_key: "inj audit_action_key"
  using distinct_audit_action_keys by (auto simp: distinct_map inj_on_def)

section \<open>Events and rows\<close>

record audit_event =
  ev_actor :: "(uuid \<times> string) option"
  ev_action :: audit_action
  ev_outcome :: audit_outcome
  ev_resource :: "string option"
  ev_source_ip :: "string option"
  ev_auth_method :: "string option"
  ev_metadata :: "json option"

definition new_event :: "audit_action \<Rightarrow> audit_outcome \<Rightarrow> audit_event" where
  "new_event action outcome = \<lparr>ev_actor = None, ev_action = action, ev_outcome = outcome,
     ev_resource = None, ev_source_ip = None, ev_auth_method = None, ev_metadata = None\<rparr>"

record audit_entry =
  en_user_id :: "uuid option"
  en_username_snapshot :: string
  en_action :: string
  en_resource :: "string option"
  en_result :: string
  en_source_ip :: "string option"
  en_auth_method :: "string option"
  en_metadata :: "json option"

definition entry_of_event :: "audit_event \<Rightarrow> audit_entry" where
  "entry_of_event event =
     (let (user_id, username_snapshot) =
        (case ev_actor event of Some (uid, name) \<Rightarrow> (Some uid, name) | None \<Rightarrow> (None, ''system''))
      in \<lparr>en_user_id = user_id, en_username_snapshot = username_snapshot,
          en_action = audit_action_key (ev_action event), en_resource = ev_resource event,
          en_result = audit_outcome_key (ev_outcome event), en_source_ip = ev_source_ip event,
          en_auth_method = ev_auth_method event, en_metadata = ev_metadata event\<rparr>)"

end
