(* ===== verification/Role_Store.thy ===== *)
theory Role_Store
  imports Permissions Ancestry Audit_Events
begin

text \<open>
  The role hierarchy as \<^verbatim>\<open>crates/database/src/repo/roles.rs\<close> keeps it: the tables it reads and
  writes, one function per repository function, and what the schema of \<^verbatim>\<open>migrations/\<close> promises
  of the tables. A query reads the \<^verbatim>\<open>database\<close> record; a statement returns its result and the
  database after it, which is the one before it when a constraint refuses the statement.
\<close>

section \<open>Tables\<close>

text \<open>Time stamps are left out: no decision of the modelled code reads them.\<close>

record role =
  rl_id :: uuid
  rl_name :: string
  rl_description :: string
  rl_is_system :: bool
  rl_parent_role_id :: "uuid option"
  rl_created_by :: "uuid option"

definition MAX_ROLE_DEPTH :: "8 word" where
  "MAX_ROLE_DEPTH = 3"

definition MAX_ANCESTOR_WALK :: nat where
  "MAX_ANCESTOR_WALK = 20"

text \<open>
  \<open>db_collation\<close> stands for the collation of the text columns, a property of the server: two
  names are equal for the server when their collation keys are, and \<^verbatim>\<open>ORDER BY\<close> sorts by the key.
  \<open>db_log_fails\<close> says which rows the server fails to insert into \<^verbatim>\<open>audit_log\<close> although the schema allows
  them (a lost connection, a full disk, a value too long): the executor goes on without such a row.
\<close>

record database =
  db_collation :: "string \<Rightarrow> string"
  db_users :: "uuid list"
  db_permissions :: "string list"
  db_modules :: "string list"
  db_roles :: "role list"
  db_role_permissions :: "(uuid \<times> string) list"
  db_user_roles :: "(uuid \<times> uuid) list"
  db_role_module_visibility :: "(uuid \<times> string) list"
  db_settings :: "(string \<times> json) list"
  db_log_fails :: "audit_entry \<Rightarrow> bool"
  db_audit_log :: "audit_entry list"

datatype db_error = Duplicate_Key | Foreign_Key | Row_Vanished | Statement_Failed

type_synonym 'a db_result = "(db_error + 'a) \<times> database"

text \<open>What the keys and foreign keys of the schema say of the tables.\<close>

definition same_name :: "database \<Rightarrow> string \<Rightarrow> string \<Rightarrow> bool" where
  "same_name db a b \<longleftrightarrow> db_collation db a = db_collation db b"

definition role_ids :: "database \<Rightarrow> uuid list" where
  "role_ids db = map rl_id (db_roles db)"

definition schema_ok :: "database \<Rightarrow> bool" where
  "schema_ok db \<longleftrightarrow>
     distinct (role_ids db)
   \<and> distinct (map (db_collation db \<circ> rl_name) (db_roles db))
   \<and> (\<forall>r \<in> set (db_roles db). \<forall>p. rl_parent_role_id r = Some p \<longrightarrow> p \<in> set (role_ids db))
   \<and> (\<forall>r \<in> set (db_roles db). \<forall>u. rl_created_by r = Some u \<longrightarrow> u \<in> set (db_users db))
   \<and> distinct (db_role_permissions db)
   \<and> (\<forall>(r, k) \<in> set (db_role_permissions db). r \<in> set (role_ids db) \<and> k \<in> set (db_permissions db))
   \<and> distinct (db_user_roles db)
   \<and> (\<forall>(u, r) \<in> set (db_user_roles db). u \<in> set (db_users db) \<and> r \<in> set (role_ids db))
   \<and> distinct (db_role_module_visibility db)
   \<and> (\<forall>(r, k) \<in> set (db_role_module_visibility db).
        r \<in> set (role_ids db) \<and> k \<in> set (db_modules db))"

section \<open>Queries on roles\<close>

definition find_by_name :: "database \<Rightarrow> string \<Rightarrow> role option" where
  "find_by_name db name = find (\<lambda>r. same_name db (rl_name r) name) (db_roles db)"

definition find_by_id :: "database \<Rightarrow> uuid \<Rightarrow> role option" where
  "find_by_id db rid = find (\<lambda>r. rl_id r = rid) (db_roles db)"

definition order_by_name :: "database \<Rightarrow> role list \<Rightarrow> role list" where
  "order_by_name db = sort_key (\<lambda>r. db_collation db (rl_name r))"

definition list_roles :: "database \<Rightarrow> role list" where
  "list_roles db = order_by_name db (db_roles db)"

definition children_of :: "database \<Rightarrow> uuid \<Rightarrow> role list" where
  "children_of db role_id =
     order_by_name db (filter (\<lambda>r. rl_parent_role_id r = Some role_id) (db_roles db))"

text \<open>The breadth-first loop: \<open>n\<close> is what is left of \<open>MAX_ANCESTOR_WALK\<close> rounds.\<close>

fun descendants_loop :: "nat \<Rightarrow> database \<Rightarrow> uuid list \<Rightarrow> role list" where
  "descendants_loop 0 db frontier = []"
| "descendants_loop (Suc n) db frontier =
     (if frontier = [] then []
      else let found = concat (map (children_of db) frontier)
           in found @ descendants_loop n db (map rl_id found))"

definition descendants_of :: "database \<Rightarrow> uuid \<Rightarrow> role list" where
  "descendants_of db role_id = descendants_loop MAX_ANCESTOR_WALK db [role_id]"

definition parent_of :: "database \<Rightarrow> uuid \<Rightarrow> uuid option" where
  "parent_of db rid = Option.bind (find_by_id db rid) rl_parent_role_id"

fun ancestor_loop :: "nat \<Rightarrow> database \<Rightarrow> uuid \<Rightarrow> uuid list" where
  "ancestor_loop 0 db current_id = []"
| "ancestor_loop (Suc n) db current_id =
     (case parent_of db current_id of
        Some parent_id \<Rightarrow> parent_id # ancestor_loop n db parent_id
      | None \<Rightarrow> [])"

definition ancestor_chain :: "database \<Rightarrow> uuid \<Rightarrow> uuid list" where
  "ancestor_chain db role_id = role_id # ancestor_loop MAX_ANCESTOR_WALK db role_id"

definition chain_contains :: "uuid list \<Rightarrow> uuid \<Rightarrow> bool" where
  "chain_contains chain target \<longleftrightarrow> target \<in> set chain"

definition is_within_subtree :: "database \<Rightarrow> uuid \<Rightarrow> uuid \<Rightarrow> bool" where
  "is_within_subtree db role_id root_id = chain_contains (ancestor_chain db role_id) root_id"

definition depth_of :: "database \<Rightarrow> uuid \<Rightarrow> 8 word" where
  "depth_of db role_id = of_nat (length (ancestor_chain db role_id))"

definition would_create_cycle :: "database \<Rightarrow> uuid \<Rightarrow> uuid \<Rightarrow> bool" where
  "would_create_cycle db role_id proposed_parent_id =
     is_within_subtree db proposed_parent_id role_id"

section \<open>Statements on roles\<close>

definition create :: "uuid \<Rightarrow> string \<Rightarrow> string \<Rightarrow> bool \<Rightarrow> uuid option \<Rightarrow> uuid option
    \<Rightarrow> database \<Rightarrow> role db_result" where
  "create rid name description is_system parent_role_id created_by db =
     (if rid \<in> set (role_ids db) \<or> find_by_name db name \<noteq> None then (Err Duplicate_Key, db)
      else if (\<exists>p \<in> set_option parent_role_id. p \<notin> set (rid # role_ids db))
            \<or> (\<exists>u \<in> set_option created_by. u \<notin> set (db_users db)) then (Err Foreign_Key, db)
      else let db' = db\<lparr>db_roles := db_roles db @ [\<lparr>rl_id = rid, rl_name = name,
                 rl_description = description, rl_is_system = is_system,
                 rl_parent_role_id = parent_role_id, rl_created_by = created_by\<rparr>]\<rparr>
           in (ok_or (find_by_id db' rid) Row_Vanished, db'))"

definition update :: "uuid \<Rightarrow> string \<Rightarrow> string \<Rightarrow> uuid option \<Rightarrow> database \<Rightarrow> unit db_result" where
  "update rid name description parent_role_id db =
     (if find_by_id db rid = None then (Ok (), db)
      else if (\<exists>r \<in> set (db_roles db). rl_id r \<noteq> rid \<and> same_name db (rl_name r) name)
        then (Err Duplicate_Key, db)
      else if (\<exists>p \<in> set_option parent_role_id. p \<notin> set (role_ids db)) then (Err Foreign_Key, db)
      else (Ok (), db\<lparr>db_roles := map (\<lambda>r. if rl_id r = rid
             then r\<lparr>rl_name := name, rl_description := description,
                    rl_parent_role_id := parent_role_id\<rparr> else r) (db_roles db)\<rparr>))"

definition delete :: "uuid \<Rightarrow> database \<Rightarrow> unit db_result" where
  "delete rid db =
     (if \<exists>r \<in> set (db_roles db). rl_parent_role_id r = Some rid \<and> rl_id r \<noteq> rid then (Err Foreign_Key, db)
      else (Ok (), db\<lparr>db_roles := filter (\<lambda>r. rl_id r \<noteq> rid) (db_roles db),
             db_role_permissions := filter (\<lambda>(r, k). r \<noteq> rid) (db_role_permissions db),
             db_user_roles := filter (\<lambda>(u, r). r \<noteq> rid) (db_user_roles db),
             db_role_module_visibility := filter (\<lambda>(r, k). r \<noteq> rid) (db_role_module_visibility db)\<rparr>))"

definition user_count :: "database \<Rightarrow> uuid \<Rightarrow> nat" where
  "user_count db role_id = length (filter (\<lambda>(u, r). r = role_id) (db_user_roles db))"

section \<open>Permissions of a role\<close>

definition insert_role_permission :: "uuid \<Rightarrow> string \<Rightarrow> database \<Rightarrow> unit db_result" where
  "insert_role_permission role_id key db =
     (if (role_id, key) \<in> set (db_role_permissions db) then (Err Duplicate_Key, db)
      else if role_id \<notin> set (role_ids db) \<or> key \<notin> set (db_permissions db) then (Err Foreign_Key, db)
      else (Ok (), db\<lparr>db_role_permissions := db_role_permissions db @ [(role_id, key)]\<rparr>))"

fun insert_role_permissions :: "uuid \<Rightarrow> permission list \<Rightarrow> database \<Rightarrow> unit db_result" where
  "insert_role_permissions role_id [] db = (Ok (), db)"
| "insert_role_permissions role_id (perm # ps) db =
     (case insert_role_permission role_id (as_key perm) db of
        (Inl e, db') \<Rightarrow> (Err e, db')
      | (Inr _, db') \<Rightarrow> insert_role_permissions role_id ps db')"

text \<open>A transaction: an error on the way drops what it had written.\<close>

definition transaction :: "(database \<Rightarrow> 'a db_result) \<Rightarrow> database \<Rightarrow> 'a db_result" where
  "transaction f db = (case f db of (Inl e, _) \<Rightarrow> (Err e, db) | (Inr x, db') \<Rightarrow> (Ok x, db'))"

definition set_permissions :: "uuid \<Rightarrow> permission list \<Rightarrow> database \<Rightarrow> unit db_result" where
  "set_permissions role_id perms = transaction (\<lambda>db. insert_role_permissions role_id perms
     (db\<lparr>db_role_permissions := filter (\<lambda>(r, k). r \<noteq> role_id) (db_role_permissions db)\<rparr>))"

text \<open>The statement has no \<^verbatim>\<open>ORDER BY\<close>: the order of the list is the server's, and the code and the lemmas
  use only its elements and its length. Here it is the order of the rows.\<close>

definition permissions_for_role :: "database \<Rightarrow> uuid \<Rightarrow> permission list" where
  "permissions_for_role db role_id =
     List.map_filter (\<lambda>(r, k). if r = role_id then from_key k else None) (db_role_permissions db)"

fun effective_loop :: "nat \<Rightarrow> database \<Rightarrow> uuid option \<Rightarrow> permission set list" where
  "effective_loop 0 db current_id = []"
| "effective_loop (Suc n) db None = []"
| "effective_loop (Suc n) db (Some rid) =
     set (permissions_for_role db rid) # effective_loop n db (parent_of db rid)"

definition intersect_chain :: "permission set list \<Rightarrow> permission set" where
  "intersect_chain chain = (case chain of [] \<Rightarrow> {} | first # sets \<Rightarrow> fold (\<lambda>s acc. acc \<inter> s) sets first)"

definition effective_permissions_for_role :: "database \<Rightarrow> uuid \<Rightarrow> permission set" where
  "effective_permissions_for_role db role_id =
     intersect_chain (effective_loop MAX_ANCESTOR_WALK db (Some role_id))"

section \<open>Roles of a user\<close>

definition assign_role_to_user :: "uuid \<Rightarrow> uuid \<Rightarrow> database \<Rightarrow> unit db_result" where
  "assign_role_to_user uid role_id db =
     (if (uid, role_id) \<in> set (db_user_roles db)
       \<or> uid \<notin> set (db_users db) \<or> role_id \<notin> set (role_ids db) then (Ok (), db)
      else (Ok (), db\<lparr>db_user_roles := db_user_roles db @ [(uid, role_id)]\<rparr>))"

definition remove_role_from_user :: "uuid \<Rightarrow> uuid \<Rightarrow> database \<Rightarrow> unit db_result" where
  "remove_role_from_user uid role_id db =
     (Ok (), db\<lparr>db_user_roles := filter (\<lambda>ur. ur \<noteq> (uid, role_id)) (db_user_roles db)\<rparr>)"

definition set_user_role :: "uuid \<Rightarrow> uuid \<Rightarrow> database \<Rightarrow> unit db_result" where
  "set_user_role uid role_id = transaction (\<lambda>db.
     let kept = filter (\<lambda>(u, r). u \<noteq> uid) (db_user_roles db)
     in if uid \<notin> set (db_users db) \<or> role_id \<notin> set (role_ids db) then (Err Foreign_Key, db)
        else (Ok (), db\<lparr>db_user_roles := kept @ [(uid, role_id)]\<rparr>))"

definition roles_for_user :: "database \<Rightarrow> uuid \<Rightarrow> role list" where
  "roles_for_user db uid =
     order_by_name db (filter (\<lambda>r. (uid, rl_id r) \<in> set (db_user_roles db)) (db_roles db))"

definition effective_permissions :: "database \<Rightarrow> uuid \<Rightarrow> permission set" where
  "effective_permissions db uid =
     fold (\<lambda>r effective. effective \<union> effective_permissions_for_role db (rl_id r))
       (roles_for_user db uid) {}"

definition auth_context_load :: "database \<Rightarrow> uuid \<Rightarrow> string \<Rightarrow> auth_context" where
  "auth_context_load db uid name =
     \<lparr>user_id = uid, username = name, permissions = effective_permissions db uid\<rparr>"

end
