(* ===== verification/Role_Hierarchy.thy ===== *)
theory Role_Hierarchy
  imports Role_Store
begin

text \<open>
  What the store of roles promises to the code that delegates role management: effective
  permissions are capped by every ancestor, the subtree test follows the parent pointers, and
  statements that leave a role's ancestors alone leave its effective permissions alone. The
  promise is the locale \<open>role_hierarchy\<close>; the interpretation \<open>roles\<close> proves it of the repository
  functions of \<^verbatim>\<open>repo/roles.rs\<close> on hierarchies of at most twenty levels, the bound of their loops.
\<close>

section \<open>The interface\<close>

locale role_hierarchy =
  fixes invar :: "'db \<Rightarrow> bool"
    and parent :: "'db \<Rightarrow> 'r \<Rightarrow> 'r option"
    and own :: "'db \<Rightarrow> 'r \<Rightarrow> 'p set"
    and effective :: "'db \<Rightarrow> 'r \<Rightarrow> 'p set"
    and below :: "'db \<Rightarrow> 'r \<Rightarrow> 'r \<Rightarrow> bool"
  assumes grounded: "invar db \<Longrightarrow> \<exists>d. depth (parent db) x d"
    and effective_root: "invar db \<Longrightarrow> parent db x = None \<Longrightarrow> effective db x = own db x"
    and effective_child:
      "invar db \<Longrightarrow> parent db x = Some y \<Longrightarrow> effective db x = own db x \<inter> effective db y"
    and below_ancestors: "invar db \<Longrightarrow> below db x r \<longleftrightarrow> (x, r) \<in> (parent_rel (parent db))\<^sup>*"
begin

lemma below_refl: "invar db \<Longrightarrow> below db x x"
  by (simp add: below_ancestors)

lemma below_trans: "invar db \<Longrightarrow> below db x y \<Longrightarrow> below db y z \<Longrightarrow> below db x z"
  by (auto simp: below_ancestors)

lemma below_antisym: "invar db \<Longrightarrow> below db x y \<Longrightarrow> below db y x \<Longrightarrow> x = y"
  using grounded [of db x] by (auto simp: below_ancestors dest: ancestors_antisym)

lemma below_child:
  "invar db \<Longrightarrow> parent db x = Some y \<Longrightarrow> below db x r \<longleftrightarrow> r = x \<or> below db y r"
  by (simp add: below_ancestors ancestors_child)

lemma below_root: "invar db \<Longrightarrow> parent db x = None \<Longrightarrow> below db x r \<longleftrightarrow> r = x"
  by (simp add: below_ancestors ancestors_root)

text \<open>The effective set is the intersection over all ancestors.\<close>

lemma effective_iff:
  assumes "invar db"
  shows "p \<in> effective db x \<longleftrightarrow> (\<forall>y. below db x y \<longrightarrow> p \<in> own db y)"
proof -
  obtain d where "depth (parent db) x d" using grounded [OF assms] by blast
  then show ?thesis
  proof (induction rule: depth.induct)
    case (root x)
    with assms show ?case by (simp add: effective_root below_root)
  next
    case (child x y d)
    with assms show ?case by (auto simp: effective_child below_child)
  qed
qed

lemma effective_capped: "invar db \<Longrightarrow> below db x y \<Longrightarrow> effective db x \<subseteq> effective db y"
  by (metis below_trans effective_iff subsetI)

lemma effective_own: "invar db \<Longrightarrow> effective db x \<subseteq> own db x"
  by (auto simp: effective_iff below_refl)

text \<open>Two stores that agree on the ancestors of a role agree on its effective set.\<close>

lemma below_agree:
  assumes "invar db" "invar db'" "\<And>y. below db x y \<Longrightarrow> parent db' y = parent db y"
  shows "below db' x z \<longleftrightarrow> below db x z"
proof -
  obtain d where "depth (parent db) x d" using grounded [OF assms(1)] by blast
  then show ?thesis using assms(3)
  proof (induction rule: depth.induct)
    case (root x)
    then have "parent db' x = None" using below_refl [OF assms(1)] by simp
    with root assms show ?case by (simp add: below_root)
  next
    case (child x y d)
    then have "parent db' x = Some y" using below_refl [OF assms(1)] by simp
    moreover have "below db' y z \<longleftrightarrow> below db y z"
      using child by (auto simp: below_child [OF assms(1) child.hyps(1)])
    ultimately show ?case using assms(1,2) child.hyps by (simp add: below_child)
  qed
qed

lemma effective_agree:
  assumes "invar db" "invar db'"
    and "\<And>y. below db x y \<Longrightarrow> parent db' y = parent db y \<and> own db' y = own db y"
  shows "effective db' x = effective db x"
proof -
  have "below db' x z \<longleftrightarrow> below db x z" for z
    using assms by (intro below_agree) simp_all
  with assms show ?thesis by (auto simp: effective_iff)
qed

end

section \<open>The repository's loops are bounded walks\<close>

lemma ancestor_loop_walk: "ancestor_loop n db x = walk (parent_of db) n x"
  by (induction n arbitrary: x) (auto split: option.splits)

lemma effective_loop_walk:
  "effective_loop (Suc n) db (Some x)
     = map (\<lambda>r. set (permissions_for_role db r)) (x # walk (parent_of db) n x)"
  by (induction n arbitrary: x) (auto split: option.splits simp: effective_loop.simps(3))

lemma fold_inter: "fold (\<lambda>s acc. acc \<inter> s) sets acc = acc \<inter> \<Inter> (set sets)"
  by (induction sets arbitrary: acc) auto

lemma intersect_chain_Cons: "intersect_chain (s # sets) = \<Inter> (set (s # sets))"
  by (simp add: intersect_chain_def fold_inter)

lemma effective_walk:
  "effective_permissions_for_role db x
     = (\<Inter>r \<in> set (x # walk (parent_of db) 19 x). set (permissions_for_role db r))"
proof -
  have "effective_loop MAX_ANCESTOR_WALK db (Some x)
      = map (\<lambda>r. set (permissions_for_role db r)) (x # walk (parent_of db) 19 x)"
    using effective_loop_walk [of 19 db x] by (simp add: MAX_ANCESTOR_WALK_def)
  then show ?thesis
    unfolding effective_permissions_for_role_def by (simp add: intersect_chain_Cons)
qed

text \<open>No chain of parents is longer than \<open>n\<close> roles.\<close>

definition levels_within :: "nat \<Rightarrow> database \<Rightarrow> bool" where
  "levels_within n db \<longleftrightarrow> (\<forall>x. \<exists>d \<le> n. depth (parent_of db) x d)"

definition own_permissions :: "database \<Rightarrow> uuid \<Rightarrow> permission set" where
  "own_permissions db r = set (permissions_for_role db r)"

lemma levels_withinE:
  assumes "levels_within n db"
  obtains d where "d \<le> n" "depth (parent_of db) x d"
  using assms by (auto simp: levels_within_def)

lemma levels_within_mono: "levels_within n db \<Longrightarrow> n \<le> m \<Longrightarrow> levels_within m db"
  unfolding levels_within_def by (meson le_trans)

lemma is_within_subtree_ancestors:
  assumes "depth (parent_of db) x d" "d \<le> 21"
  shows "is_within_subtree db x r \<longleftrightarrow> (x, r) \<in> (parent_rel (parent_of db))\<^sup>*"
  using walk_all_ancestors [OF assms(1), of 20 r] assms(2)
  by (simp add: is_within_subtree_def chain_contains_def ancestor_chain_def ancestor_loop_walk
      MAX_ANCESTOR_WALK_def)

interpretation roles: role_hierarchy "levels_within 20" parent_of own_permissions
  effective_permissions_for_role is_within_subtree
proof (unfold_locales, goal_cases)
  case (1 db x)
  then show ?case by (auto simp: levels_within_def)
next
  case (2 db x)
  then have "walk (parent_of db) 19 x = []" by (simp add: numeral_eq_Suc)
  then show ?case by (simp add: effective_walk own_permissions_def)
next
  case (3 db x y)
  obtain d where d: "d \<le> 20" "depth (parent_of db) x d" using 3(1) by (rule levels_withinE)
  from d(2) 3(2) obtain e where e: "depth (parent_of db) y e" "d = Suc e"
    by (cases rule: depth.cases) auto
  with d(1) have "walk (parent_of db) 19 y = walk (parent_of db) 18 y"
    using walk_cut [OF e(1), of 19] walk_cut [OF e(1), of 18] by simp
  moreover have "walk (parent_of db) 19 x = y # walk (parent_of db) 18 y"
    using 3(2) by (simp add: numeral_eq_Suc)
  ultimately show ?case by (simp add: effective_walk own_permissions_def)
next
  case (4 db x r)
  obtain d where "d \<le> 20" "depth (parent_of db) x d" using 4 by (rule levels_withinE)
  then show ?case by (simp add: is_within_subtree_ancestors)
qed


section \<open>What the schema gives\<close>

lemma role_ids_iff: "x \<in> set (role_ids db) \<longleftrightarrow> (\<exists>r \<in> set (db_roles db). rl_id r = x)"
  by (auto simp: role_ids_def)

lemma find_by_id_None: "find_by_id db x = None \<longleftrightarrow> x \<notin> set (role_ids db)"
  by (auto simp: find_by_id_def find_None_iff role_ids_def)

lemma find_by_id_Some: "find_by_id db x = Some r \<Longrightarrow> r \<in> set (db_roles db) \<and> rl_id r = x"
  by (auto simp: find_by_id_def find_Some_iff)

lemma find_by_id_role:
  assumes "schema_ok db" "r \<in> set (db_roles db)"
  shows "find_by_id db (rl_id r) = Some r"
proof -
  obtain r' where r': "find_by_id db (rl_id r) = Some r'"
    using find_by_id_None [of db "rl_id r"] assms(2) by (auto simp: role_ids_def)
  then have "r' \<in> set (db_roles db)" "rl_id r' = rl_id r" using find_by_id_Some by blast+
  moreover have "inj_on rl_id (set (db_roles db))"
    using assms(1) by (simp add: schema_ok_def role_ids_def distinct_map)
  ultimately have "r' = r" using assms(2) by (simp add: inj_on_def)
  with r' show ?thesis by simp
qed

lemma parent_of_role:
  "schema_ok db \<Longrightarrow> r \<in> set (db_roles db) \<Longrightarrow> parent_of db (rl_id r) = rl_parent_role_id r"
  by (simp add: parent_of_def find_by_id_role)

lemma parent_of_unknown: "x \<notin> set (role_ids db) \<Longrightarrow> parent_of db x = None"
  by (simp add: parent_of_def find_by_id_None [symmetric])

lemma parent_of_known:
  assumes "schema_ok db" "parent_of db x = Some y"
  shows "x \<in> set (role_ids db) \<and> y \<in> set (role_ids db)"
proof -
  from assms(2) obtain r where r: "find_by_id db x = Some r" "rl_parent_role_id r = Some y"
    by (auto simp: parent_of_def Option.bind_eq_Some_conv)
  then have "r \<in> set (db_roles db)" "rl_id r = x" using find_by_id_Some by blast+
  with r(2) assms(1) show ?thesis by (auto simp: schema_ok_def role_ids_iff)
qed

lemma own_permissions_iff:
  "p \<in> own_permissions db x \<longleftrightarrow> (x, as_key p) \<in> set (db_role_permissions db)"
proof
  assume "p \<in> own_permissions db x"
  then obtain r k where "(r, k) \<in> set (db_role_permissions db)" "r = x" "from_key k = Some p"
    by (auto simp: own_permissions_def permissions_for_role_def List.map_filter_def
        split: if_splits)
  then show "(x, as_key p) \<in> set (db_role_permissions db)" by (simp add: from_key_Some)
next
  assume "(x, as_key p) \<in> set (db_role_permissions db)"
  then show "p \<in> own_permissions db x"
    by (force simp: own_permissions_def permissions_for_role_def List.map_filter_def)
qed

section \<open>What the statements change\<close>

lemma find_append:
  "find P (xs @ ys) = (case find P xs of None \<Rightarrow> find P ys | Some x \<Rightarrow> Some x)"
  by (induction xs) auto

lemma create_cases:
  assumes "create rid name desc sys par by_user db = (res, db')"
  obtains (refused) e where "res = Err e" "db' = db"
  | (made) r where "res = Ok r" "rl_id r = rid" "rl_parent_role_id r = par" "rl_name r = name"
      "rl_is_system r = sys" "rl_created_by r = by_user"
      "rid \<notin> set (role_ids db)" "find_by_name db name = None"
      "set_option par \<subseteq> set (rid # role_ids db)" "set_option by_user \<subseteq> set (db_users db)"
      "db' = db\<lparr>db_roles := db_roles db @ [r]\<rparr>"
proof -
  define r where "r = \<lparr>rl_id = rid, rl_name = name, rl_description = desc, rl_is_system = sys,
    rl_parent_role_id = par, rl_created_by = by_user\<rparr>"
  let ?db = "db\<lparr>db_roles := db_roles db @ [r]\<rparr>"
  show ?thesis
  proof (cases "rid \<in> set (role_ids db) \<or> find_by_name db name \<noteq> None
      \<or> (\<exists>p \<in> set_option par. p \<notin> set (rid # role_ids db))
      \<or> (\<exists>u \<in> set_option by_user. u \<notin> set (db_users db))")
    case True
    with assms have "db' = db" "\<exists>e. res = Err e" by (auto simp: create_def split: if_splits)
    then show ?thesis using refused by blast
  next
    case False
    then have "find_by_id db rid = None" by (simp add: find_by_id_None)
    then have "find_by_id ?db rid = Some r"
      by (auto simp: find_by_id_def find_append r_def)
    with False assms have "res = Ok r" "db' = ?db"
      by (auto simp: create_def r_def [symmetric] Let_def)
    with False show ?thesis by (intro made [of r]) (auto simp: r_def)
  qed
qed

lemma find_append_other: "\<not> P y \<Longrightarrow> find P (xs @ [y]) = find P xs"
  by (simp add: find_append split: option.splits)

lemma parent_of_create:
  assumes "create rid name desc sys par by_user db = (Ok r, db')"
  shows "parent_of db' = (parent_of db)(rid := par)" "own_permissions db' = own_permissions db"
    "db_user_roles db' = db_user_roles db" "role_ids db' = role_ids db @ [rid]"
proof -
  from assms obtain r where r: "rl_id r = rid" "rl_parent_role_id r = par"
    "rid \<notin> set (role_ids db)" "db' = db\<lparr>db_roles := db_roles db @ [r]\<rparr>"
    by (cases rule: create_cases) auto
  have "find_by_id db rid = None" using r by (simp add: find_by_id_None)
  then have "find_by_id db' rid = Some r" using r by (simp add: find_by_id_def find_append)
  moreover have "find_by_id db' x = find_by_id db x" if "x \<noteq> rid" for x
    using r that by (simp add: find_by_id_def find_append_other)
  ultimately show "parent_of db' = (parent_of db)(rid := par)"
    using r by (auto simp: parent_of_def fun_eq_iff)
  show "own_permissions db' = own_permissions db"
    using r by (auto simp: own_permissions_def permissions_for_role_def fun_eq_iff)
  show "db_user_roles db' = db_user_roles db" "role_ids db' = role_ids db @ [rid]"
    using r by (simp_all add: role_ids_def)
qed


lemma find_map_same_id:
  assumes "\<And>r. rl_id (f r) = rl_id r"
  shows "find (\<lambda>r. rl_id r = x) (map f rs) = map_option f (find (\<lambda>r. rl_id r = x) rs)"
  using assms by (induction rs) auto

lemma update_cases:
  assumes "update rid name desc par db = (res, db')"
  obtains (unchanged) "db' = db" "is_err res \<or> rid \<notin> set (role_ids db)"
  | (changed) f where "res = Ok ()" "rid \<in> set (role_ids db)" "set_option par \<subseteq> set (role_ids db)"
      "\<And>r. rl_id (f r) = rl_id r" "\<And>r. rl_created_by (f r) = rl_created_by r"
      "\<And>r. rl_is_system (f r) = rl_is_system r"
      "\<And>r. rl_parent_role_id (f r) = (if rl_id r = rid then par else rl_parent_role_id r)"
      "\<And>r. rl_name (f r) = (if rl_id r = rid then name else rl_name r)"
      "\<forall>r \<in> set (db_roles db). rl_id r \<noteq> rid \<longrightarrow> \<not> same_name db (rl_name r) name"
      "db' = db\<lparr>db_roles := map f (db_roles db)\<rparr>"
proof -
  define f where "f r = (if rl_id r = rid then r\<lparr>rl_name := name, rl_description := desc,
    rl_parent_role_id := par\<rparr> else r)" for r :: role
  show ?thesis
  proof (cases "find_by_id db rid = None
      \<or> (\<exists>r \<in> set (db_roles db). rl_id r \<noteq> rid \<and> same_name db (rl_name r) name)
      \<or> (\<exists>p \<in> set_option par. p \<notin> set (role_ids db))")
    case True
    with assms have "db' = db" "is_err res \<or> find_by_id db rid = None"
      by (auto simp: update_def split: if_splits)
    then show ?thesis using unchanged by (auto simp: find_by_id_None)
  next
    case False
    with assms have "res = Ok ()" "db' = db\<lparr>db_roles := map f (db_roles db)\<rparr>"
      by (auto simp: update_def f_def [abs_def] split: if_splits)
    with False show ?thesis
      by (intro changed [of f]) (auto simp: f_def find_by_id_None)
  qed
qed

lemma parent_of_update:
  assumes "update rid name desc par db = (Ok (), db')" "rid \<in> set (role_ids db)"
  shows "parent_of db' = (parent_of db)(rid := par)" "own_permissions db' = own_permissions db"
    "db_user_roles db' = db_user_roles db" "role_ids db' = role_ids db"
proof -
  from assms obtain f where f: "\<And>r. rl_id (f r) = rl_id r"
      "\<And>r. rl_parent_role_id (f r) = (if rl_id r = rid then par else rl_parent_role_id r)"
      "db' = db\<lparr>db_roles := map f (db_roles db)\<rparr>"
    by (cases rule: update_cases) auto
  have find: "find_by_id db' x = map_option f (find_by_id db x)" for x
    using f by (simp add: find_by_id_def find_map_same_id)
  have "parent_of db' x = ((parent_of db)(rid := par)) x" for x
  proof (cases "find_by_id db x")
    case None
    then have "x \<noteq> rid" using assms(2) by (auto simp: find_by_id_None)
    with None show ?thesis using find by (simp add: parent_of_def)
  next
    case (Some r)
    then have "rl_id r = x" using find_by_id_Some by blast
    then show ?thesis using Some f(2) find by (simp add: parent_of_def)
  qed
  then show "parent_of db' = (parent_of db)(rid := par)" by (rule ext)
  show "own_permissions db' = own_permissions db" "db_user_roles db' = db_user_roles db"
    using f by (auto simp: own_permissions_def permissions_for_role_def fun_eq_iff)
  show "role_ids db' = role_ids db" using f by (simp add: role_ids_def)
qed

lemma delete_cases:
  assumes "delete rid db = (res, db')"
  obtains (refused) "res = Err Foreign_Key" "db' = db"
      "\<exists>r \<in> set (db_roles db). rl_parent_role_id r = Some rid"
  | (removed) "res = Ok ()"
      "\<And>r. r \<in> set (db_roles db) \<Longrightarrow> rl_parent_role_id r = Some rid \<Longrightarrow> rl_id r = rid"
      "db' = db\<lparr>db_roles := filter (\<lambda>r. rl_id r \<noteq> rid) (db_roles db),
         db_role_permissions := filter (\<lambda>(r, k). r \<noteq> rid) (db_role_permissions db),
         db_user_roles := filter (\<lambda>(u, r). r \<noteq> rid) (db_user_roles db),
         db_role_module_visibility := filter (\<lambda>(r, k). r \<noteq> rid) (db_role_module_visibility db)\<rparr>"
proof (cases "\<exists>r \<in> set (db_roles db). rl_parent_role_id r = Some rid \<and> rl_id r \<noteq> rid")
  case True
  with assms have "res = Err Foreign_Key" "db' = db" by (simp_all add: delete_def)
  with True refused show ?thesis by blast
next
  case False
  note assms [unfolded delete_def if_not_P [OF False]]
  with False removed show ?thesis by blast
qed

lemma find_filter_other:
  "x \<noteq> rid \<Longrightarrow> find (\<lambda>r. rl_id r = x) (filter (\<lambda>r. rl_id r \<noteq> rid) rs) = find (\<lambda>r. rl_id r = x) rs"
  by (induction rs) auto

lemma parent_of_delete:
  assumes "delete rid db = (Ok (), db')"
  shows "parent_of db' = (parent_of db)(rid := None)"
    "own_permissions db' = (own_permissions db)(rid := {})"
    "role_ids db' = filter (\<lambda>x. x \<noteq> rid) (role_ids db)"
    "db_user_roles db' = filter (\<lambda>(u, r). r \<noteq> rid) (db_user_roles db)"
proof -
  have db': "db_roles db' = filter (\<lambda>r. rl_id r \<noteq> rid) (db_roles db)"
    "db_role_permissions db' = filter (\<lambda>(r, k). r \<noteq> rid) (db_role_permissions db)"
    "db_user_roles db' = filter (\<lambda>(u, r). r \<noteq> rid) (db_user_roles db)"
    using assms by (cases rule: delete_cases; simp)+
  show ids: "role_ids db' = filter (\<lambda>x. x \<noteq> rid) (role_ids db)"
    using db' by (simp add: role_ids_def filter_map o_def)
  have "parent_of db' x = ((parent_of db)(rid := None)) x" for x
    using db' by (cases "x = rid")
      (auto simp: parent_of_def find_by_id_def find_filter_other find_None_iff Option.bind_eq_None_conv
        intro: parent_of_unknown [unfolded parent_of_def find_by_id_def])
  then show "parent_of db' = (parent_of db)(rid := None)" by (rule ext)
  show "own_permissions db' = (own_permissions db)(rid := {})"
    using db' by (auto simp: fun_eq_iff own_permissions_iff)
  show "db_user_roles db' = filter (\<lambda>(u, r). r \<noteq> rid) (db_user_roles db)" by (rule db')
qed

lemma insert_role_permissions_result:
  assumes "insert_role_permissions rid ps db = (Ok (), db')"
  shows "db' = db\<lparr>db_role_permissions := db_role_permissions db @ map (\<lambda>p. (rid, as_key p)) ps\<rparr>"
  using assms
proof (induction ps arbitrary: db)
  case (Cons p ps)
  then obtain db1 where db1: "insert_role_permission rid (as_key p) db = (Ok (), db1)"
    "insert_role_permissions rid ps db1 = (Ok (), db')"
    by (auto split: prod.splits sum.splits)
  from Cons.IH [OF db1(2)] db1(1) show ?case
    by (auto simp: insert_role_permission_def split: if_splits)
qed simp

lemma set_permissions_result:
  assumes "set_permissions rid ps db = (res, db')"
  obtains (refused) e where "res = Err e" "db' = db"
  | (replaced) "res = Ok ()" "db' = db\<lparr>db_role_permissions :=
      filter (\<lambda>(r, k). r \<noteq> rid) (db_role_permissions db) @ map (\<lambda>p. (rid, as_key p)) ps\<rparr>"
  using assms
  by (auto simp: set_permissions_def transaction_def split: prod.splits sum.splits
      dest!: insert_role_permissions_result)

lemma own_set_permissions:
  assumes "set_permissions rid ps db = (Ok (), db')"
  shows "own_permissions db' = (own_permissions db)(rid := set ps)" "parent_of db' = parent_of db"
    "db_user_roles db' = db_user_roles db" "role_ids db' = role_ids db"
proof -
  have db': "db' = db\<lparr>db_role_permissions :=
      filter (\<lambda>(r, k). r \<noteq> rid) (db_role_permissions db) @ map (\<lambda>p. (rid, as_key p)) ps\<rparr>"
    using assms by (cases rule: set_permissions_result) auto
  show "own_permissions db' = (own_permissions db)(rid := set ps)"
    using db' by (auto simp: fun_eq_iff own_permissions_iff)
  show "parent_of db' = parent_of db" "db_user_roles db' = db_user_roles db"
    "role_ids db' = role_ids db"
    using db' by (simp_all add: fun_eq_iff parent_of_def find_by_id_def role_ids_def)
qed


section \<open>Every statement keeps the schema's promises\<close>

lemma find_by_name_None:
  "find_by_name db name = None \<longleftrightarrow> (\<forall>r \<in> set (db_roles db). \<not> same_name db (rl_name r) name)"
  by (auto simp: find_by_name_def find_None_iff)

lemma create_schema_ok:
  assumes "schema_ok db" "create rid name desc sys par by_user db = (res, db')"
  shows "schema_ok db'"
  using assms(2)
proof (cases rule: create_cases)
  case (made r)
  then have ids: "role_ids db' = role_ids db @ [rid]" by (simp add: role_ids_def)
  have "db_collation db name \<notin> set (map (db_collation db \<circ> rl_name) (db_roles db))"
    using made by (auto simp: find_by_name_None same_name_def)
  with made ids assms(1) show ?thesis
    unfolding schema_ok_def by (auto simp: subset_iff)
qed (use assms in simp)

lemma update_schema_ok:
  assumes "schema_ok db" "update rid name desc par db = (res, db')"
  shows "schema_ok db'"
  using assms(2)
proof (cases rule: update_cases)
  case (changed f)
  then have ids: "role_ids db' = role_ids db" by (simp add: role_ids_def)
  have "inj_on rl_id (set (db_roles db))"
    using assms(1) by (simp add: schema_ok_def role_ids_def distinct_map)
  then have "inj_on (db_collation db \<circ> rl_name \<circ> f) (set (db_roles db))"
    using assms(1) changed(8,9)
    by (auto simp: inj_on_def same_name_def schema_ok_def distinct_map split: if_splits)
  then have "distinct (map (db_collation db \<circ> rl_name) (map f (db_roles db)))"
    using assms(1) by (simp add: schema_ok_def distinct_map o_assoc)
  with changed ids assms(1) show ?thesis
    unfolding schema_ok_def by (auto simp: subset_iff o_def)
qed (use assms in simp)

lemma delete_schema_ok:
  assumes "schema_ok db" "delete rid db = (res, db')"
  shows "schema_ok db'"
  using assms(2)
proof (cases rule: delete_cases)
  case removed
  then have "delete rid db = (Ok (), db')" using assms(2) by simp
  then have "role_ids db' = filter (\<lambda>x. x \<noteq> rid) (role_ids db)" by (rule parent_of_delete)
  with removed(2,3) assms(1) show ?thesis
    unfolding schema_ok_def by (auto simp: distinct_map inj_on_def)
qed (use assms in simp)

lemma insert_role_permission_schema_ok:
  "schema_ok db \<Longrightarrow> insert_role_permission rid k db = (res, db') \<Longrightarrow> schema_ok db'"
  by (auto simp: insert_role_permission_def schema_ok_def role_ids_def split: if_splits)

lemma insert_role_permissions_schema_ok:
  "schema_ok db \<Longrightarrow> insert_role_permissions rid ps db = (res, db') \<Longrightarrow> schema_ok db'"
proof (induction ps arbitrary: db)
  case (Cons p ps)
  obtain r1 db1 where db1: "insert_role_permission rid (as_key p) db = (r1, db1)" by fastforce
  have "schema_ok db1" using Cons.prems(1) db1 by (rule insert_role_permission_schema_ok)
  with Cons db1 show ?case by (cases r1) auto
qed simp

lemma schema_ok_fewer_permissions:
  "schema_ok db \<Longrightarrow> schema_ok (db\<lparr>db_role_permissions := filter P (db_role_permissions db)\<rparr>)"
  by (auto simp: schema_ok_def role_ids_def)

lemma set_permissions_schema_ok:
  assumes "schema_ok db" "set_permissions rid ps db = (res, db')"
  shows "schema_ok db'"
  using assms insert_role_permissions_schema_ok [OF schema_ok_fewer_permissions [OF assms(1)]]
  by (auto simp: set_permissions_def transaction_def split: prod.splits sum.splits)

lemma assign_role_schema_ok:
  "schema_ok db \<Longrightarrow> assign_role_to_user uid rid db = (res, db') \<Longrightarrow> schema_ok db'"
  by (auto simp: assign_role_to_user_def schema_ok_def role_ids_def split: if_splits)

lemma remove_role_schema_ok:
  "schema_ok db \<Longrightarrow> remove_role_from_user uid rid db = (res, db') \<Longrightarrow> schema_ok db'"
  by (auto simp: remove_role_from_user_def schema_ok_def role_ids_def)

lemma set_user_role_schema_ok:
  "schema_ok db \<Longrightarrow> set_user_role uid rid db = (res, db') \<Longrightarrow> schema_ok db'"
  by (auto simp: set_user_role_def transaction_def schema_ok_def role_ids_def Let_def
      split: prod.splits sum.splits if_splits)


section \<open>Descendants\<close>

lemma set_order_by_name [simp]: "set (order_by_name db rs) = set rs"
  by (simp add: order_by_name_def)

lemma children_ids:
  assumes "schema_ok db"
  shows "rl_id ` set (children_of db f) = {x. parent_of db x = Some f}"
proof
  show "rl_id ` set (children_of db f) \<subseteq> {x. parent_of db x = Some f}"
    using assms by (auto simp: children_of_def parent_of_role)
  show "{x. parent_of db x = Some f} \<subseteq> rl_id ` set (children_of db f)"
  proof
    fix x assume "x \<in> {x. parent_of db x = Some f}"
    then obtain r where "find_by_id db x = Some r" "rl_parent_role_id r = Some f"
      by (auto simp: parent_of_def Option.bind_eq_Some_conv)
    then show "x \<in> rl_id ` set (children_of db f)"
      using find_by_id_Some by (force simp: children_of_def)
  qed
qed

lemma descendants_loop_Nil: "descendants_loop n db [] = []"
  by (cases n) simp_all

lemma relpow_Suc_iff: "(x, z) \<in> R ^^ Suc m \<longleftrightarrow> (\<exists>y. (x, y) \<in> R ^^ m \<and> (y, z) \<in> R)"
  by auto

lemma relpow_Suc_0: "R ^^ Suc 0 = R" for R :: "('a \<times> 'a) set"
  by simp

lemma descendants_loop_ids:
  assumes "schema_ok db"
  shows "x \<in> rl_id ` set (descendants_loop n db F)
    \<longleftrightarrow> (\<exists>f \<in> set F. \<exists>k < n. (x, f) \<in> parent_rel (parent_of db) ^^ Suc k)"
proof (induction n arbitrary: F)
  case (Suc n)
  define found where "found = concat (map (children_of db) F)"
  let ?R = "parent_rel (parent_of db)"
  have found: "y \<in> rl_id ` set found \<longleftrightarrow> (\<exists>f \<in> set F. (y, f) \<in> ?R)" for y
    using children_ids [OF assms] by (auto simp: found_def parent_rel_def image_iff set_eq_iff)
  have "x \<in> rl_id ` set (descendants_loop (Suc n) db F)
      \<longleftrightarrow> x \<in> rl_id ` set found \<or> x \<in> rl_id ` set (descendants_loop n db (map rl_id found))"
    by (cases "F = []") (simp_all add: found_def Let_def image_Un descendants_loop_Nil)
  also have "\<dots> \<longleftrightarrow> (\<exists>f \<in> set F. (x, f) \<in> ?R)
      \<or> (\<exists>y \<in> rl_id ` set found. \<exists>k < n. (x, y) \<in> ?R ^^ Suc k)"
    unfolding found Suc.IH by simp
  also have "\<dots> \<longleftrightarrow> (\<exists>f \<in> set F. (x, f) \<in> ?R)
      \<or> (\<exists>f \<in> set F. \<exists>k < n. (x, f) \<in> ?R ^^ Suc (Suc k))"
    unfolding relpow_Suc_iff [of _ _ "Suc _"] Bex_def found by blast
  also have "\<dots> \<longleftrightarrow> (\<exists>f \<in> set F. \<exists>k < Suc n. (x, f) \<in> ?R ^^ Suc k)"
    unfolding Ex_less_Suc2 relpow_Suc_0 by blast
  finally show ?case .
qed simp

lemma relpow_depth: "depth p x d \<Longrightarrow> (x, y) \<in> parent_rel p ^^ k \<Longrightarrow> k < d"
proof (induction k arbitrary: x d)
  case 0
  then show ?case using depth_pos by auto
next
  case (Suc k)
  from relpow_Suc_D2 [OF Suc.prems(2)] obtain z where z: "p x = Some z" "(z, y) \<in> parent_rel p ^^ k"
    by (auto simp: parent_rel_iff)
  from Suc.prems(1) z(1) obtain e where "depth p z e" "d = Suc e"
    by (cases rule: depth.cases) auto
  with Suc.IH z(2) show ?case by auto
qed

lemma descendants_ids:
  assumes "schema_ok db" "levels_within 21 db"
  shows "x \<in> rl_id ` set (descendants_of db f) \<longleftrightarrow> (x, f) \<in> (parent_rel (parent_of db))\<^sup>+"
proof -
  obtain d where d: "d \<le> 21" "depth (parent_of db) x d" using assms(2) by (rule levels_withinE)
  have "x \<in> rl_id ` set (descendants_of db f)
      \<longleftrightarrow> (\<exists>k < 20. (x, f) \<in> parent_rel (parent_of db) ^^ Suc k)"
    unfolding descendants_of_def
    by (subst descendants_loop_ids [OF assms(1)]) (auto simp: MAX_ANCESTOR_WALK_def)
  also have "\<dots> \<longleftrightarrow> (\<exists>k. (x, f) \<in> parent_rel (parent_of db) ^^ Suc k)"
    using relpow_depth [OF d(2)] d(1) by (metis Suc_less_eq less_le_trans numeral_eq_Suc
        pred_numeral_simps(3) BitM.simps(1) BitM.simps(2))
  also have "\<dots> \<longleftrightarrow> (x, f) \<in> (parent_rel (parent_of db))\<^sup>+"
    by (metis Suc_pred trancl_power zero_less_Suc)
  finally show ?thesis .
qed

section \<open>Re-parenting\<close>

lemma reparent_levels:
  assumes "levels_within n db" "parent_of db' = (parent_of db)(r := par)"
    and "\<And>y. par = Some y \<Longrightarrow> depth (parent_of db) y dy \<and> (y, r) \<notin> (parent_rel (parent_of db))\<^sup>*"
  shows "levels_within (n + dy) db'"
  unfolding levels_within_def
proof
  fix x
  obtain d where d: "d \<le> n" "depth (parent_of db) x d" using assms(1) by (rule levels_withinE)
  show "\<exists>e \<le> n + dy. depth (parent_of db') x e"
  proof (cases par)
    case None
    from depth_uproot [OF d(2), of r] obtain e where "e \<le> d" "depth ((parent_of db)(r := None)) x e"
      by blast
    with None d(1) assms(2) show ?thesis by (intro exI [of _ e]) simp
  next
    case (Some y)
    with assms(3) have "depth (parent_of db) y dy" "(y, r) \<notin> (parent_rel (parent_of db))\<^sup>*" by auto
    from depth_reparent [OF d(2) this] obtain e
      where "e \<le> d + dy" "depth ((parent_of db)(r \<mapsto> y)) x e" by blast
    with Some d(1) assms(2) show ?thesis by (intro exI [of _ e]) simp
  qed
qed

lemma depth_of_small:
  assumes "depth_of db y \<le> 19"
  shows "depth (parent_of db) y (unat (depth_of db y))"
proof -
  let ?w = "walk (parent_of db) 20 y"
  have len: "length ?w \<le> 20" by (rule length_walk)
  have d: "depth_of db y = of_nat (Suc (length ?w))"
    by (simp add: depth_of_def ancestor_chain_def ancestor_loop_walk MAX_ANCESTOR_WALK_def)
  have u: "unat (depth_of db y) = Suc (length ?w)"
    unfolding d using len by (simp add: unat_of_nat take_bit_nat_eq_self del: of_nat_Suc)
  have "unat (depth_of db y) \<le> 19" using assms by (simp add: word_le_nat_alt)
  with u have "length ?w < 20" by simp
  from walk_stopped [OF this] u show ?thesis by simp
qed


section \<open>A store with three levels\<close>

text \<open>The instance at which the properties below are evaluated.\<close>

definition demo_role :: "uuid \<Rightarrow> string \<Rightarrow> uuid option \<Rightarrow> role" where
  "demo_role i name par = \<lparr>rl_id = i, rl_name = name, rl_description = [], rl_is_system = False,
     rl_parent_role_id = par, rl_created_by = None\<rparr>"

definition demo_db :: database where
  "demo_db = \<lparr>db_collation = to_ascii_lowercase, db_users = [70, 90],
     db_permissions = map as_key permission_ALL, db_modules = [],
     db_roles = [demo_role 1 ''Network Admin'' None, demo_role 2 ''Network Tech'' (Some 1),
       demo_role 3 ''Reader'' (Some 2), demo_role 4 ''Auditor'' None],
     db_role_permissions = [(1, ''roles.manage''), (1, ''network.view''), (1, ''users.modify''),
       (2, ''network.view''), (3, ''network.view''), (3, ''audit.view''), (4, ''audit.view'')],
     db_user_roles = [(70, 1)], db_role_module_visibility = [], db_settings = [],
     db_log_fails = (\<lambda>_. False), db_audit_log = []\<rparr>"

lemma demo_parent_of:
  "parent_of demo_db = (\<lambda>_. None)(2 := Some 1, 3 := Some 2)"
  by (auto simp: parent_of_def find_by_id_def demo_db_def demo_role_def fun_eq_iff)

lemma demo_levels: "levels_within 3 demo_db"
proof -
  have 1: "depth (parent_of demo_db) x 1" if "x \<noteq> 2" "x \<noteq> 3" for x
    using that by (auto simp: demo_parent_of intro: depth.root)
  have 2: "depth (parent_of demo_db) 2 2"
    using depth.child [of "parent_of demo_db" 2 1 1] 1 [of 1] by (simp add: demo_parent_of eval_nat_numeral)
  have 3: "depth (parent_of demo_db) 3 3"
    using depth.child [of "parent_of demo_db" 3 2 2] 2 by (simp add: demo_parent_of eval_nat_numeral)
  have "\<exists>d \<le> 3. depth (parent_of demo_db) x d" for x
  proof -
    consider "x = 2" | "x = 3" | "x \<noteq> 2" "x \<noteq> 3" by blast
    then show ?thesis
    proof cases
      case 1 with 2 show ?thesis by (auto intro: exI [of _ 2])
    next
      case 2 with 3 show ?thesis by (auto intro: exI [of _ 3])
    next
      case 3 with 1 show ?thesis by (auto intro: exI [of _ 1])
    qed
  qed
  then show ?thesis by (simp add: levels_within_def)
qed

lemma demo_schema_ok: "schema_ok demo_db"
  by (auto simp: schema_ok_def demo_db_def demo_role_def role_ids_def rust_str permission_ALL_def)

section \<open>Properties of the store\<close>

text \<open>C2: The effective permissions of a role are exactly those granted to it and to every role
  above it, as long as the chain of parents fits the loop's bound of twenty roles.\<close>

theorem effective_is_intersection_of_ancestors:
  assumes "levels_within 20 db"
  shows "p \<in> effective_permissions_for_role db x
    \<longleftrightarrow> (\<forall>y. is_within_subtree db x y \<longrightarrow> p \<in> set (permissions_for_role db y))"
  using roles.effective_iff [OF assms] by (simp add: own_permissions_def)

theorem effective_is_intersection_of_ancestors_witness:
  "(NetworkView \<in> effective_permissions_for_role demo_db 3
     \<longleftrightarrow> (\<forall>y. is_within_subtree demo_db 3 y \<longrightarrow> NetworkView \<in> set (permissions_for_role demo_db y)))
   \<and> AuditView \<in> set (permissions_for_role demo_db 3)
   \<and> AuditView \<notin> effective_permissions_for_role demo_db 3"
proof -
  have levels: "levels_within 20 demo_db" by (rule levels_within_mono [OF demo_levels]) simp
  have "AuditView \<in> set (permissions_for_role demo_db 3)"
    "AuditView \<notin> set (permissions_for_role demo_db 2)"
    by (simp_all add: own_permissions_def [symmetric] own_permissions_iff demo_db_def)
  moreover have "is_within_subtree demo_db 3 2"
    by (simp add: is_within_subtree_def chain_contains_def ancestor_chain_def
        MAX_ANCESTOR_WALK_def numeral_eq_Suc demo_parent_of)
  ultimately show ?thesis
    using effective_is_intersection_of_ancestors [OF levels] by blast
qed

text \<open>C8: Replacing the grants of a role changes the effective permissions of that role and of the
  roles below it only; of those, each loses what is no longer granted.\<close>

theorem revocation_cascades:
  assumes "levels_within 20 db" "set_permissions r ps db = (Ok (), db')"
  shows "(is_within_subtree db x r \<longrightarrow> effective_permissions_for_role db' x \<subseteq> set ps)
    \<and> (\<not> is_within_subtree db x r
       \<longrightarrow> effective_permissions_for_role db' x = effective_permissions_for_role db x)"
proof -
  note own = own_set_permissions [OF assms(2)]
  have levels': "levels_within 20 db'" using assms(1) own(2) by (simp add: levels_within_def)
  have same: "is_within_subtree db' x y \<longleftrightarrow> is_within_subtree db x y" for y
    using own(2) by (intro roles.below_agree [OF assms(1) levels']) simp
  show ?thesis
  proof (intro conjI impI)
    assume "is_within_subtree db x r"
    then have "effective_permissions_for_role db' x \<subseteq> effective_permissions_for_role db' r"
      using same by (intro roles.effective_capped [OF levels']) simp
    also have "\<dots> \<subseteq> own_permissions db' r" by (rule roles.effective_own [OF levels'])
    finally show "effective_permissions_for_role db' x \<subseteq> set ps" using own(1) by simp
  next
    assume "\<not> is_within_subtree db x r"
    then show "effective_permissions_for_role db' x = effective_permissions_for_role db x"
      using own by (intro roles.effective_agree [OF assms(1) levels']) auto
  qed
qed

lemma demo_levels_20: "levels_within 20 demo_db"
  by (rule levels_within_mono [OF demo_levels]) simp

lemma demo_within_3_1: "is_within_subtree demo_db 3 1"
  by (simp add: is_within_subtree_def chain_contains_def ancestor_chain_def
      MAX_ANCESTOR_WALK_def numeral_eq_Suc demo_parent_of)

lemma demo_set_permissions:
  "set_permissions 1 [RolesManage] demo_db = (Ok (), demo_db\<lparr>db_role_permissions :=
     [(2, ''network.view''), (3, ''network.view''), (3, ''audit.view''), (4, ''audit.view''),
      (1, ''roles.manage'')]\<rparr>)"
  by (simp add: set_permissions_def transaction_def insert_role_permission_def demo_db_def
      demo_role_def role_ids_def permission_ALL_def)

theorem revocation_cascades_witness:
  "effective_permissions_for_role (snd (set_permissions 1 [RolesManage] demo_db)) 3 \<subseteq> {RolesManage}"
  using revocation_cascades [OF demo_levels_20 demo_set_permissions, of 3] demo_within_3_1
    demo_set_permissions by simp

lemma insert_role_permissions_ok:
  assumes "\<forall>p \<in> set ps. (rid, as_key p) \<notin> set (db_role_permissions db)"
  shows "is_ok (fst (insert_role_permissions rid ps db))
    \<longleftrightarrow> distinct ps \<and> (ps \<noteq> [] \<longrightarrow> rid \<in> set (role_ids db))
      \<and> as_key ` set ps \<subseteq> set (db_permissions db)"
  using assms
proof (induction ps arbitrary: db)
  case (Cons p ps)
  show ?case
  proof (cases "rid \<in> set (role_ids db) \<and> as_key p \<in> set (db_permissions db)")
    case True
    let ?db = "db\<lparr>db_role_permissions := db_role_permissions db @ [(rid, as_key p)]\<rparr>"
    have step: "insert_role_permissions rid (p # ps) db = insert_role_permissions rid ps ?db"
      using True Cons.prems by (simp add: insert_role_permission_def)
    show ?thesis
    proof (cases "p \<in> set ps")
      case p: True
      have "is_err (fst (insert_role_permissions rid ps d))"
        if "(rid, as_key p) \<in> set (db_role_permissions d)" for d
        using p that
      proof (induction ps arbitrary: d)
        case (Cons q ps)
        then show ?case
          by (auto simp: insert_role_permission_def split: if_splits)
      qed simp
      then show ?thesis using step p by (simp add: is_err_iff)
    next
      case False
      then show ?thesis using Cons.IH [of ?db] Cons.prems step True by (auto simp: role_ids_def)
    qed
  next
    case False
    then show ?thesis using Cons.prems by (auto simp: insert_role_permission_def)
  qed
qed simp

lemma set_permissions_ok:
  "is_ok (fst (set_permissions rid ps db))
    \<longleftrightarrow> distinct ps \<and> (ps \<noteq> [] \<longrightarrow> rid \<in> set (role_ids db))
      \<and> as_key ` set ps \<subseteq> set (db_permissions db)"
  using insert_role_permissions_ok [of ps rid
      "db\<lparr>db_role_permissions := filter (\<lambda>(r, k). r \<noteq> rid) (db_role_permissions db)\<rparr>"]
  by (auto simp: set_permissions_def transaction_def role_ids_def split: prod.splits sum.splits)

text \<open>C32: Writing a role's permissions is all or nothing. It succeeds exactly when no permission is given
  twice, every permission is in the catalogue and, if there is any to write, the role exists. Then the
  permissions read back are those written, in whatever order, and every other role reads as before;
  otherwise the store is as it was.\<close>

theorem set_permissions_roundtrip:
  "(is_ok (fst (set_permissions r ps db)) \<longleftrightarrow>
      distinct ps \<and> as_key ` set ps \<subseteq> set (db_permissions db) \<and> (ps \<noteq> [] \<longrightarrow> r \<in> set (role_ids db)))
   \<and> (is_ok (fst (set_permissions r ps db)) \<longrightarrow>
        set (permissions_for_role (snd (set_permissions r ps db)) r) = set ps
        \<and> (\<forall>x. x \<noteq> r \<longrightarrow> set (permissions_for_role (snd (set_permissions r ps db)) x) = set (permissions_for_role db x)))
   \<and> (is_err (fst (set_permissions r ps db)) \<longrightarrow> snd (set_permissions r ps db) = db)"
proof -
  obtain res db' where r: "set_permissions r ps db = (res, db')" by fastforce
  have read: "own_permissions db' = (own_permissions db)(r := set ps)" if "res = Ok ()"
    using own_set_permissions(1) r that by blast
  have "db' = db" if "is_err res" using r that by (cases rule: set_permissions_result) auto
  with r read set_permissions_ok [of r ps db] show ?thesis
    by (cases res) (auto simp: own_permissions_def fun_eq_iff)
qed

theorem set_permissions_roundtrip_witness:
  "set (permissions_for_role (snd (set_permissions 1 [RolesManage] demo_db)) 1) = {RolesManage}
   \<and> set (permissions_for_role (snd (set_permissions 1 [RolesManage] demo_db)) 4)
     = set (permissions_for_role demo_db 4)
   \<and> snd (set_permissions 1 [RolesManage, RolesManage] demo_db) = demo_db"
proof -
  have "is_err (fst (set_permissions 1 [RolesManage, RolesManage] demo_db))"
    using set_permissions_ok [of 1 "[RolesManage, RolesManage]" demo_db] by (simp add: is_err_iff)
  moreover have "is_ok (fst (set_permissions 1 [RolesManage] demo_db))"
    unfolding demo_set_permissions by simp
  ultimately show ?thesis
    using set_permissions_roundtrip [where r = 1 and ps = "[RolesManage]" and db = demo_db]
      set_permissions_roundtrip [where r = 1 and ps = "[RolesManage, RolesManage]" and db = demo_db]
    by simp
qed

text \<open>C12: The cycle check before a re-parenting is exact on hierarchies within the loop's bound: it
  refuses exactly the parents that lie below the role. After any update it lets through, every
  chain of parents still ends in a root role.\<close>

theorem cycle_check_exact:
  assumes "levels_within 21 db" "r \<in> set (role_ids db)"
  shows "(would_create_cycle db r y \<longleftrightarrow> (y, r) \<in> (parent_rel (parent_of db))\<^sup>*)
    \<and> (\<not> would_create_cycle db r y \<and> update r name desc (Some y) db = (Ok (), db')
       \<longrightarrow> (\<forall>x. \<exists>d. depth (parent_of db') x d))"
proof -
  obtain dy where dy: "dy \<le> 21" "depth (parent_of db) y dy" using assms(1) by (rule levels_withinE)
  then have cyc: "would_create_cycle db r y \<longleftrightarrow> (y, r) \<in> (parent_rel (parent_of db))\<^sup>*"
    by (simp add: would_create_cycle_def is_within_subtree_ancestors)
  moreover have "levels_within (21 + dy) db'"
    if "\<not> would_create_cycle db r y" "update r name desc (Some y) db = (Ok (), db')"
    using that cyc dy by (intro reparent_levels [OF assms(1) parent_of_update(1) [OF that(2) assms(2)]]) auto
  ultimately show ?thesis by (auto simp: levels_within_def)
qed

theorem cycle_check_exact_witness:
  "would_create_cycle demo_db 1 3 \<and> \<not> would_create_cycle demo_db 3 1
   \<and> (3, 1) \<in> (parent_rel (parent_of demo_db))\<^sup>*"
proof -
  have "levels_within 21 demo_db" by (rule levels_within_mono [OF demo_levels]) simp
  moreover have "1 \<in> set (role_ids demo_db)" by (simp add: role_ids_def demo_db_def demo_role_def)
  moreover have "would_create_cycle demo_db 1 3" using demo_within_3_1 by (simp add: would_create_cycle_def)
  moreover have "\<not> would_create_cycle demo_db 3 1"
    by (simp add: would_create_cycle_def is_within_subtree_def chain_contains_def ancestor_chain_def
        MAX_ANCESTOR_WALK_def numeral_eq_Suc demo_parent_of)
  ultimately show ?thesis using cycle_check_exact by blast
qed

lemma descendants_below:
  assumes "schema_ok db" "levels_within 20 db"
  shows "rl_id ` set (descendants_of db f) = {x. is_within_subtree db x f \<and> x \<noteq> f}"
proof -
  have levels: "levels_within 21 db" by (rule levels_within_mono [OF assms(2)]) simp
  have "x \<in> rl_id ` set (descendants_of db f) \<longleftrightarrow> is_within_subtree db x f \<and> x \<noteq> f" for x
  proof -
    obtain d where "depth (parent_of db) x d" using assms(2) by (rule levels_withinE)
    from depth_irrefl [OF this] show ?thesis
      by (auto simp: descendants_ids [OF assms(1) levels] roles.below_ancestors [OF assms(2)]
          rtrancl_eq_or_trancl)
  qed
  then show ?thesis by blast
qed

text \<open>C33: \<^verbatim>\<open>descendants_of\<close> returns every role strictly below the given one and no other.\<close>

theorem descendants_exact:
  assumes "schema_ok db" "levels_within 20 db"
  shows "rl_id ` set (descendants_of db f) = {x. is_within_subtree db x f \<and> x \<noteq> f}"
  using assms by (rule descendants_below)

theorem descendants_exact_witness:
  "rl_id ` set (descendants_of demo_db 1) = {x. is_within_subtree demo_db x 1 \<and> x \<noteq> 1}
   \<and> 3 \<in> rl_id ` set (descendants_of demo_db 1)"
  using descendants_exact [OF demo_schema_ok demo_levels_20, of 1] demo_within_3_1 by auto

text \<open>\<^verbatim>\<open>set_user_role\<close> leaves the user with exactly the given role and every other user with the
  roles they had; it is refused, with nothing changed, when the user or the role does not exist.\<close>

lemma set_user_role_exactly_one:
  "case set_user_role uid rid db of
     (Inr _, db') \<Rightarrow> (\<forall>r. (uid, r) \<in> set (db_user_roles db') \<longleftrightarrow> r = rid)
       \<and> (\<forall>u r. u \<noteq> uid \<longrightarrow> ((u, r) \<in> set (db_user_roles db') \<longleftrightarrow> (u, r) \<in> set (db_user_roles db)))
       \<and> db_roles db' = db_roles db \<and> db_role_permissions db' = db_role_permissions db
   | (Inl _, db') \<Rightarrow> db' = db \<and> (uid \<notin> set (db_users db) \<or> rid \<notin> set (role_ids db))"
  by (auto simp: set_user_role_def transaction_def Let_def)

end
