(* ===== verification/Role_Seed.thy ===== *)
theory Role_Seed
  imports Role_Hierarchy
begin

text \<open>
  What start-up does to the built-in roles: \<^verbatim>\<open>crates/database/src/seed.rs\<close> with the settings
  repository it reads its version from. \<open>fresh\<close> gives the identifier drawn for a role that is
  created, by the role's name.
\<close>

section \<open>Settings\<close>

fun json_as_u64 :: "json \<Rightarrow> 64 word option" where
  "json_as_u64 (JNumber (PosInt n)) = Some n"
| "json_as_u64 _ = None"

fun json_as_bool :: "json \<Rightarrow> bool option" where
  "json_as_bool (JBool b) = Some b"
| "json_as_bool _ = None"

fun json_as_str :: "json \<Rightarrow> string option" where
  "json_as_str (JString s) = Some s"
| "json_as_str _ = None"

definition settings_get :: "database \<Rightarrow> string \<Rightarrow> json option" where
  "settings_get db key =
     map_option snd (find (\<lambda>(k, v). same_name db k key) (db_settings db))"

definition settings_get_bool :: "database \<Rightarrow> string \<Rightarrow> bool \<Rightarrow> bool" where
  "settings_get_bool db key d =
     (case Option.bind (settings_get db key) json_as_bool of None \<Rightarrow> d | Some b \<Rightarrow> b)"

definition u32_try_from :: "64 word \<Rightarrow> 32 word option" where
  "u32_try_from v = (if unat v < 2 ^ 32 then Some (ucast v) else None)"

definition settings_get_u32 :: "database \<Rightarrow> string \<Rightarrow> 32 word \<Rightarrow> 32 word" where
  "settings_get_u32 db key d =
     (case Option.bind (Option.bind (settings_get db key) json_as_u64) u32_try_from of
        None \<Rightarrow> d | Some v \<Rightarrow> v)"

definition settings_get_string :: "database \<Rightarrow> string \<Rightarrow> string \<Rightarrow> string" where
  "settings_get_string db key d =
     (case Option.bind (settings_get db key) json_as_str of None \<Rightarrow> d | Some s \<Rightarrow> s)"

text \<open>\<^verbatim>\<open>INSERT ... ON DUPLICATE KEY UPDATE\<close>; who updated the row is not read back.\<close>

definition settings_set :: "string \<Rightarrow> json \<Rightarrow> database \<Rightarrow> unit db_result" where
  "settings_set key value db = (Ok (), db\<lparr>db_settings :=
     (if \<exists>(k, v) \<in> set (db_settings db). same_name db k key
      then map (\<lambda>(k, v). if same_name db k key then (k, value) else (k, v)) (db_settings db)
      else db_settings db @ [(key, value)])\<rparr>)"

section \<open>Built-in roles\<close>

definition SUPER_ADMIN :: string where "SUPER_ADMIN = ''Super Admin''"
definition SYSTEM_ADMIN :: string where "SYSTEM_ADMIN = ''System Admin''"
definition NETWORK_ADMIN :: string where "NETWORK_ADMIN = ''Network Admin''"
definition SECURITY_ADMIN :: string where "SECURITY_ADMIN = ''Security / OPSEC Admin''"
definition REGULAR_USER :: string where "REGULAR_USER = ''Regular User''"
definition HELP_DESK :: string where "HELP_DESK = ''Help Desk''"

definition BUILT_IN_ROLES :: "string list" where
  "BUILT_IN_ROLES = [SUPER_ADMIN, SYSTEM_ADMIN, NETWORK_ADMIN, SECURITY_ADMIN, REGULAR_USER, HELP_DESK]"

lemmas role_names = SUPER_ADMIN_def SYSTEM_ADMIN_def NETWORK_ADMIN_def SECURITY_ADMIN_def
  REGULAR_USER_def HELP_DESK_def

section \<open>Sequencing of statements\<close>

definition db_bind :: "'a db_result \<Rightarrow> ('a \<Rightarrow> database \<Rightarrow> 'b db_result) \<Rightarrow> 'b db_result" where
  "db_bind r k = (case r of (Inl e, db) \<Rightarrow> (Err e, db) | (Inr x, db) \<Rightarrow> k x db)"

fun db_each :: "('a \<Rightarrow> database \<Rightarrow> unit db_result) \<Rightarrow> 'a list \<Rightarrow> database \<Rightarrow> unit db_result" where
  "db_each f [] db = (Ok (), db)"
| "db_each f (x # xs) db = db_bind (f x db) (\<lambda>_ db. db_each f xs db)"

section \<open>Deltas\<close>

record role_delta =
  rd_role :: string
  rd_grant :: "permission list"
  rd_revoke :: "permission list"

fun push_missing :: "permission list \<Rightarrow> permission list \<Rightarrow> permission list" where
  "push_missing [] updated = updated"
| "push_missing (p # ps) updated =
     push_missing ps (if p \<in> set updated then updated else updated @ [p])"

definition delta_result :: "permission list \<Rightarrow> permission list \<Rightarrow> permission list \<Rightarrow> permission list" where
  "delta_result current grant revoke = push_missing grant (filter (\<lambda>p. p \<notin> set revoke) current)"

definition apply_delta :: "uuid \<Rightarrow> permission list \<Rightarrow> permission list \<Rightarrow> permission list \<Rightarrow> database
    \<Rightarrow> unit db_result" where
  "apply_delta role_id current grant revoke db =
     (let updated = delta_result current grant revoke in
      if length updated \<noteq> length current \<or> \<not> list_all (\<lambda>p. p \<in> set current) updated
      then set_permissions role_id updated db else (Ok (), db))"

definition V2_DELTAS :: "role_delta list" where
  "V2_DELTAS =
     [\<lparr>rd_role = SYSTEM_ADMIN,
       rd_grant = [StorageConnectionsView, StorageConnectionsManage, HostsElevate],
       rd_revoke = [UsersView]\<rparr>,
      \<lparr>rd_role = NETWORK_ADMIN, rd_grant = [NetworkScan, HostsView, HostsEnroll, HostsElevate],
       rd_revoke = []\<rparr>,
      \<lparr>rd_role = SECURITY_ADMIN,
       rd_grant = [SystemsView, NetworkView, HostUsersView, HostsView, HostsElevate], rd_revoke = []\<rparr>,
      \<lparr>rd_role = REGULAR_USER, rd_grant = [HostsView], rd_revoke = []\<rparr>]"

definition V3_DELTAS :: "role_delta list" where
  "V3_DELTAS =
     [\<lparr>rd_role = SECURITY_ADMIN, rd_grant = [ScourgeView, ScourgeManage], rd_revoke = []\<rparr>,
      \<lparr>rd_role = NETWORK_ADMIN, rd_grant = [ScourgeView], rd_revoke = []\<rparr>,
      \<lparr>rd_role = REGULAR_USER, rd_grant = [ScourgeView], rd_revoke = []\<rparr>]"

definition V4_DELTAS :: "role_delta list" where
  "V4_DELTAS =
     [\<lparr>rd_role = SYSTEM_ADMIN, rd_grant = [DirectoryView, DirectoryHelpdesk, DirectoryManage],
       rd_revoke = []\<rparr>,
      \<lparr>rd_role = SECURITY_ADMIN, rd_grant = [DirectoryView, DirectoryConfigure], rd_revoke = []\<rparr>]"

definition ROLE_DEFAULTS_VERSION_KEY :: string where
  "ROLE_DEFAULTS_VERSION_KEY = ''rbac.role_defaults_version''"

definition ROLE_DEFAULTS_VERSION :: "32 word" where
  "ROLE_DEFAULTS_VERSION = 4"

section \<open>Seeding\<close>

definition seed_role :: "(string \<Rightarrow> uuid) \<Rightarrow> string \<Rightarrow> string \<Rightarrow> permission list \<Rightarrow> database
    \<Rightarrow> unit db_result" where
  "seed_role fresh name description perms db =
     db_bind (case find_by_name db name of
         Some existing \<Rightarrow> (Ok existing, db)
       | None \<Rightarrow> create (fresh name) name description True None None db) (\<lambda>r db.
     if permissions_for_role db (rl_id r) = [] then set_permissions (rl_id r) perms db
     else (Ok (), db))"

definition seed_super_admin :: "(string \<Rightarrow> uuid) \<Rightarrow> database \<Rightarrow> unit db_result" where
  "seed_super_admin fresh db =
     db_bind (case find_by_name db SUPER_ADMIN of
         Some existing \<Rightarrow> (Ok existing, db)
       | None \<Rightarrow> create (fresh SUPER_ADMIN) SUPER_ADMIN ''Full administrative control.'' True None None db)
     (\<lambda>r db.
      let current = set (permissions_for_role db (rl_id r));
          complete = current \<union> set permission_ALL in
      if card complete \<noteq> card current
      then set_permissions (rl_id r) (filter (\<lambda>p. p \<in> complete) permission_ALL) db
      else (Ok (), db))"

text \<open>The split of two permissions: a role that could do something before keeps doing it.\<close>

definition split_grant :: "permission list \<Rightarrow> permission list" where
  "split_grant current =
     (if HostsManage \<in> set current then [HostsEnroll] else [])
     @ (if NetworkManage \<in> set current then [NetworkNac] else [])"

definition upgrade_split :: "role \<Rightarrow> database \<Rightarrow> unit db_result" where
  "upgrade_split r db =
     (let current = permissions_for_role db (rl_id r)
      in apply_delta (rl_id r) current (split_grant current) [] db)"

definition upgrade_delta :: "role_delta \<Rightarrow> database \<Rightarrow> unit db_result" where
  "upgrade_delta delta db =
     (case find_by_name db (rd_role delta) of
        None \<Rightarrow> (Ok (), db)
      | Some r \<Rightarrow> apply_delta (rl_id r) (permissions_for_role db (rl_id r))
          (rd_grant delta) (rd_revoke delta) db)"

definition upgrade_to_v2 :: "database \<Rightarrow> unit db_result" where
  "upgrade_to_v2 db = db_bind (db_each upgrade_split (list_roles db) db)
     (\<lambda>_ db. db_each upgrade_delta V2_DELTAS db)"

definition upgrade_later :: "32 word \<Rightarrow> database \<Rightarrow> unit db_result" where
  "upgrade_later from db =
     db_bind (if from < 3 then db_each upgrade_delta V3_DELTAS db else (Ok (), db)) (\<lambda>_ db.
     db_bind (if from < 4 then db_each upgrade_delta V4_DELTAS db else (Ok (), db)) (\<lambda>_ db.
     settings_set ROLE_DEFAULTS_VERSION_KEY (JNumber (PosInt (ucast ROLE_DEFAULTS_VERSION))) db))"

definition upgrade_role_defaults :: "database \<Rightarrow> unit db_result" where
  "upgrade_role_defaults db =
     (let from = settings_get_u32 db ROLE_DEFAULTS_VERSION_KEY 1 in
      if from \<ge> ROLE_DEFAULTS_VERSION then (Ok (), db)
      else db_bind (if from < 2 then upgrade_to_v2 db else (Ok (), db)) (\<lambda>_ db. upgrade_later from db))"

definition seed_permission :: "permission \<Rightarrow> database \<Rightarrow> unit db_result" where
  "seed_permission p db = (Ok (), if as_key p \<in> set (db_permissions db) then db
     else db\<lparr>db_permissions := db_permissions db @ [as_key p]\<rparr>)"

definition seed_built_in_roles :: "(string \<Rightarrow> uuid) \<Rightarrow> database \<Rightarrow> unit db_result" where
  "seed_built_in_roles fresh db =
     db_bind (seed_role fresh SYSTEM_ADMIN
       ''General system administration: systems, storage, containers, backups.''
       [SystemsView, SystemsManage, HostUsersView, HostUsersManage, StorageView, StorageManage,
        StorageConnectionsView, StorageConnectionsManage, ContainersView, ContainersManage,
        BackupsView, BackupsCreate, BackupsRestore, AuditView, HostsView, HostsEnroll, HostsManage,
        HostsElevate, DirectoryView, DirectoryHelpdesk, DirectoryManage] db) (\<lambda>_ db.
     db_bind (seed_role fresh NETWORK_ADMIN ''Network configuration and connectivity.''
       [SystemsView, NetworkView, NetworkManage, NetworkScan, NetworkNac, AuditView, HostsView,
        HostsEnroll, HostsElevate, ScourgeView] db) (\<lambda>_ db.
     db_bind (seed_role fresh SECURITY_ADMIN ''Security hardening, incident response, and audit oversight.''
       [UsersView, SystemsView, NetworkView, HostUsersView, SecurityView, SecurityManage,
        IncidentsView, IncidentsRespond, AuditView, AuditExport, HostsView, HostsElevate,
        ScourgeView, ScourgeManage, DirectoryView, DirectoryConfigure] db) (\<lambda>_ db.
     db_bind (seed_role fresh REGULAR_USER ''Read-only visibility across operational domains.''
       [SystemsView, NetworkView, SecurityView, ContainersView, StorageView, BackupsView,
        IncidentsView, HostsView, ScourgeView] db) (\<lambda>_ db.
     seed_role fresh HELP_DESK
       ''Front-line directory support: browse Active Directory and run the help-desk actions (unlock, reset password, enable/disable) only.''
       [DirectoryView, DirectoryHelpdesk] db))))"

definition seed_core_defaults :: "(string \<Rightarrow> uuid) \<Rightarrow> database \<Rightarrow> unit db_result" where
  "seed_core_defaults fresh db =
     db_bind (db_each seed_permission permission_ALL db) (\<lambda>_ db.
     db_bind (seed_super_admin fresh db) (\<lambda>_ db.
     db_bind (seed_built_in_roles fresh db) (\<lambda>_ db.
     upgrade_role_defaults db)))"

section \<open>Sequencing rules\<close>

definition keeps :: "(database \<Rightarrow> bool) \<Rightarrow> (database \<Rightarrow> 'a db_result) \<Rightarrow> bool" where
  "keeps I m \<longleftrightarrow> (\<forall>db x db'. I db \<longrightarrow> m db = (Ok x, db') \<longrightarrow> I db')"

lemma keepsD: "keeps I m \<Longrightarrow> I db \<Longrightarrow> m db = (Ok x, db') \<Longrightarrow> I db'"
  by (auto simp: keeps_def)

lemma db_bind_Ok: "db_bind r k = (Ok y, db') \<longleftrightarrow> (\<exists>x db1. r = (Ok x, db1) \<and> k x db1 = (Ok y, db'))"
  by (auto simp: db_bind_def split: prod.splits sum.splits)

lemma keeps_bind: "keeps I m \<Longrightarrow> (\<And>x. keeps I (k x)) \<Longrightarrow> keeps I (\<lambda>db. db_bind (m db) k)"
  unfolding keeps_def db_bind_Ok by blast

lemma keeps_each: "(\<And>x. x \<in> set xs \<Longrightarrow> keeps I (f x)) \<Longrightarrow> keeps I (db_each f xs)"
proof (induction xs)
  case Nil
  then show ?case by (simp add: keeps_def)
next
  case (Cons x xs)
  then have "keeps I (\<lambda>db. db_bind (f x db) (\<lambda>_. db_each f xs))" by (intro keeps_bind) auto
  then show ?case by (simp add: keeps_def)
qed

lemma keeps_if: "(P \<Longrightarrow> keeps I m) \<Longrightarrow> (\<not> P \<Longrightarrow> keeps I n) \<Longrightarrow> keeps I (\<lambda>db. if P then m db else n db)"
  by (cases P) simp_all

lemma keeps_return: "keeps I (\<lambda>db. (Ok x, db))"
  by (simp add: keeps_def)

section \<open>Deltas\<close>

lemma push_missing_append: "\<exists>ys. push_missing ps u = u @ ys \<and> set (u @ ys) = set u \<union> set ps
    \<and> (distinct u \<longrightarrow> distinct (u @ ys))"
proof (induction ps arbitrary: u)
  case (Cons p ps)
  show ?case
  proof (cases "p \<in> set u")
    case True
    with Cons [of u] show ?thesis by auto
  next
    case False
    from Cons [of "u @ [p]"] obtain ys where
      "push_missing ps (u @ [p]) = (u @ [p]) @ ys" "set ((u @ [p]) @ ys) = set (u @ [p]) \<union> set ps"
      "distinct (u @ [p]) \<longrightarrow> distinct ((u @ [p]) @ ys)" by blast
    with False show ?thesis by (intro exI [of _ "p # ys"]) auto
  qed
qed simp

lemma set_delta_result: "set (delta_result c g r) = (set c - set r) \<union> set g"
proof -
  obtain ys where "push_missing g (filter (\<lambda>p. p \<notin> set r) c) = filter (\<lambda>p. p \<notin> set r) c @ ys"
    "set (filter (\<lambda>p. p \<notin> set r) c @ ys) = set (filter (\<lambda>p. p \<notin> set r) c) \<union> set g"
    using push_missing_append by blast
  then show ?thesis by (auto simp: delta_result_def)
qed

lemma distinct_delta_result: "distinct c \<Longrightarrow> distinct (delta_result c g r)"
  using push_missing_append [of g "filter (\<lambda>p. p \<notin> set r) c"] by (auto simp: delta_result_def)

lemma distinct_permissions_for_role:
  assumes "schema_ok db"
  shows "distinct (permissions_for_role db x)"
proof -
  have "distinct rows \<Longrightarrow> distinct (List.map_filter (\<lambda>(r, k). if r = x then from_key k else None) rows)"
    for rows :: "(uuid \<times> string) list"
  proof (induction rows)
    case (Cons row rows)
    obtain r k where row: "row = (r, k)" by (cases row)
    show ?case
    proof (cases "r = x \<and> from_key k \<noteq> None")
      case True
      then obtain p where p: "from_key k = Some p" by blast
      have "p \<notin> set (List.map_filter (\<lambda>(r, k). if r = x then from_key k else None) rows)"
      proof
        assume "p \<in> set (List.map_filter (\<lambda>(r, k). if r = x then from_key k else None) rows)"
        then obtain k' where "(x, k') \<in> set rows" "from_key k' = Some p"
          by (auto simp: List.map_filter_def split: if_splits)
        with p True row Cons.prems show False by (auto simp: from_key_Some)
      qed
      with Cons True p row show ?thesis by (simp add: List.map_filter_simps)
    next
      case False
      then have "(\<lambda>(r, k). if r = x then from_key k else None) row = None" using row by auto
      with Cons show ?thesis by (simp add: List.map_filter_simps)
    qed
  qed (simp add: List.map_filter_simps)
  with assms show ?thesis by (simp add: permissions_for_role_def schema_ok_def)
qed

lemma set_permissions_frame:
  assumes "set_permissions rid ps db = (Ok (), db')"
  shows "db_roles db' = db_roles db" "db_collation db' = db_collation db"
    "db_settings db' = db_settings db" "db_permissions db' = db_permissions db"
  using assms by (cases rule: set_permissions_result; simp)+

lemma apply_delta_own:
  assumes "schema_ok db" "apply_delta rid (permissions_for_role db rid) g rv db = (Ok (), db')"
  shows "own_permissions db' = (own_permissions db)(rid := (own_permissions db rid - set rv) \<union> set g)"
    "schema_ok db'" "db_roles db' = db_roles db" "db_collation db' = db_collation db"
proof -
  let ?c = "permissions_for_role db rid"
  let ?u = "delta_result ?c g rv"
  have own: "set ?c = own_permissions db rid" by (simp add: own_permissions_def)
  consider "set_permissions rid ?u db = (Ok (), db')" | "db' = db" "set ?u = set ?c"
  proof (cases "length ?u \<noteq> length ?c \<or> \<not> list_all (\<lambda>p. p \<in> set ?c) ?u")
    case True
    with assms(2) that show ?thesis by (simp add: apply_delta_def Let_def)
  next
    case False
    then have "set ?u \<subseteq> set ?c" "length ?u = length ?c" by (auto simp: list_all_iff)
    moreover have "distinct ?c" "distinct ?u"
      using distinct_permissions_for_role [OF assms(1)] distinct_delta_result by auto
    ultimately have "set ?u = set ?c" by (intro card_subset_eq) (auto simp: distinct_card)
    with False assms(2) that show ?thesis by (auto simp: apply_delta_def Let_def)
  qed
  then have "own_permissions db' = (own_permissions db)(rid := set ?u)
      \<and> schema_ok db' \<and> db_roles db' = db_roles db \<and> db_collation db' = db_collation db"
    using own_set_permissions(1) [of rid ?u db db'] set_permissions_frame [of rid ?u db db']
      set_permissions_schema_ok [OF assms(1)] assms(1) own
    by cases auto
  then show "own_permissions db' = (own_permissions db)(rid := (own_permissions db rid - set rv) \<union> set g)"
    "schema_ok db'" "db_roles db' = db_roles db" "db_collation db' = db_collation db"
    by (simp_all add: set_delta_result own)
qed


section \<open>Super Admin stays complete\<close>

text \<open>\<open>built_in_distinct\<close>: the collation tells the six built-in names apart.\<close>

definition built_in_distinct :: "database \<Rightarrow> bool" where
  "built_in_distinct db \<longleftrightarrow> distinct (map (db_collation db) BUILT_IN_ROLES)"

definition super_complete :: "database \<Rightarrow> bool" where
  "super_complete db \<longleftrightarrow> schema_ok db \<and> built_in_distinct db
     \<and> (\<exists>r \<in> set (db_roles db). same_name db (rl_name r) SUPER_ADMIN
          \<and> own_permissions db (rl_id r) = UNIV)"

lemma super_completeI:
  assumes "super_complete db" "schema_ok db'" "db_collation db' = db_collation db"
    and "set (db_roles db) \<subseteq> set (db_roles db')"
    and "\<And>r. r \<in> set (db_roles db) \<Longrightarrow> own_permissions db (rl_id r) = UNIV
      \<Longrightarrow> same_name db (rl_name r) SUPER_ADMIN \<Longrightarrow> own_permissions db' (rl_id r) = UNIV"
  shows "super_complete db'"
  using assms by (auto simp: super_complete_def built_in_distinct_def same_name_def)

lemma find_by_name_Some: "find_by_name db n = Some r \<Longrightarrow> r \<in> set (db_roles db) \<and> same_name db (rl_name r) n"
  by (auto simp: find_by_name_def find_Some_iff)

lemma own_not_empty: "own_permissions db x = UNIV \<Longrightarrow> permissions_for_role db x \<noteq> []"
  by (auto simp: own_permissions_def)

lemma create_frame:
  assumes "create a b c d e f db = (Ok r, db')"
  shows "db_roles db' = db_roles db @ [r]" "db_collation db' = db_collation db"
    "own_permissions db' = own_permissions db" "rl_id r = a" "rl_name r = b" "a \<notin> set (role_ids db)"
  using assms by (cases rule: create_cases; simp add: own_permissions_def permissions_for_role_def fun_eq_iff)+

lemma seed_role_keeps: "keeps super_complete (seed_role fresh name desc perms)"
  unfolding keeps_def
proof (intro allI impI)
  fix db x db'
  assume I: "super_complete db" and run: "seed_role fresh name desc perms db = (Ok x, db')"
  from run obtain r db1 where r: "(case find_by_name db name of Some existing \<Rightarrow> (Ok existing, db)
       | None \<Rightarrow> create (fresh name) name desc True None None db) = (Ok r, db1)"
    and perms: "(if permissions_for_role db1 (rl_id r) = [] then set_permissions (rl_id r) perms db1
      else (Ok (), db1)) = (Ok x, db')"
    by (auto simp: seed_role_def db_bind_Ok)
  have I1: "super_complete db1"
  proof (cases "find_by_name db name")
    case None
    with r have c: "create (fresh name) name desc True None None db = (Ok r, db1)" by simp
    have "schema_ok db1" using I by (auto simp: super_complete_def intro: create_schema_ok [OF _ c])
    then show ?thesis using I create_frame [OF c] by (intro super_completeI [OF I]) auto
  qed (use r I in simp)
  show "super_complete db'"
  proof (cases "permissions_for_role db1 (rl_id r) = []")
    case True
    with perms have sp: "set_permissions (rl_id r) perms db1 = (Ok (), db')" by simp
    have ok: "schema_ok db1" using I1 by (simp add: super_complete_def)
    have "own_permissions db' y = own_permissions db1 y" if "own_permissions db1 y = UNIV" for y
      using own_set_permissions(1) [OF sp] own_not_empty [OF that] True by auto
    then show ?thesis
      using set_permissions_frame [OF sp] set_permissions_schema_ok [OF ok sp]
      by (intro super_completeI [OF I1]) auto
  qed (use perms I1 in simp)
qed

lemma seed_built_in_roles_keeps: "keeps super_complete (seed_built_in_roles fresh)"
  unfolding seed_built_in_roles_def [abs_def] by (intro keeps_bind seed_role_keeps)

lemma upgrade_split_keeps: "keeps super_complete (upgrade_split r)"
  unfolding keeps_def
proof (intro allI impI)
  fix db x db'
  assume I: "super_complete db" and "upgrade_split r db = (Ok x, db')"
  then have run: "apply_delta (rl_id r) (permissions_for_role db (rl_id r))
      (split_grant (permissions_for_role db (rl_id r))) [] db = (Ok (), db')"
    by (simp add: upgrade_split_def Let_def)
  have "schema_ok db" using I by (simp add: super_complete_def)
  from apply_delta_own [OF this run] show "super_complete db'"
    by (intro super_completeI [OF I]) auto
qed

lemma upgrade_delta_keeps:
  assumes "rd_role delta \<in> set BUILT_IN_ROLES" "rd_role delta \<noteq> SUPER_ADMIN"
  shows "keeps super_complete (upgrade_delta delta)"
  unfolding keeps_def
proof (intro allI impI)
  fix db x db'
  assume I: "super_complete db" and run: "upgrade_delta delta db = (Ok x, db')"
  have ok: "schema_ok db" "built_in_distinct db" using I by (simp_all add: super_complete_def)
  show "super_complete db'"
  proof (cases "find_by_name db (rd_role delta)")
    case (Some r)
    with run have d: "apply_delta (rl_id r) (permissions_for_role db (rl_id r))
        (rd_grant delta) (rd_revoke delta) db = (Ok (), db')"
      by (simp add: upgrade_delta_def)
    have "SUPER_ADMIN \<in> set BUILT_IN_ROLES" by (simp add: BUILT_IN_ROLES_def)
    then have "\<not> same_name db (rd_role delta) SUPER_ADMIN"
      using assms ok(2) by (auto simp: built_in_distinct_def same_name_def distinct_map inj_on_def)
    then have ne: "rl_id r' \<noteq> rl_id r"
      if "r' \<in> set (db_roles db)" "same_name db (rl_name r') SUPER_ADMIN" for r'
      using find_by_name_Some [OF Some] that find_by_id_role [OF ok(1)]
      by (metis option.inject same_name_def)
    show ?thesis
      using apply_delta_own [OF ok(1) d] by (intro super_completeI [OF I]) (simp_all add: ne)
  qed (use run I in \<open>simp add: upgrade_delta_def\<close>)
qed

lemma settings_set_keeps: "keeps super_complete (settings_set k v)"
  by (auto simp: keeps_def settings_set_def super_complete_def schema_ok_def role_ids_def
      built_in_distinct_def same_name_def own_permissions_def permissions_for_role_def)

lemma deltas_built_in:
  "delta \<in> set (V2_DELTAS @ V3_DELTAS @ V4_DELTAS)
   \<Longrightarrow> rd_role delta \<in> set BUILT_IN_ROLES \<and> rd_role delta \<noteq> SUPER_ADMIN"
  by (auto simp: V2_DELTAS_def V3_DELTAS_def V4_DELTAS_def BUILT_IN_ROLES_def role_names)

lemma upgrade_delta_each_keeps:
  assumes "set ds \<subseteq> set (V2_DELTAS @ V3_DELTAS @ V4_DELTAS)"
  shows "keeps super_complete (db_each upgrade_delta ds)"
  using assms deltas_built_in by (intro keeps_each upgrade_delta_keeps) blast+

lemma upgrade_to_v2_keeps: "keeps super_complete upgrade_to_v2"
proof -
  have "keeps super_complete (\<lambda>d. db_bind (db_each upgrade_split rs d) (\<lambda>_ db. db_each upgrade_delta V2_DELTAS db))"
    for rs by (intro keeps_bind keeps_each upgrade_split_keeps upgrade_delta_each_keeps) auto
  then show ?thesis by (simp add: keeps_def upgrade_to_v2_def)
qed

lemma upgrade_later_keeps: "keeps super_complete (upgrade_later from)"
  unfolding upgrade_later_def [abs_def]
  by (intro keeps_bind keeps_if keeps_return settings_set_keeps upgrade_delta_each_keeps) auto

lemma upgrade_keeps: "keeps super_complete upgrade_role_defaults"
proof -
  have "keeps super_complete (\<lambda>d. db_bind (if from < 2 then upgrade_to_v2 d else (Ok (), d))
      (\<lambda>_ db. upgrade_later from db))" for "from"
    by (intro keeps_bind keeps_if keeps_return upgrade_to_v2_keeps upgrade_later_keeps)
  then show ?thesis by (simp add: keeps_def upgrade_role_defaults_def Let_def)
qed

lemma seed_permissions_schema: "keeps schema_ok (db_each seed_permission ps)"
  by (intro keeps_each) (auto simp: keeps_def seed_permission_def schema_ok_def role_ids_def)

lemma seed_permissions_distinct: "keeps built_in_distinct (db_each seed_permission ps)"
  by (intro keeps_each) (auto simp: keeps_def seed_permission_def built_in_distinct_def)

lemma card_permissions: "card (S \<union> set permission_ALL) = card S \<longleftrightarrow> S = UNIV"
proof -
  have fin: "finite (UNIV :: permission set)" using permission_ALL_UNIV by (metis List.finite_set)
  then have "card S = card (UNIV :: permission set) \<Longrightarrow> S = UNIV" by (intro card_subset_eq) auto
  then show ?thesis by (auto simp: permission_ALL_UNIV)
qed

lemma seed_super_admin_completes:
  assumes "schema_ok db" "built_in_distinct db" "seed_super_admin fresh db = (Ok x, db')"
  shows "super_complete db'"
proof -
  from assms(3) obtain r db1 where r: "(case find_by_name db SUPER_ADMIN of Some existing \<Rightarrow> (Ok existing, db)
       | None \<Rightarrow> create (fresh SUPER_ADMIN) SUPER_ADMIN ''Full administrative control.'' True None None db)
      = (Ok r, db1)"
    and perms: "(if card (set (permissions_for_role db1 (rl_id r)) \<union> set permission_ALL)
        \<noteq> card (set (permissions_for_role db1 (rl_id r)))
      then set_permissions (rl_id r) (filter (\<lambda>p. p \<in> set (permissions_for_role db1 (rl_id r)) \<union> set permission_ALL)
        permission_ALL) db1 else (Ok (), db1)) = (Ok x, db')"
    by (auto simp: seed_super_admin_def db_bind_Ok Let_def)
  have db1: "schema_ok db1" "built_in_distinct db1" "r \<in> set (db_roles db1)" "same_name db1 (rl_name r) SUPER_ADMIN"
  proof -
    consider "find_by_name db SUPER_ADMIN = Some r" "db1 = db"
      | "create (fresh SUPER_ADMIN) SUPER_ADMIN ''Full administrative control.'' True None None db = (Ok r, db1)"
      using r by (auto split: option.splits)
    then have "schema_ok db1 \<and> built_in_distinct db1 \<and> r \<in> set (db_roles db1) \<and> same_name db1 (rl_name r) SUPER_ADMIN"
    proof cases
      case 1
      with assms find_by_name_Some show ?thesis by blast
    next
      case 2
      from create_frame [OF 2] create_schema_ok [OF assms(1) 2] assms(2) show ?thesis
        by (simp add: built_in_distinct_def same_name_def)
    qed
    then show "schema_ok db1" "built_in_distinct db1" "r \<in> set (db_roles db1)" "same_name db1 (rl_name r) SUPER_ADMIN"
      by blast+
  qed
  show ?thesis
  proof (cases "own_permissions db1 (rl_id r) = UNIV")
    case True
    with perms db1 have "db' = db1" by (simp add: own_permissions_def)
    with True db1 show ?thesis by (auto simp: super_complete_def)
  next
    case False
    with perms have sp: "set_permissions (rl_id r) (filter (\<lambda>p. True) permission_ALL) db1 = (Ok (), db')"
      by (simp add: own_permissions_def card_permissions)
    from set_permissions_frame [OF sp] own_set_permissions(1) [OF sp] set_permissions_schema_ok [OF db1(1) sp] db1
    show ?thesis by (auto simp: super_complete_def built_in_distinct_def same_name_def permission_ALL_UNIV)
  qed
qed

section \<open>Start-up does not fail\<close>

text \<open>
  \<open>seedable fresh db\<close>: the catalogue is in place, and the identifiers that would be drawn for the
  built-in roles still missing are new and differ from each other, as \<^verbatim>\<open>Uuid::new_v4\<close> makes them.
\<close>

definition fresh_ids :: "(string \<Rightarrow> uuid) \<Rightarrow> database \<Rightarrow> bool" where
  "fresh_ids fresh db \<longleftrightarrow> inj_on fresh (set BUILT_IN_ROLES)
     \<and> (\<forall>n \<in> set BUILT_IN_ROLES. find_by_name db n = None \<longrightarrow> fresh n \<notin> set (role_ids db))"

definition seedable :: "(string \<Rightarrow> uuid) \<Rightarrow> database \<Rightarrow> bool" where
  "seedable fresh db \<longleftrightarrow> schema_ok db \<and> built_in_distinct db \<and> fresh_ids fresh db
     \<and> range as_key \<subseteq> set (db_permissions db)"

definition succeeds :: "(database \<Rightarrow> bool) \<Rightarrow> (database \<Rightarrow> unit db_result) \<Rightarrow> bool" where
  "succeeds I m \<longleftrightarrow> (\<forall>db. I db \<longrightarrow> (\<exists>db'. m db = (Ok (), db') \<and> I db'))"

lemma succeedsE:
  assumes "succeeds I m" "I db"
  obtains db' where "m db = (Ok (), db')" "I db'"
  using assms by (auto simp: succeeds_def)

lemma succeeds_bind: "succeeds I m \<Longrightarrow> succeeds I (k ()) \<Longrightarrow> succeeds I (\<lambda>db. db_bind (m db) k)"
  unfolding succeeds_def db_bind_def by fastforce

lemma succeeds_each: "(\<And>x. x \<in> set xs \<Longrightarrow> succeeds I (f x)) \<Longrightarrow> succeeds I (db_each f xs)"
proof (induction xs)
  case Nil
  then show ?case by (simp add: succeeds_def)
next
  case (Cons x xs)
  then have "succeeds I (\<lambda>db. db_bind (f x db) (\<lambda>_. db_each f xs))" by (intro succeeds_bind) auto
  then show ?case by (simp add: succeeds_def)
qed

lemma succeeds_if: "(P \<Longrightarrow> succeeds I m) \<Longrightarrow> (\<not> P \<Longrightarrow> succeeds I n) \<Longrightarrow> succeeds I (\<lambda>db. if P then m db else n db)"
  by (cases P) simp_all

lemma succeeds_return: "succeeds I (\<lambda>db. (Ok (), db))"
  by (simp add: succeeds_def)

lemma seedable_same_roles:
  assumes "seedable fresh db" "schema_ok db'" "db_roles db' = db_roles db"
    "db_collation db' = db_collation db" "db_permissions db' = db_permissions db"
  shows "seedable fresh db'"
  using assms by (simp add: seedable_def built_in_distinct_def fresh_ids_def find_by_name_def
      same_name_def [abs_def] role_ids_def)

lemma set_permissions_succeeds:
  assumes "seedable fresh db" "distinct ps" "rid \<in> set (role_ids db)"
  shows "\<exists>db'. set_permissions rid ps db = (Ok (), db') \<and> seedable fresh db'"
proof -
  have "is_ok (fst (set_permissions rid ps db))"
    using assms by (auto simp: set_permissions_ok seedable_def)
  then obtain db' where sp: "set_permissions rid ps db = (Ok (), db')"
    by (cases "set_permissions rid ps db") (auto simp: is_ok_def split: sum.splits)
  moreover have "seedable fresh db'"
    using set_permissions_frame [OF sp] set_permissions_schema_ok [OF _ sp] assms(1)
    by (intro seedable_same_roles [OF assms(1)]) (auto simp: seedable_def)
  ultimately show ?thesis by blast
qed

lemma find_or_create:
  assumes "seedable fresh db" "name \<in> set BUILT_IN_ROLES"
  shows "\<exists>r db'. (case find_by_name db name of Some existing \<Rightarrow> (Ok existing, db)
       | None \<Rightarrow> create (fresh name) name desc True None None db) = (Ok r, db')
     \<and> seedable fresh db' \<and> rl_id r \<in> set (role_ids db')"
proof (cases "find_by_name db name")
  case None
  obtain res db' where c: "create (fresh name) name desc True None None db = (res, db')" by fastforce
  have new: "fresh name \<notin> set (role_ids db)" using assms None by (simp add: seedable_def fresh_ids_def)
  obtain r where r: "res = Ok r"
    using c new None by (auto simp: create_def Let_def find_by_id_def find_append role_ids_def find_None_iff
        dest: sym split: option.splits)
  note f = create_frame [OF c [unfolded r]]
  have ids: "set (role_ids db') = insert (fresh name) (set (role_ids db))"
    using f by (simp add: role_ids_def)
  have "fresh n \<notin> set (role_ids db')" if "n \<in> set BUILT_IN_ROLES" "find_by_name db' n = None" for n
  proof -
    have "find_by_name db n = None" "n \<noteq> name"
      using that(2) f by (auto simp: find_by_name_None same_name_def)
    then show ?thesis
      using that(1) assms ids by (auto simp: seedable_def fresh_ids_def inj_on_def)
  qed
  then have "fresh_ids fresh db'" using assms by (simp add: seedable_def fresh_ids_def)
  moreover have "schema_ok db'" using assms(1) create_schema_ok [OF _ c] by (simp add: seedable_def)
  moreover have "db_permissions db' = db_permissions db" using c by (cases rule: create_cases) auto
  ultimately have "seedable fresh db'" using assms f by (simp add: seedable_def built_in_distinct_def)
  with None c r f ids show ?thesis by auto
next
  case (Some r)
  then have "rl_id r \<in> set (role_ids db)" using find_by_name_Some by (auto simp: role_ids_def)
  with Some assms show ?thesis by simp
qed

lemma seed_role_succeeds:
  assumes "name \<in> set BUILT_IN_ROLES" "distinct perms"
  shows "succeeds (seedable fresh) (seed_role fresh name desc perms)"
  unfolding succeeds_def
proof (intro allI impI)
  fix db assume "seedable fresh db"
  from find_or_create [OF this assms(1), of desc] obtain r db1 where
    "(case find_by_name db name of Some existing \<Rightarrow> (Ok existing, db)
       | None \<Rightarrow> create (fresh name) name desc True None None db) = (Ok r, db1)"
    "seedable fresh db1" "rl_id r \<in> set (role_ids db1)" by blast
  with set_permissions_succeeds [OF _ assms(2)]
  show "\<exists>db'. seed_role fresh name desc perms db = (Ok (), db') \<and> seedable fresh db'"
    by (auto simp: seed_role_def db_bind_def)
qed

lemma seed_super_admin_succeeds: "succeeds (seedable fresh) (seed_super_admin fresh)"
  unfolding succeeds_def
proof (intro allI impI)
  fix db assume "seedable fresh db"
  moreover have "SUPER_ADMIN \<in> set BUILT_IN_ROLES" by (simp add: BUILT_IN_ROLES_def)
  ultimately obtain r db1 where
    "(case find_by_name db SUPER_ADMIN of Some existing \<Rightarrow> (Ok existing, db)
       | None \<Rightarrow> create (fresh SUPER_ADMIN) SUPER_ADMIN ''Full administrative control.'' True None None db)
     = (Ok r, db1)"
    and ok: "seedable fresh db1" "rl_id r \<in> set (role_ids db1)" using find_or_create by blast
  moreover have "distinct (filter P permission_ALL)" for P by (simp add: distinct_permission_ALL)
  note set_permissions_succeeds [OF ok(1) this ok(2), of "\<lambda>_. True"]
  ultimately show "\<exists>db'. seed_super_admin fresh db = (Ok (), db') \<and> seedable fresh db'"
    by (auto simp: seed_super_admin_def db_bind_def Let_def)
qed

lemma apply_delta_succeeds:
  assumes "seedable fresh db" "rid \<in> set (role_ids db)"
  shows "\<exists>db'. apply_delta rid (permissions_for_role db rid) g rv db = (Ok (), db') \<and> seedable fresh db'"
proof -
  have "distinct (delta_result (permissions_for_role db rid) g rv)"
    using assms(1) by (intro distinct_delta_result distinct_permissions_for_role) (simp add: seedable_def)
  from set_permissions_succeeds [OF assms(1) this assms(2)] assms(1) show ?thesis
    by (auto simp: apply_delta_def Let_def)
qed

text \<open>The loop over the roles runs on the list read before it; those rows stay.\<close>

lemma upgrade_split_succeeds:
  "succeeds (\<lambda>db. seedable fresh db \<and> rids \<subseteq> set (role_ids db)) (upgrade_split r)"
  if "rl_id r \<in> rids" for rids
  unfolding succeeds_def
proof (intro allI impI)
  fix db assume I: "seedable fresh db \<and> rids \<subseteq> set (role_ids db)"
  with that obtain db' where d: "apply_delta (rl_id r) (permissions_for_role db (rl_id r))
      (split_grant (permissions_for_role db (rl_id r))) [] db = (Ok (), db')" "seedable fresh db'"
    using apply_delta_succeeds by blast
  have "schema_ok db" using I by (simp add: seedable_def)
  from apply_delta_own(3) [OF this d(1)] have "role_ids db' = role_ids db" by (simp add: role_ids_def)
  with I d show "\<exists>db'. upgrade_split r db = (Ok (), db') \<and> seedable fresh db' \<and> rids \<subseteq> set (role_ids db')"
    by (simp add: upgrade_split_def Let_def)
qed

lemma upgrade_delta_succeeds: "succeeds (seedable fresh) (upgrade_delta delta)"
  unfolding succeeds_def
proof (intro allI impI)
  fix db assume I: "seedable fresh db"
  show "\<exists>db'. upgrade_delta delta db = (Ok (), db') \<and> seedable fresh db'"
  proof (cases "find_by_name db (rd_role delta)")
    case (Some r)
    then have "rl_id r \<in> set (role_ids db)" using find_by_name_Some by (auto simp: role_ids_def)
    from apply_delta_succeeds [OF I this] Some show ?thesis by (simp add: upgrade_delta_def)
  qed (use I in \<open>simp add: upgrade_delta_def\<close>)
qed

lemma settings_set_succeeds: "succeeds (seedable fresh) (settings_set k v)"
  unfolding succeeds_def
proof (intro allI impI)
  fix db assume I: "seedable fresh db"
  let ?db = "snd (settings_set k v db)"
  have frame: "db_roles ?db = db_roles db" "db_collation ?db = db_collation db"
    "db_permissions ?db = db_permissions db" "schema_ok ?db = schema_ok db"
    by (simp_all add: settings_set_def schema_ok_def role_ids_def)
  with I have "seedable fresh ?db" by (intro seedable_same_roles [OF I]) (simp_all add: seedable_def)
  moreover have "settings_set k v db = (Ok (), ?db)" by (simp add: settings_set_def)
  ultimately show "\<exists>db'. settings_set k v db = (Ok (), db') \<and> seedable fresh db'" by blast
qed

lemma upgrade_delta_each_succeeds: "succeeds (seedable fresh) (db_each upgrade_delta ds)"
  by (intro succeeds_each upgrade_delta_succeeds)

lemma upgrade_to_v2_succeeds: "succeeds (seedable fresh) upgrade_to_v2"
  unfolding succeeds_def
proof (intro allI impI)
  fix db assume I: "seedable fresh db"
  let ?rids = "set (role_ids db)"
  have "succeeds (\<lambda>d. seedable fresh d \<and> ?rids \<subseteq> set (role_ids d)) (db_each upgrade_split (list_roles db))"
    by (intro succeeds_each upgrade_split_succeeds) (auto simp: list_roles_def role_ids_def)
  then obtain db1 where "db_each upgrade_split (list_roles db) db = (Ok (), db1)" "seedable fresh db1"
    using I by (auto simp: succeeds_def)
  with upgrade_delta_each_succeeds [of fresh V2_DELTAS]
  show "\<exists>db'. upgrade_to_v2 db = (Ok (), db') \<and> seedable fresh db'"
    by (auto simp: upgrade_to_v2_def db_bind_def succeeds_def)
qed

lemma upgrade_later_succeeds: "succeeds (seedable fresh) (upgrade_later from)"
  unfolding upgrade_later_def [abs_def]
  by (intro succeeds_bind succeeds_if succeeds_return upgrade_delta_each_succeeds settings_set_succeeds)

lemma upgrade_succeeds: "succeeds (seedable fresh) upgrade_role_defaults"
proof -
  have "succeeds (seedable fresh) (\<lambda>d. db_bind (if from < 2 then upgrade_to_v2 d else (Ok (), d))
      (\<lambda>_ db. upgrade_later from db))" for "from"
    by (intro succeeds_bind succeeds_if succeeds_return upgrade_to_v2_succeeds upgrade_later_succeeds)
  then show ?thesis by (simp add: succeeds_def upgrade_role_defaults_def Let_def)
qed

lemma seed_built_in_roles_succeeds: "succeeds (seedable fresh) (seed_built_in_roles fresh)"
  unfolding seed_built_in_roles_def [abs_def]
  by (intro succeeds_bind seed_role_succeeds) (simp_all add: BUILT_IN_ROLES_def)

lemma seed_permissions_run:
  "\<exists>db'. db_each seed_permission ps db = (Ok (), db') \<and> db_roles db' = db_roles db
     \<and> db_collation db' = db_collation db \<and> as_key ` set ps \<subseteq> set (db_permissions db')
     \<and> set (db_permissions db) \<subseteq> set (db_permissions db')"
proof (induction ps arbitrary: db)
  case (Cons p ps)
  obtain db1 where db1: "seed_permission p db = (Ok (), db1)" "db_roles db1 = db_roles db"
    "db_collation db1 = db_collation db" "as_key p \<in> set (db_permissions db1)"
    "set (db_permissions db) \<subseteq> set (db_permissions db1)"
    by (cases "as_key p \<in> set (db_permissions db)") (auto simp: seed_permission_def)
  with Cons [of db1] show ?case by (force simp: db_bind_def)
qed simp

section \<open>Properties\<close>

text \<open>C14: Start-up seeding succeeds on every database that obeys the schema, and always ends with a
  Super Admin role that holds every permission of the catalogue, whatever the roles held before and
  whichever version the defaults are upgraded from; the no-ceiling test of the delegation rules relies
  on it.\<close>

theorem seed_completes_super_admin:
  assumes "schema_ok db" "built_in_distinct db" "fresh_ids fresh db"
  shows "\<exists>db' r. seed_core_defaults fresh db = (Ok (), db') \<and> find_by_name db' SUPER_ADMIN = Some r
    \<and> set (permissions_for_role db' (rl_id r)) = UNIV"
proof -
  obtain db1 where db1: "db_each seed_permission permission_ALL db = (Ok (), db1)" "db_roles db1 = db_roles db"
    "db_collation db1 = db_collation db" "range as_key \<subseteq> set (db_permissions db1)"
    using seed_permissions_run [of permission_ALL db] by (auto simp: permission_ALL_UNIV)
  have ok1: "schema_ok db1" "built_in_distinct db1"
    using keepsD [OF seed_permissions_schema assms(1) db1(1)]
      keepsD [OF seed_permissions_distinct assms(2) db1(1)] .
  have "seedable fresh db1"
    using assms ok1 db1 by (simp add: seedable_def fresh_ids_def find_by_name_def same_name_def [abs_def] role_ids_def)
  then obtain db2 where db2: "seed_super_admin fresh db1 = (Ok (), db2)" "seedable fresh db2"
    by (rule succeedsE [OF seed_super_admin_succeeds])
  obtain db3 where db3: "seed_built_in_roles fresh db2 = (Ok (), db3)" "seedable fresh db3"
    using seed_built_in_roles_succeeds db2(2) by (rule succeedsE)
  obtain db' where db': "upgrade_role_defaults db3 = (Ok (), db')"
    using upgrade_succeeds db3(2) by (rule succeedsE)
  have run: "seed_core_defaults fresh db = (Ok (), db')"
    using db1(1) db2(1) db3(1) db' by (simp add: seed_core_defaults_def db_bind_def)
  have "super_complete db'"
    using seed_super_admin_completes [OF ok1 db2(1)] keepsD [OF seed_built_in_roles_keeps _ db3(1)]
      keepsD [OF upgrade_keeps _ db'] by blast
  then obtain r where r: "schema_ok db'" "r \<in> set (db_roles db')" "same_name db' (rl_name r) SUPER_ADMIN"
    "own_permissions db' (rl_id r) = UNIV" by (auto simp: super_complete_def)
  then have "find_by_name db' SUPER_ADMIN \<noteq> None" by (auto simp: find_by_name_None)
  then obtain r' where r': "find_by_name db' SUPER_ADMIN = Some r'" by blast
  with find_by_name_Some [OF r'] r have "r' = r"
    by (auto simp: schema_ok_def distinct_map inj_on_def same_name_def)
  with run r' r(4) show ?thesis by (simp add: own_permissions_def)
qed

text \<open>An empty installation.\<close>

definition demo_empty :: database where
  "demo_empty = \<lparr>db_collation = to_ascii_lowercase, db_users = [], db_permissions = [], db_modules = [],
     db_roles = [], db_role_permissions = [], db_user_roles = [], db_role_module_visibility = [],
     db_settings = [], db_log_fails = (\<lambda>_. False), db_audit_log = []\<rparr>"

definition demo_ids :: "string \<Rightarrow> uuid" where
  "demo_ids name = length (takeWhile (\<lambda>n. n \<noteq> name) BUILT_IN_ROLES)"

theorem seed_completes_super_admin_witness:
  "\<exists>db' r. seed_core_defaults demo_ids demo_empty = (Ok (), db') \<and> find_by_name db' SUPER_ADMIN = Some r
     \<and> set (permissions_for_role db' (rl_id r)) = UNIV"
proof -
  have "schema_ok demo_empty" by (simp add: schema_ok_def demo_empty_def role_ids_def)
  moreover have "built_in_distinct demo_empty" by code_simp
  moreover have "fresh_ids demo_ids demo_empty"
    by (auto simp: fresh_ids_def inj_on_def demo_ids_def BUILT_IN_ROLES_def role_names demo_empty_def role_ids_def)
  ultimately show ?thesis by (rule seed_completes_super_admin)
qed

lemma settings_get_set:
  assumes "settings_set k v db = (Ok (), db')"
  shows "settings_get db' k = Some v"
proof (cases "\<exists>(k', w) \<in> set (db_settings db). same_name db k' k")
  case True
  have "find (\<lambda>(k', w). same_name db k' k) (map (\<lambda>(k', w). if same_name db k' k then (k', v) else (k', w)) rows)
      = map_option (\<lambda>(k', w). (k', v)) (find (\<lambda>(k', w). same_name db k' k) rows)" for rows
    by (induction rows) auto
  moreover have "find (\<lambda>(k', w). same_name db k' k) (db_settings db) \<noteq> None"
    using True by (auto simp: find_None_iff)
  ultimately show ?thesis using assms True
    by (auto simp: settings_set_def settings_get_def same_name_def split: option.splits)
next
  case False
  then have "find (\<lambda>(k', w). same_name db k' k) (db_settings db) = None" by (auto simp: find_None_iff)
  with False assms show ?thesis
    by (auto simp: settings_set_def settings_get_def same_name_def find_append split: if_splits)
qed

text \<open>C34: Each version of the role defaults is applied once: after an upgrade that succeeded, the
  recorded version is the current one, and upgrading again changes nothing.\<close>

theorem upgrade_applied_once:
  assumes "upgrade_role_defaults db = (Ok (), db')"
  shows "settings_get_u32 db' ROLE_DEFAULTS_VERSION_KEY 1 \<ge> ROLE_DEFAULTS_VERSION
    \<and> upgrade_role_defaults db' = (Ok (), db')"
proof -
  have "settings_get_u32 db' ROLE_DEFAULTS_VERSION_KEY 1 \<ge> ROLE_DEFAULTS_VERSION"
  proof (cases "settings_get_u32 db ROLE_DEFAULTS_VERSION_KEY 1 \<ge> ROLE_DEFAULTS_VERSION")
    case False
    with assms obtain d where "settings_set ROLE_DEFAULTS_VERSION_KEY
        (JNumber (PosInt (ucast ROLE_DEFAULTS_VERSION))) d = (Ok (), db')"
      unfolding upgrade_role_defaults_def Let_def if_not_P [OF False] db_bind_Ok upgrade_later_def by blast
    from settings_get_set [OF this] show ?thesis
      by (simp add: settings_get_u32_def u32_try_from_def ROLE_DEFAULTS_VERSION_def)
  qed (use assms in \<open>simp add: upgrade_role_defaults_def\<close>)
  then show ?thesis by (simp add: upgrade_role_defaults_def)
qed

theorem upgrade_applied_once_witness:
  "upgrade_role_defaults (snd (upgrade_role_defaults demo_empty)) = (Ok (), snd (upgrade_role_defaults demo_empty))"
proof -
  have "fst (upgrade_role_defaults demo_empty) = Ok ()" by code_simp
  then have "upgrade_role_defaults demo_empty = (Ok (), snd (upgrade_role_defaults demo_empty))"
    by (metis prod.collapse)
  from upgrade_applied_once [OF this] show ?thesis by blast
qed

text \<open>C35: Start-up refills a built-in role whose permissions an administrator had all revoked: the
  test for a new role is that its permission set is empty.\<close>

theorem seed_role_refills_emptied_role:
  assumes "find_by_name db name = Some r" "permissions_for_role db (rl_id r) = []"
    and "distinct perms" "as_key ` set perms \<subseteq> set (db_permissions db)"
  shows "set (permissions_for_role (snd (seed_role fresh name desc perms db)) (rl_id r)) = set perms"
proof -
  have "rl_id r \<in> set (role_ids db)" using find_by_name_Some [OF assms(1)] by (auto simp: role_ids_def)
  then have "is_ok (fst (set_permissions (rl_id r) perms db))"
    using assms(3,4) by (simp add: set_permissions_ok)
  then obtain db' where sp: "set_permissions (rl_id r) perms db = (Ok (), db')"
    by (cases "set_permissions (rl_id r) perms db") (auto simp: is_ok_def split: sum.splits)
  with assms have "seed_role fresh name desc perms db = (Ok (), db')"
    by (simp add: seed_role_def db_bind_def)
  with own_set_permissions(1) [OF sp] show ?thesis by (simp add: own_permissions_def fun_eq_iff)
qed

theorem seed_role_refills_emptied_role_witness:
  "set (permissions_for_role (snd (seed_role demo_ids ''Auditor'' [] [AuditView]
      (snd (set_permissions 4 [] demo_db)))) 4) = {AuditView}"
proof -
  have "find_by_name (snd (set_permissions 4 [] demo_db)) ''Auditor'' = Some (demo_role 4 ''Auditor'' None)"
    "permissions_for_role (snd (set_permissions 4 [] demo_db)) 4 = []"
    "''audit.view'' \<in> set (db_permissions (snd (set_permissions 4 [] demo_db)))"
    by code_simp+
  with seed_role_refills_emptied_role [of "snd (set_permissions 4 [] demo_db)" "''Auditor''"
      "demo_role 4 ''Auditor'' None" "[AuditView]"] show ?thesis
    by (simp add: demo_role_def)
qed

text \<open>C36: Completing Super Admin rewrites its rows: when a permission was missing, every row with a key
  outside the catalogue is dropped.\<close>

theorem seed_super_admin_drops_unknown_keys:
  assumes "find_by_name db SUPER_ADMIN = Some r" "set (permissions_for_role db (rl_id r)) \<noteq> UNIV"
    and "seed_super_admin fresh db = (Ok (), db')"
  shows "(rl_id r, k) \<in> set (db_role_permissions db') \<longleftrightarrow> k \<in> range as_key"
proof -
  have "set_permissions (rl_id r) (filter (\<lambda>p. True) permission_ALL) db = (Ok (), db')"
    using assms by (simp add: seed_super_admin_def db_bind_def Let_def card_permissions)
  then show ?thesis by (cases rule: set_permissions_result) (auto simp: image_iff)
qed

definition demo_super_db :: database where
  "demo_super_db = demo_empty\<lparr>db_permissions := ''custom.key'' # map as_key permission_ALL,
     db_roles := [demo_role 1 ''Super Admin'' None], db_role_permissions := [(1, ''custom.key'')]\<rparr>"

theorem seed_super_admin_drops_unknown_keys_witness:
  "(1, ''custom.key'') \<in> set (db_role_permissions demo_super_db)
   \<and> (1, ''custom.key'') \<notin> set (db_role_permissions (snd (seed_super_admin demo_ids demo_super_db)))"
proof -
  have f: "find_by_name demo_super_db SUPER_ADMIN = Some (demo_role 1 ''Super Admin'' None)" by code_simp
  have n: "set (permissions_for_role demo_super_db (rl_id (demo_role 1 ''Super Admin'' None))) \<noteq> UNIV"
  proof -
    have "permissions_for_role demo_super_db (rl_id (demo_role 1 ''Super Admin'' None)) = []" by code_simp
    then show ?thesis by simp
  qed
  have "fst (seed_super_admin demo_ids demo_super_db) = Ok ()" by code_simp
  then have s: "seed_super_admin demo_ids demo_super_db = (Ok (), snd (seed_super_admin demo_ids demo_super_db))"
    by (metis prod.collapse)
  have "as_key p \<noteq> ''custom.key''" for p by (cases p) simp_all
  then have k: "''custom.key'' \<notin> range as_key" by force
  from seed_super_admin_drops_unknown_keys [OF f n s, of "''custom.key''"] k
  show ?thesis by (simp add: demo_role_def demo_super_db_def demo_empty_def)
qed

end
