(* ===== verification/Delegation.thy ===== *)
theory Delegation
  imports Role_Hierarchy
begin

text \<open>
  Delegated role management: the ceiling checks of \<^verbatim>\<open>crates/web/src/common.rs\<close> and the handlers
  of \<^verbatim>\<open>crates/web/src/routes/roles.rs\<close> that create, edit, delete and re-grant roles.

  A handler takes the submitted form, the CSRF cookie, the authorization context and the database,
  and returns its answer with the database after it; it runs on its own, not interleaved with
  another request. Identifiers drawn by \<^verbatim>\<open>Uuid::new_v4\<close> are arguments. \<open>parse_uuid\<close> stands for
  the \<^verbatim>\<open>uuid\<close> crate's parser and \<open>parse_json_strings\<close> for \<^verbatim>\<open>serde_json::from_str\<close> into a list of
  strings. Where the code turns a \<^verbatim>\<open>HashSet\<close> into a list, whose order the language leaves open,
  the list here follows the catalogue.
\<close>

section \<open>Answers of a handler\<close>

datatype page = RoleDetailPage uuid | RolesListPage

datatype response =
    Redirect_Role uuid
  | Redirect_Roles
  | Rendered page string
  | Confirm_Delete uuid
  | Confirm_Permissions uuid nat nat "permission set"

type_synonym handler_result = "(app_error + response) \<times> database"

text \<open>An error of the database reaches the client as \<^verbatim>\<open>AppError::Internal\<close>; its text is the driver's.\<close>

fun db_error_text :: "db_error \<Rightarrow> string" where
  "db_error_text Duplicate_Key = ''duplicate key''"
| "db_error_text Foreign_Key = ''foreign key''"
| "db_error_text Statement_Failed = ''statement failed''"
| "db_error_text Row_Vanished = ''role vanished immediately after insert''"

definition then_db :: "'a db_result \<Rightarrow> ('a \<Rightarrow> database \<Rightarrow> handler_result) \<Rightarrow> handler_result" where
  "then_db r k = (case r of (Inl e, db) \<Rightarrow> (Err (Internal (db_error_text e)), db)
     | (Inr x, db) \<Rightarrow> k x db)"

definition guarded :: "(app_error + unit) \<Rightarrow> database \<Rightarrow> (database \<Rightarrow> handler_result) \<Rightarrow> handler_result" where
  "guarded r db k = (case r of Inl e \<Rightarrow> (Err e, db) | Inr _ \<Rightarrow> k db)"

section \<open>Checks shared by the handlers\<close>

definition csrf_verify :: "string option \<Rightarrow> string \<Rightarrow> bool" where
  "csrf_verify cookie submitted \<longleftrightarrow> submitted \<noteq> [] \<and> cookie = Some submitted"

definition require_csrf :: "string option \<Rightarrow> string \<Rightarrow> app_error + unit" where
  "require_csrf cookie submitted = (if csrf_verify cookie submitted then Ok ()
     else Err (Validation ''Your session expired or this form was submitted from an untrusted origin. Please try again.''))"

definition require_typed_confirmation :: "string \<Rightarrow> string \<Rightarrow> app_error + unit" where
  "require_typed_confirmation submitted expected = (if trim submitted = expected then Ok ()
     else Err (Validation (''Typed confirmation didn'' @ [CHR 0x27] @ ''t match '' @ [CHR 0x22]
       @ expected @ [CHR 0x22] @ '' -- please try again.'')))"

definition safe_return_to :: "string \<Rightarrow> string \<Rightarrow> string" where
  "safe_return_to return_to fallback =
     (if starts_with return_to ''/'' \<and> \<not> starts_with return_to ''//'' then return_to else fallback)"

definition has_no_ceiling :: "auth_context \<Rightarrow> bool" where
  "has_no_ceiling ctx \<longleftrightarrow> list_all (has ctx) permission_ALL"

definition ensure_can_manage_role :: "database \<Rightarrow> auth_context \<Rightarrow> role \<Rightarrow> app_error + unit" where
  "ensure_can_manage_role db ctx r =
     (if \<not> has ctx RolesManage then Err Forbidden
      else if has_no_ceiling ctx then Ok ()
      else if rl_is_system r then Err Forbidden
      else let own_roles = roles_for_user db (user_id ctx) in
        if list_ex (\<lambda>own. rl_id own = rl_id r) own_roles then Err Forbidden
        else if list_ex (\<lambda>own. is_within_subtree db (rl_id r) (rl_id own)) own_roles then Ok ()
        else Err Forbidden)"

text \<open>Sorting by depth, and by name among equal depths: the sort is stable.\<close>

definition sorted_role_options :: "database \<Rightarrow> role list \<Rightarrow> (uuid \<times> string \<times> 8 word) list" where
  "sorted_role_options db rs =
     sort_key (\<lambda>(i, name, depth). depth)
       (sort_key (\<lambda>(i, name, depth). name) (map (\<lambda>r. (rl_id r, rl_name r, depth_of db (rl_id r))) rs))"

definition grantable_permissions :: "auth_context \<Rightarrow> permission set" where
  "grantable_permissions ctx = (if has_no_ceiling ctx then set permission_ALL else permissions ctx)"

text \<open>The inner loop keeps the first occurrence of each role; \<open>seen\<close> is the set of ids met.\<close>

fun push_unseen :: "role list \<Rightarrow> uuid list \<times> role list \<Rightarrow> uuid list \<times> role list" where
  "push_unseen [] (seen, assignable) = (seen, assignable)"
| "push_unseen (r # rs) (seen, assignable) =
     (if rl_id r \<in> set seen then push_unseen rs (seen, assignable)
      else push_unseen rs (rl_id r # seen, assignable @ [r]))"

definition assignable_roles :: "database \<Rightarrow> auth_context \<Rightarrow> role list" where
  "assignable_roles db ctx =
     (if has_no_ceiling ctx then list_roles db
      else snd (fold (\<lambda>own. push_unseen (descendants_of db (rl_id own) @ [own]))
        (roles_for_user db (user_id ctx)) ([], [])))"

section \<open>Pieces of the handlers\<close>

definition permission_list :: "permission set \<Rightarrow> permission list" where
  "permission_list S = filter (\<lambda>p. p \<in> S) permission_ALL"

definition permission_cap :: "database \<Rightarrow> auth_context \<Rightarrow> uuid option \<Rightarrow> permission set" where
  "permission_cap db ctx parent = (case parent of None \<Rightarrow> grantable_permissions ctx
     | Some parent_id \<Rightarrow> grantable_permissions ctx \<inter> effective_permissions_for_role db parent_id)"

definition requested_permissions :: "string list \<Rightarrow> permission set" where
  "requested_permissions keys = set (List.map_filter from_key keys)"

text \<open>An audit row names an existing user, the foreign key of \<^verbatim>\<open>audit_log\<close>; any other failure of the
  statement is the server's.\<close>

definition audit_record :: "audit_event \<Rightarrow> database \<Rightarrow> unit db_result" where
  "audit_record event db =
     (let entry = entry_of_event event in
      if \<exists>u \<in> set_option (en_user_id entry). u \<notin> set (db_users db) then (Err Foreign_Key, db)
      else if db_log_fails db entry then (Err Statement_Failed, db)
      else (Ok (), db\<lparr>db_audit_log := db_audit_log db @ [entry]\<rparr>))"

definition role_event :: "auth_context \<Rightarrow> audit_action \<Rightarrow> string \<Rightarrow> json option \<Rightarrow> audit_event" where
  "role_event ctx action resource metadata = (new_event action Success)
     \<lparr>ev_actor := Some (user_id ctx, username ctx), ev_resource := Some resource,
      ev_metadata := metadata\<rparr>"

definition json_keys :: "permission set \<Rightarrow> json" where
  "json_keys S = JArray (map (JString \<circ> as_key) (permission_list S))"

text \<open>How an identifier is printed is the \<^verbatim>\<open>uuid\<close> crate's; audit metadata is not read back.\<close>

definition json_uuid :: "(uuid \<Rightarrow> string) \<Rightarrow> uuid option \<Rightarrow> json" where
  "json_uuid show_uuid i = (case i of None \<Rightarrow> JNull | Some u \<Rightarrow> JString (show_uuid u))"

definition json_string_option :: "string option \<Rightarrow> json" where
  "json_string_option s = (case s of None \<Rightarrow> JNull | Some t \<Rightarrow> JString t)"

section \<open>Creating a role\<close>

record role_form =
  rf_csrf_token :: string
  rf_name :: string
  rf_description :: string
  rf_parent_role_id :: string
  rf_permissions :: "string list"

definition role_form_field :: "string \<times> string \<Rightarrow> role_form \<Rightarrow> role_form" where
  "role_form_field kv f =
     (case kv of (key, value) \<Rightarrow>
        if key = ''csrf_token'' then f\<lparr>rf_csrf_token := value\<rparr>
        else if key = ''name'' then f\<lparr>rf_name := value\<rparr>
        else if key = ''description'' then f\<lparr>rf_description := value\<rparr>
        else if key = ''parent_role_id'' then f\<lparr>rf_parent_role_id := value\<rparr>
        else if key = ''permissions'' then f\<lparr>rf_permissions := rf_permissions f @ [value]\<rparr>
        else f)"

definition parse_role_form :: "(string \<times> string) list \<Rightarrow> role_form" where
  "parse_role_form body = fold role_form_field body
     \<lparr>rf_csrf_token = [], rf_name = [], rf_description = [], rf_parent_role_id = [],
      rf_permissions = []\<rparr>"

definition source_page :: "(string \<Rightarrow> uuid option) \<Rightarrow> database \<Rightarrow> string \<Rightarrow> page" where
  "source_page parse_uuid db parent_raw =
     (let raw = trim parent_raw in
      if raw = [] then RolesListPage
      else case parse_uuid raw of None \<Rightarrow> RolesListPage
        | Some pid \<Rightarrow> if find_by_id db pid = None then RolesListPage else RoleDetailPage pid)"

definition chosen_parent ::
    "(string \<Rightarrow> uuid option) \<Rightarrow> database \<Rightarrow> string \<Rightarrow> string + role option" where
  "chosen_parent parse_uuid db raw =
     (if raw = [] then Ok None
      else case parse_uuid raw of None \<Rightarrow> Err ''Not a recognized parent role.''
        | Some pid \<Rightarrow> (case find_by_id db pid of None \<Rightarrow> Err ''Not a recognized parent role.''
            | Some r \<Rightarrow> Ok (Some r)))"

definition depth_message :: string where
  "depth_message = ''That parent is already at the maximum nesting depth (3).''"

text \<open>\<open>Err\<close> refuses the request, \<open>Ok (Some msg)\<close> shows the form again, \<open>Ok None\<close> lets it through.\<close>

definition may_create_under ::
    "database \<Rightarrow> auth_context \<Rightarrow> role option \<Rightarrow> app_error + string option" where
  "may_create_under db ctx parent =
     (case parent of
        None \<Rightarrow> if \<not> has_no_ceiling ctx then Err Forbidden else Ok None
      | Some p \<Rightarrow>
          if \<not> list_ex (\<lambda>r. rl_id r = rl_id p) (assignable_roles db ctx) then Err Forbidden
          else if depth_of db (rl_id p) + 1 > MAX_ROLE_DEPTH then Ok (Some depth_message)
          else Ok None)"

definition create_role :: "(string \<Rightarrow> uuid option) \<Rightarrow> string option \<Rightarrow> auth_context
    \<Rightarrow> (string \<times> string) list \<Rightarrow> uuid \<Rightarrow> database \<Rightarrow> handler_result" where
  "create_role parse_uuid cookie ctx body fresh db =
     guarded (ensure ctx RolesManage) db (\<lambda>db.
     let form = parse_role_form body in
     guarded (require_csrf cookie (rf_csrf_token form)) db (\<lambda>db.
     let name = trim (rf_name form);
         description = trim (rf_description form);
         fail = (\<lambda>msg. (Ok (Rendered (source_page parse_uuid db (rf_parent_role_id form)) msg), db)) in
     if name = [] \<or> 100 < length name then fail ''Role name must be 1-100 characters.''
     else if 500 < length description then fail ''Description must be 500 characters or fewer.''
     else if find_by_name db name \<noteq> None then fail ''A role named that already exists.''
     else case chosen_parent parse_uuid db (trim (rf_parent_role_id form)) of
       Inl msg \<Rightarrow> fail msg
     | Inr parent \<Rightarrow>
       (case may_create_under db ctx parent of
          Inl e \<Rightarrow> (Err e, db)
        | Inr (Some msg) \<Rightarrow> fail msg
        | Inr None \<Rightarrow>
          let cap = permission_cap db ctx (map_option rl_id parent);
              requested = requested_permissions (rf_permissions form) in
          if \<not> requested \<subseteq> cap then (Err Forbidden, db)
          else then_db (create fresh name description False (map_option rl_id parent)
                  (Some (user_id ctx)) db) (\<lambda>r db.
               then_db (set_permissions (rl_id r) (permission_list requested) db) (\<lambda>_ db.
               then_db (audit_record (role_event ctx (FleetAction RoleCreated) name (Some (JObject
                   [(''parent'', json_string_option (map_option rl_name parent)),
                    (''permissions'', json_keys requested)]))) db) (\<lambda>_ db.
               (Ok (Redirect_Role (rl_id r)), db)))))))"

section \<open>Editing a role\<close>

record edit_role_form =
  ef_csrf_token :: string
  ef_name :: string
  ef_description :: string
  ef_parent_role_id :: string

definition may_move_under ::
    "database \<Rightarrow> auth_context \<Rightarrow> role \<Rightarrow> uuid option \<Rightarrow> app_error + string option" where
  "may_move_under db ctx r new_parent_id =
     (if new_parent_id = rl_parent_role_id r then Ok None
      else case new_parent_id of
        None \<Rightarrow> if \<not> has_no_ceiling ctx then Err Forbidden else Ok None
      | Some pid \<Rightarrow>
          if would_create_cycle db (rl_id r) pid
            then Ok (Some ''That would create a cycle in the role hierarchy.'')
          else if \<not> has_no_ceiling ctx \<and> \<not> list_ex (\<lambda>r. rl_id r = pid) (assignable_roles db ctx)
            then Err Forbidden
          else if depth_of db pid + 1 > MAX_ROLE_DEPTH then Ok (Some depth_message)
          else Ok None)"

definition new_parent :: "(string \<Rightarrow> uuid option) \<Rightarrow> string \<Rightarrow> (string + uuid option)" where
  "new_parent parse_uuid raw =
     (if raw = [] then Ok None
      else case parse_uuid raw of None \<Rightarrow> Err ''Not a recognized parent role.'' | Some p \<Rightarrow> Ok (Some p))"

definition edit_role :: "(string \<Rightarrow> uuid option) \<Rightarrow> (uuid \<Rightarrow> string) \<Rightarrow> string option \<Rightarrow> auth_context
    \<Rightarrow> uuid \<Rightarrow> edit_role_form \<Rightarrow> database \<Rightarrow> handler_result" where
  "edit_role parse_uuid show_uuid cookie ctx rid form db =
     guarded (ensure ctx RolesManage) db (\<lambda>db.
     guarded (require_csrf cookie (ef_csrf_token form)) db (\<lambda>db.
     case find_by_id db rid of None \<Rightarrow> (Err NotFound, db)
     | Some r \<Rightarrow>
       if rl_is_system r then (Err Forbidden, db)
       else guarded (ensure_can_manage_role db ctx r) db (\<lambda>db.
       let name = trim (ef_name form);
           description = trim (ef_description form);
           fail = (\<lambda>msg. (Ok (Rendered (RoleDetailPage rid) msg), db)) in
       if name = [] \<or> 100 < length name then fail ''Role name must be 1-100 characters.''
       else if 500 < length description then fail ''Description must be 500 characters or fewer.''
       else if (case find_by_name db name of None \<Rightarrow> False | Some existing \<Rightarrow> rl_id existing \<noteq> rid)
         then fail ''A role named that already exists.''
       else case new_parent parse_uuid (trim (ef_parent_role_id form)) of
         Inl msg \<Rightarrow> fail msg
       | Inr new_parent_id \<Rightarrow>
         (case may_move_under db ctx r new_parent_id of
            Inl e \<Rightarrow> (Err e, db)
          | Inr (Some msg) \<Rightarrow> fail msg
          | Inr None \<Rightarrow>
            then_db (update rid name description new_parent_id db) (\<lambda>_ db.
            then_db (audit_record (role_event ctx (AccountAction RoleChanged) name (Some (JObject
                [(''previous_name'', JString (rl_name r)),
                 (''previous_description'', JString (rl_description r)),
                 (''previous_parent_role_id'', json_uuid show_uuid (rl_parent_role_id r)),
                 (''new_parent_role_id'', json_uuid show_uuid new_parent_id)]))) db) (\<lambda>_ db.
            (Ok (Redirect_Role rid), db)))))))"

section \<open>Deleting a role\<close>

definition delete_refusal :: "database \<Rightarrow> role \<Rightarrow> app_error option" where
  "delete_refusal db r =
     (let users = user_count db (rl_id r); children = length (children_of db (rl_id r)) in
      if 0 < users \<or> 0 < children
      then Some (Validation (''Can'' @ [CHR 0x27] @ ''t delete '' @ [CHR 0x22] @ rl_name r @ [CHR 0x22]
        @ '': '' @ dec_digits users @ '' user(s) and '' @ dec_digits children
        @ '' child role(s) are still assigned to it. Reassign them first.''))
      else None)"

definition delete_role_confirm :: "auth_context \<Rightarrow> uuid \<Rightarrow> database \<Rightarrow> handler_result" where
  "delete_role_confirm ctx rid db =
     guarded (ensure ctx RolesManage) db (\<lambda>db.
     case find_by_id db rid of None \<Rightarrow> (Err NotFound, db)
     | Some r \<Rightarrow>
       if rl_is_system r then (Err Forbidden, db)
       else guarded (ensure_can_manage_role db ctx r) db (\<lambda>db.
       case delete_refusal db r of Some e \<Rightarrow> (Err e, db) | None \<Rightarrow> (Ok (Confirm_Delete rid), db)))"

record delete_role_form =
  df_csrf_token :: string
  df_confirm :: bool
  df_confirm_text :: string

definition delete_role :: "string option \<Rightarrow> auth_context \<Rightarrow> uuid \<Rightarrow> delete_role_form \<Rightarrow> database
    \<Rightarrow> handler_result" where
  "delete_role cookie ctx rid form db =
     guarded (ensure ctx RolesManage) db (\<lambda>db.
     guarded (require_csrf cookie (df_csrf_token form)) db (\<lambda>db.
     if \<not> df_confirm form then (Err (Validation ''Removal was not confirmed.''), db)
     else case find_by_id db rid of None \<Rightarrow> (Err NotFound, db)
     | Some r \<Rightarrow>
       if rl_is_system r then (Err Forbidden, db)
       else guarded (ensure_can_manage_role db ctx r) db (\<lambda>db.
       guarded (require_typed_confirmation (df_confirm_text form) (rl_name r)) db (\<lambda>db.
       case delete_refusal db r of Some e \<Rightarrow> (Err e, db)
       | None \<Rightarrow>
         then_db (delete rid db) (\<lambda>_ db.
         then_db (audit_record (role_event ctx (FleetAction RoleDeleted) (rl_name r) None) db) (\<lambda>_ db.
         (Ok Redirect_Roles, db)))))))"

section \<open>Changing a role's permissions\<close>

record permissions_form =
  pf_csrf_token :: string
  pf_permissions :: "string list"

definition parse_permissions_form :: "(string \<times> string) list \<Rightarrow> permissions_form" where
  "parse_permissions_form body = fold (\<lambda>(key, value) f.
       if key = ''csrf_token'' then f\<lparr>pf_csrf_token := value\<rparr>
       else if key = ''permissions'' then f\<lparr>pf_permissions := pf_permissions f @ [value]\<rparr>
       else f) body \<lparr>pf_csrf_token = [], pf_permissions = []\<rparr>"

text \<open>The confirm step, which writes nothing.\<close>

definition update_permissions :: "string option \<Rightarrow> auth_context \<Rightarrow> uuid
    \<Rightarrow> (string \<times> string) list \<Rightarrow> database \<Rightarrow> handler_result" where
  "update_permissions cookie ctx rid body db =
     guarded (ensure ctx RolesManage) db (\<lambda>db.
     let form = parse_permissions_form body in
     guarded (require_csrf cookie (pf_csrf_token form)) db (\<lambda>db.
     case find_by_id db rid of None \<Rightarrow> (Err NotFound, db)
     | Some r \<Rightarrow> guarded (ensure_can_manage_role db ctx r) db (\<lambda>db.
       let cap = permission_cap db ctx (rl_parent_role_id r);
           requested = requested_permissions (pf_permissions form) in
       if \<not> requested \<subseteq> cap then (Err Forbidden, db)
       else let current = set (permissions_for_role db rid);
                final_set = requested \<union> (current - cap);
                added = card (requested - current);
                removed = card (current \<inter> cap - requested) in
         (Ok (Confirm_Permissions rid added removed final_set), db))))"

record apply_permissions_form =
  af_csrf_token :: string
  af_confirm :: bool
  af_permissions_json :: string

definition apply_permissions :: "(string \<Rightarrow> string list option) \<Rightarrow> string option \<Rightarrow> auth_context \<Rightarrow> uuid
    \<Rightarrow> apply_permissions_form \<Rightarrow> database \<Rightarrow> handler_result" where
  "apply_permissions parse_json_strings cookie ctx rid form db =
     guarded (ensure ctx RolesManage) db (\<lambda>db.
     guarded (require_csrf cookie (af_csrf_token form)) db (\<lambda>db.
     if \<not> af_confirm form then (Err (Validation ''Saving permissions was not confirmed.''), db)
     else case find_by_id db rid of None \<Rightarrow> (Err NotFound, db)
     | Some r \<Rightarrow> guarded (ensure_can_manage_role db ctx r) db (\<lambda>db.
       case parse_json_strings (af_permissions_json form) of
         None \<Rightarrow> (Err (Validation ''Malformed permission set.''), db)
       | Some keys \<Rightarrow>
         let cap = permission_cap db ctx (rl_parent_role_id r);
             requested = requested_permissions keys;
             current = set (permissions_for_role db rid);
             final_set = (requested \<inter> cap) \<union> (current - cap) in
         then_db (set_permissions rid (permission_list final_set) db) (\<lambda>_ db.
         then_db (audit_record (role_event ctx (AccountAction RoleChanged) (rl_name r) (Some (JObject
             [(''previous_permissions'', json_keys current),
              (''new_permissions'', json_keys final_set)]))) db) (\<lambda>_ db.
         (Ok (Redirect_Role rid), db))))))"


section \<open>What the checks establish\<close>

lemma has_no_ceiling_iff: "has_no_ceiling ctx \<longleftrightarrow> permissions ctx = UNIV"
  by (auto simp: has_no_ceiling_def list_all_iff has_def permission_ALL_UNIV)

lemma grantable_permissions_eq: "grantable_permissions ctx = permissions ctx"
  by (auto simp: grantable_permissions_def has_no_ceiling_iff)

lemma permission_cap_grantable: "permission_cap db ctx par \<subseteq> permissions ctx"
  by (auto simp: permission_cap_def grantable_permissions_eq split: option.splits)

lemma set_permission_list [simp]: "set (permission_list S) = S"
  by (auto simp: permission_list_def)

lemma distinct_permission_list [simp]: "distinct (permission_list S)"
  by (simp add: permission_list_def distinct_permission_ALL)

lemma effective_permissions_Union:
  "effective_permissions db uid
     = (\<Union>r \<in> set (roles_for_user db uid). effective_permissions_for_role db (rl_id r))"
proof -
  have "fold (\<lambda>r acc. acc \<union> f r) rs acc = acc \<union> (\<Union>r \<in> set rs. f r)" 
    for rs and f :: "role \<Rightarrow> permission set" and acc
    by (induction rs arbitrary: acc) auto
  then show ?thesis by (simp add: effective_permissions_def)
qed

lemma own_role_ids:
  "schema_ok db \<Longrightarrow> rl_id ` set (roles_for_user db uid) = {r. (uid, r) \<in> set (db_user_roles db)}"
  by (force simp: roles_for_user_def schema_ok_def role_ids_def)

lemma effective_permissions_ids:
  "schema_ok db \<Longrightarrow> effective_permissions db uid
     = (\<Union>r \<in> {r. (uid, r) \<in> set (db_user_roles db)}. effective_permissions_for_role db r)"
  using own_role_ids [of db uid] by (simp add: effective_permissions_Union image_image [symmetric])

text \<open>A context as the request loads it: its permissions are the user's effective ones.\<close>

definition fresh_context :: "database \<Rightarrow> auth_context \<Rightarrow> bool" where
  "fresh_context db ctx \<longleftrightarrow> ctx = auth_context_load db (user_id ctx) (username ctx)"

lemma fresh_context_permissions: "fresh_context db ctx \<Longrightarrow> permissions ctx = effective_permissions db (user_id ctx)"
  unfolding fresh_context_def auth_context_load_def by (metis auth_context.select_convs(3))

lemma own_role_capped:
  assumes "fresh_context db ctx" "levels_within 20 db" "o' \<in> set (roles_for_user db (user_id ctx))"
    "is_within_subtree db x (rl_id o')"
  shows "effective_permissions_for_role db x \<subseteq> permissions ctx"
proof -
  have "effective_permissions_for_role db x \<subseteq> effective_permissions_for_role db (rl_id o')"
    by (rule roles.effective_capped [OF assms(2,4)])
  also have "\<dots> \<subseteq> permissions ctx"
    using assms(1,3) by (auto simp: fresh_context_permissions effective_permissions_Union)
  finally show ?thesis .
qed

lemma push_unseen_subset:
  "set (snd (push_unseen rs (seen, acc))) \<subseteq> set rs \<union> set acc"
proof (induction rs arbitrary: seen acc)
  case (Cons r rs)
  show ?case
    using Cons.IH [of seen acc] Cons.IH [of "rl_id r # seen" "acc @ [r]"] by auto
qed simp

lemma fold_push_unseen_subset:
  "set (snd (fold (\<lambda>own. push_unseen (f own)) os sa)) \<subseteq> (\<Union>own \<in> set os. set (f own)) \<union> set (snd sa)"
proof (induction os arbitrary: sa)
  case (Cons own os)
  show ?case
    using Cons.IH [of "push_unseen (f own) sa"] push_unseen_subset [of "f own" "fst sa" "snd sa"]
    by (simp only: prod.collapse) (auto simp del: split_paired_All)
qed simp

lemma assignable_below:
  assumes "schema_ok db" "levels_within 20 db" "\<not> has_no_ceiling ctx" "r \<in> set (assignable_roles db ctx)"
  shows "\<exists>own \<in> set (roles_for_user db (user_id ctx)). is_within_subtree db (rl_id r) (rl_id own)"
proof -
  from assms(3,4) fold_push_unseen_subset [of "\<lambda>own. descendants_of db (rl_id own) @ [own]"
      "roles_for_user db (user_id ctx)" "([], [])"]
  obtain own where own: "own \<in> set (roles_for_user db (user_id ctx))"
    "r = own \<or> r \<in> set (descendants_of db (rl_id own))"
    by (auto simp: assignable_roles_def)
  then have "is_within_subtree db (rl_id r) (rl_id own)"
    using descendants_below [OF assms(1,2), of "rl_id own"] roles.below_refl [OF assms(2)] by auto
  with own show ?thesis by blast
qed

lemma can_manage:
  assumes "ensure_can_manage_role db ctx r = Ok ()" "\<not> has_no_ceiling ctx"
  shows "\<not> rl_is_system r \<and> rl_id r \<notin> rl_id ` set (roles_for_user db (user_id ctx))
    \<and> (\<exists>own \<in> set (roles_for_user db (user_id ctx)). is_within_subtree db (rl_id r) (rl_id own))"
  using assms by (auto simp: ensure_can_manage_role_def list_ex_iff Let_def image_iff split: if_splits)

section \<open>What the handlers change\<close>

text \<open>The audit log is not part of what the role checks read.\<close>

definition no_audit :: "database \<Rightarrow> database" where
  "no_audit db = db\<lparr>db_audit_log := []\<rparr>"

lemma no_audit_reads [simp]:
  "parent_of (no_audit db) = parent_of db" "own_permissions (no_audit db) = own_permissions db"
  "db_user_roles (no_audit db) = db_user_roles db" "role_ids (no_audit db) = role_ids db"
  "db_roles (no_audit db) = db_roles db" "db_users (no_audit db) = db_users db"
  "schema_ok (no_audit db) = schema_ok db"
  by (auto simp: no_audit_def fun_eq_iff parent_of_def find_by_id_def own_permissions_def
      permissions_for_role_def role_ids_def schema_ok_def)

lemma audit_record_no_audit: "no_audit (snd (audit_record e db)) = no_audit db"
  by (simp add: audit_record_def no_audit_def Let_def)

lemma then_db_audit:
  assumes "then_db (audit_record e db) (\<lambda>_ db. (res, db)) = (res', db')"
  shows "no_audit db' = no_audit db"
  using assms audit_record_no_audit [of e db]
  by (auto simp: then_db_def split: prod.splits sum.splits)

lemma guarded_eq: "guarded r db k = (res, db') \<longleftrightarrow>
    (\<exists>e. r = Err e \<and> res = Err e \<and> db' = db) \<or> r = Ok () \<and> k db = (res, db')"
  by (cases r) (auto simp: guarded_def)


lemma then_db_eq: "then_db r k = (res, db') \<longleftrightarrow>
    (\<exists>e. r = (Err e, db') \<and> res = Err (Internal (db_error_text e)))
    \<or> (\<exists>x db1. r = (Ok x, db1) \<and> k x db1 = (res, db'))"
  by (auto simp: then_db_def split: prod.splits sum.splits)

lemma create_refused: "create a b c d e f db = (Err x, db') \<Longrightarrow> db' = db"
  by (auto elim: create_cases)

lemma update_refused: "update a b c d db = (Err x, db') \<Longrightarrow> db' = db"
  by (auto simp: update_def split: if_splits)

lemma delete_refused: "delete a db = (Err x, db') \<Longrightarrow> db' = db"
  by (auto elim: delete_cases)

lemma set_permissions_refused: "set_permissions a b db = (Err x, db') \<Longrightarrow> db' = db"
  by (auto elim: set_permissions_result)

lemmas statement_refused = create_refused update_refused delete_refused set_permissions_refused

lemma create_role_cases:
  assumes "create_role parse_uuid cookie ctx body fresh db = (res, db')"
  obtains (same) "db' = db"
  | (made) parent requested r db1 db2 name desc where
      "has ctx RolesManage" "may_create_under db ctx parent = Ok None"
      "\<And>p. parent = Some p \<Longrightarrow> find_by_id db (rl_id p) = Some p"
      "requested \<subseteq> permission_cap db ctx (map_option rl_id parent)"
      "create fresh name desc False (map_option rl_id parent) (Some (user_id ctx)) db = (Ok r, db1)"
      "rl_id r = fresh"
      "db2 = db1 \<or> set_permissions fresh (permission_list requested) db1 = (Ok (), db2)"
      "no_audit db' = no_audit db2"
proof -
  define form where "form = parse_role_form body"
  define name where "name = trim (rf_name form)"
  define desc where "desc = trim (rf_description form)"
  define requested where "requested = requested_permissions (rf_permissions form)"
  note res = assms [unfolded create_role_def Let_def, folded form_def, folded name_def desc_def requested_def]
  show ?thesis
  proof (cases "db' = db")
    case True
    then show ?thesis by (rule same)
  next
    case False
    from res False obtain parent where par:
      "has ctx RolesManage" "chosen_parent parse_uuid db (trim (rf_parent_role_id form)) = Ok parent"
      "may_create_under db ctx parent = Ok None"
      "requested \<subseteq> permission_cap db ctx (map_option rl_id parent)"
      and wr: "then_db (create fresh name desc False (map_option rl_id parent)
                  (Some (user_id ctx)) db) (\<lambda>r db.
               then_db (set_permissions (rl_id r) (permission_list requested) db) (\<lambda>_ db.
               then_db (audit_record (role_event ctx (FleetAction RoleCreated) name (Some (JObject
                   [(''parent'', json_string_option (map_option rl_name parent)),
                    (''permissions'', json_keys requested)]))) db) (\<lambda>_ db.
               (Ok (Redirect_Role (rl_id r)), db)))) = (res, db')"
      by (auto simp: guarded_eq ensure_def split: if_splits sum.splits option.splits)
    from wr False obtain r db1 where r:
      "create fresh name desc False (map_option rl_id parent) (Some (user_id ctx)) db = (Ok r, db1)"
      and rest: "then_db (set_permissions (rl_id r) (permission_list requested) db1) (\<lambda>_ db.
               then_db (audit_record (role_event ctx (FleetAction RoleCreated) name (Some (JObject
                   [(''parent'', json_string_option (map_option rl_name parent)),
                    (''permissions'', json_keys requested)]))) db) (\<lambda>_ db.
               (Ok (Redirect_Role (rl_id r)), db))) = (res, db')"
      by (auto simp: then_db_eq [of "create _ _ _ _ _ _ _"] dest: statement_refused)
    have id: "rl_id r = fresh" using r by (auto elim: create_cases)
    have find: "find_by_id db (rl_id p) = Some p" if "parent = Some p" for p
      using par(2) that find_by_id_Some by (auto simp: chosen_parent_def split: if_splits option.splits)
    from rest id consider "db' = db1"
      | db2 where "set_permissions fresh (permission_list requested) db1 = (Ok (), db2)"
          "no_audit db' = no_audit db2"
      by (auto simp: then_db_eq [of "set_permissions _ _ _"] dest: statement_refused then_db_audit)
    then show ?thesis
    proof cases
      case 1
      with par find r id show ?thesis by (intro made [of parent requested name desc r db1 db1]) auto
    next
      case 2
      with par find r id show ?thesis by (intro made [of parent requested name desc r db1 db2]) auto
    qed
  qed
qed


lemma edit_role_cases:
  assumes "edit_role parse_uuid show_uuid cookie ctx rid form db = (res, db')"
  obtains (same) "db' = db"
  | (moved) r par name desc db1 where
      "find_by_id db rid = Some r" "\<not> rl_is_system r" "ensure_can_manage_role db ctx r = Ok ()"
      "may_move_under db ctx r par = Ok None" "update rid name desc par db = (Ok (), db1)"
      "no_audit db' = no_audit db1"
proof (cases "db' = db")
  case False
  define name where "name = trim (ef_name form)"
  define desc where "desc = trim (ef_description form)"
  note res = assms [unfolded edit_role_def Let_def, folded name_def desc_def]
  from res False obtain r par where r:
    "find_by_id db rid = Some r" "\<not> rl_is_system r" "ensure_can_manage_role db ctx r = Ok ()"
    "may_move_under db ctx r par = Ok None"
    and wr: "then_db (update rid name desc par db) (\<lambda>_ db.
            then_db (audit_record (role_event ctx (AccountAction RoleChanged) name (Some (JObject
                [(''previous_name'', JString (rl_name r)),
                 (''previous_description'', JString (rl_description r)),
                 (''previous_parent_role_id'', json_uuid show_uuid (rl_parent_role_id r)),
                 (''new_parent_role_id'', json_uuid show_uuid par)]))) db) (\<lambda>_ db.
            (Ok (Redirect_Role rid), db))) = (res, db')"
    by (auto simp: guarded_eq split: if_splits sum.splits option.splits)
  from wr False obtain db1 where "update rid name desc par db = (Ok (), db1)" "no_audit db' = no_audit db1"
    by (auto simp: then_db_eq [of "update _ _ _ _ _"] dest: statement_refused then_db_audit)
  with r show ?thesis by (rule moved)
qed (rule same)

lemma delete_role_cases:
  assumes "delete_role cookie ctx rid form db = (res, db')"
  obtains (same) "db' = db"
  | (removed) r db1 where
      "find_by_id db rid = Some r" "\<not> rl_is_system r" "ensure_can_manage_role db ctx r = Ok ()"
      "delete_refusal db r = None" "delete rid db = (Ok (), db1)" "no_audit db' = no_audit db1"
proof (cases "db' = db")
  case False
  note res = assms [unfolded delete_role_def]
  from res False obtain r where r:
    "find_by_id db rid = Some r" "\<not> rl_is_system r" "ensure_can_manage_role db ctx r = Ok ()"
    "delete_refusal db r = None"
    and wr: "then_db (delete rid db) (\<lambda>_ db.
         then_db (audit_record (role_event ctx (FleetAction RoleDeleted) (rl_name r) None) db) (\<lambda>_ db.
         (Ok Redirect_Roles, db))) = (res, db')"
    by (auto simp: guarded_eq split: if_splits sum.splits option.splits)
  from wr False obtain db1 where "delete rid db = (Ok (), db1)" "no_audit db' = no_audit db1"
    by (auto simp: then_db_eq [of "delete _ _"] dest: statement_refused then_db_audit)
  with r show ?thesis by (rule removed)
qed (rule same)

definition regranted :: "database \<Rightarrow> auth_context \<Rightarrow> role \<Rightarrow> string list \<Rightarrow> permission set" where
  "regranted db ctx r keys =
     (requested_permissions keys \<inter> permission_cap db ctx (rl_parent_role_id r))
     \<union> (own_permissions db (rl_id r) - permission_cap db ctx (rl_parent_role_id r))"

lemma apply_permissions_cases:
  assumes "apply_permissions parse_json_strings cookie ctx rid form db = (res, db')"
  obtains (same) "db' = db"
  | (changed) r keys db1 where
      "find_by_id db rid = Some r" "ensure_can_manage_role db ctx r = Ok ()"
      "parse_json_strings (af_permissions_json form) = Some keys"
      "set_permissions rid (permission_list (regranted db ctx r keys)) db = (Ok (), db1)"
      "no_audit db' = no_audit db1"
proof (cases "db' = db")
  case False
  note res = assms [unfolded apply_permissions_def Let_def]
  from res False obtain r keys where r:
    "find_by_id db rid = Some r" "ensure_can_manage_role db ctx r = Ok ()"
    "parse_json_strings (af_permissions_json form) = Some keys"
    and wr: "then_db (set_permissions rid (permission_list
          ((requested_permissions keys \<inter> permission_cap db ctx (rl_parent_role_id r))
           \<union> (set (permissions_for_role db rid) - permission_cap db ctx (rl_parent_role_id r)))) db) (\<lambda>_ db2.
         then_db (audit_record (role_event ctx (AccountAction RoleChanged) (rl_name r) (Some (JObject
             [(''previous_permissions'', json_keys (set (permissions_for_role db rid))),
              (''new_permissions'', json_keys
                ((requested_permissions keys \<inter> permission_cap db ctx (rl_parent_role_id r))
                 \<union> (set (permissions_for_role db rid) - permission_cap db ctx (rl_parent_role_id r))))]))) db2) (\<lambda>_ db3.
         (Ok (Redirect_Role rid), db3))) = (res, db')"
    by (auto simp: guarded_eq split: if_splits sum.splits option.splits)
  have fin: "(requested_permissions keys \<inter> permission_cap db ctx (rl_parent_role_id r))
      \<union> (set (permissions_for_role db rid) - permission_cap db ctx (rl_parent_role_id r))
      = regranted db ctx r keys"
    using find_by_id_Some [OF r(1)] by (simp add: regranted_def own_permissions_def)
  from wr False obtain db1 where
    "set_permissions rid (permission_list (regranted db ctx r keys)) db = (Ok (), db1)"
    "no_audit db' = no_audit db1"
    unfolding fin by (auto simp: then_db_eq [of "set_permissions _ _ _"] dest: statement_refused then_db_audit)
  with r show ?thesis by (rule changed)
qed (rule same)


lemma effective_cong:
  "parent_of db' = parent_of db \<Longrightarrow> own_permissions db' = own_permissions db
   \<Longrightarrow> effective_permissions_for_role db' = effective_permissions_for_role db"
  by (rule ext) (simp add: effective_walk own_permissions_def [symmetric])

lemma no_audit_same:
  assumes "no_audit db' = no_audit db"
  shows "parent_of db' = parent_of db" "own_permissions db' = own_permissions db"
    "db_user_roles db' = db_user_roles db" "schema_ok db' = schema_ok db"
    "levels_within n db' = levels_within n db"
    "effective_permissions_for_role db' = effective_permissions_for_role db"
proof -
  show *: "parent_of db' = parent_of db" "own_permissions db' = own_permissions db"
    "db_user_roles db' = db_user_roles db" "schema_ok db' = schema_ok db"
    using assms by (metis no_audit_reads(1), metis no_audit_reads(2), metis no_audit_reads(3),
        metis no_audit_reads(7))
  show "levels_within n db' = levels_within n db" using *(1) by (simp add: levels_within_def)
  show "effective_permissions_for_role db' = effective_permissions_for_role db"
    using *(1,2) by (rule effective_cong)
qed

section \<open>The role requests as steps\<close>

inductive role_step :: "auth_context \<Rightarrow> database \<Rightarrow> database \<Rightarrow> bool" for ctx db where
  create_step: "create_role parse_uuid cookie ctx body fresh db = (res, db') \<Longrightarrow> role_step ctx db db'"
| edit_step: "edit_role parse_uuid show_uuid cookie ctx rid form db = (res, db') \<Longrightarrow> role_step ctx db db'"
| delete_step: "delete_role cookie ctx rid dform db = (res, db') \<Longrightarrow> role_step ctx db db'"
| apply_step: "apply_permissions parse_json cookie ctx rid aform db = (res, db') \<Longrightarrow> role_step ctx db db'"

lemma depth_cap:
  assumes "\<not> depth_of db y + 1 > MAX_ROLE_DEPTH"
  obtains d where "depth (parent_of db) y d" "d \<le> 2"
proof -
  let ?w = "walk (parent_of db) 20 y"
  have len: "length ?w \<le> 20" by (rule length_walk)
  have d: "depth_of db y = of_nat (Suc (length ?w))"
    by (simp add: depth_of_def ancestor_chain_def ancestor_loop_walk MAX_ANCESTOR_WALK_def)
  have "depth_of db y + 1 = of_nat (Suc (Suc (length ?w)))" by (simp add: d)
  then have "unat (depth_of db y + 1) = Suc (Suc (length ?w))"
    using len by (simp add: unat_of_nat take_bit_nat_eq_self del: of_nat_Suc)
  moreover have "unat (depth_of db y + 1) \<le> 3"
    using assms by (simp add: MAX_ROLE_DEPTH_def word_le_nat_alt not_less)
  ultimately have w: "length ?w \<le> 1" by simp
  then have "depth (parent_of db) y (Suc (length ?w))" by (intro walk_stopped) simp
  with w show ?thesis by (intro that) auto
qed

lemma unknown_not_above:
  assumes "schema_ok db" "r \<notin> set (role_ids db)" "(x, r) \<in> (parent_rel (parent_of db))\<^sup>*"
  shows "x = r"
  using assms(3) parent_of_known [OF assms(1)] assms(2)
  by (cases rule: rtranclE) (auto simp: parent_rel_iff)

lemma create_levels:
  assumes "schema_ok db" "levels_within n db" "3 \<le> n"
    and "create fresh name desc sys par u db = (Ok r, db1)"
    and "\<And>y. par = Some y \<Longrightarrow> y \<in> set (role_ids db) \<and> (\<exists>d \<le> 2. depth (parent_of db) y d)"
  shows "levels_within n db1"
  unfolding levels_within_def
proof
  fix x
  have fresh: "fresh \<notin> set (role_ids db)" using assms(4) by (auto elim: create_cases)
  note parent = parent_of_create(1) [OF assms(4)]
  have above: "depth (parent_of db1) y d" if "depth (parent_of db) y d" "y \<noteq> fresh" for y d
    unfolding parent using that unknown_not_above [OF assms(1) fresh, of y]
    by (intro depth_reparent_above) auto
  show "\<exists>d \<le> n. depth (parent_of db1) x d"
  proof (cases "x = fresh")
    case False
    with assms(2) above show ?thesis by (metis levels_withinE)
  next
    case True
    show ?thesis
    proof (cases par)
      case None
      with True parent have "depth (parent_of db1) x (Suc 0)" by (auto intro: depth.root)
      then show ?thesis using assms(3) by (intro ex_leI [where e = "Suc 0"]) auto
    next
      case (Some y)
      with assms(5) fresh obtain d where d: "d \<le> 2" "depth (parent_of db) y d" "y \<noteq> fresh" by blast
      with above have "depth (parent_of db1) y d" by blast
      moreover have "parent_of db1 x = Some y" using parent Some True by simp
      ultimately have "depth (parent_of db1) x (Suc d)" by (auto intro: depth.child)
      then show ?thesis using d(1) assms(3) by (intro ex_leI [where e = "Suc d"]) auto
    qed
  qed
qed


section \<open>The hierarchy stays a forest\<close>

text \<open>A new parent has at most two levels, itself included, so the walk of the cycle check sees all of its
  ancestors, however deep the rest of the hierarchy is.\<close>

lemma created_parent:
  assumes "may_create_under db ctx parent = Ok None"
    and "\<And>p. parent = Some p \<Longrightarrow> find_by_id db (rl_id p) = Some p"
    and "map_option rl_id parent = Some y"
  shows "y \<in> set (role_ids db) \<and> (\<exists>d \<le> 2. depth (parent_of db) y d)"
proof -
  from assms(3) obtain p where p: "parent = Some p" "rl_id p = y" by auto
  with assms(1) have "\<not> depth_of db y + 1 > MAX_ROLE_DEPTH"
    by (auto simp: may_create_under_def split: if_splits)
  then obtain d where "depth (parent_of db) y d" "d \<le> 2" by (rule depth_cap)
  moreover have "y \<in> set (role_ids db)" using assms(2) p find_by_id_None [of db y] by auto
  ultimately show ?thesis by blast
qed

lemma moved_parent:
  assumes "may_move_under db ctx r (Some y) = Ok None" "rl_parent_role_id r \<noteq> Some y"
  shows "\<exists>d \<le> 2. depth (parent_of db) y d \<and> (y, rl_id r) \<notin> (parent_rel (parent_of db))\<^sup>*"
proof -
  from assms have c: "\<not> would_create_cycle db (rl_id r) y" "\<not> depth_of db y + 1 > MAX_ROLE_DEPTH"
    by (auto simp: may_move_under_def split: if_splits)
  from c(2) obtain d where d: "depth (parent_of db) y d" "d \<le> 2" by (rule depth_cap)
  with c(1) have "(y, rl_id r) \<notin> (parent_rel (parent_of db))\<^sup>*"
    by (simp add: would_create_cycle_def is_within_subtree_ancestors)
  with d show ?thesis by blast
qed

lemma update_levels:
  assumes "schema_ok db" "levels_within n db" "find_by_id db rid = Some r"
    and "may_move_under db ctx r par = Ok None" "update rid name desc par db = (Ok (), db1)"
  shows "levels_within (n + 2) db1"
proof -
  have r: "rl_id r = rid" "r \<in> set (db_roles db)" using find_by_id_Some [OF assms(3)] by auto
  then have "rid \<in> set (role_ids db)" by (auto simp: role_ids_def)
  note u = parent_of_update(1) [OF assms(5) this]
  show ?thesis
  proof (cases "par = rl_parent_role_id r")
    case True
    then have "parent_of db1 = parent_of db" using u parent_of_role [OF assms(1) r(2)] r(1) by auto
    then show ?thesis using levels_within_mono [OF assms(2), of "n + 2"] by (simp add: levels_within_def)
  next
    case False
    show ?thesis
    proof (cases par)
      case None
      then show ?thesis by (intro reparent_levels [OF assms(2) u]) simp
    next
      case (Some y)
      with False moved_parent [of db ctx r y] assms(4) r(1) obtain d where
        "d \<le> 2" "depth (parent_of db) y d" "(y, rid) \<notin> (parent_rel (parent_of db))\<^sup>*" by auto
      with Some have "levels_within (n + d) db1" by (intro reparent_levels [OF assms(2) u]) auto
      then show ?thesis using \<open>d \<le> 2\<close> by (auto intro: levels_within_mono)
    qed
  qed
qed

lemma create_role_levels:
  assumes "schema_ok db" "levels_within n db" "3 \<le> n"
    and "create_role parse_uuid cookie ctx body fresh db = (res, db')"
  shows "schema_ok db' \<and> levels_within n db'"
  using assms(4)
proof (cases rule: create_role_cases)
  case (made parent requested r db1 db2 name desc)
  have "schema_ok db1" by (rule create_schema_ok [OF assms(1) made(5)])
  moreover have "levels_within n db1"
    by (rule create_levels [OF assms(1-3) made(5) created_parent [OF made(2,3)]])
  ultimately have "schema_ok db2 \<and> levels_within n db2"
    using made(7) set_permissions_schema_ok own_set_permissions(2) [of fresh _ db1 db2]
    by (auto simp: levels_within_def)
  then show ?thesis using no_audit_same(4,5) [OF made(8)] by simp
qed (use assms in simp)

lemma edit_role_levels:
  assumes "schema_ok db" "levels_within n db"
    and "edit_role parse_uuid show_uuid cookie ctx rid form db = (res, db')"
  shows "schema_ok db' \<and> levels_within (n + 2) db'"
  using assms(3)
proof (cases rule: edit_role_cases)
  case (moved r par name desc db1)
  then show ?thesis
    using update_levels [OF assms(1,2) moved(1,4,5)] update_schema_ok [OF assms(1) moved(5)]
      no_audit_same(4,5) [OF moved(6)] by simp
qed (use assms levels_within_mono [OF assms(2), of "n + 2"] in simp)

lemma delete_role_levels:
  assumes "schema_ok db" "levels_within n db" "delete_role cookie ctx rid form db = (res, db')"
  shows "schema_ok db' \<and> levels_within n db'"
  using assms(3)
proof (cases rule: delete_role_cases)
  case (removed r db1)
  then show ?thesis
    using reparent_levels [OF assms(2) parent_of_delete(1) [OF removed(5)], of 0]
      delete_schema_ok [OF assms(1) removed(5)] no_audit_same(4,5) [OF removed(6)] by simp
qed (use assms in simp)

lemma apply_permissions_levels:
  assumes "schema_ok db" "levels_within n db"
    and "apply_permissions parse_json cookie ctx rid form db = (res, db')"
  shows "schema_ok db' \<and> levels_within n db'"
  using assms(3)
proof (cases rule: apply_permissions_cases)
  case (changed r keys db1)
  then show ?thesis
    using assms(2) own_set_permissions(2) [OF changed(4)] set_permissions_schema_ok [OF assms(1) changed(4)]
      no_audit_same(4,5) [OF changed(5)] by (simp add: levels_within_def)
qed (use assms in simp)

lemma role_step_levels:
  assumes "schema_ok db" "levels_within n db" "3 \<le> n" "role_step ctx db db'"
  shows "schema_ok db' \<and> levels_within (n + 2) db'"
  using assms(4)
proof (cases rule: role_step.cases)
  case create_step
  from create_role_levels [OF assms(1-3) this] show ?thesis using levels_within_mono [of n db' "n + 2"] by auto
next
  case edit_step
  from edit_role_levels [OF assms(1,2) this] show ?thesis .
next
  case delete_step
  from delete_role_levels [OF assms(1,2) this] show ?thesis using levels_within_mono [of n db' "n + 2"] by auto
next
  case apply_step
  from apply_permissions_levels [OF assms(1,2) this] show ?thesis using levels_within_mono [of n db' "n + 2"] by auto
qed

text \<open>Requests one after the other, each with a context of its own.\<close>

definition role_request :: "database \<Rightarrow> database \<Rightarrow> bool" where
  "role_request db db' \<longleftrightarrow> (\<exists>ctx. role_step ctx db db')"

lemma edit_request: "role_request db (snd (edit_role parse_uuid show_uuid cookie ctx rid form db))"
  unfolding role_request_def by (blast intro: role_step.edit_step [OF surjective_pairing])

lemma role_requests_levels:
  assumes "(role_request ^^ k) db db'" "schema_ok db" "levels_within n db" "3 \<le> n"
  shows "schema_ok db' \<and> levels_within (n + 2 * k) db'"
  using assms(1)
proof (induction k arbitrary: db')
  case 0
  with assms show ?case by simp
next
  case (Suc k)
  from Suc.prems obtain d where k: "(role_request ^^ k) db d" and "role_request d db'"
    by (rule relpowp_Suc_E)
  then obtain ctx where d: "role_step ctx d db'" by (auto simp: role_request_def)
  from Suc.IH [OF k] have "schema_ok d" "levels_within (n + 2 * k) d" by auto
  from role_step_levels [OF this _ d] assms(4) show ?case by simp
qed

lemma levels_acyclic: "levels_within n db \<Longrightarrow> acyclic (parent_rel (parent_of db))"
  unfolding acyclic_def by (metis depth_irrefl levels_withinE)


section \<open>No request lifts a role above its editor\<close>

definition capped_change :: "auth_context \<Rightarrow> database \<Rightarrow> database \<Rightarrow> bool" where
  "capped_change ctx db db' \<longleftrightarrow>
     (\<forall>x. effective_permissions_for_role db' x = effective_permissions_for_role db x
        \<or> effective_permissions_for_role db' x \<subseteq> permissions ctx)
     \<and> set (db_user_roles db') \<subseteq> set (db_user_roles db)"

lemma capped_change_refl: "capped_change ctx db db"
  by (simp add: capped_change_def)

lemma capped_change_audit: "no_audit db' = no_audit db1 \<Longrightarrow> capped_change ctx db db1 \<Longrightarrow> capped_change ctx db db'"
  by (frule no_audit_same(3), frule no_audit_same(6)) (simp add: capped_change_def)

lemma unknown_own: "schema_ok db \<Longrightarrow> x \<notin> set (role_ids db) \<Longrightarrow> own_permissions db x = {}"
  by (auto simp: own_permissions_iff schema_ok_def)

text \<open>Roles that are not below a changed role keep their effective permissions.\<close>

lemma effective_elsewhere:
  assumes "levels_within 20 db" "levels_within 20 db'"
    and "\<And>y. y \<noteq> r \<Longrightarrow> parent_of db' y = parent_of db y \<and> own_permissions db' y = own_permissions db y"
    and "\<not> is_within_subtree db x r"
  shows "effective_permissions_for_role db' x = effective_permissions_for_role db x"
proof (rule roles.effective_agree [OF assms(1,2)])
  fix y assume "is_within_subtree db x y"
  with assms(4) have "y \<noteq> r" by auto
  then show "parent_of db' y = parent_of db y \<and> own_permissions db' y = own_permissions db y"
    by (rule assms(3))
qed

lemma create_capped:
  assumes "schema_ok db" "levels_within n db" "3 \<le> n" "n \<le> 20"
    and "create_role parse_uuid cookie ctx body fresh db = (res, db')"
  shows "schema_ok db' \<and> levels_within n db' \<and> capped_change ctx db db'"
  using assms(5)
proof (cases rule: create_role_cases)
  case (made parent requested r db1 db2 name desc)
  let ?par = "map_option rl_id parent"
  have fresh: "fresh \<notin> set (role_ids db)" using made(5) by (auto elim: create_cases)
  note c = parent_of_create [OF made(5)]
  have schema1: "schema_ok db1" by (rule create_schema_ok [OF assms(1) made(5)])
  have own_fresh: "own_permissions db fresh = {}" by (rule unknown_own [OF assms(1) fresh])
  note sp = own_set_permissions [of fresh "permission_list requested" db1 db2]
  have db2: "schema_ok db2" "parent_of db2 = (parent_of db)(fresh := ?par)"
    "own_permissions db2 fresh \<subseteq> requested" "db_user_roles db2 = db_user_roles db"
    using made(7) schema1 c sp own_fresh set_permissions_schema_ok [OF schema1] by force+
  have own: "own_permissions db2 y = own_permissions db y" if "y \<noteq> fresh" for y
    using made(7) c(2) sp(1) that by auto
  note lev = create_role_levels [OF assms(1-3,5)]
  then have levels2: "levels_within n db2" using no_audit_same(5) [OF made(8)] by simp
  have levels: "levels_within 20 db" "levels_within 20 db2"
    using levels_within_mono [OF assms(2,4)] levels_within_mono [OF levels2 assms(4)] by auto
  have "effective_permissions_for_role db2 x = effective_permissions_for_role db x
      \<or> effective_permissions_for_role db2 x \<subseteq> permissions ctx" for x
  proof (cases "x = fresh")
    case True
    have "effective_permissions_for_role db2 fresh \<subseteq> own_permissions db2 fresh"
      by (rule roles.effective_own [OF levels(2)])
    with True db2(3) made(4) permission_cap_grantable show ?thesis by blast
  next
    case False
    then have "\<not> is_within_subtree db x fresh"
      using unknown_not_above [OF assms(1) fresh] by (auto simp: roles.below_ancestors [OF levels(1)])
    then show ?thesis using effective_elsewhere [OF levels, of fresh x] db2(2) own by auto
  qed
  then have "capped_change ctx db db2" using db2(4) by (simp add: capped_change_def)
  then show ?thesis using lev capped_change_audit [OF made(8)] by blast
qed (use assms in \<open>simp add: capped_change_refl\<close>)


text \<open>A managed role hangs below one of its editor's own roles, so its parent does.\<close>

lemma managed_parent:
  assumes "schema_ok db" "levels_within 20 db" "\<not> has_no_ceiling ctx"
    and "find_by_id db rid = Some r" "ensure_can_manage_role db ctx r = Ok ()"
  obtains q own where "parent_of db rid = Some q" "rl_parent_role_id r = Some q"
    "own \<in> set (roles_for_user db (user_id ctx))" "is_within_subtree db q (rl_id own)"
proof -
  have r: "rl_id r = rid" "r \<in> set (db_roles db)" using find_by_id_Some [OF assms(4)] by auto
  from can_manage [OF assms(5,3)] r(1) obtain own where
    own: "own \<in> set (roles_for_user db (user_id ctx))" "is_within_subtree db rid (rl_id own)"
      "rl_id own \<noteq> rid" by (auto simp: image_iff)
  have par: "parent_of db rid = rl_parent_role_id r" using parent_of_role [OF assms(1) r(2)] r(1) by simp
  show ?thesis
  proof (cases "parent_of db rid")
    case None
    with own show ?thesis by (simp add: roles.below_root [OF assms(2)])
  next
    case (Some q)
    with own have "is_within_subtree db q (rl_id own)" by (simp add: roles.below_child [OF assms(2)])
    with Some par own(1) show ?thesis by (intro that [of q own]) simp_all
  qed
qed

lemma parent_not_below:
  assumes "levels_within 20 db" "parent_of db r = Some q"
  shows "\<not> is_within_subtree db q r"
proof
  assume "is_within_subtree db q r"
  moreover have "is_within_subtree db r q"
    using assms by (simp add: roles.below_child roles.below_refl)
  ultimately have "q = r" by (rule roles.below_antisym [OF assms(1)])
  obtain d where "depth (parent_of db) r d" using assms(1) by (rule levels_withinE)
  from depth_irrefl [OF this] assms(2) \<open>q = r\<close> show False by (auto simp: parent_rel_iff)
qed

lemma edit_capped:
  assumes "schema_ok db" "levels_within n db" "n \<le> 18" "fresh_context db ctx"
    and "edit_role parse_uuid show_uuid cookie ctx rid form db = (res, db')"
  shows "schema_ok db' \<and> levels_within (n + 2) db' \<and> capped_change ctx db db'"
  using assms(5)
proof (cases rule: edit_role_cases)
  case same
  then show ?thesis using edit_role_levels [OF assms(1,2,5)] by (simp add: capped_change_refl)
next
  case (moved r par name desc db1)
  have r: "rl_id r = rid" "r \<in> set (db_roles db)" using find_by_id_Some [OF moved(1)] by auto
  then have "rid \<in> set (role_ids db)" by (auto simp: role_ids_def)
  note u = parent_of_update [OF moved(5) this]
  have levels: "levels_within 20 db" "levels_within 20 db1"
    using levels_within_mono [OF assms(2), of 20] assms(3)
      levels_within_mono [OF update_levels [OF assms(1,2) moved(1,4,5)], of 20] by simp_all
  have "capped_change ctx db db1"
  proof (cases "par = rl_parent_role_id r")
    case True
    then have "parent_of db1 = parent_of db" using u(1) parent_of_role [OF assms(1) r(2)] r(1) by auto
    then show ?thesis using u(2,3) effective_cong [of db1 db] by (simp add: capped_change_def)
  next
    case False
    note chk = moved(4) [unfolded may_move_under_def, simplified False if_False]
    have move: "(y, rid) \<notin> (parent_rel (parent_of db))\<^sup>*
        \<and> (\<not> has_no_ceiling ctx \<longrightarrow> effective_permissions_for_role db y \<subseteq> permissions ctx)"
      if y: "par = Some y" for y
    proof -
      from chk y r(1) have "has_no_ceiling ctx \<or> list_ex (\<lambda>r. rl_id r = y) (assignable_roles db ctx)"
        by (auto split: if_splits)
      then have "effective_permissions_for_role db y \<subseteq> permissions ctx" if "\<not> has_no_ceiling ctx"
        using that assignable_below [OF assms(1) levels(1) that] own_role_capped [OF assms(4) levels(1)]
        by (auto simp: list_ex_iff)
      then show ?thesis using moved_parent [of db ctx r y] moved(4) False y r(1) by auto
    qed
    have other: "parent_of db1 y = parent_of db y \<and> own_permissions db1 y = own_permissions db y"
      if "y \<noteq> rid" for y using u that by simp
    have "effective_permissions_for_role db1 x = effective_permissions_for_role db x
        \<or> effective_permissions_for_role db1 x \<subseteq> permissions ctx" for x
    proof (cases "is_within_subtree db x rid \<and> \<not> has_no_ceiling ctx")
      case False
      then show ?thesis using effective_elsewhere [OF levels other] by (auto simp: has_no_ceiling_iff)
    next
      case True
      with chk obtain y where y: "par = Some y" by (cases par) auto
      with move True have m: "(y, rid) \<notin> (parent_rel (parent_of db))\<^sup>*"
        "effective_permissions_for_role db y \<subseteq> permissions ctx" by blast+
      have "is_within_subtree db1 x rid"
        using True ancestors_to_moved [of x rid "parent_of db" par]
        by (simp add: roles.below_ancestors [OF levels(1)] roles.below_ancestors [OF levels(2)] u(1))
      then have "is_within_subtree db1 x y"
        using u(1) y roles.below_trans [OF levels(2)] roles.below_child [OF levels(2), of rid y y]
          roles.below_refl [OF levels(2)] by auto
      then have "effective_permissions_for_role db1 x \<subseteq> effective_permissions_for_role db1 y"
        by (rule roles.effective_capped [OF levels(2)])
      also have "\<dots> = effective_permissions_for_role db y"
        using m(1) effective_elsewhere [OF levels other] by (simp add: roles.below_ancestors [OF levels(1)])
      finally show ?thesis using m(2) by blast
    qed
    with u(3) show ?thesis by (simp add: capped_change_def)
  qed
  then show ?thesis using edit_role_levels [OF assms(1,2,5)] capped_change_audit [OF moved(6)] by simp
qed


lemma delete_refusal_None:
  "delete_refusal db r = None \<Longrightarrow> user_count db (rl_id r) = 0 \<and> children_of db (rl_id r) = []"
  by (auto simp: delete_refusal_def Let_def split: if_splits)

lemma delete_capped:
  assumes "schema_ok db" "levels_within n db" "n \<le> 20"
    and "delete_role cookie ctx rid form db = (res, db')"
  shows "schema_ok db' \<and> levels_within n db' \<and> capped_change ctx db db'"
  using assms(4)
proof (cases rule: delete_role_cases)
  case (removed r db1)
  note d = parent_of_delete [OF removed(5)]
  have lev: "levels_within n db1"
    using reparent_levels [OF assms(2) d(1), of 0] by simp
  have levels: "levels_within 20 db" "levels_within 20 db1"
    using levels_within_mono [OF assms(2,3)] levels_within_mono [OF lev assms(3)] by auto
  have leaf: "\<not> is_within_subtree db x rid" if "x \<noteq> rid" for x
  proof
    assume "is_within_subtree db x rid"
    with that have "(x, rid) \<in> (parent_rel (parent_of db))\<^sup>+"
      by (simp add: roles.below_ancestors [OF levels(1)] rtrancl_eq_or_trancl)
    then obtain z where "parent_of db z = Some rid" by (cases rule: tranclE) (auto simp: parent_rel_iff)
    then show False
      using children_ids [OF assms(1), of rid] delete_refusal_None [OF removed(4)]
        find_by_id_Some [OF removed(1)] by auto
  qed
  have "effective_permissions_for_role db1 x = effective_permissions_for_role db x
      \<or> effective_permissions_for_role db1 x \<subseteq> permissions ctx" for x
  proof (cases "x = rid")
    case True
    then show ?thesis using roles.effective_own [OF levels(2), of rid] d(2) by auto
  next
    case False
    then show ?thesis using effective_elsewhere [OF levels _ leaf] d(1,2) by simp
  qed
  then have "capped_change ctx db db1" using d(4) by (auto simp: capped_change_def)
  then show ?thesis
    using delete_role_levels [OF assms(1,2,4)] capped_change_audit [OF removed(6)] by simp
qed (use assms in \<open>simp add: capped_change_refl\<close>)

lemma apply_capped:
  assumes "schema_ok db" "levels_within n db" "n \<le> 20" "fresh_context db ctx"
    and "apply_permissions parse_json cookie ctx rid form db = (res, db')"
  shows "schema_ok db' \<and> levels_within n db' \<and> capped_change ctx db db'"
  using assms(5)
proof (cases rule: apply_permissions_cases)
  case (changed r keys db1)
  note u = own_set_permissions [OF changed(4)]
  have lev: "levels_within n db1" using assms(2) u(2) by (simp add: levels_within_def)
  have levels: "levels_within 20 db" "levels_within 20 db1"
    using levels_within_mono [OF assms(2,3)] levels_within_mono [OF lev assms(3)] by auto
  have other: "parent_of db1 y = parent_of db y \<and> own_permissions db1 y = own_permissions db y"
    if "y \<noteq> rid" for y using u that by simp
  have "effective_permissions_for_role db1 x = effective_permissions_for_role db x
      \<or> effective_permissions_for_role db1 x \<subseteq> permissions ctx" for x
  proof (cases "is_within_subtree db x rid \<and> \<not> has_no_ceiling ctx")
    case False
    then show ?thesis using effective_elsewhere [OF levels other] by (auto simp: has_no_ceiling_iff)
  next
    case True
    then obtain q own where q: "parent_of db rid = Some q"
      "own \<in> set (roles_for_user db (user_id ctx))" "is_within_subtree db q (rl_id own)"
      using managed_parent [OF assms(1) levels(1) _ changed(1,2)] by metis
    have "is_within_subtree db1 x rid"
      using True by (simp add: roles.below_ancestors [OF levels(1)] roles.below_ancestors [OF levels(2)] u(2))
    moreover have "is_within_subtree db1 rid q"
      using q(1) u(2) by (simp add: roles.below_child [OF levels(2)] roles.below_refl [OF levels(2)])
    ultimately have "effective_permissions_for_role db1 x \<subseteq> effective_permissions_for_role db1 q"
      using roles.effective_capped [OF levels(2)] roles.below_trans [OF levels(2)] by blast
    also have "\<dots> = effective_permissions_for_role db q"
      using parent_not_below [OF levels(1) q(1)] effective_elsewhere [OF levels other] by simp
    also have "\<dots> \<subseteq> permissions ctx" by (rule own_role_capped [OF assms(4) levels(1) q(2,3)])
    finally show ?thesis ..
  qed
  then have "capped_change ctx db db1" using u(3) by (simp add: capped_change_def)
  then show ?thesis
    using apply_permissions_levels [OF assms(1,2,5)] capped_change_audit [OF changed(5)] by simp
qed (use assms in \<open>simp add: capped_change_refl\<close>)

lemma role_step_capped:
  assumes "schema_ok db" "levels_within n db" "3 \<le> n" "n \<le> 18" "fresh_context db ctx" "role_step ctx db db'"
  shows "schema_ok db' \<and> levels_within (n + 2) db' \<and> capped_change ctx db db'"
  using assms(6)
proof (cases rule: role_step.cases)
  case (create_step parse_uuid cookie body fresh res)
  with create_capped [OF assms(1-3) _ create_step] assms(4) show ?thesis
    using levels_within_mono [of n db' "n + 2"] by auto
next
  case (edit_step parse_uuid show_uuid cookie rid form res)
  then show ?thesis using edit_capped [OF assms(1,2,4,5)] by blast
next
  case (delete_step cookie rid form res)
  with delete_capped [OF assms(1,2) _ delete_step] assms(4) show ?thesis
    using levels_within_mono [of n db' "n + 2"] by auto
next
  case (apply_step parse_json cookie rid form res)
  with apply_capped [OF assms(1,2) _ assms(5) apply_step] assms(4) show ?thesis
    using levels_within_mono [of n db' "n + 2"] by auto
qed


section \<open>Properties\<close>

text \<open>The context of user 70 of the demonstration store, who manages the roles below \<open>1\<close>.\<close>

definition demo_ctx :: auth_context where
  "demo_ctx = auth_context_load demo_db 70 ''nadia''"

definition demo_uuid :: "string \<Rightarrow> uuid option" where
  "demo_uuid s = (if s = ''one'' then Some 1 else if s = ''two'' then Some 2 else if s = ''four'' then Some 4 else None)"

lemma demo_fresh: "fresh_context demo_db demo_ctx"
  by (simp add: fresh_context_def demo_ctx_def auth_context_load_def)

lemma demo_levels_18: "levels_within 18 demo_db"
  by (rule levels_within_mono [OF demo_levels]) simp

text \<open>C1: No privilege escalation. A request to create, edit, re-grant or delete a role, made with a
  freshly loaded context on a hierarchy of at most eighteen levels, gives no user a permission that
  neither that user held before nor the requester holds; in particular nobody can widen their own
  permissions.\<close>

theorem no_privilege_escalation:
  assumes "schema_ok db" "levels_within 18 db" "fresh_context db ctx" "role_step ctx db db'"
  shows "effective_permissions db' u \<subseteq> effective_permissions db u \<union> permissions ctx
    \<and> effective_permissions db' (user_id ctx) \<subseteq> effective_permissions db (user_id ctx)"
proof -
  have ok: "schema_ok db'" "capped_change ctx db db'"
    using role_step_capped [OF assms(1,2) _ _ assms(3,4)] by simp_all
  have "effective_permissions db' u \<subseteq> effective_permissions db u \<union> permissions ctx" for u
    using ok(2) by (auto simp: effective_permissions_ids [OF assms(1)] effective_permissions_ids [OF ok(1)]
        capped_change_def)
  then show ?thesis using fresh_context_permissions [OF assms(3)] by blast
qed

theorem no_privilege_escalation_witness:
  "schema_ok demo_db \<and> role_step demo_ctx demo_db
     (snd (edit_role demo_uuid (\<lambda>_. []) (Some ''t'') demo_ctx 3
       \<lparr>ef_csrf_token = ''t'', ef_name = ''Reader'', ef_description = [], ef_parent_role_id = ''two''\<rparr> demo_db))
   \<and> effective_permissions (snd (edit_role demo_uuid (\<lambda>_. []) (Some ''t'') demo_ctx 3
       \<lparr>ef_csrf_token = ''t'', ef_name = ''Reader'', ef_description = [], ef_parent_role_id = ''two''\<rparr> demo_db)) 90
     \<subseteq> effective_permissions demo_db 90 \<union> permissions demo_ctx"
  (is "_ \<and> role_step _ _ (snd ?e) \<and> _")
proof -
  have step: "role_step demo_ctx demo_db (snd ?e)"
    by (rule role_step.edit_step [OF surjective_pairing])
  from no_privilege_escalation [OF demo_schema_ok demo_levels_18 demo_fresh step] step demo_schema_ok
  show ?thesis by blast
qed

text \<open>C17: Creating a role respects the nesting cap: in a hierarchy of at most three levels the
  created role is at level three or above, and no other role moves.\<close>

theorem create_role_keeps_depth_cap:
  assumes "schema_ok db" "levels_within 3 db"
  shows "levels_within 3 (snd (create_role parse_uuid cookie ctx body fresh db))"
  using create_capped [OF assms _ _ surjective_pairing] by simp

definition demo_create :: handler_result where
  "demo_create = create_role demo_uuid (Some ''t'') demo_ctx
     [(''csrf_token'', ''t''), (''name'', ''Intern''), (''parent_role_id'', ''two''),
      (''permissions'', ''network.view'')] 5 demo_db"

lemma demo_create_result: "fst demo_create = Ok (Redirect_Role 5)"
  by code_simp

theorem create_role_keeps_depth_cap_witness:
  "fst demo_create = Ok (Redirect_Role 5) \<and> levels_within 3 (snd demo_create)"
  using create_role_keeps_depth_cap [OF demo_schema_ok demo_levels] demo_create_result
  by (simp add: demo_create_def)

text \<open>A no-ceiling administrator moves role \<open>1\<close>, which has two levels below it, under role \<open>4\<close>.\<close>

definition demo_super :: auth_context where
  "demo_super = \<lparr>user_id = 90, username = ''root'', permissions = set permission_ALL\<rparr>"

definition demo_move :: handler_result where
  "demo_move = edit_role demo_uuid (\<lambda>_. []) (Some ''t'') demo_super 1
     \<lparr>ef_csrf_token = ''t'', ef_name = ''Network Admin'', ef_description = [],
      ef_parent_role_id = ''four''\<rparr> demo_db"

lemma demo_move_result: "fst demo_move = Ok (Redirect_Role 1) \<and> depth_of (snd demo_move) 3 = 4"
  by code_simp

text \<open>C18: Editing a role does not respect the nesting cap: the check looks at the depth of the new
  parent and not at the levels below the moved role, so one allowed move takes a hierarchy of three
  levels to four.\<close>

theorem edit_role_exceeds_depth_cap:
  "\<exists>parse_uuid show_uuid cookie ctx rid form db x.
     schema_ok db \<and> levels_within 3 db
     \<and> fst (edit_role parse_uuid show_uuid cookie ctx rid form db) = Ok (Redirect_Role rid)
     \<and> depth_of (snd (edit_role parse_uuid show_uuid cookie ctx rid form db)) x > MAX_ROLE_DEPTH"
proof -
  have "depth_of (snd demo_move) 3 > MAX_ROLE_DEPTH"
    using demo_move_result by (simp add: MAX_ROLE_DEPTH_def)
  with demo_move_result demo_schema_ok demo_levels show ?thesis unfolding demo_move_def by blast
qed

text \<open>C5: Whatever sequence of role requests runs, by whomever, the parent pointers never form a cycle and
  every chain of parents ends in a root: a request adds at most two levels to a hierarchy of three or
  more, so after \<open>k\<close> requests on one of \<open>n\<close> levels there are at most \<open>n + 2k\<close>. The cycle check of
  \<^verbatim>\<open>edit_role\<close> sees only twenty hops, but it is exact in hierarchies of any depth, because a parent is
  accepted only when it has at most one role above it.\<close>

theorem role_requests_keep_hierarchy:
  assumes "(role_request ^^ k) db db'" "schema_ok db" "levels_within n db" "3 \<le> n"
  shows "acyclic (parent_rel (parent_of db')) \<and> levels_within (n + 2 * k) db'"
  using role_requests_levels [OF assms] levels_acyclic by blast

text \<open>The root of the moved tree cannot be moved below one of its new descendants in turn.\<close>

definition demo_loop :: handler_result where
  "demo_loop = edit_role demo_uuid (\<lambda>_. []) (Some ''t'') demo_super 4
     \<lparr>ef_csrf_token = ''t'', ef_name = ''Auditor'', ef_description = [],
      ef_parent_role_id = ''one''\<rparr> (snd demo_move)"

lemma demo_loop_result:
  "fst demo_loop = Ok (Rendered (RoleDetailPage 4) ''That would create a cycle in the role hierarchy.'')"
  by code_simp

theorem role_requests_keep_hierarchy_witness:
  "fst demo_move = Ok (Redirect_Role 1) \<and> depth_of (snd demo_move) 3 = 4
   \<and> fst demo_loop = Ok (Rendered (RoleDetailPage 4) ''That would create a cycle in the role hierarchy.'')
   \<and> acyclic (parent_rel (parent_of (snd demo_loop))) \<and> levels_within 7 (snd demo_loop)"
proof -
  have "role_request demo_db (snd demo_move)" "role_request (snd demo_move) (snd demo_loop)"
    unfolding demo_move_def demo_loop_def by (rule edit_request)+
  then have "(role_request ^^ 2) demo_db (snd demo_loop)" by (auto simp: numeral_2_eq_2)
  from role_requests_keep_hierarchy [OF this demo_schema_ok demo_levels] demo_move_result demo_loop_result
  show ?thesis by simp
qed

text \<open>C13: Saving a role's permissions, by an editor who may manage the role, with the CSRF token and the
  confirmation: inside the editor's cap the role ends up with exactly what was requested, outside the
  cap with what it had, and no other role changes. The answer is the role's page once the audit row is
  written; when that row fails the answer is an error, but the permissions are saved.\<close>

theorem apply_permissions_cap_and_preserve:
  assumes "csrf_verify cookie (af_csrf_token form)" "af_confirm form"
    and "find_by_id db rid = Some r" "ensure_can_manage_role db ctx r = Ok ()"
    and "parse_json (af_permissions_json form) = Some keys" "range as_key \<subseteq> set (db_permissions db)"
    and "apply_permissions parse_json cookie ctx rid form db = (res, db')"
  shows "set (permissions_for_role db' rid)
      = requested_permissions keys \<inter> permission_cap db ctx (rl_parent_role_id r)
        \<union> (set (permissions_for_role db rid) - permission_cap db ctx (rl_parent_role_id r))
    \<and> (\<forall>x. x \<noteq> rid \<longrightarrow> set (permissions_for_role db' x) = set (permissions_for_role db x))
    \<and> (is_ok res \<longrightarrow> res = Ok (Redirect_Role rid) \<and> (\<exists>row. db_audit_log db' = db_audit_log db @ [row]))
    \<and> (user_id ctx \<in> set (db_users db) \<and> (\<forall>row. \<not> db_log_fails db row) \<longrightarrow> is_ok res)"
proof -
  let ?new = "permission_list (regranted db ctx r keys)"
  have r: "rl_id r = rid" "rid \<in> set (role_ids db)"
    using find_by_id_Some [OF assms(3)] by (auto simp: role_ids_iff)
  have "is_ok (fst (set_permissions rid ?new db))"
    using r(2) assms(6) by (auto simp: set_permissions_ok)
  then obtain db1 where db1: "set_permissions rid ?new db = (Ok (), db1)"
    by (cases rule: prod.exhaust [of "set_permissions rid ?new db"]; cases "fst (set_permissions rid ?new db)") auto
  have "has ctx RolesManage" using assms(4) by (auto simp: ensure_can_manage_role_def split: if_splits)
  then have run: "then_db (audit_record (role_event ctx (AccountAction RoleChanged) (rl_name r) (Some (JObject
             [(''previous_permissions'', json_keys (set (permissions_for_role db rid))),
              (''new_permissions'', json_keys (regranted db ctx r keys))]))) db1) (\<lambda>_ db.
         (Ok (Redirect_Role rid), db)) = (res, db')"
    using assms r db1
    by (simp add: apply_permissions_def guarded_def ensure_def require_csrf_def Let_def then_db_def [of "(Inr _, _)"]
        regranted_def own_permissions_def)
  have same: "db_users db1 = db_users db" "db_log_fails db1 = db_log_fails db" "db_audit_log db1 = db_audit_log db"
    using db1 by (cases rule: set_permissions_result; simp)+
  have "own_permissions db' = (own_permissions db)(rid := regranted db ctx r keys)"
    using own_set_permissions(1) [OF db1] no_audit_same(2) [OF then_db_audit [OF run]] by simp
  moreover have "(is_ok res \<longrightarrow> res = Ok (Redirect_Role rid) \<and> (\<exists>row. db_audit_log db' = db_audit_log db @ [row]))
    \<and> (user_id ctx \<in> set (db_users db) \<and> (\<forall>row. \<not> db_log_fails db row) \<longrightarrow> is_ok res)"
    using run same by (auto simp: then_db_def audit_record_def role_event_def entry_of_event_def new_event_def Let_def
        split: if_splits)
  ultimately show ?thesis using r(1) by (simp add: own_permissions_def fun_eq_iff regranted_def)
qed

text \<open>Role \<open>3\<close> keeps \<^verbatim>\<open>audit.view\<close>, which is outside the editor's cap, and loses \<^verbatim>\<open>network.view\<close>; the
  request for \<^verbatim>\<open>users.view\<close> is outside the cap too.\<close>

definition demo_apply :: handler_result where
  "demo_apply = apply_permissions (\<lambda>_. Some [''users.view'']) (Some ''t'') demo_ctx 3
     \<lparr>af_csrf_token = ''t'', af_confirm = True, af_permissions_json = []\<rparr> demo_db"

theorem apply_permissions_cap_and_preserve_witness:
  "fst demo_apply = Ok (Redirect_Role 3)
   \<and> set (permissions_for_role (snd demo_apply) 3) = {AuditView}
   \<and> set (permissions_for_role (snd demo_apply) 2) = set (permissions_for_role demo_db 2)"
proof -
  have facts: "csrf_verify (Some ''t'') ''t''" "find_by_id demo_db 3 = Some (demo_role 3 ''Reader'' (Some 2))"
    "ensure_can_manage_role demo_db demo_ctx (demo_role 3 ''Reader'' (Some 2)) = Ok ()"
    "requested_permissions [''users.view''] \<inter> permission_cap demo_db demo_ctx (Some 2)
      \<union> (set (permissions_for_role demo_db 3) - permission_cap demo_db demo_ctx (Some 2)) = {AuditView}"
    "user_id demo_ctx \<in> set (db_users demo_db)"
    by code_simp+
  have cat: "range as_key \<subseteq> set (db_permissions demo_db)" "\<not> db_log_fails demo_db row" for row
    by (auto simp: demo_db_def permission_ALL_UNIV)
  have "demo_apply = (fst demo_apply, snd demo_apply)" by simp
  from apply_permissions_cap_and_preserve [OF _ _ facts(2,3) _ cat(1) this [unfolded demo_apply_def], of "[''users.view'']"]
    facts cat(2)
  show ?thesis by (auto simp: demo_role_def demo_apply_def)
qed

text \<open>C30: A request to create, edit, delete or re-grant a role, or to preview its new permissions, is refused
  with an error and changes nothing when the user lacks \<^verbatim>\<open>roles.manage\<close>, and when the CSRF token of the form
  is empty or differs from the one in the cookie, or there is no cookie.\<close>

theorem role_requests_fail_closed:
  assumes "\<not> has ctx RolesManage \<or> token = [] \<or> cookie \<noteq> Some token"
  defines "refusal \<equiv> (if has ctx RolesManage then Validation ''Your session expired or this form was submitted from an untrusted origin. Please try again.'' else Forbidden)"
  shows "(rf_csrf_token (parse_role_form body) = token
       \<longrightarrow> create_role parse_uuid cookie ctx body fresh db = (Err refusal, db))
    \<and> (ef_csrf_token form = token \<longrightarrow> edit_role parse_uuid show_uuid cookie ctx rid form db = (Err refusal, db))
    \<and> (df_csrf_token dform = token \<longrightarrow> delete_role cookie ctx rid dform db = (Err refusal, db))
    \<and> (pf_csrf_token (parse_permissions_form body) = token
       \<longrightarrow> update_permissions cookie ctx rid body db = (Err refusal, db))
    \<and> (af_csrf_token aform = token \<longrightarrow> apply_permissions parse_json cookie ctx rid aform db = (Err refusal, db))"
  using assms(1) unfolding refusal_def
  by (auto simp: create_role_def edit_role_def delete_role_def update_permissions_def apply_permissions_def
      guarded_def ensure_def require_csrf_def csrf_verify_def Let_def)

theorem role_requests_fail_closed_witness:
  "has demo_super RolesManage
   \<and> delete_role (Some ''cookie'') demo_super 3
       \<lparr>df_csrf_token = ''forged'', df_confirm = True, df_confirm_text = ''Reader''\<rparr> demo_db
     = (Err (Validation ''Your session expired or this form was submitted from an untrusted origin. Please try again.''), demo_db)"
proof -
  have "has demo_super RolesManage" by (simp add: demo_super_def has_def permission_ALL_UNIV)
  with role_requests_fail_closed [of demo_super "''forged''" "Some ''cookie''"] show ?thesis by simp
qed

text \<open>A request to create a role that succeeds went through all of its statements.\<close>

lemma create_role_ok:
  assumes "create_role parse_uuid cookie ctx body fresh db = (Ok (Redirect_Role rid), db')"
  obtains parent name desc db1 r db2 where
    "may_create_under db ctx parent = Ok None" "\<And>p. parent = Some p \<Longrightarrow> find_by_id db (rl_id p) = Some p"
    "requested_permissions (rf_permissions (parse_role_form body)) \<subseteq> permission_cap db ctx (map_option rl_id parent)"
    "create fresh name desc False (map_option rl_id parent) (Some (user_id ctx)) db = (Ok r, db1)" "rid = fresh"
    "set_permissions fresh (permission_list (requested_permissions (rf_permissions (parse_role_form body)))) db1 = (Ok (), db2)"
    "no_audit db' = no_audit db2"
proof -
  let ?form = "parse_role_form body"
  let ?req = "requested_permissions (rf_permissions ?form)"
  from assms obtain parent where par: "chosen_parent parse_uuid db (trim (rf_parent_role_id ?form)) = Ok parent"
    "may_create_under db ctx parent = Ok None" "?req \<subseteq> permission_cap db ctx (map_option rl_id parent)"
    and wr: "then_db (create fresh (trim (rf_name ?form)) (trim (rf_description ?form)) False (map_option rl_id parent)
                  (Some (user_id ctx)) db) (\<lambda>r db.
               then_db (set_permissions (rl_id r) (permission_list ?req) db) (\<lambda>_ db.
               then_db (audit_record (role_event ctx (FleetAction RoleCreated) (trim (rf_name ?form)) (Some (JObject
                   [(''parent'', json_string_option (map_option rl_name parent)),
                    (''permissions'', json_keys ?req)]))) db) (\<lambda>_ db.
               (Ok (Redirect_Role (rl_id r)), db)))) = (Ok (Redirect_Role rid), db')"
    unfolding create_role_def Let_def by (auto simp: guarded_eq split: if_splits sum.splits option.splits)
  from wr obtain r db1 db2 where c:
    "create fresh (trim (rf_name ?form)) (trim (rf_description ?form)) False (map_option rl_id parent)
       (Some (user_id ctx)) db = (Ok r, db1)"
    "set_permissions (rl_id r) (permission_list ?req) db1 = (Ok (), db2)"
    and log: "then_db (audit_record (role_event ctx (FleetAction RoleCreated) (trim (rf_name ?form)) (Some (JObject
         [(''parent'', json_string_option (map_option rl_name parent)), (''permissions'', json_keys ?req)]))) db2)
       (\<lambda>_ db. (Ok (Redirect_Role (rl_id r)), db)) = (Ok (Redirect_Role rid), db')"
    by (auto simp: then_db_eq [of "create _ _ _ _ _ _ _"] then_db_eq [of "set_permissions _ _ _"])
  have a: "no_audit db' = no_audit db2" "rid = rl_id r"
    using then_db_audit [OF log] log by (simp, auto simp: then_db_eq)
  have "rl_id r = fresh" using c(1) by (auto elim: create_cases)
  moreover have "find_by_id db (rl_id p) = Some p" if "parent = Some p" for p
    using par(1) that find_by_id_Some by (auto simp: chosen_parent_def split: if_splits option.splits)
  ultimately show ?thesis using that [OF par(2) _ par(3) c(1)] c(2) a by simp
qed

text \<open>C39: A role that was created holds exactly the permissions requested for it, all of them in effect: they are
  among the creator's own and among those effective at the parent. No other role gains or loses one.\<close>

theorem created_role_gets_what_was_requested:
  assumes "schema_ok db" "levels_within 20 db"
    and "create_role parse_uuid cookie ctx body fresh db = (Ok (Redirect_Role rid), db')"
  shows "set (permissions_for_role db' rid) = requested_permissions (rf_permissions (parse_role_form body))
    \<and> effective_permissions_for_role db' rid = requested_permissions (rf_permissions (parse_role_form body))
    \<and> effective_permissions_for_role db' rid \<subseteq> permissions ctx
    \<and> (\<forall>x. x \<noteq> rid \<longrightarrow> effective_permissions_for_role db' x = effective_permissions_for_role db x)"
  using assms(3)
proof (cases rule: create_role_ok)
  case (1 parent name desc db1 r db2)
  let ?req = "requested_permissions (rf_permissions (parse_role_form body))"
  have fresh: "fresh \<notin> set (role_ids db)" using 1(4) by (auto elim: create_cases)
  note c = parent_of_create [OF 1(4)] and sp = own_set_permissions [OF 1(6)] and same = no_audit_same [OF 1(7)]
  have levels: "levels_within 20 db'" using create_role_levels [OF assms(1,2) _ assms(3)] by simp
  have own: "own_permissions db' = (own_permissions db)(fresh := ?req)" using c sp same by simp
  have parent: "parent_of db' = (parent_of db)(fresh := map_option rl_id parent)" using c sp same by simp
  have other: "effective_permissions_for_role db' x = effective_permissions_for_role db x" if "x \<noteq> fresh" for x
    using that unknown_not_above [OF assms(1) fresh, of x] own parent
    by (intro effective_elsewhere [OF assms(2) levels, of fresh]) (auto simp: roles.below_ancestors [OF assms(2)])
  have eff: "effective_permissions_for_role db' fresh = ?req"
  proof (cases parent)
    case None
    with parent own show ?thesis by (simp add: roles.effective_root [OF levels])
  next
    case (Some p)
    with 1(2) fresh have "rl_id p \<noteq> fresh" using find_by_id_None [of db fresh] by auto
    then have "effective_permissions_for_role db' (rl_id p) = effective_permissions_for_role db (rl_id p)" by (rule other)
    with Some parent own 1(3) show ?thesis
      by (auto simp: roles.effective_child [OF levels, of fresh "rl_id p"] permission_cap_def)
  qed
  have "set (permissions_for_role db' fresh) = ?req"
    using fun_cong [OF own, of fresh] by (simp add: own_permissions_def)
  moreover have "?req \<subseteq> permissions ctx" using 1(3) permission_cap_grantable by blast
  ultimately show ?thesis using eff other 1(5) by simp
qed

theorem created_role_gets_what_was_requested_witness:
  "effective_permissions_for_role (snd demo_create) 5 = {NetworkView}
   \<and> effective_permissions_for_role (snd demo_create) 3 = effective_permissions_for_role demo_db 3"
proof -
  have req: "requested_permissions (rf_permissions (parse_role_form
     [(''csrf_token'', ''t''), (''name'', ''Intern''), (''parent_role_id'', ''two''),
      (''permissions'', ''network.view'')])) = {NetworkView}" by code_simp
  have run: "demo_create = (Ok (Redirect_Role 5), snd demo_create)"
    using demo_create_result by (metis prod.collapse)
  from created_role_gets_what_was_requested [OF demo_schema_ok demo_levels_20 run [unfolded demo_create_def]] req
  show ?thesis by (simp add: demo_create_def)
qed

lemma create_row:
  assumes "create fresh name desc sys par u db = (Ok r, db1)" "x \<noteq> fresh"
  shows "find_by_id db1 x = find_by_id db x"
  using assms by (auto elim!: create_cases simp: find_by_id_def find_append_other)

lemma update_row:
  assumes "update rid name desc par db = (Ok (), db1)" "x \<noteq> rid"
  shows "find_by_id db1 x = find_by_id db x"
proof -
  have "find_by_id db x = Some r \<Longrightarrow> rl_id r \<noteq> rid" for r
    using find_by_id_Some assms(2) by auto
  then show ?thesis
    using assms(1) by (cases "find_by_id db x")
      (auto simp: update_def find_by_id_def find_map_same_id split: if_splits)
qed

lemma delete_row:
  "delete rid db = (Ok (), db1) \<Longrightarrow> x \<noteq> rid \<Longrightarrow> find_by_id db1 x = find_by_id db x"
  by (auto elim!: delete_cases simp: find_by_id_def find_filter_other)

lemma set_permissions_row: "set_permissions rid ps db = (Ok (), db1) \<Longrightarrow> find_by_id db1 = find_by_id db"
  by (auto simp: find_by_id_def fun_eq_iff elim!: set_permissions_result)

lemma no_audit_row: "no_audit d = no_audit e \<Longrightarrow> find_by_id d = find_by_id e"
  by (auto simp: no_audit_def find_by_id_def fun_eq_iff dest!: arg_cong [where f = db_roles])

text \<open>C6: A delegated administrator, one with a ceiling, cannot change a system role, a role they hold
  themselves, or a role outside the subtrees of the roles they hold: neither its row nor its grants.\<close>

theorem delegate_stays_in_subtree:
  assumes "schema_ok db" "levels_within 20 db" "\<not> has_no_ceiling ctx" "role_step ctx db db'"
    and "find_by_id db x = Some r"
    and "rl_is_system r \<or> (user_id ctx, x) \<in> set (db_user_roles db)
      \<or> (\<forall>own \<in> set (roles_for_user db (user_id ctx)). \<not> is_within_subtree db x (rl_id own))"
  shows "find_by_id db' x = Some r \<and> own_permissions db' x = own_permissions db x"
proof -
  have managed: "rid \<noteq> x"
    if "find_by_id db rid = Some r'" "ensure_can_manage_role db ctx r' = Ok ()" for rid r'
    using that assms(5,6) can_manage [OF that(2) assms(3)] find_by_id_Some [OF that(1)]
      own_role_ids [OF assms(1), of "user_id ctx"] by auto
  have x: "x \<in> set (role_ids db)" using assms(5) find_by_id_None [of db x] by auto
  from assms(4) show ?thesis
  proof (cases rule: role_step.cases)
    case (create_step parse_uuid cookie body fresh res)
    then show ?thesis
    proof (cases rule: create_role_cases)
      case (made parent requested r1 db1 db2 name desc)
      have fresh: "x \<noteq> fresh" using made(5) x by (auto elim: create_cases)
      have "find_by_id db2 x = find_by_id db x" "own_permissions db2 x = own_permissions db x"
        using made(7) create_row [OF made(5) fresh] parent_of_create(2) [OF made(5)] fresh
          set_permissions_row own_set_permissions(1) by force+
      then show ?thesis using assms(5) no_audit_row [OF made(8)] no_audit_same(2) [OF made(8)] by simp
    qed (use assms(5) in simp)
  next
    case (edit_step parse_uuid show_uuid cookie rid form res)
    then show ?thesis
    proof (cases rule: edit_role_cases)
      case (moved r1 par name desc db1)
      then have "x \<noteq> rid" "rid \<in> set (role_ids db)"
        using managed find_by_id_None [of db rid] by auto
      then show ?thesis
        using assms(5) update_row [OF moved(5)] parent_of_update(2) [OF moved(5)]
          no_audit_row [OF moved(6)] no_audit_same(2) [OF moved(6)] by simp
    qed (use assms(5) in simp)
  next
    case (delete_step cookie rid form res)
    then show ?thesis
    proof (cases rule: delete_role_cases)
      case (removed r1 db1)
      then have "x \<noteq> rid" using managed by blast
      then show ?thesis
        using assms(5) delete_row [OF removed(5)] parent_of_delete(2) [OF removed(5)]
          no_audit_row [OF removed(6)] no_audit_same(2) [OF removed(6)] by simp
    qed (use assms(5) in simp)
  next
    case (apply_step parse_json cookie rid form res)
    then show ?thesis
    proof (cases rule: apply_permissions_cases)
      case (changed r1 keys db1)
      then have "x \<noteq> rid" using managed by blast
      then show ?thesis
        using assms(5) set_permissions_row [OF changed(4)] own_set_permissions(1) [OF changed(4)]
          no_audit_row [OF changed(5)] no_audit_same(2) [OF changed(5)] by simp
    qed (use assms(5) in simp)
  qed
qed

theorem delegate_stays_in_subtree_witness:
  "find_by_id (snd demo_create) 4 = Some (demo_role 4 ''Auditor'' None)"
proof -
  have ceiling: "\<not> has_no_ceiling demo_ctx" by code_simp
  have step: "role_step demo_ctx demo_db (snd demo_create)"
    unfolding demo_create_def by (rule role_step.create_step [OF surjective_pairing])
  have row: "find_by_id demo_db 4 = Some (demo_role 4 ''Auditor'' None)" by code_simp
  have "list_all (\<lambda>own. \<not> is_within_subtree demo_db 4 (rl_id own)) (roles_for_user demo_db (user_id demo_ctx))"
    by code_simp
  then show ?thesis
    using delegate_stays_in_subtree [OF demo_schema_ok demo_levels_20 ceiling step row]
    by (simp add: list_all_iff)
qed

end
