(* ===== verification/Agent_Protocol.thy ===== *)
theory Agent_Protocol
  imports Prelude
begin

text \<open>
  The wire protocol between the control plane and its agents, \<^verbatim>\<open>crates/agent-protocol\<close>: the fixed
  set of operations an agent will run, the protocol version each needs, which may run side by side,
  and the messages that carry them.

  The 249 variants of \<^verbatim>\<open>AgentOperation\<close> are kept in their order and with their fields in order,
  cut into consecutive groups, because one datatype of that size is not practical; \<open>agent_operation\<close>
  is the union of the groups. \<^verbatim>\<open>NetworkScan\<close> is called \<open>NetworkScan_op\<close>, since a permission has that name.
\<close>

section \<open>Payloads\<close>

definition PROTOCOL_VERSION :: "32 word" where
  "PROTOCOL_VERSION = 47"

record create_user_request =
  cu_domain_dns :: string
  cu_service_account_upn :: string
  cu_service_account_password :: string
  cu_target_ou :: string
  cu_sam_base :: string
  cu_upn_suffix :: string
  cu_given_name :: string
  cu_surname :: string
  cu_display_name :: string
  cu_email :: string
  cu_password :: string
  cu_attributes :: "(string \<times> string) list"
  cu_groups :: "string list"
  cu_allow_privileged :: bool

record undo_offboard_request =
  uo_domain_dns :: string
  uo_service_account_upn :: string
  uo_service_account_password :: string
  uo_target_dn :: string
  uo_original_ou :: string
  uo_groups :: "string list"
  uo_allow_privileged :: bool

record create_group_request =
  cg_domain_dns :: string
  cg_service_account_upn :: string
  cg_service_account_password :: string
  cg_name :: string
  cg_target_ou :: string
  cg_scope :: string
  cg_category :: string
  cg_description :: string

datatype sepulchre_config_target = SshdDropIn | SambaInclude

datatype ssh_hardening_setting =
    DisableRootLogin | DisablePasswordAuth | DisableEmptyPasswords | DisableX11Forwarding

datatype journald_setting = SystemMaxUse | SystemKeepFree | MaxRetentionSec | MaxFileSec

section \<open>Operations\<close>

datatype system_op =
    Ping
  | SystemInfo
  | ResourceUsage
  | LoggedInUsers
  | SetHostname string
  | Reboot
  | ListeningPorts
  | RecentAuthLog
  | FirewallStatus
  | FirewallAllowPort "16 word" string
  | FirewallEnable
  | FirewallDenyPort "16 word" string
  | FirewallRemovePort "16 word" string
  | SshdConfigAudit
  | HardenSshd ssh_hardening_setting
  | ClearSshHardening
  | SysctlSecurityPosture
  | AccountPolicyAudit
  | MacStatus
  | PostureFacts
  | AutomaticUpdatesStatus

datatype session_op =
    Elevate string "64 word"
  | Deescalate
  | ElevationStatus
  | NetworkInterfaces
  | NetworkRoutes
  | DnsConfig
  | ActiveConnections
  | ConnectivityCheck string
  | InterfaceSetState string bool
  | NetworkScan_op string "string option"
  | BootHistory
  | KernelRingBuffer
  | SystemJournalErrors
  | FailedLoginAttempts
  | OomKillEvents
  | CoreDumps
  | RecentlyModifiedFiles "32 word"

datatype log_op =
    JournalDiskUsage
  | LogRotationStatus
  | ArchivedLogListing
  | LogDirectorySizes
  | VacuumJournalBySize string
  | VacuumJournalByTime string
  | ListBackups
  | CreateBackup string string
  | VerifyBackup string
  | RestoreBackup string string
  | LoadAverage
  | TopProcessesByCpu
  | TopProcessesByMemory
  | MemoryDetail
  | DiskIoStats
  | FailedServices
  | CpuUtilization
  | NetworkThroughput
  | ThermalSensors
  | MemoryPressure

datatype service_op =
    ListServices
  | ServiceStatus string
  | ServiceLogs string
  | StartService string
  | StopService string
  | RestartService string
  | EnableService string
  | DisableService string
  | PreviousBootErrors
  | SystemRunningState
  | ReadOnlyFilesystems
  | ReloadSystemdDaemon
  | ResetFailedUnits
  | ListFailedUnits
  | RecoverUnit string
  | DiskSpaceCritical
  | FstabCheck
  | RemountReadWrite string

datatype hardware_op =
    CpuInfo
  | PciDevices
  | BlockDevices
  | MemoryHardware
  | DiskHealth string
  | ListContainers
  | ContainerLogs string
  | ContainerInspect string
  | ListImages
  | RuntimeInfo
  | StartContainer string
  | StopContainer string
  | RestartContainer string
  | RemoveContainer string

datatype process_op =
    ListProcesses
  | ProcessDetail "32 word"
  | RenicePriority "32 word" "32 word"
  | SendSignal "32 word" string
  | SignalByName string string bool
  | SetIoPriority "32 word" "8 word" "8 word"
  | SetOomScoreAdj "32 word" "32 word"
  | ProcessOpenFiles "32 word"
  | ProcessLimits "32 word"
  | ZombieReport
  | CleanupTargetsSummary
  | ForceLogRotation
  | ClearTmpFiles "32 word"
  | ClearCoreDumps

datatype account_op =
    VmStatistics
  | InterruptStatistics
  | CpuGovernorStatus
  | TuningParametersStatus
  | SetSwappiness "32 word"
  | SetIoScheduler string string
  | ListUsers
  | ListGroups
  | UserDetail string
  | CreateUser string string
  | CreateGroup string
  | AddUserToGroup string string
  | RemoveUserFromGroup string string
  | LockUserAccount string
  | UnlockUserAccount string
  | DeleteUser string bool
  | DeleteGroup string

datatype package_op =
    DirectoryUsageBreakdown string
  | FindLargeFiles string "32 word"
  | FilesystemCheckDryRun string
  | TrimFilesystem string
  | FilesystemRepair string
  | ListInstalledPackages
  | SearchPackage string
  | PackageInfo string
  | ListUpgradable
  | RefreshPackageIndex
  | InstallPackage string
  | UpgradePackage string
  | RemovePackage string
  | PartitionTable string
  | LvmSummary
  | RaidStatus

datatype storage_op =
    MountFilesystem string string
  | ExtendLogicalVolume string string
  | UnmountFilesystem string
  | CreatePartition string string string
  | DeletePartition string "32 word"
  | CreateRaidArray string string "string list"
  | StopRaidArray string
  | CreatePhysicalVolume string
  | CreateVolumeGroup string "string list"
  | CreateLogicalVolume string string string
  | RemoveLogicalVolume string
  | RemoveVolumeGroup string
  | RemovePhysicalVolume string
  | CreateFilesystem string string

datatype config_op =
    ViewManagedSysctl
  | ViewManagedCronJobs
  | SysctlManagedDrift
  | SetPersistentSysctl string string
  | RemovePersistentSysctlKey string
  | ClearManagedSysctl
  | SetCronJob string string string string
  | RemoveCronJob string
  | ClearManagedCronJobs
  | ViewModuleBlacklist
  | BlacklistModule string
  | RemoveModuleBlacklist string
  | ClearModuleBlacklist
  | ViewJournaldConfig
  | SetJournaldRetention journald_setting string
  | ClearJournaldConfig

datatype containment_op =
    ListBlockedIps
  | IsolationStatus
  | ListQuarantinedFiles
  | BlockRemoteIp string
  | UnblockRemoteIp string
  | QuarantineFile string
  | RestoreQuarantinedFile string
  | DeleteQuarantinedFile string "8 word"
  | DeisolateHost
  | IsolateHost

datatype secret_op =
    ListSshHostKeys
  | ListSshAuthorizedKeys string
  | ListTlsCertificates
  | CertificateDetail string
  | ScanSensitiveFilePermissions
  | ViewSensitiveFile string
  | GenerateSshKeypair string string string
  | FixFilePermissions string string
  | RemoveAuthorizedKey string string
  | DeleteSshKeypair string "8 word"
  | ScanSecurityEvents "string list" "(string \<times> 64 word) list" "16 word list" bool

datatype directory_op =
    AdDnsReport string
  | AdHealthReport string
  | DirectoryDiscoverForest
  | DirectoryTestDelegation string string string
  | DirectoryOuTree string
  | DirectorySearch string string
  | DirectoryGetObject string string
  | DirectoryStaleAccounts string "32 word"
  | DirectoryUnlockAccount string string string string bool
  | DirectorySetEnabled string string string string bool bool
  | DirectoryCreateUser create_user_request
  | DirectorySetPassword string string string string string bool

datatype exchange_op =
    ExchangeTestConnection string string string
  | ExchangeEnableMailbox string string string string string
  | ExchangeSetMailboxOffboard string string string string bool
  | DirectoryCreateGroup create_group_request
  | DirectoryDeleteGroup string string string string bool
  | DirectoryAddGroupMember string string string string string bool
  | DirectoryRemoveGroupMember string string string string string bool
  | DirectoryMove string string string string string bool
  | DirectoryDeleteObject string string string string bool
  | DirectoryOffboard string string string string string bool
  | DirectoryUndoOffboard undo_offboard_request

datatype sepulchre_op =
    DetectPackageBackend
  | RenderSepulchreConfig sepulchre_config_target string
  | ClearSepulchreConfig sepulchre_config_target
  | CheckSepulchreConfigIncludeDirective sepulchre_config_target
  | CreateSftpChrootAccount string string
  | InstallSepulchreAuthorizedKey string string
  | RemoveSftpChrootAccount string
  | CreateSambaServiceUser string string
  | RemoveSambaServiceUser string
  | RenderMountUnit string string string
  | RemoveMountUnit string string
  | CheckMountStatus string
  | CreateSepulchreShareDirectory string string
  | WriteSepulchreMountCredentials string string

datatype agent_op =
    SelfUpdate string bool "string option"
  | UninstallAgent bool
  | ThanatosStream bool "16 word list"
  | DhcpLeases
  | NeighborTable
  | UpdateTrustedCa string

datatype scourge_op =
    ScourgeSensorStatus
  | ScourgeCollectEvents "64 word" "64 word" "32 word"
  | ScourgeListRules string
  | ScourgePcapList
  | ScourgeInstall
  | ScourgeApplyConfig "string list" string string bool
  | ScourgeServiceAction string
  | ScourgeUpdateRules
  | ScourgeSetSidEnabled "32 word" bool
  | ScourgeSuppressSid "32 word" bool
  | ScourgeRuleTest string
  | ScourgeCaptureStart string "32 word" "32 word" "32 word" "32 word"
  | ScourgeCaptureStatus string
  | ScourgeCaptureCancel string
  | ScourgePcapDelete string "8 word"
  | ScourgeIpsStatus
  | ScourgeSetMode bool
  | ScourgeSetSidAction "32 word" string

datatype agent_operation =
    SystemOp system_op | SessionOp session_op | LogOp log_op | ServiceOp service_op |
    HardwareOp hardware_op | ProcessOp process_op | AccountOp account_op |
    PackageOp package_op | StorageOp storage_op | ConfigOp config_op |
    ContainmentOp containment_op | SecretOp secret_op | DirectoryOp directory_op |
    ExchangeOp exchange_op | SepulchreOp sepulchre_op | AgentOp agent_op | ScourgeOp scourge_op

section \<open>Closed sets of settings\<close>

definition ssh_hardening_ALL :: "ssh_hardening_setting list" where
  "ssh_hardening_ALL = [DisableRootLogin, DisablePasswordAuth, DisableEmptyPasswords, DisableX11Forwarding]"

fun ssh_directive :: "ssh_hardening_setting \<Rightarrow> string \<times> string" where
  "ssh_directive DisableRootLogin = (''PermitRootLogin'', ''no'')"
| "ssh_directive DisablePasswordAuth = (''PasswordAuthentication'', ''no'')"
| "ssh_directive DisableEmptyPasswords = (''PermitEmptyPasswords'', ''no'')"
| "ssh_directive DisableX11Forwarding = (''X11Forwarding'', ''no'')"

fun ssh_hardening_as_str :: "ssh_hardening_setting \<Rightarrow> string" where
  "ssh_hardening_as_str DisableRootLogin = ''disable_root_login''"
| "ssh_hardening_as_str DisablePasswordAuth = ''disable_password_auth''"
| "ssh_hardening_as_str DisableEmptyPasswords = ''disable_empty_passwords''"
| "ssh_hardening_as_str DisableX11Forwarding = ''disable_x11_forwarding''"

definition ssh_hardening_from_wire :: "string \<Rightarrow> ssh_hardening_setting option" where
  "ssh_hardening_from_wire value = find (\<lambda>s. ssh_hardening_as_str s = value) ssh_hardening_ALL"

fun ssh_hardening_label :: "ssh_hardening_setting \<Rightarrow> string" where
  "ssh_hardening_label DisableRootLogin = ''Disable root login''"
| "ssh_hardening_label DisablePasswordAuth = ''Disable password authentication''"
| "ssh_hardening_label DisableEmptyPasswords = ''Disallow empty passwords''"
| "ssh_hardening_label DisableX11Forwarding = ''Disable X11 forwarding''"

definition can_lock_out :: "ssh_hardening_setting \<Rightarrow> bool" where
  "can_lock_out s \<longleftrightarrow> s = DisableRootLogin \<or> s = DisablePasswordAuth"

definition journald_ALL :: "journald_setting list" where
  "journald_ALL = [SystemMaxUse, SystemKeepFree, MaxRetentionSec, MaxFileSec]"

fun journald_key :: "journald_setting \<Rightarrow> string" where
  "journald_key SystemMaxUse = ''SystemMaxUse''"
| "journald_key SystemKeepFree = ''SystemKeepFree''"
| "journald_key MaxRetentionSec = ''MaxRetentionSec''"
| "journald_key MaxFileSec = ''MaxFileSec''"

fun journald_as_str :: "journald_setting \<Rightarrow> string" where
  "journald_as_str SystemMaxUse = ''system_max_use''"
| "journald_as_str SystemKeepFree = ''system_keep_free''"
| "journald_as_str MaxRetentionSec = ''max_retention_sec''"
| "journald_as_str MaxFileSec = ''max_file_sec''"

definition journald_from_wire :: "string \<Rightarrow> journald_setting option" where
  "journald_from_wire value = find (\<lambda>s. journald_as_str s = value) journald_ALL"

record security_sysctl =
  sy_key :: string
  sy_recommended :: string
  sy_description :: string

definition SECURITY_SYSCTLS :: "security_sysctl list" where
  "SECURITY_SYSCTLS =
     [\<lparr>sy_key = ''net.ipv4.conf.all.rp_filter'', sy_recommended = ''1'',
       sy_description = ''Reverse-path filtering (drop spoofed source addresses)''\<rparr>,
      \<lparr>sy_key = ''net.ipv4.conf.all.accept_redirects'', sy_recommended = ''0'',
       sy_description = ''Ignore ICMP redirects (IPv4)''\<rparr>,
      \<lparr>sy_key = ''net.ipv4.conf.all.send_redirects'', sy_recommended = ''0'',
       sy_description = ''Don't send ICMP redirects (not a router)''\<rparr>,
      \<lparr>sy_key = ''net.ipv4.conf.all.accept_source_route'', sy_recommended = ''0'',
       sy_description = ''Reject source-routed packets (IPv4)''\<rparr>,
      \<lparr>sy_key = ''net.ipv4.conf.all.log_martians'', sy_recommended = ''1'',
       sy_description = ''Log packets with impossible source addresses''\<rparr>,
      \<lparr>sy_key = ''net.ipv4.icmp_echo_ignore_broadcasts'', sy_recommended = ''1'',
       sy_description = ''Ignore broadcast pings (Smurf-attack amplification)''\<rparr>,
      \<lparr>sy_key = ''net.ipv4.tcp_syncookies'', sy_recommended = ''1'',
       sy_description = ''SYN cookies (SYN-flood resistance)''\<rparr>,
      \<lparr>sy_key = ''net.ipv6.conf.all.accept_redirects'', sy_recommended = ''0'',
       sy_description = ''Ignore ICMP redirects (IPv6)''\<rparr>,
      \<lparr>sy_key = ''net.ipv6.conf.all.accept_source_route'', sy_recommended = ''0'',
       sy_description = ''Reject source-routed packets (IPv6)''\<rparr>,
      \<lparr>sy_key = ''kernel.dmesg_restrict'', sy_recommended = ''1'',
       sy_description = ''Restrict kernel ring buffer to privileged users''\<rparr>,
      \<lparr>sy_key = ''kernel.kptr_restrict'', sy_recommended = ''1'',
       sy_description = ''Hide kernel pointers from unprivileged users''\<rparr>,
      \<lparr>sy_key = ''kernel.randomize_va_space'', sy_recommended = ''2'',
       sy_description = ''Full address-space layout randomization (ASLR)''\<rparr>,
      \<lparr>sy_key = ''fs.protected_hardlinks'', sy_recommended = ''1'',
       sy_description = ''Restrict hardlinks to files the user owns''\<rparr>,
      \<lparr>sy_key = ''fs.protected_symlinks'', sy_recommended = ''1'',
       sy_description = ''Restrict symlink following in world-writable dirs''\<rparr>,
      \<lparr>sy_key = ''fs.suid_dumpable'', sy_recommended = ''0'',
       sy_description = ''Never core-dump setuid programs''\<rparr>]"

definition recommended_sysctl :: "string \<Rightarrow> string option" where
  "recommended_sysctl key = map_option sy_recommended (find (\<lambda>s. sy_key s = key) SECURITY_SYSCTLS)"

section \<open>Protocol versions\<close>

definition system_op_min_protocol :: "system_op \<Rightarrow> 32 word" where
  "system_op_min_protocol oper = (case oper of
       Ping \<Rightarrow> 0
     | SystemInfo \<Rightarrow> 0
     | ResourceUsage \<Rightarrow> 1
     | LoggedInUsers \<Rightarrow> 1
     | SetHostname _ \<Rightarrow> 1
     | Reboot \<Rightarrow> 1
     | ListeningPorts \<Rightarrow> 1
     | RecentAuthLog \<Rightarrow> 1
     | FirewallStatus \<Rightarrow> 1
     | FirewallAllowPort _ _ \<Rightarrow> 1
     | FirewallEnable \<Rightarrow> 1
     | FirewallDenyPort _ _ \<Rightarrow> 25
     | FirewallRemovePort _ _ \<Rightarrow> 25
     | SshdConfigAudit \<Rightarrow> 25
     | HardenSshd _ \<Rightarrow> 25
     | ClearSshHardening \<Rightarrow> 25
     | SysctlSecurityPosture \<Rightarrow> 25
     | AccountPolicyAudit \<Rightarrow> 25
     | MacStatus \<Rightarrow> 25
     | PostureFacts \<Rightarrow> 46
     | AutomaticUpdatesStatus \<Rightarrow> 25)"

definition session_op_min_protocol :: "session_op \<Rightarrow> 32 word" where
  "session_op_min_protocol oper = (case oper of
       Elevate _ _ \<Rightarrow> 1
     | Deescalate \<Rightarrow> 1
     | ElevationStatus \<Rightarrow> 1
     | NetworkInterfaces \<Rightarrow> 1
     | NetworkRoutes \<Rightarrow> 1
     | DnsConfig \<Rightarrow> 1
     | ActiveConnections \<Rightarrow> 1
     | ConnectivityCheck _ \<Rightarrow> 1
     | InterfaceSetState _ _ \<Rightarrow> 1
     | NetworkScan_op _ _ \<Rightarrow> 1
     | BootHistory \<Rightarrow> 2
     | KernelRingBuffer \<Rightarrow> 2
     | SystemJournalErrors \<Rightarrow> 2
     | FailedLoginAttempts \<Rightarrow> 2
     | OomKillEvents \<Rightarrow> 2
     | CoreDumps \<Rightarrow> 2
     | RecentlyModifiedFiles _ \<Rightarrow> 2)"

definition log_op_min_protocol :: "log_op \<Rightarrow> 32 word" where
  "log_op_min_protocol oper = (case oper of
       JournalDiskUsage \<Rightarrow> 3
     | LogRotationStatus \<Rightarrow> 3
     | ArchivedLogListing \<Rightarrow> 3
     | LogDirectorySizes \<Rightarrow> 3
     | VacuumJournalBySize _ \<Rightarrow> 3
     | VacuumJournalByTime _ \<Rightarrow> 3
     | ListBackups \<Rightarrow> 4
     | CreateBackup _ _ \<Rightarrow> 4
     | VerifyBackup _ \<Rightarrow> 4
     | RestoreBackup _ _ \<Rightarrow> 4
     | LoadAverage \<Rightarrow> 5
     | TopProcessesByCpu \<Rightarrow> 5
     | TopProcessesByMemory \<Rightarrow> 5
     | MemoryDetail \<Rightarrow> 5
     | DiskIoStats \<Rightarrow> 5
     | FailedServices \<Rightarrow> 5
     | CpuUtilization \<Rightarrow> 26
     | NetworkThroughput \<Rightarrow> 26
     | ThermalSensors \<Rightarrow> 26
     | MemoryPressure \<Rightarrow> 26)"

definition service_op_min_protocol :: "service_op \<Rightarrow> 32 word" where
  "service_op_min_protocol oper = (case oper of
       ListServices \<Rightarrow> 6
     | ServiceStatus _ \<Rightarrow> 6
     | ServiceLogs _ \<Rightarrow> 6
     | StartService _ \<Rightarrow> 6
     | StopService _ \<Rightarrow> 6
     | RestartService _ \<Rightarrow> 6
     | EnableService _ \<Rightarrow> 6
     | DisableService _ \<Rightarrow> 6
     | PreviousBootErrors \<Rightarrow> 7
     | SystemRunningState \<Rightarrow> 7
     | ReadOnlyFilesystems \<Rightarrow> 7
     | ReloadSystemdDaemon \<Rightarrow> 7
     | ResetFailedUnits \<Rightarrow> 7
     | ListFailedUnits \<Rightarrow> 33
     | RecoverUnit _ \<Rightarrow> 33
     | DiskSpaceCritical \<Rightarrow> 33
     | FstabCheck \<Rightarrow> 33
     | RemountReadWrite _ \<Rightarrow> 7)"

definition hardware_op_min_protocol :: "hardware_op \<Rightarrow> 32 word" where
  "hardware_op_min_protocol oper = (case oper of
       CpuInfo \<Rightarrow> 8
     | PciDevices \<Rightarrow> 8
     | BlockDevices \<Rightarrow> 8
     | MemoryHardware \<Rightarrow> 8
     | DiskHealth _ \<Rightarrow> 8
     | ListContainers \<Rightarrow> 9
     | ContainerLogs _ \<Rightarrow> 9
     | ContainerInspect _ \<Rightarrow> 9
     | ListImages \<Rightarrow> 9
     | RuntimeInfo \<Rightarrow> 9
     | StartContainer _ \<Rightarrow> 9
     | StopContainer _ \<Rightarrow> 9
     | RestartContainer _ \<Rightarrow> 9
     | RemoveContainer _ \<Rightarrow> 9)"

definition process_op_min_protocol :: "process_op \<Rightarrow> 32 word" where
  "process_op_min_protocol oper = (case oper of
       ListProcesses \<Rightarrow> 10
     | ProcessDetail _ \<Rightarrow> 10
     | RenicePriority _ _ \<Rightarrow> 10
     | SendSignal _ _ \<Rightarrow> 10
     | SignalByName _ _ _ \<Rightarrow> 29
     | SetIoPriority _ _ _ \<Rightarrow> 29
     | SetOomScoreAdj _ _ \<Rightarrow> 29
     | ProcessOpenFiles _ \<Rightarrow> 29
     | ProcessLimits _ \<Rightarrow> 29
     | ZombieReport \<Rightarrow> 29
     | CleanupTargetsSummary \<Rightarrow> 11
     | ForceLogRotation \<Rightarrow> 11
     | ClearTmpFiles _ \<Rightarrow> 11
     | ClearCoreDumps \<Rightarrow> 11)"

definition account_op_min_protocol :: "account_op \<Rightarrow> 32 word" where
  "account_op_min_protocol oper = (case oper of
       VmStatistics \<Rightarrow> 12
     | InterruptStatistics \<Rightarrow> 12
     | CpuGovernorStatus \<Rightarrow> 12
     | TuningParametersStatus \<Rightarrow> 12
     | SetSwappiness _ \<Rightarrow> 12
     | SetIoScheduler _ _ \<Rightarrow> 12
     | ListUsers \<Rightarrow> 13
     | ListGroups \<Rightarrow> 13
     | UserDetail _ \<Rightarrow> 13
     | CreateUser _ _ \<Rightarrow> 13
     | CreateGroup _ \<Rightarrow> 13
     | AddUserToGroup _ _ \<Rightarrow> 13
     | RemoveUserFromGroup _ _ \<Rightarrow> 13
     | LockUserAccount _ \<Rightarrow> 13
     | UnlockUserAccount _ \<Rightarrow> 13
     | DeleteUser _ _ \<Rightarrow> 13
     | DeleteGroup _ \<Rightarrow> 13)"

definition package_op_min_protocol :: "package_op \<Rightarrow> 32 word" where
  "package_op_min_protocol oper = (case oper of
       DirectoryUsageBreakdown _ \<Rightarrow> 14
     | FindLargeFiles _ _ \<Rightarrow> 14
     | FilesystemCheckDryRun _ \<Rightarrow> 14
     | TrimFilesystem _ \<Rightarrow> 14
     | FilesystemRepair _ \<Rightarrow> 14
     | ListInstalledPackages \<Rightarrow> 15
     | SearchPackage _ \<Rightarrow> 15
     | PackageInfo _ \<Rightarrow> 15
     | ListUpgradable \<Rightarrow> 15
     | RefreshPackageIndex \<Rightarrow> 15
     | InstallPackage _ \<Rightarrow> 15
     | UpgradePackage _ \<Rightarrow> 15
     | RemovePackage _ \<Rightarrow> 15
     | PartitionTable _ \<Rightarrow> 16
     | LvmSummary \<Rightarrow> 16
     | RaidStatus \<Rightarrow> 16)"

definition storage_op_min_protocol :: "storage_op \<Rightarrow> 32 word" where
  "storage_op_min_protocol oper = (case oper of
       MountFilesystem _ _ \<Rightarrow> 16
     | ExtendLogicalVolume _ _ \<Rightarrow> 16
     | UnmountFilesystem _ \<Rightarrow> 16
     | CreatePartition _ _ _ \<Rightarrow> 16
     | DeletePartition _ _ \<Rightarrow> 16
     | CreateRaidArray _ _ _ \<Rightarrow> 16
     | StopRaidArray _ \<Rightarrow> 16
     | CreatePhysicalVolume _ \<Rightarrow> 16
     | CreateVolumeGroup _ _ \<Rightarrow> 16
     | CreateLogicalVolume _ _ _ \<Rightarrow> 16
     | RemoveLogicalVolume _ \<Rightarrow> 16
     | RemoveVolumeGroup _ \<Rightarrow> 16
     | RemovePhysicalVolume _ \<Rightarrow> 16
     | CreateFilesystem _ _ \<Rightarrow> 16)"

definition config_op_min_protocol :: "config_op \<Rightarrow> 32 word" where
  "config_op_min_protocol oper = (case oper of
       ViewManagedSysctl \<Rightarrow> 17
     | ViewManagedCronJobs \<Rightarrow> 17
     | SysctlManagedDrift \<Rightarrow> 31
     | SetPersistentSysctl _ _ \<Rightarrow> 17
     | RemovePersistentSysctlKey _ \<Rightarrow> 17
     | ClearManagedSysctl \<Rightarrow> 17
     | SetCronJob _ _ _ _ \<Rightarrow> 17
     | RemoveCronJob _ \<Rightarrow> 17
     | ClearManagedCronJobs \<Rightarrow> 17
     | ViewModuleBlacklist \<Rightarrow> 31
     | BlacklistModule _ \<Rightarrow> 31
     | RemoveModuleBlacklist _ \<Rightarrow> 31
     | ClearModuleBlacklist \<Rightarrow> 31
     | ViewJournaldConfig \<Rightarrow> 31
     | SetJournaldRetention _ _ \<Rightarrow> 31
     | ClearJournaldConfig \<Rightarrow> 31)"

definition containment_op_min_protocol :: "containment_op \<Rightarrow> 32 word" where
  "containment_op_min_protocol oper = (case oper of
       ListBlockedIps \<Rightarrow> 18
     | IsolationStatus \<Rightarrow> 18
     | ListQuarantinedFiles \<Rightarrow> 18
     | BlockRemoteIp _ \<Rightarrow> 18
     | UnblockRemoteIp _ \<Rightarrow> 18
     | QuarantineFile _ \<Rightarrow> 18
     | RestoreQuarantinedFile _ \<Rightarrow> 18
     | DeleteQuarantinedFile _ passes \<Rightarrow> if 1 \<le> passes then 39 else 18
     | DeisolateHost \<Rightarrow> 18
     | IsolateHost \<Rightarrow> 18)"

definition secret_op_min_protocol :: "secret_op \<Rightarrow> 32 word" where
  "secret_op_min_protocol oper = (case oper of
       ListSshHostKeys \<Rightarrow> 19
     | ListSshAuthorizedKeys _ \<Rightarrow> 19
     | ListTlsCertificates \<Rightarrow> 19
     | CertificateDetail _ \<Rightarrow> 19
     | ScanSensitiveFilePermissions \<Rightarrow> 19
     | ViewSensitiveFile _ \<Rightarrow> 19
     | GenerateSshKeypair _ _ _ \<Rightarrow> 19
     | FixFilePermissions _ _ \<Rightarrow> 19
     | RemoveAuthorizedKey _ _ \<Rightarrow> 19
     | DeleteSshKeypair _ passes \<Rightarrow> if 1 \<le> passes then 39 else 19
     | ScanSecurityEvents _ _ _ _ \<Rightarrow> 20)"

definition directory_op_min_protocol :: "directory_op \<Rightarrow> 32 word" where
  "directory_op_min_protocol oper = (case oper of
       AdDnsReport _ \<Rightarrow> 35
     | AdHealthReport _ \<Rightarrow> 35
     | DirectoryDiscoverForest \<Rightarrow> 47
     | DirectoryTestDelegation _ _ _ \<Rightarrow> 47
     | DirectoryOuTree _ \<Rightarrow> 47
     | DirectorySearch _ _ \<Rightarrow> 47
     | DirectoryGetObject _ _ \<Rightarrow> 47
     | DirectoryStaleAccounts _ _ \<Rightarrow> 47
     | DirectoryUnlockAccount _ _ _ _ _ \<Rightarrow> 47
     | DirectorySetEnabled _ _ _ _ _ _ \<Rightarrow> 47
     | DirectoryCreateUser _ \<Rightarrow> 47
     | DirectorySetPassword _ _ _ _ _ _ \<Rightarrow> 47)"

definition exchange_op_min_protocol :: "exchange_op \<Rightarrow> 32 word" where
  "exchange_op_min_protocol oper = (case oper of
       ExchangeTestConnection _ _ _ \<Rightarrow> 47
     | ExchangeEnableMailbox _ _ _ _ _ \<Rightarrow> 47
     | ExchangeSetMailboxOffboard _ _ _ _ _ \<Rightarrow> 47
     | DirectoryCreateGroup _ \<Rightarrow> 47
     | DirectoryDeleteGroup _ _ _ _ _ \<Rightarrow> 47
     | DirectoryAddGroupMember _ _ _ _ _ _ \<Rightarrow> 47
     | DirectoryRemoveGroupMember _ _ _ _ _ _ \<Rightarrow> 47
     | DirectoryMove _ _ _ _ _ _ \<Rightarrow> 47
     | DirectoryDeleteObject _ _ _ _ _ \<Rightarrow> 47
     | DirectoryOffboard _ _ _ _ _ _ \<Rightarrow> 47
     | DirectoryUndoOffboard _ \<Rightarrow> 47)"

definition sepulchre_op_min_protocol :: "sepulchre_op \<Rightarrow> 32 word" where
  "sepulchre_op_min_protocol oper = (case oper of
       DetectPackageBackend \<Rightarrow> 22
     | RenderSepulchreConfig _ _ \<Rightarrow> 22
     | ClearSepulchreConfig _ \<Rightarrow> 22
     | CheckSepulchreConfigIncludeDirective _ \<Rightarrow> 22
     | CreateSftpChrootAccount _ _ \<Rightarrow> 22
     | InstallSepulchreAuthorizedKey _ _ \<Rightarrow> 22
     | RemoveSftpChrootAccount _ \<Rightarrow> 22
     | CreateSambaServiceUser _ _ \<Rightarrow> 22
     | RemoveSambaServiceUser _ \<Rightarrow> 22
     | RenderMountUnit _ _ _ \<Rightarrow> 22
     | RemoveMountUnit _ _ \<Rightarrow> 22
     | CheckMountStatus _ \<Rightarrow> 22
     | CreateSepulchreShareDirectory _ _ \<Rightarrow> 22
     | WriteSepulchreMountCredentials _ _ \<Rightarrow> 22)"

definition agent_op_min_protocol :: "agent_op \<Rightarrow> 32 word" where
  "agent_op_min_protocol oper = (case oper of
       SelfUpdate _ fcp _ \<Rightarrow> if fcp then 43 else 24
     | UninstallAgent _ \<Rightarrow> 42
     | ThanatosStream _ _ \<Rightarrow> 44
     | DhcpLeases \<Rightarrow> 45
     | NeighborTable \<Rightarrow> 42
     | UpdateTrustedCa _ \<Rightarrow> 36)"

definition scourge_op_min_protocol :: "scourge_op \<Rightarrow> 32 word" where
  "scourge_op_min_protocol oper = (case oper of
       ScourgeSensorStatus \<Rightarrow> 40
     | ScourgeCollectEvents _ _ _ \<Rightarrow> 40
     | ScourgeListRules _ \<Rightarrow> 40
     | ScourgePcapList \<Rightarrow> 40
     | ScourgeInstall \<Rightarrow> 40
     | ScourgeApplyConfig _ _ _ _ \<Rightarrow> 40
     | ScourgeServiceAction _ \<Rightarrow> 40
     | ScourgeUpdateRules \<Rightarrow> 40
     | ScourgeSetSidEnabled _ _ \<Rightarrow> 40
     | ScourgeSuppressSid _ _ \<Rightarrow> 40
     | ScourgeRuleTest _ \<Rightarrow> 40
     | ScourgeCaptureStart _ _ _ _ _ \<Rightarrow> 40
     | ScourgeCaptureStatus _ \<Rightarrow> 40
     | ScourgeCaptureCancel _ \<Rightarrow> 40
     | ScourgePcapDelete _ _ \<Rightarrow> 40
     | ScourgeIpsStatus \<Rightarrow> 41
     | ScourgeSetMode _ \<Rightarrow> 41
     | ScourgeSetSidAction _ _ \<Rightarrow> 41)"

fun min_protocol :: "agent_operation \<Rightarrow> 32 word" where
  "min_protocol (SystemOp x) = system_op_min_protocol x"
| "min_protocol (SessionOp x) = session_op_min_protocol x"
| "min_protocol (LogOp x) = log_op_min_protocol x"
| "min_protocol (ServiceOp x) = service_op_min_protocol x"
| "min_protocol (HardwareOp x) = hardware_op_min_protocol x"
| "min_protocol (ProcessOp x) = process_op_min_protocol x"
| "min_protocol (AccountOp x) = account_op_min_protocol x"
| "min_protocol (PackageOp x) = package_op_min_protocol x"
| "min_protocol (StorageOp x) = storage_op_min_protocol x"
| "min_protocol (ConfigOp x) = config_op_min_protocol x"
| "min_protocol (ContainmentOp x) = containment_op_min_protocol x"
| "min_protocol (SecretOp x) = secret_op_min_protocol x"
| "min_protocol (DirectoryOp x) = directory_op_min_protocol x"
| "min_protocol (ExchangeOp x) = exchange_op_min_protocol x"
| "min_protocol (SepulchreOp x) = sepulchre_op_min_protocol x"
| "min_protocol (AgentOp x) = agent_op_min_protocol x"
| "min_protocol (ScourgeOp x) = scourge_op_min_protocol x"

definition system_op_concurrent :: "system_op \<Rightarrow> bool" where
  "system_op_concurrent oper = (case oper of
       Ping \<Rightarrow> True
     | SystemInfo \<Rightarrow> True
     | ResourceUsage \<Rightarrow> True
     | LoggedInUsers \<Rightarrow> True
     | ListeningPorts \<Rightarrow> True
     | RecentAuthLog \<Rightarrow> True
     | FirewallStatus \<Rightarrow> True
     | SshdConfigAudit \<Rightarrow> True
     | SysctlSecurityPosture \<Rightarrow> True
     | AccountPolicyAudit \<Rightarrow> True
     | MacStatus \<Rightarrow> True
     | PostureFacts \<Rightarrow> True
     | AutomaticUpdatesStatus \<Rightarrow> True
     | _ \<Rightarrow> False)"

definition session_op_concurrent :: "session_op \<Rightarrow> bool" where
  "session_op_concurrent oper = (case oper of
       ElevationStatus \<Rightarrow> True
     | NetworkInterfaces \<Rightarrow> True
     | NetworkRoutes \<Rightarrow> True
     | DnsConfig \<Rightarrow> True
     | ActiveConnections \<Rightarrow> True
     | ConnectivityCheck _ \<Rightarrow> True
     | NetworkScan_op _ _ \<Rightarrow> True
     | BootHistory \<Rightarrow> True
     | KernelRingBuffer \<Rightarrow> True
     | SystemJournalErrors \<Rightarrow> True
     | FailedLoginAttempts \<Rightarrow> True
     | OomKillEvents \<Rightarrow> True
     | CoreDumps \<Rightarrow> True
     | RecentlyModifiedFiles _ \<Rightarrow> True
     | _ \<Rightarrow> False)"

definition log_op_concurrent :: "log_op \<Rightarrow> bool" where
  "log_op_concurrent oper = (case oper of
       JournalDiskUsage \<Rightarrow> True
     | LogRotationStatus \<Rightarrow> True
     | ArchivedLogListing \<Rightarrow> True
     | LogDirectorySizes \<Rightarrow> True
     | ListBackups \<Rightarrow> True
     | LoadAverage \<Rightarrow> True
     | TopProcessesByCpu \<Rightarrow> True
     | TopProcessesByMemory \<Rightarrow> True
     | MemoryDetail \<Rightarrow> True
     | DiskIoStats \<Rightarrow> True
     | FailedServices \<Rightarrow> True
     | CpuUtilization \<Rightarrow> True
     | NetworkThroughput \<Rightarrow> True
     | ThermalSensors \<Rightarrow> True
     | MemoryPressure \<Rightarrow> True
     | _ \<Rightarrow> False)"

definition service_op_concurrent :: "service_op \<Rightarrow> bool" where
  "service_op_concurrent oper = (case oper of
       ListServices \<Rightarrow> True
     | ServiceStatus _ \<Rightarrow> True
     | ServiceLogs _ \<Rightarrow> True
     | PreviousBootErrors \<Rightarrow> True
     | SystemRunningState \<Rightarrow> True
     | ReadOnlyFilesystems \<Rightarrow> True
     | ListFailedUnits \<Rightarrow> True
     | DiskSpaceCritical \<Rightarrow> True
     | FstabCheck \<Rightarrow> True
     | _ \<Rightarrow> False)"

definition hardware_op_concurrent :: "hardware_op \<Rightarrow> bool" where
  "hardware_op_concurrent oper = (case oper of
       CpuInfo \<Rightarrow> True
     | PciDevices \<Rightarrow> True
     | BlockDevices \<Rightarrow> True
     | MemoryHardware \<Rightarrow> True
     | DiskHealth _ \<Rightarrow> True
     | ListContainers \<Rightarrow> True
     | ContainerLogs _ \<Rightarrow> True
     | ContainerInspect _ \<Rightarrow> True
     | ListImages \<Rightarrow> True
     | RuntimeInfo \<Rightarrow> True
     | _ \<Rightarrow> False)"

definition process_op_concurrent :: "process_op \<Rightarrow> bool" where
  "process_op_concurrent oper = (case oper of
       ListProcesses \<Rightarrow> True
     | ProcessDetail _ \<Rightarrow> True
     | ProcessOpenFiles _ \<Rightarrow> True
     | ProcessLimits _ \<Rightarrow> True
     | ZombieReport \<Rightarrow> True
     | CleanupTargetsSummary \<Rightarrow> True
     | _ \<Rightarrow> False)"

definition account_op_concurrent :: "account_op \<Rightarrow> bool" where
  "account_op_concurrent oper = (case oper of
       VmStatistics \<Rightarrow> True
     | InterruptStatistics \<Rightarrow> True
     | CpuGovernorStatus \<Rightarrow> True
     | TuningParametersStatus \<Rightarrow> True
     | ListUsers \<Rightarrow> True
     | ListGroups \<Rightarrow> True
     | UserDetail _ \<Rightarrow> True
     | _ \<Rightarrow> False)"

definition package_op_concurrent :: "package_op \<Rightarrow> bool" where
  "package_op_concurrent oper = (case oper of
       DirectoryUsageBreakdown _ \<Rightarrow> True
     | FindLargeFiles _ _ \<Rightarrow> True
     | ListInstalledPackages \<Rightarrow> True
     | SearchPackage _ \<Rightarrow> True
     | PackageInfo _ \<Rightarrow> True
     | PartitionTable _ \<Rightarrow> True
     | LvmSummary \<Rightarrow> True
     | RaidStatus \<Rightarrow> True
     | _ \<Rightarrow> False)"

definition storage_op_concurrent :: "storage_op \<Rightarrow> bool" where
  "storage_op_concurrent oper = False"

definition config_op_concurrent :: "config_op \<Rightarrow> bool" where
  "config_op_concurrent oper = (case oper of
       ViewManagedSysctl \<Rightarrow> True
     | ViewManagedCronJobs \<Rightarrow> True
     | SysctlManagedDrift \<Rightarrow> True
     | ViewModuleBlacklist \<Rightarrow> True
     | ViewJournaldConfig \<Rightarrow> True
     | _ \<Rightarrow> False)"

definition containment_op_concurrent :: "containment_op \<Rightarrow> bool" where
  "containment_op_concurrent oper = (case oper of
       ListBlockedIps \<Rightarrow> True
     | IsolationStatus \<Rightarrow> True
     | ListQuarantinedFiles \<Rightarrow> True
     | _ \<Rightarrow> False)"

definition secret_op_concurrent :: "secret_op \<Rightarrow> bool" where
  "secret_op_concurrent oper = (case oper of
       ListSshHostKeys \<Rightarrow> True
     | ListSshAuthorizedKeys _ \<Rightarrow> True
     | ListTlsCertificates \<Rightarrow> True
     | CertificateDetail _ \<Rightarrow> True
     | ScanSensitiveFilePermissions \<Rightarrow> True
     | ViewSensitiveFile _ \<Rightarrow> True
     | ScanSecurityEvents _ _ _ _ \<Rightarrow> True
     | _ \<Rightarrow> False)"

definition directory_op_concurrent :: "directory_op \<Rightarrow> bool" where
  "directory_op_concurrent oper = (case oper of
       AdDnsReport _ \<Rightarrow> True
     | AdHealthReport _ \<Rightarrow> True
     | DirectoryDiscoverForest \<Rightarrow> True
     | DirectoryTestDelegation _ _ _ \<Rightarrow> True
     | DirectoryOuTree _ \<Rightarrow> True
     | DirectorySearch _ _ \<Rightarrow> True
     | DirectoryGetObject _ _ \<Rightarrow> True
     | DirectoryStaleAccounts _ _ \<Rightarrow> True
     | _ \<Rightarrow> False)"

definition exchange_op_concurrent :: "exchange_op \<Rightarrow> bool" where
  "exchange_op_concurrent oper = (case oper of
       ExchangeTestConnection _ _ _ \<Rightarrow> True
     | _ \<Rightarrow> False)"

definition sepulchre_op_concurrent :: "sepulchre_op \<Rightarrow> bool" where
  "sepulchre_op_concurrent oper = (case oper of
       DetectPackageBackend \<Rightarrow> True
     | CheckSepulchreConfigIncludeDirective _ \<Rightarrow> True
     | CheckMountStatus _ \<Rightarrow> True
     | _ \<Rightarrow> False)"

definition agent_op_concurrent :: "agent_op \<Rightarrow> bool" where
  "agent_op_concurrent oper = (case oper of
       DhcpLeases \<Rightarrow> True
     | NeighborTable \<Rightarrow> True
     | _ \<Rightarrow> False)"

definition scourge_op_concurrent :: "scourge_op \<Rightarrow> bool" where
  "scourge_op_concurrent oper = (case oper of
       ScourgeSensorStatus \<Rightarrow> True
     | ScourgeCollectEvents _ _ _ \<Rightarrow> True
     | ScourgeListRules _ \<Rightarrow> True
     | ScourgePcapList \<Rightarrow> True
     | ScourgeCaptureStatus _ \<Rightarrow> True
     | ScourgeIpsStatus \<Rightarrow> True
     | _ \<Rightarrow> False)"

fun runs_concurrently :: "agent_operation \<Rightarrow> bool" where
  "runs_concurrently (SystemOp x) = system_op_concurrent x"
| "runs_concurrently (SessionOp x) = session_op_concurrent x"
| "runs_concurrently (LogOp x) = log_op_concurrent x"
| "runs_concurrently (ServiceOp x) = service_op_concurrent x"
| "runs_concurrently (HardwareOp x) = hardware_op_concurrent x"
| "runs_concurrently (ProcessOp x) = process_op_concurrent x"
| "runs_concurrently (AccountOp x) = account_op_concurrent x"
| "runs_concurrently (PackageOp x) = package_op_concurrent x"
| "runs_concurrently (StorageOp x) = storage_op_concurrent x"
| "runs_concurrently (ConfigOp x) = config_op_concurrent x"
| "runs_concurrently (ContainmentOp x) = containment_op_concurrent x"
| "runs_concurrently (SecretOp x) = secret_op_concurrent x"
| "runs_concurrently (DirectoryOp x) = directory_op_concurrent x"
| "runs_concurrently (ExchangeOp x) = exchange_op_concurrent x"
| "runs_concurrently (SepulchreOp x) = sepulchre_op_concurrent x"
| "runs_concurrently (AgentOp x) = agent_op_concurrent x"
| "runs_concurrently (ScourgeOp x) = scourge_op_concurrent x"

definition RELEASES :: "(32 word \<times> string) list" where
  "RELEASES = [(33, ''0.1.6''), (34, ''0.1.8''), (38, ''0.2.0''), (42, ''0.2.2''), (45, ''0.2.3''),
     (46, ''0.2.4''), (47, ''0.2.5'')]"

definition agent_release_for_protocol :: "32 word \<Rightarrow> string option" where
  "agent_release_for_protocol protocol = map_option snd (find (\<lambda>(p, r). p \<ge> protocol) RELEASES)"

section \<open>Messages\<close>

text \<open>The exit code is a signed 32-bit integer.\<close>

record operation_output =
  oo_stdout :: string
  oo_stderr :: string
  oo_exit_code :: "32 word option"

datatype command_outcome = Outcome_Ok operation_output | Outcome_Err string

datatype server_message = Command uuid agent_operation | Server_Ping

datatype agent_message = Response uuid command_outcome | Pong | Telemetry string

section \<open>Every operation has a version this build speaks\<close>

lemma system_op_version: "system_op_min_protocol oper \<le> 47"
  by (cases oper) (simp_all add: system_op_min_protocol_def)

lemma session_op_version: "session_op_min_protocol oper \<le> 47"
  by (cases oper) (simp_all add: session_op_min_protocol_def)

lemma log_op_version: "log_op_min_protocol oper \<le> 47"
  by (cases oper) (simp_all add: log_op_min_protocol_def)

lemma service_op_version: "service_op_min_protocol oper \<le> 47"
  by (cases oper) (simp_all add: service_op_min_protocol_def)

lemma hardware_op_version: "hardware_op_min_protocol oper \<le> 47"
  by (cases oper) (simp_all add: hardware_op_min_protocol_def)

lemma process_op_version: "process_op_min_protocol oper \<le> 47"
  by (cases oper) (simp_all add: process_op_min_protocol_def)

lemma account_op_version: "account_op_min_protocol oper \<le> 47"
  by (cases oper) (simp_all add: account_op_min_protocol_def)

lemma package_op_version: "package_op_min_protocol oper \<le> 47"
  by (cases oper) (simp_all add: package_op_min_protocol_def)

lemma storage_op_version: "storage_op_min_protocol oper \<le> 47"
  by (cases oper) (simp_all add: storage_op_min_protocol_def)

lemma config_op_version: "config_op_min_protocol oper \<le> 47"
  by (cases oper) (simp_all add: config_op_min_protocol_def)

lemma containment_op_version: "containment_op_min_protocol oper \<le> 47"
  by (cases oper) (simp_all add: containment_op_min_protocol_def)

lemma secret_op_version: "secret_op_min_protocol oper \<le> 47"
  by (cases oper) (simp_all add: secret_op_min_protocol_def)

lemma directory_op_version: "directory_op_min_protocol oper \<le> 47"
  by (cases oper) (simp_all add: directory_op_min_protocol_def)

lemma exchange_op_version: "exchange_op_min_protocol oper \<le> 47"
  by (cases oper) (simp_all add: exchange_op_min_protocol_def)

lemma sepulchre_op_version: "sepulchre_op_min_protocol oper \<le> 47"
  by (cases oper) (simp_all add: sepulchre_op_min_protocol_def)

lemma agent_op_version: "agent_op_min_protocol oper \<le> 47"
  by (cases oper) (simp_all add: agent_op_min_protocol_def)

lemma scourge_op_version: "scourge_op_min_protocol oper \<le> 47"
  by (cases oper) (simp_all add: scourge_op_min_protocol_def)

lemmas operation_versions = system_op_version session_op_version log_op_version service_op_version hardware_op_version
  process_op_version account_op_version package_op_version storage_op_version
  config_op_version containment_op_version secret_op_version directory_op_version
  exchange_op_version sepulchre_op_version agent_op_version scourge_op_version

lemmas concurrent_defs = system_op_concurrent_def session_op_concurrent_def log_op_concurrent_def
  service_op_concurrent_def hardware_op_concurrent_def process_op_concurrent_def
  account_op_concurrent_def package_op_concurrent_def storage_op_concurrent_def
  config_op_concurrent_def containment_op_concurrent_def secret_op_concurrent_def
  directory_op_concurrent_def exchange_op_concurrent_def sepulchre_op_concurrent_def
  agent_op_concurrent_def scourge_op_concurrent_def

lemma min_protocol_le: "min_protocol oper \<le> 47"
  by (cases oper) (simp_all add: operation_versions)

lemma release_known: "p \<le> 47 \<Longrightarrow> agent_release_for_protocol p \<noteq> None"
  by (auto simp: agent_release_for_protocol_def RELEASES_def find_None_iff)

text \<open>C37: No operation needs a newer protocol than the one this build speaks, and for every operation
  the release that introduced it is known: the dispatcher can always name what to update to.\<close>

theorem operation_versions_known:
  "min_protocol oper \<le> PROTOCOL_VERSION
   \<and> (\<exists>release. agent_release_for_protocol (min_protocol oper) = Some release)"
  using min_protocol_le [of oper] release_known [of "min_protocol oper"]
  by (auto simp: PROTOCOL_VERSION_def)

text \<open>The closed sets of settings a form may name round-trip through their wire names, and no other
  string is accepted.\<close>

lemma settings_wire_roundtrip:
  "(ssh_hardening_from_wire v = Some s \<longleftrightarrow> v = ssh_hardening_as_str s)
   \<and> (journald_from_wire w = Some j \<longleftrightarrow> w = journald_as_str j)"
proof -
  have "ssh_hardening_from_wire (ssh_hardening_as_str s) = Some s" for s
    by (cases s) (simp_all add: ssh_hardening_from_wire_def ssh_hardening_ALL_def)
  moreover have "journald_from_wire (journald_as_str j) = Some j" for j
    by (cases j) (simp_all add: journald_from_wire_def journald_ALL_def)
  ultimately show ?thesis
    by (auto simp: ssh_hardening_from_wire_def journald_from_wire_def find_Some_iff)
qed

end
