(* ===== verification/Control_Plane_Guard.thy ===== *)
theory Control_Plane_Guard
  imports Agent_Protocol
begin

text \<open>
  The guard on the control plane's own server, \<^verbatim>\<open>crates/hosts/src/control_plane_guard.rs\<close>: which
  operations are refused there, as a function of the operation and of what is known of the server.
  Messages are the source's, with the formatted parts in place.
\<close>

section \<open>What is known of the server\<close>

record protection =
  cp_ports :: "16 word set"
  cp_docker_device :: "string option"

definition PREFIX :: string where
  "PREFIX = ''Refused on the control plane's own server''"

definition PROTECTED_UNITS :: "string list" where
  "PROTECTED_UNITS = [''docker'', ''containerd'', ''abyssal-agent'']"

definition PROTECTED_PROCESSES :: "string list" where
  "PROTECTED_PROCESSES = [''dockerd'', ''containerd'', ''containerd-shim'', ''containerd-shim-runc-v2'',
     ''docker-proxy'', ''abyssal-arsenal'', ''abyssal-agent'', ''mariadbd'', ''mysqld'', ''caddy'']"

definition PROTECTED_MOUNTS :: "string list" where
  "PROTECTED_MOUNTS = [''/'', ''/var'', ''/var/lib'', ''/var/lib/docker'']"

definition PROTECTED_PATH_PREFIXES :: "string list" where
  "PROTECTED_PATH_PREFIXES = [''/var/lib/docker'', ''/var/lib/containerd'', ''/usr/bin/docker'',
     ''/usr/bin/dockerd'', ''/usr/bin/containerd'', ''/usr/bin/runc'', ''/usr/local/bin/abyssal-agent'',
     ''/etc/abyssal-agent'', ''/var/lib/abyssal-agent'']"

definition port_list :: "16 word set \<Rightarrow> string" where
  "port_list ports =
     (let ps = map (\<lambda>p. dec_digits (unat p)) (sorted_list_of_set ports) in
      if ps = [] then ''its own ports'' else ''ports '' @ join '', '' ps)"

definition summary :: "protection \<Rightarrow> string" where
  "summary p =
     (let disk = (case cp_docker_device p of
          Some device \<Rightarrow> ''the disk holding Docker's data ('' @ device @ '')''
        | None \<Rightarrow> ''any disk, until this agent reports which one holds Docker's data'')
      in ''isolating it; inline IPS; closing '' @ port_list (cp_ports p) @ ''; turning the firewall on; taking an interface down; stopping, restarting or disabling ''
         @ join '', '' PROTECTED_UNITS @ ''; stopping or removing the abyssal containers; signalling ''
         @ ''dockerd, containerd, MariaDB, Caddy or the abyssal processes''
         @ ''; upgrading or removing the container runtime; quarantining Docker's files; and partitioning, formatting or unmounting '' @ disk)"

section \<open>Names of units, containers, processes and packages\<close>

definition is_protected_unit :: "string \<Rightarrow> bool" where
  "is_protected_unit unit =
     (let unit = to_ascii_lowercase (trim unit);
          base = (case strip_suffix unit ''.service'' of Some b \<Rightarrow> b
            | None \<Rightarrow> (case strip_suffix unit ''.socket'' of Some b \<Rightarrow> b | None \<Rightarrow> unit))
      in base \<in> set PROTECTED_UNITS)"

definition check_container :: "string \<Rightarrow> string + unit" where
  "check_container container =
     (let name = to_ascii_lowercase (trim_start_matches (\<lambda>c. c = CHR ''/'') (trim container)) in
      if starts_with name ''abyssal''
      then Err (PREFIX @ '': '' @ container @ '' is one of the control plane's own containers. Stopping, restarting or removing it takes the web UI down; use `docker compose` in the deployment directory instead.'')
      else if 6 \<le> length name \<and> list_all is_ascii_hexdigit name
      then Err (PREFIX @ '': '' @ container @ '' looks like a container ID, which might be one of the control plane's own containers. Refer to the container by name instead.'')
      else Ok ())"

definition is_regex_char :: "char \<Rightarrow> bool" where
  "is_regex_char c \<longleftrightarrow> c \<in> set ''.*+?[]()|^${}'' \<or> c = CHR 0x5C"

definition check_process_pattern :: "string \<Rightarrow> string + unit" where
  "check_process_pattern name =
     (let pattern = to_ascii_lowercase (trim name) in
      case find (\<lambda>p. contains_str p pattern \<or> contains_str pattern p) PROTECTED_PROCESSES of
        Some hit \<Rightarrow> Err (PREFIX @ '': '' @ [CHR 0x22] @ name @ [CHR 0x22] @ '' matches '' @ hit
          @ '', part of the running control plane. Signalling it would take the web UI down.'')
      | None \<Rightarrow> if list_ex is_regex_char pattern
          then Err (PREFIX @ '': '' @ [CHR 0x22] @ name @ [CHR 0x22] @ '' is a pattern, and could match the control plane's own processes (Docker, MariaDB, Caddy, the agent). Use an exact process name, or a dry run to see what it matches and then signal by PID.'')
          else Ok ())"

definition is_container_runtime_package :: "string \<Rightarrow> bool" where
  "is_container_runtime_package package =
     (let package = hd (split_on (\<lambda>c. c \<in> {CHR '':'', CHR ''='', CHR ''@''}) (to_ascii_lowercase (trim package))) in
      starts_with package ''docker'' \<or> starts_with package ''containerd'' \<or> starts_with package ''moby''
      \<or> package = ''runc'' \<or> package = ''crun'')"

definition check_process_name :: "32 word \<Rightarrow> string \<Rightarrow> string + unit" where
  "check_process_name pid name =
     (let lower = to_ascii_lowercase name in
      if lower \<in> set PROTECTED_PROCESSES \<or> starts_with lower ''abyssal'' \<or> starts_with lower ''containerd-shim''
      then Err (PREFIX @ '': PID '' @ dec_digits (unat pid) @ '' is '' @ name
        @ '', part of the running control plane. Signalling it would take the web UI down.'')
      else Ok ())"

definition process_name_from_ps :: "string \<Rightarrow> string option" where
  "process_name_from_ps output =
     (case find (\<lambda>l. trim l \<noteq> []) (drop 1 (rust_lines output)) of
        None \<Rightarrow> None
      | Some line \<Rightarrow>
          let fields = split_whitespace line in
          if length fields \<le> 12 then None
          else let name = trim_end_matches (\<lambda>c. c = CHR '':'') (last (split_on (\<lambda>c. c = CHR ''/'') (fields ! 12)))
               in if name = [] then None else Some name)"

section \<open>Paths and devices\<close>

definition normalize_path :: "string \<Rightarrow> string" where
  "normalize_path path =
     (let out = concat (map (\<lambda>part. CHR ''/'' # part)
        (filter (\<lambda>p. p \<noteq> [] \<and> p \<noteq> ''.'') (split_on (\<lambda>c. c = CHR ''/'') (trim path))))
      in if out = [] then ''/'' else out)"

definition is_protected_path :: "string \<Rightarrow> bool" where
  "is_protected_path path =
     (let path = normalize_path path in
      list_ex (\<lambda>prefix. path = prefix \<or> starts_with path (prefix @ ''/'') \<or> starts_with path (prefix @ ''-''))
        PROTECTED_PATH_PREFIXES)"

definition parent_disk :: "string \<Rightarrow> string option" where
  "parent_disk device =
     (case strip_prefix device ''/dev/'' of
        None \<Rightarrow> None
      | Some name \<Rightarrow>
          if CHR ''/'' \<in> set name \<or> starts_with name ''dm-'' \<or> starts_with name ''md'' then None
          else if starts_with name ''nvme'' \<or> starts_with name ''mmcblk''
          then (case rsplit_once (CHR ''p'') name of
              None \<Rightarrow> None
            | Some (disk, part) \<Rightarrow>
                if disk \<noteq> [] \<and> is_ascii_digit (last disk) \<and> part \<noteq> [] \<and> list_all is_ascii_digit part
                then Some (''/dev/'' @ disk) else None)
          else let disk = trim_end_matches is_ascii_digit name
               in if length disk < length name \<and> disk \<noteq> [] then Some (''/dev/'' @ disk) else None)"

definition letters_after :: "string \<Rightarrow> string \<Rightarrow> bool" where
  "letters_after name pre = (case strip_prefix name pre of None \<Rightarrow> False
     | Some rest \<Rightarrow> rest \<noteq> [] \<and> list_all is_ascii_lowercase rest)"

definition is_whole_disk :: "string \<Rightarrow> bool" where
  "is_whole_disk device =
     (case strip_prefix device ''/dev/'' of
        None \<Rightarrow> False
      | Some name \<Rightarrow>
          letters_after name ''sd'' \<or> letters_after name ''vd'' \<or> letters_after name ''xvd''
          \<or> letters_after name ''hd''
          \<or> (case Option.bind (strip_prefix name ''nvme'') (split_once (CHR ''n'')) of None \<Rightarrow> False
              | Some (ctrl, ns) \<Rightarrow> ctrl \<noteq> [] \<and> ns \<noteq> [] \<and> list_all is_ascii_digit ctrl \<and> list_all is_ascii_digit ns)
          \<or> (case strip_prefix name ''mmcblk'' of None \<Rightarrow> False
              | Some rest \<Rightarrow> rest \<noteq> [] \<and> list_all is_ascii_digit rest))"

definition related_devices :: "string \<Rightarrow> string list" where
  "related_devices device =
     (let device = normalize_path device in
      device # (case parent_disk device of None \<Rightarrow> [] | Some d \<Rightarrow> [d]))"

definition is_protected_mount :: "string \<Rightarrow> protection \<Rightarrow> bool" where
  "is_protected_mount target p =
     (let target = normalize_path target in
      target \<in> set PROTECTED_MOUNTS
      \<or> (case cp_docker_device p of None \<Rightarrow> False | Some dev \<Rightarrow> target \<in> set (related_devices dev)))"

datatype layer = Lvm | Raid

definition layer_of :: "string \<Rightarrow> layer option" where
  "layer_of device =
     (if starts_with device ''/dev/mapper/'' \<or> starts_with device ''/dev/dm-'' then Some Lvm
      else if starts_with device ''/dev/md'' then Some Raid else None)"

text \<open>The actions that are capitalized are literals of the code, in ASCII.\<close>

definition capitalize :: "string \<Rightarrow> string" where
  "capitalize s = (case s of [] \<Rightarrow> [] | c # cs \<Rightarrow> ascii_upper c # cs)"

definition check_disk :: "protection \<Rightarrow> string list \<Rightarrow> string \<Rightarrow> string + unit" where
  "check_disk p devices action =
     (case cp_docker_device p of
        None \<Rightarrow> Err (PREFIX @ '': '' @ action @ '' disks is refused until the agent has reported which device holds Docker's data (/var/lib/docker), so the control plane's own disk can't be touched by mistake. Reconnect the agent, or do this from a shell on the server.'')
      | Some dev \<Rightarrow>
          let docker_device = normalize_path dev in
          if parent_disk docker_device = None \<and> \<not> is_whole_disk docker_device
          then Err (PREFIX @ '': Docker's data is on '' @ docker_device @ '', whose physical disks aren't known here, so '' @ action @ '' any disk is refused on this server. Do it from a shell on the server.'')
          else (case find (\<lambda>d. d \<in> set (related_devices docker_device) \<or> parent_disk d = Some docker_device)
                  (map normalize_path devices) of
              Some d \<Rightarrow> Err (PREFIX @ '': '' @ d @ '' holds Docker's data ('' @ docker_device @ ''), including the control plane's database. '' @ capitalize action @ '' it would destroy the control plane.'')
            | None \<Rightarrow> Ok ()))"

definition check_layered :: "protection \<Rightarrow> layer \<Rightarrow> string \<Rightarrow> string + unit" where
  "check_layered p l action =
     (case map_option normalize_path (cp_docker_device p) of
        Some dev \<Rightarrow> if layer_of dev \<noteq> Some l then Ok ()
          else Err (PREFIX @ '': Docker's data is on '' @ dev @ '', so '' @ action @ '' is refused on this server. Do it from a shell on the server.'')
      | None \<Rightarrow> Err (PREFIX @ '': '' @ action @ '' is refused until the agent has reported which device holds Docker's data (/var/lib/docker).''))"

section \<open>The check\<close>

definition check_port :: "16 word \<Rightarrow> protection \<Rightarrow> string + unit" where
  "check_port port p = (if port \<in> cp_ports p
     then Err (PREFIX @ '': port '' @ dec_digits (unat port) @ '' is one the control plane needs ('' @ port_list (cp_ports p) @ ''). Closing it would cut off the web UI or the agents.'')
     else Ok ())"

definition check_system :: "system_op \<Rightarrow> protection \<Rightarrow> string + unit" where
  "check_system oper p = (case oper of
       FirewallEnable \<Rightarrow> Err (PREFIX @ '': turning the firewall on can default to denying everything incoming, including '' @ port_list (cp_ports p) @ ''. Allow those ports first, then enable it from a shell on the server.'')
     | FirewallDenyPort port _ \<Rightarrow> check_port port p
     | FirewallRemovePort port _ \<Rightarrow> check_port port p
     | _ \<Rightarrow> Ok ())"

definition check_session :: "session_op \<Rightarrow> string + unit" where
  "check_session oper = (case oper of
       InterfaceSetState interface up \<Rightarrow> if up then Ok ()
         else Err (PREFIX @ '': bringing '' @ (if trim interface = [] then ''an interface'' else interface) @ '' down could take the control plane off the network, and the web UI is how it would be brought back up.'')
     | _ \<Rightarrow> Ok ())"

definition check_unit :: "string \<Rightarrow> string + unit" where
  "check_unit unit = (if is_protected_unit unit
     then Err (PREFIX @ '': '' @ unit @ '' runs the control plane itself (Docker and its containers, or this server's agent). Stopping, restarting or disabling it would take the web UI down. Do it from a shell on the server.'')
     else Ok ())"

definition check_service :: "service_op \<Rightarrow> string + unit" where
  "check_service oper = (case oper of
       StopService unit \<Rightarrow> check_unit unit
     | RestartService unit \<Rightarrow> check_unit unit
     | DisableService unit \<Rightarrow> check_unit unit
     | _ \<Rightarrow> Ok ())"

definition check_hardware :: "hardware_op \<Rightarrow> string + unit" where
  "check_hardware oper = (case oper of
       StopContainer container \<Rightarrow> check_container container
     | RestartContainer container \<Rightarrow> check_container container
     | RemoveContainer container \<Rightarrow> check_container container
     | _ \<Rightarrow> Ok ())"

definition check_process :: "process_op \<Rightarrow> string + unit" where
  "check_process oper = (case oper of
       SignalByName name _ dry_run \<Rightarrow> if dry_run then Ok () else check_process_pattern name
     | SendSignal pid _ \<Rightarrow> if pid = 1
         then Err (PREFIX @ '': PID 1 is the init system; signalling it can take the whole server down.'') else Ok ()
     | _ \<Rightarrow> Ok ())"

definition check_runtime_package :: "string \<Rightarrow> string + unit" where
  "check_runtime_package package = (if is_container_runtime_package package
     then Err (PREFIX @ '': '' @ package @ '' is part of the container runtime the control plane runs on. Upgrading or removing it stops every container, including this one. Do it from a shell on the server, during a maintenance window.'')
     else Ok ())"

definition check_package :: "package_op \<Rightarrow> protection \<Rightarrow> string + unit" where
  "check_package oper p = (case oper of
       UpgradePackage package \<Rightarrow> check_runtime_package package
     | RemovePackage package \<Rightarrow> check_runtime_package package
     | FilesystemRepair device \<Rightarrow> check_disk p [device] ''repairing a mounted filesystem on''
     | _ \<Rightarrow> Ok ())"

definition check_storage :: "storage_op \<Rightarrow> protection \<Rightarrow> string + unit" where
  "check_storage oper p = (case oper of
       UnmountFilesystem target \<Rightarrow> if is_protected_mount target p
         then Err (PREFIX @ '': '' @ target @ '' holds Docker's data, including the control plane's database. Unmounting it would stop the control plane.'') else Ok ()
     | MountFilesystem _ target \<Rightarrow> if is_protected_mount target p
         then Err (PREFIX @ '': mounting over '' @ target @ '' would hide Docker's data, including the control plane's database.'') else Ok ()
     | CreatePartition device _ _ \<Rightarrow> check_disk p [device] ''repartitioning''
     | DeletePartition device _ \<Rightarrow> check_disk p [device] ''repartitioning''
     | CreateFilesystem device _ \<Rightarrow> check_disk p [device] ''formatting''
     | CreatePhysicalVolume device \<Rightarrow> check_disk p [device] ''changing LVM physical volumes on''
     | RemovePhysicalVolume device \<Rightarrow> check_disk p [device] ''changing LVM physical volumes on''
     | CreateRaidArray _ _ devices \<Rightarrow> check_disk p devices ''building a RAID array from''
     | CreateVolumeGroup _ physical_volumes \<Rightarrow> check_disk p physical_volumes ''building a volume group from''
     | RemoveLogicalVolume _ \<Rightarrow> check_layered p Lvm ''removing LVM volumes''
     | RemoveVolumeGroup _ \<Rightarrow> check_layered p Lvm ''removing LVM volumes''
     | StopRaidArray _ \<Rightarrow> check_layered p Raid ''stopping RAID arrays''
     | _ \<Rightarrow> Ok ())"

definition check_containment :: "containment_op \<Rightarrow> string + unit" where
  "check_containment oper = (case oper of
       IsolateHost \<Rightarrow> Err (PREFIX @ '': isolating this host would cut every agent and every browser off from the control plane, and the web UI is how isolation is lifted.'')
     | QuarantineFile path \<Rightarrow> if is_protected_path path
         then Err (PREFIX @ '': '' @ path @ '' belongs to Docker or this server's agent, which the control plane runs on.'') else Ok ()
     | _ \<Rightarrow> Ok ())"

definition check_sepulchre :: "sepulchre_op \<Rightarrow> protection \<Rightarrow> string + unit" where
  "check_sepulchre oper p = (case oper of
       RemoveMountUnit _ mount_point \<Rightarrow> if is_protected_mount mount_point p
         then Err (PREFIX @ '': '' @ mount_point @ '' holds Docker's data, including the control plane's database.'') else Ok ()
     | _ \<Rightarrow> Ok ())"

definition check_scourge :: "scourge_op \<Rightarrow> string + unit" where
  "check_scourge oper = (case oper of
       ScourgeSetMode ips \<Rightarrow> if ips
         then Err (PREFIX @ '': inline IPS mode sends every packet through Suricata first, so a bad rule or a stopped Suricata would cut off the control plane. IDS mode (alerts only) and packet captures are fine here; for inline protection, put a sensor in front of this server instead.'') else Ok ()
     | _ \<Rightarrow> Ok ())"

definition check :: "agent_operation \<Rightarrow> protection \<Rightarrow> string + unit" where
  "check oper p = (case oper of
       SystemOp x \<Rightarrow> check_system x p
     | SessionOp x \<Rightarrow> check_session x
     | ServiceOp x \<Rightarrow> check_service x
     | HardwareOp x \<Rightarrow> check_hardware x
     | ProcessOp x \<Rightarrow> check_process x
     | PackageOp x \<Rightarrow> check_package x p
     | StorageOp x \<Rightarrow> check_storage x p
     | ContainmentOp x \<Rightarrow> check_containment x
     | SepulchreOp x \<Rightarrow> check_sepulchre x p
     | ScourgeOp x \<Rightarrow> check_scourge x
     | _ \<Rightarrow> Ok ())"

section \<open>Where Docker's data is\<close>

definition docker_mount_covers :: "string \<Rightarrow> bool" where
  "docker_mount_covers mount \<longleftrightarrow> mount = ''/'' \<or> ''/var/lib/docker'' = mount
     \<or> starts_with ''/var/lib/docker'' (mount @ ''/'')"

definition df_line :: "string \<Rightarrow> (nat \<times> string) option \<Rightarrow> (nat \<times> string) option" where
  "df_line line best =
     (let fields = split_whitespace line in
      if fields = [] then best
      else let device = hd fields; mount = last fields in
        if \<not> starts_with mount ''/'' \<or> length fields < 6 then best
        else if docker_mount_covers mount
             \<and> (case best of None \<Rightarrow> True | Some (len, _) \<Rightarrow> length mount > len)
        then Some (length mount, device) else best)"

definition docker_device_from_df :: "string \<Rightarrow> string option" where
  "docker_device_from_df df = map_option snd (fold df_line (rust_lines df) None)"

section \<open>What the guard refuses\<close>

lemmas check_defs = check_def check_system_def check_session_def check_service_def check_hardware_def
  check_process_def check_package_def check_storage_def check_containment_def check_sepulchre_def
  check_scourge_def check_port_def check_unit_def check_runtime_package_def

lemma guarded_groups_serial:
  "is_err (check_system so p) \<Longrightarrow> \<not> system_op_concurrent so"
  "is_err (check_session se) \<Longrightarrow> \<not> session_op_concurrent se"
  "is_err (check_service sv) \<Longrightarrow> \<not> service_op_concurrent sv"
  "is_err (check_hardware hw) \<Longrightarrow> \<not> hardware_op_concurrent hw"
  "is_err (check_process pr) \<Longrightarrow> \<not> process_op_concurrent pr"
  "is_err (check_package pk p) \<Longrightarrow> \<not> package_op_concurrent pk"
  "is_err (check_storage st p) \<Longrightarrow> \<not> storage_op_concurrent st"
  "is_err (check_containment cn) \<Longrightarrow> \<not> containment_op_concurrent cn"
  "is_err (check_sepulchre sp p) \<Longrightarrow> \<not> sepulchre_op_concurrent sp"
  "is_err (check_scourge sc) \<Longrightarrow> \<not> scourge_op_concurrent sc"
  subgoal by (cases so) (simp_all add: check_defs concurrent_defs)
  subgoal by (cases se) (simp_all add: check_defs concurrent_defs)
  subgoal by (cases sv) (simp_all add: check_defs concurrent_defs)
  subgoal by (cases hw) (simp_all add: check_defs concurrent_defs)
  subgoal by (cases pr) (simp_all add: check_defs concurrent_defs)
  subgoal by (cases pk) (simp_all add: check_defs concurrent_defs)
  subgoal by (cases st) (simp_all add: check_defs concurrent_defs)
  subgoal by (cases cn) (simp_all add: check_defs concurrent_defs)
  subgoal by (cases sp) (simp_all add: check_defs concurrent_defs)
  subgoal by (cases sc) (simp_all add: check_defs concurrent_defs)
  done

text \<open>C38: whatever the control plane refuses for its own server is an operation the agent runs one
  at a time: no read-only operation, of those that run concurrently, is ever refused by the guard.\<close>

theorem guard_refuses_only_serial_operations:
  assumes "is_err (check oper p)"
  shows "\<not> runs_concurrently oper"
  using assms guarded_groups_serial
  by (cases oper) (simp_all add: check_def)

theorem guard_refuses_only_serial_operations_witness:
  "is_err (check (ContainmentOp IsolateHost) \<lparr>cp_ports = {443}, cp_docker_device = None\<rparr>)
   \<and> \<not> runs_concurrently (ContainmentOp IsolateHost)"
proof -
  have h: "is_err (check (ContainmentOp IsolateHost) \<lparr>cp_ports = {443}, cp_docker_device = None\<rparr>)"
    by (simp add: check_defs)
  with guard_refuses_only_serial_operations [OF h] show ?thesis by simp
qed

section \<open>The disk Docker's data is on\<close>

text \<open>The devices an operation writes to, for the operations that go through \<open>check_disk\<close>.\<close>

fun written_devices :: "agent_operation \<Rightarrow> string list" where
  "written_devices (PackageOp (FilesystemRepair device)) = [device]"
| "written_devices (StorageOp (CreatePartition device _ _)) = [device]"
| "written_devices (StorageOp (DeletePartition device _)) = [device]"
| "written_devices (StorageOp (CreateFilesystem device _)) = [device]"
| "written_devices (StorageOp (CreatePhysicalVolume device)) = [device]"
| "written_devices (StorageOp (RemovePhysicalVolume device)) = [device]"
| "written_devices (StorageOp (CreateRaidArray _ _ devices)) = devices"
| "written_devices (StorageOp (CreateVolumeGroup _ physical_volumes)) = physical_volumes"
| "written_devices _ = []"

definition plain_device :: "string \<Rightarrow> bool" where
  "plain_device d \<longleftrightarrow> parent_disk d \<noteq> None \<or> is_whole_disk d"

text \<open>Two devices are related when one is the other or a partition of it.\<close>

definition same_disk :: "string \<Rightarrow> string \<Rightarrow> bool" where
  "same_disk d e \<longleftrightarrow> d = e \<or> parent_disk d = Some e \<or> parent_disk e = Some d"

definition path_parts :: "string \<Rightarrow> string list" where
  "path_parts path = filter (\<lambda>p. p \<noteq> [] \<and> p \<noteq> ''.'') (split_on (\<lambda>c. c = CHR ''/'') (trim path))"

lemma normalize_path_parts:
  "normalize_path path = (if path_parts path = [] then ''/''
     else concat (map (\<lambda>part. CHR ''/'' # part) (path_parts path)))"
proof -
  have "concat (map (\<lambda>part. CHR ''/'' # part) (path_parts path)) = [] \<longleftrightarrow> path_parts path = []"
    by (cases "path_parts path") auto
  then show ?thesis by (simp add: normalize_path_def path_parts_def [symmetric] Let_def)
qed

lemma path_parts_in: "t \<in> set (path_parts path) \<Longrightarrow> c \<in> set t \<Longrightarrow> c \<in> set path \<and> c \<noteq> CHR ''/''"
  using split_on_parts [of t "\<lambda>c. c = CHR ''/''" "trim path" c] set_trim_subset [of path]
  by (auto simp: path_parts_def)

lemma normalize_graphic:
  assumes "list_all is_ascii_graphic path"
  shows "list_all is_ascii_graphic (normalize_path path)"
proof -
  have "is_ascii_graphic (CHR ''/'')" by (simp add: rust_str)
  with assms path_parts_in [of _ path] show ?thesis
    unfolding normalize_path_parts list_all_iff by auto
qed

lemma path_parts_normalize:
  assumes "list_all is_ascii_graphic path"
  shows "path_parts (normalize_path path) = path_parts path"
proof (cases "path_parts path = []")
  case False
  have t: "trim (normalize_path path) = normalize_path path"
    using trim_graphic [OF normalize_graphic [OF assms]] .
  have "split_on (\<lambda>c. c = CHR ''/'') (normalize_path path) = [] # path_parts path"
    using False split_on_concat [of "path_parts path" "CHR ''/''"] path_parts_in [of _ path]
    by (simp add: normalize_path_parts)
  then have "path_parts (normalize_path path) = filter (\<lambda>p. p \<noteq> [] \<and> p \<noteq> ''.'') (path_parts path)"
    unfolding path_parts_def [of "normalize_path path"] t by simp
  then show ?thesis by (simp add: path_parts_def)
next
  case True
  have "trim ''/'' = ''/''" by (rule trim_graphic) (simp add: rust_str)
  with True show ?thesis by (simp add: normalize_path_parts) (simp add: path_parts_def)
qed

lemma normalize_path_idem:
  "list_all is_ascii_graphic path \<Longrightarrow> normalize_path (normalize_path path) = normalize_path path"
  by (simp add: normalize_path_parts [of "normalize_path path"] path_parts_normalize)
    (simp add: normalize_path_parts)

lemma check_disk_ok:
  "is_ok (check_disk p devices action) \<longleftrightarrow>
     (\<exists>dev. cp_docker_device p = Some dev \<and> plain_device (normalize_path dev)
        \<and> (\<forall>d\<in>set devices. normalize_path d \<notin> set (related_devices (normalize_path dev))
             \<and> parent_disk (normalize_path d) \<noteq> Some (normalize_path dev)))"
proof (cases "cp_docker_device p")
  case (Some dev)
  let ?bad = "\<lambda>d. d \<in> set (related_devices (normalize_path dev)) \<or> parent_disk d = Some (normalize_path dev)"
  show ?thesis
    using find_None_iff [of ?bad "map normalize_path devices"] Some
    by (cases "find ?bad (map normalize_path devices)")
      (auto simp: check_disk_def plain_device_def Let_def)
qed (simp add: check_disk_def)

lemma related_devices_same_disk:
  "normalize_path dev = dev \<Longrightarrow> d \<in> set (related_devices dev) \<or> parent_disk d = Some dev \<longleftrightarrow> same_disk d dev"
  by (auto simp: related_devices_def same_disk_def Let_def split: option.splits)

lemma check_written_devices:
  "written_devices oper \<noteq> [] \<Longrightarrow> \<exists>action. check oper p = check_disk p (written_devices oper) action"
  by (induction oper rule: written_devices.induct) (auto simp: check_defs)

text \<open>C7: an operation that writes to block devices is let through on the control plane's server
  exactly when the device holding Docker's data is known, is a plain disk or partition, and none of
  the devices written is that device, a partition of it, or the disk it is a partition of.\<close>

theorem disk_operations_spare_docker:
  assumes "written_devices oper \<noteq> []" and "\<And>dev. cp_docker_device p = Some dev \<Longrightarrow> list_all is_ascii_graphic dev"
  shows "is_ok (check oper p) \<longleftrightarrow>
    (\<exists>dev. cp_docker_device p = Some dev \<and> plain_device (normalize_path dev)
       \<and> (\<forall>d\<in>set (written_devices oper). \<not> same_disk (normalize_path d) (normalize_path dev)))"
proof -
  obtain action where "check oper p = check_disk p (written_devices oper) action"
    using check_written_devices [OF assms(1)] by blast
  then show ?thesis
    using related_devices_same_disk [OF normalize_path_idem [OF assms(2)]]
    by (auto simp: check_disk_ok)
qed

theorem disk_operations_spare_docker_witness:
  "is_err (check (StorageOp (CreateFilesystem ''/dev//sda'' ''ext4''))
     \<lparr>cp_ports = {}, cp_docker_device = Some ''/dev/sda2''\<rparr>)
   \<and> is_ok (check (StorageOp (CreateFilesystem ''/dev/sdb'' ''ext4''))
     \<lparr>cp_ports = {}, cp_docker_device = Some ''/dev/sda2''\<rparr>)"
proof -
  let ?p = "\<lparr>cp_ports = {}, cp_docker_device = Some ''/dev/sda2''\<rparr>"
  have g: "list_all is_ascii_graphic ''/dev/sda2''" by (simp add: rust_str)
  have n: "normalize_path ''/dev//sda'' = ''/dev/sda''" "normalize_path ''/dev/sdb'' = ''/dev/sdb''"
    "normalize_path ''/dev/sda2'' = ''/dev/sda2''" "plain_device ''/dev/sda2''"
    "same_disk ''/dev/sda'' ''/dev/sda2''" "\<not> same_disk ''/dev/sdb'' ''/dev/sda2''"
    by code_simp+
  show ?thesis
    using disk_operations_spare_docker [of "StorageOp (CreateFilesystem ''/dev//sda'' ''ext4'')" ?p]
      disk_operations_spare_docker [of "StorageOp (CreateFilesystem ''/dev/sdb'' ''ext4'')" ?p] g n
    by (simp add: is_err_iff)
qed

text \<open>A disk has no parent, and a partition's parent is the disk it is named after: what
  \<open>same_disk\<close> compares are the kernel's own names.\<close>

lemma dropWhile_last_False: "s \<noteq> [] \<Longrightarrow> \<not> P (last s) \<Longrightarrow> dropWhile P (rev s) = rev s"
  by (cases s rule: rev_cases) simp_all

lemma trim_end_digits:
  "list_all is_ascii_digit n \<Longrightarrow> disk = [] \<or> \<not> is_ascii_digit (last disk) \<Longrightarrow>
   trim_end_matches is_ascii_digit (disk @ n) = disk"
  using dropWhile_last_False [of disk is_ascii_digit]
  by (cases "disk = []") (auto simp: trim_end_matches_def dropWhile_append list_all_iff)

lemma lowercase_not_digit: "is_ascii_lowercase c \<Longrightarrow> \<not> is_ascii_digit c"
  by (simp add: ascii_defs)

text \<open>The names the kernel gives to a disk: a driver's letters followed by letters.\<close>

definition scsi_disk :: "string \<Rightarrow> bool" where
  "scsi_disk name \<longleftrightarrow> letters_after name ''sd'' \<or> letters_after name ''vd''
     \<or> letters_after name ''xvd'' \<or> letters_after name ''hd''"

lemma scsi_disk_lowercase:
  assumes "scsi_disk name"
  shows "list_all is_ascii_lowercase name" and "name \<noteq> []"
    and "hd name \<in> {CHR ''s'', CHR ''v'', CHR ''x'', CHR ''h''}"
proof -
  have "letters_after name pre \<Longrightarrow> list_all is_ascii_lowercase pre \<Longrightarrow> pre \<noteq> [] \<Longrightarrow>
      list_all is_ascii_lowercase name \<and> name \<noteq> [] \<and> hd name = hd pre" for pre
    by (cases pre) (auto simp: letters_after_def strip_prefix_def prefix_def split: if_splits option.splits)
  from this [of "''sd''"] this [of "''vd''"] this [of "''xvd''"] this [of "''hd''"] assms
  show "list_all is_ascii_lowercase name" "name \<noteq> []"
    "hd name \<in> {CHR ''s'', CHR ''v'', CHR ''x'', CHR ''h''}"
    by (auto simp: scsi_disk_def rust_str)
qed

lemma parent_disk_scsi:
  assumes "scsi_disk name" and "list_all is_ascii_digit n"
  shows "parent_disk (''/dev/'' @ name @ n) = (if n = [] then None else Some (''/dev/'' @ name))"
proof -
  note l = scsi_disk_lowercase [OF assms(1)]
  have sl: "CHR ''/'' \<notin> set (name @ n)"
    using l(1) assms(2) by (auto simp: list_all_iff ascii_defs)
  have "\<not> is_ascii_digit (last name)"
    using l(1,2) last_in_set lowercase_not_digit by (fastforce simp: list_all_iff)
  with assms(2) have t: "trim_end_matches is_ascii_digit (name @ n) = name" by (simp add: trim_end_digits)
  have pre: "\<not> starts_with (name @ n) ''dm-''" "\<not> starts_with (name @ n) ''md''"
     "\<not> starts_with (name @ n) ''nvme''" "\<not> starts_with (name @ n) ''mmcblk''"
    using l(2,3) by (cases name; auto simp: starts_with_def)+
  show ?thesis
    using sl t pre l(2) by (simp add: parent_disk_def strip_prefix_def Let_def)
qed

lemma rsplit_once_last: "c \<notin> set b \<Longrightarrow> rsplit_once c (a @ c # b) = Some (a, b)"
proof -
  assume c: "c \<notin> set b"
  have "takeWhile (\<lambda>d. d \<noteq> c) (rev b @ c # rev a) = rev b"
    "dropWhile (\<lambda>d. d \<noteq> c) (rev b @ c # rev a) = c # rev a"
    using c takeWhile_append2 [of "rev b" "\<lambda>d. d \<noteq> c" "c # rev a"]
      dropWhile_append2 [of "rev b" "\<lambda>d. d \<noteq> c" "c # rev a"] by auto
  then show ?thesis by (simp add: rsplit_once_def split_once_def)
qed

lemma digits_chars:
  "list_all is_ascii_digit n \<Longrightarrow> CHR ''/'' \<notin> set n"
  "list_all is_ascii_digit n \<Longrightarrow> CHR ''p'' \<notin> set n"
  "list_all is_ascii_digit n \<Longrightarrow> CHR ''n'' \<notin> set n"
  "list_all is_ascii_digit n \<Longrightarrow> n \<noteq> [] \<Longrightarrow> is_ascii_digit (last n)"
  using last_in_set [of n] by (auto simp: list_all_iff ascii_defs)

lemma parent_disk_p:
  assumes "starts_with name ''nvme'' \<or> starts_with name ''mmcblk''" and "CHR ''/'' \<notin> set name"
    and "is_ascii_digit (last name)" and "list_all is_ascii_digit n" and "n \<noteq> []"
  shows "parent_disk (''/dev/'' @ name @ CHR ''p'' # n) = Some (''/dev/'' @ name)"
proof -
  have r: "rsplit_once (CHR ''p'') (name @ CHR ''p'' # n) = Some (name, n)"
    using digits_chars(2) [OF assms(4)] by (rule rsplit_once_last)
  show ?thesis
    using assms digits_chars(1) [OF assms(4)]
    by (auto simp: parent_disk_def strip_prefix_def starts_with_def r prefix_def)
qed

lemma whole_nvme_no_parent:
  assumes "list_all is_ascii_digit ctrl" and "list_all is_ascii_digit ns"
  shows "parent_disk (''/dev/nvme'' @ ctrl @ CHR ''n'' # ns) = None"
  using digits_chars(1,2) [OF assms(1)] digits_chars(1,2) [OF assms(2)]
  by (auto simp: parent_disk_def strip_prefix_def starts_with_def rsplit_once_def split_once_def)

lemma whole_mmc_no_parent:
  "list_all is_ascii_digit n \<Longrightarrow> parent_disk (''/dev/mmcblk'' @ n) = None"
  using digits_chars(1,2) [of n]
  by (auto simp: parent_disk_def strip_prefix_def starts_with_def rsplit_once_def split_once_def)

lemma is_whole_disk_cases:
  assumes "is_whole_disk d"
  obtains (scsi) name where "d = ''/dev/'' @ name" and "scsi_disk name"
  | (nvme) ctrl ns where "d = ''/dev/nvme'' @ ctrl @ CHR ''n'' # ns"
      and "list_all is_ascii_digit ctrl" and "list_all is_ascii_digit ns" and "ns \<noteq> []"
  | (mmc) n where "d = ''/dev/mmcblk'' @ n" and "list_all is_ascii_digit n" and "n \<noteq> []"
proof -
  from assms obtain name where d: "d = ''/dev/'' @ name"
    by (auto simp: is_whole_disk_def strip_prefix_def prefix_def split: option.splits if_splits)
  from assms consider "scsi_disk name"
    | rest ctrl ns where "name = ''nvme'' @ rest" "split_once (CHR ''n'') rest = Some (ctrl, ns)" "ns \<noteq> []"
      "list_all is_ascii_digit ctrl" "list_all is_ascii_digit ns"
    | rest where "name = ''mmcblk'' @ rest" "list_all is_ascii_digit rest" "rest \<noteq> []"
    unfolding is_whole_disk_def d scsi_disk_def
    by (auto simp: strip_prefix_def prefix_def split: option.splits if_splits)
  then show thesis
  proof cases
    case 2
    with split_once_append [OF 2(2)] nvme [of ctrl ns] d show ?thesis by simp
  qed (use d scsi mmc in simp_all)
qed

text \<open>C25: the guard's reading of device names. A whole disk is no partition of another device, and
  its partition \<open>n\<close> (\<open>n\<close> appended, after a \<open>p\<close> when the disk's name ends in a digit) has that disk as
  its parent: the protected set contains the disk Docker's data is on and everything on it.\<close>

theorem partitions_belong_to_their_disk:
  assumes "is_whole_disk d" and "list_all is_ascii_digit n" and "n \<noteq> []"
  shows "parent_disk d = None
    \<and> parent_disk (if is_ascii_digit (last d) then d @ CHR ''p'' # n else d @ n) = Some d"
  using assms(1)
proof (cases rule: is_whole_disk_cases)
  case (scsi name)
  note l = scsi_disk_lowercase [OF scsi(2)]
  have "\<not> is_ascii_digit (last d)"
    using l(1,2) last_in_set [of name] lowercase_not_digit scsi(1) by (auto simp: list_all_iff)
  with parent_disk_scsi [OF scsi(2), of "[]"] parent_disk_scsi [OF scsi(2) assms(2)] scsi(1) assms(3)
  show ?thesis by simp
next
  case (nvme ctrl ns)
  with digits_chars [OF nvme(2)] digits_chars [OF nvme(3)] assms
    parent_disk_p [of "''nvme'' @ ctrl @ CHR ''n'' # ns" n] whole_nvme_no_parent [OF nvme(2,3)]
  show ?thesis by (simp add: starts_with_def)
next
  case (mmc k)
  with digits_chars [OF mmc(2)] assms parent_disk_p [of "''mmcblk'' @ k" n] whole_mmc_no_parent [OF mmc(2)]
  show ?thesis by (simp add: starts_with_def)
qed

theorem partitions_belong_to_their_disk_witness:
  "parent_disk ''/dev/nvme0n1'' = None \<and> parent_disk ''/dev/nvme0n1p3'' = Some ''/dev/nvme0n1''
   \<and> parent_disk ''/dev/sda2'' = Some ''/dev/sda''"
proof -
  have "is_whole_disk ''/dev/nvme0n1''" "is_whole_disk ''/dev/sda''" by code_simp+
  with partitions_belong_to_their_disk [of "''/dev/nvme0n1''" "''3''"]
    partitions_belong_to_their_disk [of "''/dev/sda''" "''2''"]
  show ?thesis by (simp add: rust_str)
qed

section \<open>Processes\<close>

text \<open>What \<^verbatim>\<open>pgrep\<close> does with a pattern that has none of a regular expression's special characters:
  it selects the processes whose name contains it.\<close>

definition literal_pattern :: "string \<Rightarrow> bool" where
  "literal_pattern name \<longleftrightarrow> (\<forall>c\<in>set name. \<not> is_regex_char c)"

lemma lowercase_fixed: "list_all (\<lambda>c. \<not> is_ascii_uppercase c) s \<Longrightarrow> to_ascii_lowercase s = s"
  by (induction s) (auto simp: to_ascii_lowercase_def ascii_lower_def)

lemma protected_processes_lowercase:
  "q \<in> set PROTECTED_PROCESSES \<Longrightarrow> list_all (\<lambda>c. \<not> is_ascii_uppercase c) q"
  by (auto simp: PROTECTED_PROCESSES_def rust_str)

lemma check_process_pattern_ok:
  "is_ok (check_process_pattern name) \<longleftrightarrow>
     (\<forall>q\<in>set PROTECTED_PROCESSES. \<not> contains_str q (to_ascii_lowercase (trim name))
        \<and> \<not> contains_str (to_ascii_lowercase (trim name)) q)
     \<and> list_all (\<lambda>c. \<not> is_regex_char c) (to_ascii_lowercase (trim name))"
  using find_None_iff [of "\<lambda>p. contains_str p (to_ascii_lowercase (trim name))
      \<or> contains_str (to_ascii_lowercase (trim name)) p" PROTECTED_PROCESSES]
  by (cases "find (\<lambda>p. contains_str p (to_ascii_lowercase (trim name))
      \<or> contains_str (to_ascii_lowercase (trim name)) p) PROTECTED_PROCESSES")
    (auto simp: check_process_pattern_def Let_def list_ex_iff list_all_iff)

lemma accepted_pattern_misses:
  assumes "is_ok (check_process_pattern name)" and "q \<in> set PROTECTED_PROCESSES"
  shows "\<not> contains_str q name"
proof
  assume "contains_str q name"
  then have n: "sublist name q" by (simp add: contains_str_sublist)
  then have t: "sublist (trim name) q" using sublist_trim sublist_order.order.trans by blast
  have "set name \<subseteq> set q" using n by (rule set_mono_sublist)
  with protected_processes_lowercase [OF assms(2)] set_trim_subset [of name]
  have "to_ascii_lowercase (trim name) = trim name"
    by (intro lowercase_fixed) (auto simp: list_all_iff)
  with t assms show False by (auto simp: check_process_pattern_ok contains_str_sublist)
qed

text \<open>C15: a signal by name that the guard lets through is either a dry run or carries a pattern that no
  name of the control plane's processes contains, whatever its case and the white space around it;
  so \<^verbatim>\<open>pgrep\<close>, for which a pattern without special characters is a substring, selects none of them.\<close>

theorem signals_by_name_spare_control_plane:
  assumes "is_ok (check (ProcessOp (SignalByName name sig dry_run)) p)"
  shows "dry_run \<or> (literal_pattern (to_ascii_lowercase (trim name))
    \<and> (\<forall>q\<in>set PROTECTED_PROCESSES. \<not> contains_str q name \<and> \<not> contains_str q (to_ascii_lowercase (trim name))))"
  using assms accepted_pattern_misses [of name]
  by (auto simp: check_defs literal_pattern_def check_process_pattern_ok list_all_iff split: if_splits)

theorem signals_by_name_spare_control_plane_witness:
  "is_ok (check (ProcessOp (SignalByName ''nginx'' ''TERM'' False)) \<lparr>cp_ports = {}, cp_docker_device = None\<rparr>)
   \<and> \<not> contains_str ''caddy'' ''nginx''"
proof -
  have h: "is_ok (check (ProcessOp (SignalByName ''nginx'' ''TERM'' False)) \<lparr>cp_ports = {}, cp_docker_device = None\<rparr>)"
    by code_simp
  have "''caddy'' \<in> set PROTECTED_PROCESSES" by code_simp
  with signals_by_name_spare_control_plane [OF h] h show ?thesis by auto
qed

section \<open>Files that may not be quarantined\<close>

text \<open>What a path names once its \<^verbatim>\<open>.\<close> and \<^verbatim>\<open>..\<close> are taken away, with no symbolic link on the way.\<close>

fun resolve_from :: "string list \<Rightarrow> string list \<Rightarrow> string list" where
  "resolve_from acc [] = rev acc"
| "resolve_from acc (part # parts) =
     (if part = ''..'' then resolve_from (tl acc) parts else resolve_from (part # acc) parts)"

lemma resolve_from_plain: "''..'' \<notin> set parts \<Longrightarrow> resolve_from acc parts = rev acc @ parts"
  by (induction parts arbitrary: acc) auto

text \<open>The guard compares texts; these lemmas turn its prefixes into components of the path.\<close>

definition joined :: "string list \<Rightarrow> string" where
  "joined parts = concat (map (\<lambda>part. CHR ''/'' # part) parts)"

lemma joined_simps [simp]: "joined [] = []" "joined (part # parts) = CHR ''/'' # part @ joined parts"
  by (simp_all add: joined_def)

lemma joined_append [simp]: "joined (xs @ ys) = joined xs @ joined ys"
  by (simp add: joined_def)

definition no_slash :: "string \<Rightarrow> bool" where
  "no_slash s \<longleftrightarrow> CHR ''/'' \<notin> set s"

lemma prefix_of_component:
  assumes "no_slash s"
  shows "prefix s (x @ joined xs) \<longleftrightarrow> prefix s x"
proof
  assume "prefix s (x @ joined xs)"
  then consider "prefix s x" | u where "s = x @ u" "u \<noteq> []" "prefix u (joined xs)"
    unfolding prefix_append by (metis append_Nil2 prefix_order.refl)
  then show "prefix s x"
  proof cases
    case (2 u)
    then have "CHR ''/'' \<in> set u" by (cases xs; cases u) auto
    with 2(1) assms show ?thesis by (simp add: no_slash_def)
  qed
qed simp

lemma prefix_whole_component:
  assumes "no_slash d" "no_slash x"
  shows "prefix (d @ CHR ''/'' # u) (x @ joined xs) \<longleftrightarrow> x = d \<and> prefix (CHR ''/'' # u) (joined xs)"
proof
  assume p: "prefix (d @ CHR ''/'' # u) (x @ joined xs)"
  then have "prefix d x" using prefix_of_component [OF assms(1)] append_prefixD by blast
  then obtain v where v: "x = d @ v" by (auto simp: prefix_def)
  with p have "prefix (CHR ''/'' # u) (v @ joined xs)" by simp
  with v assms(2) have "v = []" by (cases v) (auto simp: no_slash_def)
  with v p show "x = d \<and> prefix (CHR ''/'' # u) (joined xs)" by simp
qed simp

lemma prefix_joined:
  assumes "list_all no_slash dir" "list_all no_slash parts"
  shows "prefix (joined dir @ CHR ''/'' # u) (joined parts)
    \<longleftrightarrow> (\<exists>rest. parts = dir @ rest \<and> prefix (CHR ''/'' # u) (joined rest))"
  using assms
proof (induction dir arbitrary: parts)
  case (Cons d dir)
  obtain w where w: "joined dir @ CHR ''/'' # u = CHR ''/'' # w" by (cases dir) auto
  show ?case
  proof (cases parts)
    case (Cons x xs)
    have "prefix (joined (d # dir) @ CHR ''/'' # u) (joined parts)
        \<longleftrightarrow> x = d \<and> prefix (joined dir @ CHR ''/'' # u) (joined xs)"
      unfolding Cons w [symmetric] using Cons Cons.prems prefix_whole_component [of d x w xs] w by simp
    then show ?thesis using Cons Cons.IH [of xs] Cons.prems by auto
  qed simp
qed simp

lemma joined_inj:
  "list_all no_slash xs \<Longrightarrow> list_all no_slash ys \<Longrightarrow> joined xs = joined ys \<Longrightarrow> xs = ys"
proof (induction xs arbitrary: ys)
  case Nil
  then show ?case by (cases ys) auto
next
  case (Cons x xs)
  then obtain y ys' where y: "ys = y # ys'" by (cases ys) auto
  with Cons.prems have eq: "x @ joined xs = y @ joined ys'" and "no_slash x" "no_slash y" by auto
  then have "prefix x y" "prefix y x"
    using prefix_of_component [of x y ys'] prefix_of_component [of y x xs] by (metis prefixI)+
  then have "x = y" by (rule prefix_order.antisym)
  with Cons y eq show ?case by auto
qed

text \<open>A path lies under a protected one when it goes through the same directories to the protected name, or
  to a name that continues it with a hyphen, and possibly further down.\<close>

definition under_protected :: "string list \<Rightarrow> bool" where
  "under_protected parts \<longleftrightarrow> (\<exists>pre \<in> set PROTECTED_PATH_PREFIXES. \<exists>dir name name' rest.
     path_parts pre = dir @ [name] \<and> parts = dir @ name' # rest
     \<and> (name' = name \<or> starts_with name' (name @ ''-'')))"

lemma protected_prefix_joined:
  "pre \<in> set PROTECTED_PATH_PREFIXES \<Longrightarrow> pre = joined (path_parts pre) \<and> 2 \<le> length (path_parts pre)
     \<and> \<not> prefix (path_parts pre ! 1) ''..'' \<and> list_all no_slash (path_parts pre)"
proof -
  have "list_all (\<lambda>pre. pre = joined (path_parts pre) \<and> 2 \<le> length (path_parts pre)
     \<and> \<not> prefix (path_parts pre ! 1) ''..'') PROTECTED_PATH_PREFIXES" by code_simp
  moreover have "list_all no_slash (path_parts pre)" for pre
    using path_parts_in [of _ pre] by (auto simp: list_all_iff no_slash_def)
  ultimately show "pre \<in> set PROTECTED_PATH_PREFIXES \<Longrightarrow> pre = joined (path_parts pre) \<and> 2 \<le> length (path_parts pre)
     \<and> \<not> prefix (path_parts pre ! 1) ''..'' \<and> list_all no_slash (path_parts pre)"
    by (simp add: list_all_iff)
qed

lemma under_prefix:
  assumes "list_all no_slash (dir @ [name])" "list_all no_slash parts"
  shows "joined parts = joined (dir @ [name]) \<or> prefix (joined (dir @ [name]) @ ''/'') (joined parts)
      \<or> prefix (joined (dir @ [name]) @ ''-'') (joined parts)
    \<longleftrightarrow> (\<exists>name' rest. parts = dir @ name' # rest \<and> (name' = name \<or> starts_with name' (name @ ''-'')))"
proof -
  have n: "list_all no_slash dir" "no_slash name" "no_slash (name @ ''-'')"
    using assms(1) by (auto simp: no_slash_def)
  have "joined parts = joined (dir @ [name]) \<longleftrightarrow> parts = dir @ [name]"
    using joined_inj [OF assms(2,1)] by auto
  moreover have "prefix (joined (dir @ [name]) @ ''/'') (joined parts) \<longleftrightarrow> (\<exists>x rest. parts = dir @ name # x # rest)"
    using prefix_joined [OF assms(1,2), of "[]"] by (metis append.assoc append_Cons append_Nil joined_simps
        list.exhaust prefix_code(1,2,3))
  moreover have "prefix (joined (dir @ [name]) @ ''-'') (joined parts)
      \<longleftrightarrow> (\<exists>x rest. parts = dir @ x # rest \<and> prefix (name @ ''-'') x)"
  proof -
    have "prefix (CHR ''/'' # name @ ''-'') (joined rest) \<longleftrightarrow> (\<exists>x xs. rest = x # xs \<and> prefix (name @ ''-'') x)" for rest
      using prefix_of_component [OF n(3)] by (cases rest) auto
    then show ?thesis using prefix_joined [OF n(1) assms(2), of "name @ ''-''"] by auto
  qed
  ultimately show ?thesis by (auto simp: starts_with_def neq_Nil_conv)
qed

lemma is_protected_path_iff: "is_protected_path path \<longleftrightarrow> under_protected (path_parts path)"
proof -
  have parts: "list_all no_slash (path_parts path)"
    using path_parts_in [of _ path] by (auto simp: list_all_iff no_slash_def)
  have "(normalize_path path = pre \<or> starts_with (normalize_path path) (pre @ ''/'')
        \<or> starts_with (normalize_path path) (pre @ ''-''))
      \<longleftrightarrow> (\<exists>dir name name' rest. path_parts pre = dir @ [name] \<and> path_parts path = dir @ name' # rest
           \<and> (name' = name \<or> starts_with name' (name @ ''-'')))"
    if pre: "pre \<in> set PROTECTED_PATH_PREFIXES" for pre
  proof -
    note p = protected_prefix_joined [OF pre]
    then obtain dir name where d: "path_parts pre = dir @ [name]"
      by (cases "path_parts pre" rule: rev_cases) auto
    show ?thesis
    proof (cases "path_parts path = []")
      case True
      then show ?thesis using d p by (cases dir) (auto simp: normalize_path_parts starts_with_def)
    next
      case False
      then have "normalize_path path = joined (path_parts path)" by (simp add: normalize_path_parts joined_def)
      then show ?thesis
        using under_prefix [of dir name "path_parts path"] p parts d by (auto simp: starts_with_def)
    qed
  qed
  then show ?thesis
    by (auto simp: is_protected_path_def under_protected_def list_ex_iff Let_def)
qed

text \<open>C21: a path without \<^verbatim>\<open>..\<close>, however many slashes and dots it is written with, is refused for quarantine
  exactly when the components it resolves to go to one of the protected files or directories, or to a
  sibling whose name continues the protected name with a hyphen (\<^verbatim>\<open>/usr/bin/docker-compose\<close>), or
  below one of these.\<close>

theorem quarantine_spares_protected_paths:
  assumes "''..'' \<notin> set (path_parts path)"
  shows "is_err (check (ContainmentOp (QuarantineFile path)) p)
    \<longleftrightarrow> under_protected (resolve_from [] (path_parts path))"
  using is_protected_path_iff [of path] by (simp add: check_defs resolve_from_plain [OF assms])

theorem quarantine_spares_protected_paths_witness:
  "is_err (check (ContainmentOp (QuarantineFile ''/var//lib/./docker/volumes''))
     \<lparr>cp_ports = {}, cp_docker_device = None\<rparr>)
   \<and> is_err (check (ContainmentOp (QuarantineFile ''/usr/bin/docker-compose''))
     \<lparr>cp_ports = {}, cp_docker_device = None\<rparr>)
   \<and> is_ok (check (ContainmentOp (QuarantineFile ''/var/lib/dockers''))
     \<lparr>cp_ports = {}, cp_docker_device = None\<rparr>)"
proof -
  have d: "''..'' \<notin> set (path_parts ''/var//lib/./docker/volumes'')" "''..'' \<notin> set (path_parts ''/usr/bin/docker-compose'')"
    "''..'' \<notin> set (path_parts ''/var/lib/dockers'')"
    and r: "resolve_from [] (path_parts ''/var//lib/./docker/volumes'') = [''var'', ''lib''] @ ''docker'' # [''volumes'']"
    "resolve_from [] (path_parts ''/usr/bin/docker-compose'') = [''usr'', ''bin''] @ ''docker-compose'' # []"
    "resolve_from [] (path_parts ''/var/lib/dockers'') = path_parts ''/var/lib/dockers''"
    and m: "''/var/lib/docker'' \<in> set PROTECTED_PATH_PREFIXES" "''/usr/bin/docker'' \<in> set PROTECTED_PATH_PREFIXES"
    "path_parts ''/var/lib/docker'' = [''var'', ''lib''] @ [''docker'']"
    "path_parts ''/usr/bin/docker'' = [''usr'', ''bin''] @ [''docker'']"
    "starts_with ''docker-compose'' (''docker'' @ ''-'')" "\<not> is_protected_path ''/var/lib/dockers''"
    by code_simp+
  have "under_protected ([''var'', ''lib''] @ ''docker'' # [''volumes''])"
    "under_protected ([''usr'', ''bin''] @ ''docker-compose'' # [])"
    unfolding under_protected_def using m by blast+
  then show ?thesis
    using quarantine_spares_protected_paths [OF d(1)] quarantine_spares_protected_paths [OF d(2)]
      quarantine_spares_protected_paths [OF d(3)] r m(6)
    by (simp add: is_protected_path_iff is_err_iff)
qed

text \<open>C22: with \<^verbatim>\<open>..\<close> in the path the guard compares the text, not the file. Any file whatever, those of Docker
  included, may be quarantined when it is spelled through a directory of the root and back: the path
  resolves to that very file and the guard lets it through.\<close>

theorem quarantine_guard_misses_parent_components:
  assumes "path_parts path = d # ''..'' # path_parts file" "d \<noteq> ''..''"
  shows "resolve_from [] (path_parts path) = resolve_from [] (path_parts file)
    \<and> is_ok (check (ContainmentOp (QuarantineFile path)) p)"
proof -
  have "\<not> under_protected (path_parts path)"
  proof
    assume "under_protected (path_parts path)"
    then obtain pre dir name name' rest where pre: "pre \<in> set PROTECTED_PATH_PREFIXES"
      "path_parts pre = dir @ [name]" "path_parts path = dir @ name' # rest"
      "name' = name \<or> starts_with name' (name @ ''-'')" by (auto simp: under_protected_def)
    then have "prefix (path_parts pre ! 1) (path_parts path ! 1)"
      using protected_prefix_joined [OF pre(1)]
      by (cases dir; cases "tl dir") (auto simp: starts_with_def prefix_def)
    with protected_prefix_joined [OF pre(1)] assms(1) show False by simp
  qed
  then show ?thesis using is_protected_path_iff [of path] assms by (simp add: check_defs)
qed

theorem quarantine_guard_misses_parent_components_witness:
  "resolve_from [] (path_parts ''/tmp/../var/lib/docker/volumes'') = [''var'', ''lib'', ''docker'', ''volumes'']
   \<and> is_err (check (ContainmentOp (QuarantineFile ''/var/lib/docker/volumes'')) \<lparr>cp_ports = {}, cp_docker_device = None\<rparr>)
   \<and> is_ok (check (ContainmentOp (QuarantineFile ''/tmp/../var/lib/docker/volumes''))
        \<lparr>cp_ports = {}, cp_docker_device = None\<rparr>)"
proof -
  have "path_parts ''/tmp/../var/lib/docker/volumes'' = ''tmp'' # ''..'' # path_parts ''/var/lib/docker/volumes''"
    "resolve_from [] (path_parts ''/var/lib/docker/volumes'') = [''var'', ''lib'', ''docker'', ''volumes'']"
    "is_protected_path ''/var/lib/docker/volumes''" by code_simp+
  with quarantine_guard_misses_parent_components [OF this(1)] show ?thesis by (simp add: check_defs)
qed

section \<open>LVM and RAID\<close>


section \<open>Finding Docker's device\<close>

text \<open>The mount point and device a line of \<^verbatim>\<open>df\<close> reports, if it is one that \<^verbatim>\<open>/var/lib/docker\<close> lies below.\<close>

definition df_candidate :: "string \<Rightarrow> (nat \<times> string) option" where
  "df_candidate line = (let fields = split_whitespace line in
     if fields \<noteq> [] \<and> starts_with (last fields) ''/'' \<and> 6 \<le> length fields \<and> docker_mount_covers (last fields)
     then Some (length (last fields), hd fields) else None)"

lemma df_line_candidate:
  "df_line line best = (case df_candidate line of None \<Rightarrow> best
     | Some (len, dev) \<Rightarrow> (case best of None \<Rightarrow> Some (len, dev)
         | Some (len', dev') \<Rightarrow> if len' < len then Some (len, dev) else best))"
  by (auto simp: df_line_def df_candidate_def Let_def split: option.splits prod.splits)

definition best_ok :: "string list \<Rightarrow> (nat \<times> string) option \<Rightarrow> bool" where
  "best_ok lines best \<longleftrightarrow> (case best of None \<Rightarrow> (\<forall>l\<in>set lines. df_candidate l = None)
     | Some (len, dev) \<Rightarrow> (\<exists>l\<in>set lines. df_candidate l = Some (len, dev))
         \<and> (\<forall>l\<in>set lines. \<forall>len' dev'. df_candidate l = Some (len', dev') \<longrightarrow> len' \<le> len))"

lemma best_ok_step: "best_ok lines best \<Longrightarrow> best_ok (lines @ [line]) (df_line line best)"
  by (cases "df_candidate line"; cases best)
    (fastforce simp: best_ok_def df_line_candidate split: prod.splits)+

lemma best_ok_fold: "best_ok lines best \<Longrightarrow> best_ok (lines @ rest) (fold df_line rest best)"
proof (induction rest arbitrary: lines best)
  case (Cons l rest)
  from Cons.IH [OF best_ok_step [OF Cons.prems, of l]] show ?case by simp
qed simp

text \<open>C24: the device the control plane protects is the one of a line of \<^verbatim>\<open>df\<close> whose mount point
  \<^verbatim>\<open>/var/lib/docker\<close> is on, and no other such line has a longer mount point; none is found exactly
  when no line has such a mount point.\<close>

theorem docker_device_is_longest_mount:
  "case docker_device_from_df df of
     None \<Rightarrow> \<forall>line\<in>set (rust_lines df). df_candidate line = None
   | Some dev \<Rightarrow> \<exists>line\<in>set (rust_lines df). \<exists>len. df_candidate line = Some (len, dev)
       \<and> (\<forall>line'\<in>set (rust_lines df). \<forall>len' dev'. df_candidate line' = Some (len', dev') \<longrightarrow> len' \<le> len)"
  using best_ok_fold [of "[]" None "rust_lines df"]
  by (auto simp: docker_device_from_df_def best_ok_def split: option.splits prod.splits)

theorem docker_device_is_longest_mount_witness:
  "docker_device_from_df (''/dev/sda1 9G 1G 8G 2% /'' @ [CHR 0x0A] @ ''/dev/sdb1 9G 1G 8G 2% /var/lib'')
   = Some ''/dev/sdb1''"
proof -
  let ?df = "''/dev/sda1 9G 1G 8G 2% /'' @ [CHR 0x0A] @ ''/dev/sdb1 9G 1G 8G 2% /var/lib''"
  have l: "rust_lines ?df = [''/dev/sda1 9G 1G 8G 2% /'', ''/dev/sdb1 9G 1G 8G 2% /var/lib'']"
    and a: "df_candidate ''/dev/sda1 9G 1G 8G 2% /'' = Some (1, ''/dev/sda1'')"
    and b: "df_candidate ''/dev/sdb1 9G 1G 8G 2% /var/lib'' = Some (8, ''/dev/sdb1'')"
    by code_simp+
  show ?thesis
    using docker_device_is_longest_mount [of ?df] unfolding l
    by (auto simp: a b split: option.splits)
qed

end
