(* ===== verification/Operation_Text.thy ===== *)
theory Operation_Text
  imports Agent_Protocol
begin

text \<open>
  How an operation appears in logs and in the audit trail: the hand-written \<^verbatim>\<open>Debug\<close> of
  \<^verbatim>\<open>AgentOperation\<close>, which takes passwords out, and \<^verbatim>\<open>label\<close>, the phrase the audit record keeps
  (both in \<^verbatim>\<open>crates/agent-protocol/src/lib.rs\<close>). A \<^verbatim>\<open>debug_struct\<close> is its name and the values of
  its fields; how the standard library lays the fields out is an argument of \<open>debug_text\<close>.
\<close>

section \<open>Debug\<close>

datatype debug_value = DStr string | DNat nat | DInt int | DBool bool | DOpt "debug_value option"
  | DSeq "debug_value list" | DEnum string

fun sepulchre_config_target_name :: "sepulchre_config_target \<Rightarrow> string" where
  "sepulchre_config_target_name SshdDropIn = ''SshdDropIn''"
| "sepulchre_config_target_name SambaInclude = ''SambaInclude''"

fun ssh_hardening_setting_name :: "ssh_hardening_setting \<Rightarrow> string" where
  "ssh_hardening_setting_name DisableRootLogin = ''DisableRootLogin''"
| "ssh_hardening_setting_name DisablePasswordAuth = ''DisablePasswordAuth''"
| "ssh_hardening_setting_name DisableEmptyPasswords = ''DisableEmptyPasswords''"
| "ssh_hardening_setting_name DisableX11Forwarding = ''DisableX11Forwarding''"

fun journald_setting_name :: "journald_setting \<Rightarrow> string" where
  "journald_setting_name SystemMaxUse = ''SystemMaxUse''"
| "journald_setting_name SystemKeepFree = ''SystemKeepFree''"
| "journald_setting_name MaxRetentionSec = ''MaxRetentionSec''"
| "journald_setting_name MaxFileSec = ''MaxFileSec''"

text \<open>\<^verbatim>\<open>s.matches(p).count()\<close>: the matches that do not overlap, from the left.\<close>

function count_matches :: "string \<Rightarrow> string \<Rightarrow> nat" where
  "count_matches s p = (if s = [] \<or> p = [] then 0
     else if prefix p s then Suc (count_matches (drop (length p) s) p) else count_matches (tl s) p)"
  by pat_completeness auto
termination
  by (relation "measure (\<lambda>(s, p). length s)") auto

declare count_matches.simps [simp del]

definition system_op_debug :: "system_op \<Rightarrow> string \<times> (string \<times> debug_value) list" where
  "system_op_debug oper = (case oper of
       Ping \<Rightarrow> (''Ping'', [])
     | SystemInfo \<Rightarrow> (''SystemInfo'', [])
     | ResourceUsage \<Rightarrow> (''ResourceUsage'', [])
     | LoggedInUsers \<Rightarrow> (''LoggedInUsers'', [])
     | SetHostname hostname \<Rightarrow> (''SetHostname'', [(''hostname'', DStr hostname)])
     | Reboot \<Rightarrow> (''Reboot'', [])
     | ListeningPorts \<Rightarrow> (''ListeningPorts'', [])
     | RecentAuthLog \<Rightarrow> (''RecentAuthLog'', [])
     | FirewallStatus \<Rightarrow> (''FirewallStatus'', [])
     | FirewallAllowPort port protocol \<Rightarrow> (''FirewallAllowPort'', [(''port'', DNat (unat port)), (''protocol'', DStr protocol)])
     | FirewallEnable \<Rightarrow> (''FirewallEnable'', [])
     | FirewallDenyPort port protocol \<Rightarrow> (''FirewallDenyPort'', [(''port'', DNat (unat port)), (''protocol'', DStr protocol)])
     | FirewallRemovePort port protocol \<Rightarrow> (''FirewallRemovePort'', [(''port'', DNat (unat port)), (''protocol'', DStr protocol)])
     | SshdConfigAudit \<Rightarrow> (''SshdConfigAudit'', [])
     | HardenSshd setting \<Rightarrow> (''HardenSshd'', [(''setting'', DEnum (ssh_hardening_setting_name setting))])
     | ClearSshHardening \<Rightarrow> (''ClearSshHardening'', [])
     | SysctlSecurityPosture \<Rightarrow> (''SysctlSecurityPosture'', [])
     | AccountPolicyAudit \<Rightarrow> (''AccountPolicyAudit'', [])
     | MacStatus \<Rightarrow> (''MacStatus'', [])
     | PostureFacts \<Rightarrow> (''PostureFacts'', [])
     | AutomaticUpdatesStatus \<Rightarrow> (''AutomaticUpdatesStatus'', []))"

definition session_op_debug :: "session_op \<Rightarrow> string \<times> (string \<times> debug_value) list" where
  "session_op_debug oper = (case oper of
       Elevate _ idle_timeout_secs \<Rightarrow> (''Elevate'', [(''password'', DStr ''[REDACTED]''), (''idle_timeout_secs'', DNat (unat idle_timeout_secs))])
     | Deescalate \<Rightarrow> (''Deescalate'', [])
     | ElevationStatus \<Rightarrow> (''ElevationStatus'', [])
     | NetworkInterfaces \<Rightarrow> (''NetworkInterfaces'', [])
     | NetworkRoutes \<Rightarrow> (''NetworkRoutes'', [])
     | DnsConfig \<Rightarrow> (''DnsConfig'', [])
     | ActiveConnections \<Rightarrow> (''ActiveConnections'', [])
     | ConnectivityCheck target \<Rightarrow> (''ConnectivityCheck'', [(''target'', DStr target)])
     | InterfaceSetState interface up \<Rightarrow> (''InterfaceSetState'', [(''interface'', DStr interface), (''up'', DBool up)])
     | NetworkScan_op target ports \<Rightarrow> (''NetworkScan'', [(''target'', DStr target), (''ports'', DOpt (map_option DStr ports))])
     | BootHistory \<Rightarrow> (''BootHistory'', [])
     | KernelRingBuffer \<Rightarrow> (''KernelRingBuffer'', [])
     | SystemJournalErrors \<Rightarrow> (''SystemJournalErrors'', [])
     | FailedLoginAttempts \<Rightarrow> (''FailedLoginAttempts'', [])
     | OomKillEvents \<Rightarrow> (''OomKillEvents'', [])
     | CoreDumps \<Rightarrow> (''CoreDumps'', [])
     | RecentlyModifiedFiles hours \<Rightarrow> (''RecentlyModifiedFiles'', [(''hours'', DNat (unat hours))]))"

definition log_op_debug :: "log_op \<Rightarrow> string \<times> (string \<times> debug_value) list" where
  "log_op_debug oper = (case oper of
       JournalDiskUsage \<Rightarrow> (''JournalDiskUsage'', [])
     | LogRotationStatus \<Rightarrow> (''LogRotationStatus'', [])
     | ArchivedLogListing \<Rightarrow> (''ArchivedLogListing'', [])
     | LogDirectorySizes \<Rightarrow> (''LogDirectorySizes'', [])
     | VacuumJournalBySize size_ \<Rightarrow> (''VacuumJournalBySize'', [(''size'', DStr size_)])
     | VacuumJournalByTime duration \<Rightarrow> (''VacuumJournalByTime'', [(''duration'', DStr duration)])
     | ListBackups \<Rightarrow> (''ListBackups'', [])
     | CreateBackup source_path name \<Rightarrow> (''CreateBackup'', [(''source_path'', DStr source_path), (''name'', DStr name)])
     | VerifyBackup filename \<Rightarrow> (''VerifyBackup'', [(''filename'', DStr filename)])
     | RestoreBackup filename target_path \<Rightarrow> (''RestoreBackup'', [(''filename'', DStr filename), (''target_path'', DStr target_path)])
     | LoadAverage \<Rightarrow> (''LoadAverage'', [])
     | TopProcessesByCpu \<Rightarrow> (''TopProcessesByCpu'', [])
     | TopProcessesByMemory \<Rightarrow> (''TopProcessesByMemory'', [])
     | MemoryDetail \<Rightarrow> (''MemoryDetail'', [])
     | DiskIoStats \<Rightarrow> (''DiskIoStats'', [])
     | FailedServices \<Rightarrow> (''FailedServices'', [])
     | CpuUtilization \<Rightarrow> (''CpuUtilization'', [])
     | NetworkThroughput \<Rightarrow> (''NetworkThroughput'', [])
     | ThermalSensors \<Rightarrow> (''ThermalSensors'', [])
     | MemoryPressure \<Rightarrow> (''MemoryPressure'', []))"

definition service_op_debug :: "service_op \<Rightarrow> string \<times> (string \<times> debug_value) list" where
  "service_op_debug oper = (case oper of
       ListServices \<Rightarrow> (''ListServices'', [])
     | ServiceStatus unit_ \<Rightarrow> (''ServiceStatus'', [(''unit'', DStr unit_)])
     | ServiceLogs unit_ \<Rightarrow> (''ServiceLogs'', [(''unit'', DStr unit_)])
     | StartService unit_ \<Rightarrow> (''StartService'', [(''unit'', DStr unit_)])
     | StopService unit_ \<Rightarrow> (''StopService'', [(''unit'', DStr unit_)])
     | RestartService unit_ \<Rightarrow> (''RestartService'', [(''unit'', DStr unit_)])
     | EnableService unit_ \<Rightarrow> (''EnableService'', [(''unit'', DStr unit_)])
     | DisableService unit_ \<Rightarrow> (''DisableService'', [(''unit'', DStr unit_)])
     | PreviousBootErrors \<Rightarrow> (''PreviousBootErrors'', [])
     | SystemRunningState \<Rightarrow> (''SystemRunningState'', [])
     | ReadOnlyFilesystems \<Rightarrow> (''ReadOnlyFilesystems'', [])
     | ReloadSystemdDaemon \<Rightarrow> (''ReloadSystemdDaemon'', [])
     | ResetFailedUnits \<Rightarrow> (''ResetFailedUnits'', [])
     | ListFailedUnits \<Rightarrow> (''ListFailedUnits'', [])
     | RecoverUnit unit_ \<Rightarrow> (''RecoverUnit'', [(''unit'', DStr unit_)])
     | DiskSpaceCritical \<Rightarrow> (''DiskSpaceCritical'', [])
     | FstabCheck \<Rightarrow> (''FstabCheck'', [])
     | RemountReadWrite target \<Rightarrow> (''RemountReadWrite'', [(''target'', DStr target)]))"

definition hardware_op_debug :: "hardware_op \<Rightarrow> string \<times> (string \<times> debug_value) list" where
  "hardware_op_debug oper = (case oper of
       CpuInfo \<Rightarrow> (''CpuInfo'', [])
     | PciDevices \<Rightarrow> (''PciDevices'', [])
     | BlockDevices \<Rightarrow> (''BlockDevices'', [])
     | MemoryHardware \<Rightarrow> (''MemoryHardware'', [])
     | DiskHealth device \<Rightarrow> (''DiskHealth'', [(''device'', DStr device)])
     | ListContainers \<Rightarrow> (''ListContainers'', [])
     | ContainerLogs container \<Rightarrow> (''ContainerLogs'', [(''container'', DStr container)])
     | ContainerInspect container \<Rightarrow> (''ContainerInspect'', [(''container'', DStr container)])
     | ListImages \<Rightarrow> (''ListImages'', [])
     | RuntimeInfo \<Rightarrow> (''RuntimeInfo'', [])
     | StartContainer container \<Rightarrow> (''StartContainer'', [(''container'', DStr container)])
     | StopContainer container \<Rightarrow> (''StopContainer'', [(''container'', DStr container)])
     | RestartContainer container \<Rightarrow> (''RestartContainer'', [(''container'', DStr container)])
     | RemoveContainer container \<Rightarrow> (''RemoveContainer'', [(''container'', DStr container)]))"

definition process_op_debug :: "process_op \<Rightarrow> string \<times> (string \<times> debug_value) list" where
  "process_op_debug oper = (case oper of
       ListProcesses \<Rightarrow> (''ListProcesses'', [])
     | ProcessDetail pid \<Rightarrow> (''ProcessDetail'', [(''pid'', DNat (unat pid))])
     | RenicePriority pid priority \<Rightarrow> (''RenicePriority'', [(''pid'', DNat (unat pid)), (''priority'', DInt (sint priority))])
     | SendSignal pid signal \<Rightarrow> (''SendSignal'', [(''pid'', DNat (unat pid)), (''signal'', DStr signal)])
     | SignalByName name signal dry_run \<Rightarrow> (''SignalByName'', [(''name'', DStr name), (''signal'', DStr signal), (''dry_run'', DBool dry_run)])
     | SetIoPriority pid class_ level \<Rightarrow> (''SetIoPriority'', [(''pid'', DNat (unat pid)), (''class'', DNat (unat class_)), (''level'', DNat (unat level))])
     | SetOomScoreAdj pid adj \<Rightarrow> (''SetOomScoreAdj'', [(''pid'', DNat (unat pid)), (''adj'', DInt (sint adj))])
     | ProcessOpenFiles pid \<Rightarrow> (''ProcessOpenFiles'', [(''pid'', DNat (unat pid))])
     | ProcessLimits pid \<Rightarrow> (''ProcessLimits'', [(''pid'', DNat (unat pid))])
     | ZombieReport \<Rightarrow> (''ZombieReport'', [])
     | CleanupTargetsSummary \<Rightarrow> (''CleanupTargetsSummary'', [])
     | ForceLogRotation \<Rightarrow> (''ForceLogRotation'', [])
     | ClearTmpFiles older_than_days \<Rightarrow> (''ClearTmpFiles'', [(''older_than_days'', DNat (unat older_than_days))])
     | ClearCoreDumps \<Rightarrow> (''ClearCoreDumps'', []))"

definition account_op_debug :: "account_op \<Rightarrow> string \<times> (string \<times> debug_value) list" where
  "account_op_debug oper = (case oper of
       VmStatistics \<Rightarrow> (''VmStatistics'', [])
     | InterruptStatistics \<Rightarrow> (''InterruptStatistics'', [])
     | CpuGovernorStatus \<Rightarrow> (''CpuGovernorStatus'', [])
     | TuningParametersStatus \<Rightarrow> (''TuningParametersStatus'', [])
     | SetSwappiness value \<Rightarrow> (''SetSwappiness'', [(''value'', DNat (unat value))])
     | SetIoScheduler device scheduler \<Rightarrow> (''SetIoScheduler'', [(''device'', DStr device), (''scheduler'', DStr scheduler)])
     | ListUsers \<Rightarrow> (''ListUsers'', [])
     | ListGroups \<Rightarrow> (''ListGroups'', [])
     | UserDetail username \<Rightarrow> (''UserDetail'', [(''username'', DStr username)])
     | CreateUser username comment \<Rightarrow> (''CreateUser'', [(''username'', DStr username), (''comment'', DStr comment)])
     | CreateGroup group_ \<Rightarrow> (''CreateGroup'', [(''group'', DStr group_)])
     | AddUserToGroup username group_ \<Rightarrow> (''AddUserToGroup'', [(''username'', DStr username), (''group'', DStr group_)])
     | RemoveUserFromGroup username group_ \<Rightarrow> (''RemoveUserFromGroup'', [(''username'', DStr username), (''group'', DStr group_)])
     | LockUserAccount username \<Rightarrow> (''LockUserAccount'', [(''username'', DStr username)])
     | UnlockUserAccount username \<Rightarrow> (''UnlockUserAccount'', [(''username'', DStr username)])
     | DeleteUser username remove_home \<Rightarrow> (''DeleteUser'', [(''username'', DStr username), (''remove_home'', DBool remove_home)])
     | DeleteGroup group_ \<Rightarrow> (''DeleteGroup'', [(''group'', DStr group_)]))"

definition package_op_debug :: "package_op \<Rightarrow> string \<times> (string \<times> debug_value) list" where
  "package_op_debug oper = (case oper of
       DirectoryUsageBreakdown path \<Rightarrow> (''DirectoryUsageBreakdown'', [(''path'', DStr path)])
     | FindLargeFiles path min_size_mb \<Rightarrow> (''FindLargeFiles'', [(''path'', DStr path), (''min_size_mb'', DNat (unat min_size_mb))])
     | FilesystemCheckDryRun device \<Rightarrow> (''FilesystemCheckDryRun'', [(''device'', DStr device)])
     | TrimFilesystem mountpoint \<Rightarrow> (''TrimFilesystem'', [(''mountpoint'', DStr mountpoint)])
     | FilesystemRepair device \<Rightarrow> (''FilesystemRepair'', [(''device'', DStr device)])
     | ListInstalledPackages \<Rightarrow> (''ListInstalledPackages'', [])
     | SearchPackage query \<Rightarrow> (''SearchPackage'', [(''query'', DStr query)])
     | PackageInfo package \<Rightarrow> (''PackageInfo'', [(''package'', DStr package)])
     | ListUpgradable \<Rightarrow> (''ListUpgradable'', [])
     | RefreshPackageIndex \<Rightarrow> (''RefreshPackageIndex'', [])
     | InstallPackage package \<Rightarrow> (''InstallPackage'', [(''package'', DStr package)])
     | UpgradePackage package \<Rightarrow> (''UpgradePackage'', [(''package'', DStr package)])
     | RemovePackage package \<Rightarrow> (''RemovePackage'', [(''package'', DStr package)])
     | PartitionTable device \<Rightarrow> (''PartitionTable'', [(''device'', DStr device)])
     | LvmSummary \<Rightarrow> (''LvmSummary'', [])
     | RaidStatus \<Rightarrow> (''RaidStatus'', []))"

definition storage_op_debug :: "storage_op \<Rightarrow> string \<times> (string \<times> debug_value) list" where
  "storage_op_debug oper = (case oper of
       MountFilesystem device target \<Rightarrow> (''MountFilesystem'', [(''device'', DStr device), (''target'', DStr target)])
     | ExtendLogicalVolume lv_path size_ \<Rightarrow> (''ExtendLogicalVolume'', [(''lv_path'', DStr lv_path), (''size'', DStr size_)])
     | UnmountFilesystem target \<Rightarrow> (''UnmountFilesystem'', [(''target'', DStr target)])
     | CreatePartition device start_ end_ \<Rightarrow> (''CreatePartition'', [(''device'', DStr device), (''start'', DStr start_), (''end'', DStr end_)])
     | DeletePartition device partition_number \<Rightarrow> (''DeletePartition'', [(''device'', DStr device), (''partition_number'', DNat (unat partition_number))])
     | CreateRaidArray array_name level devices \<Rightarrow> (''CreateRaidArray'', [(''array_name'', DStr array_name), (''level'', DStr level), (''devices'', DSeq (map DStr devices))])
     | StopRaidArray array_name \<Rightarrow> (''StopRaidArray'', [(''array_name'', DStr array_name)])
     | CreatePhysicalVolume device \<Rightarrow> (''CreatePhysicalVolume'', [(''device'', DStr device)])
     | CreateVolumeGroup name physical_volumes \<Rightarrow> (''CreateVolumeGroup'', [(''name'', DStr name), (''physical_volumes'', DSeq (map DStr physical_volumes))])
     | CreateLogicalVolume vg_name lv_name size_ \<Rightarrow> (''CreateLogicalVolume'', [(''vg_name'', DStr vg_name), (''lv_name'', DStr lv_name), (''size'', DStr size_)])
     | RemoveLogicalVolume lv_path \<Rightarrow> (''RemoveLogicalVolume'', [(''lv_path'', DStr lv_path)])
     | RemoveVolumeGroup name \<Rightarrow> (''RemoveVolumeGroup'', [(''name'', DStr name)])
     | RemovePhysicalVolume device \<Rightarrow> (''RemovePhysicalVolume'', [(''device'', DStr device)])
     | CreateFilesystem device fstype \<Rightarrow> (''CreateFilesystem'', [(''device'', DStr device), (''fstype'', DStr fstype)]))"

definition config_op_debug :: "config_op \<Rightarrow> string \<times> (string \<times> debug_value) list" where
  "config_op_debug oper = (case oper of
       ViewManagedSysctl \<Rightarrow> (''ViewManagedSysctl'', [])
     | ViewManagedCronJobs \<Rightarrow> (''ViewManagedCronJobs'', [])
     | SysctlManagedDrift \<Rightarrow> (''SysctlManagedDrift'', [])
     | SetPersistentSysctl key value \<Rightarrow> (''SetPersistentSysctl'', [(''key'', DStr key), (''value'', DStr value)])
     | RemovePersistentSysctlKey key \<Rightarrow> (''RemovePersistentSysctlKey'', [(''key'', DStr key)])
     | ClearManagedSysctl \<Rightarrow> (''ClearManagedSysctl'', [])
     | SetCronJob job_name schedule run_as_user command \<Rightarrow> (''SetCronJob'', [(''job_name'', DStr job_name), (''schedule'', DStr schedule), (''run_as_user'', DStr run_as_user), (''command'', DStr command)])
     | RemoveCronJob job_name \<Rightarrow> (''RemoveCronJob'', [(''job_name'', DStr job_name)])
     | ClearManagedCronJobs \<Rightarrow> (''ClearManagedCronJobs'', [])
     | ViewModuleBlacklist \<Rightarrow> (''ViewModuleBlacklist'', [])
     | BlacklistModule module \<Rightarrow> (''BlacklistModule'', [(''module'', DStr module)])
     | RemoveModuleBlacklist module \<Rightarrow> (''RemoveModuleBlacklist'', [(''module'', DStr module)])
     | ClearModuleBlacklist \<Rightarrow> (''ClearModuleBlacklist'', [])
     | ViewJournaldConfig \<Rightarrow> (''ViewJournaldConfig'', [])
     | SetJournaldRetention setting value \<Rightarrow> (''SetJournaldRetention'', [(''setting'', DEnum (journald_setting_name setting)), (''value'', DStr value)])
     | ClearJournaldConfig \<Rightarrow> (''ClearJournaldConfig'', []))"

definition containment_op_debug :: "containment_op \<Rightarrow> string \<times> (string \<times> debug_value) list" where
  "containment_op_debug oper = (case oper of
       ListBlockedIps \<Rightarrow> (''ListBlockedIps'', [])
     | IsolationStatus \<Rightarrow> (''IsolationStatus'', [])
     | ListQuarantinedFiles \<Rightarrow> (''ListQuarantinedFiles'', [])
     | BlockRemoteIp ip \<Rightarrow> (''BlockRemoteIp'', [(''ip'', DStr ip)])
     | UnblockRemoteIp ip \<Rightarrow> (''UnblockRemoteIp'', [(''ip'', DStr ip)])
     | QuarantineFile path \<Rightarrow> (''QuarantineFile'', [(''path'', DStr path)])
     | RestoreQuarantinedFile quarantine_filename \<Rightarrow> (''RestoreQuarantinedFile'', [(''quarantine_filename'', DStr quarantine_filename)])
     | DeleteQuarantinedFile filename shred_passes \<Rightarrow> (''DeleteQuarantinedFile'', [(''filename'', DStr filename), (''shred_passes'', DNat (unat shred_passes))])
     | DeisolateHost \<Rightarrow> (''DeisolateHost'', [])
     | IsolateHost \<Rightarrow> (''IsolateHost'', []))"

definition secret_op_debug :: "secret_op \<Rightarrow> string \<times> (string \<times> debug_value) list" where
  "secret_op_debug oper = (case oper of
       ListSshHostKeys \<Rightarrow> (''ListSshHostKeys'', [])
     | ListSshAuthorizedKeys username \<Rightarrow> (''ListSshAuthorizedKeys'', [(''username'', DStr username)])
     | ListTlsCertificates \<Rightarrow> (''ListTlsCertificates'', [])
     | CertificateDetail path \<Rightarrow> (''CertificateDetail'', [(''path'', DStr path)])
     | ScanSensitiveFilePermissions \<Rightarrow> (''ScanSensitiveFilePermissions'', [])
     | ViewSensitiveFile path \<Rightarrow> (''ViewSensitiveFile'', [(''path'', DStr path)])
     | GenerateSshKeypair key_type comment path \<Rightarrow> (''GenerateSshKeypair'', [(''key_type'', DStr key_type), (''comment'', DStr comment), (''path'', DStr path)])
     | FixFilePermissions path mode \<Rightarrow> (''FixFilePermissions'', [(''path'', DStr path), (''mode'', DStr mode)])
     | RemoveAuthorizedKey username fingerprint \<Rightarrow> (''RemoveAuthorizedKey'', [(''username'', DStr username), (''fingerprint'', DStr fingerprint)])
     | DeleteSshKeypair path shred_passes \<Rightarrow> (''DeleteSshKeypair'', [(''path'', DStr path), (''shred_passes'', DNat (unat shred_passes))])
     | ScanSecurityEvents _ _ _ _ \<Rightarrow> (''ScanSecurityEvents'', []))"

definition directory_op_debug :: "directory_op \<Rightarrow> string \<times> (string \<times> debug_value) list" where
  "directory_op_debug oper = (case oper of
       AdDnsReport _ \<Rightarrow> (''AdDnsReport'', [])
     | AdHealthReport _ \<Rightarrow> (''AdHealthReport'', [])
     | DirectoryDiscoverForest \<Rightarrow> (''DirectoryDiscoverForest'', [])
     | DirectoryTestDelegation domain_dns service_account_upn _ \<Rightarrow> (''DirectoryTestDelegation'', [(''domain_dns'', DStr domain_dns), (''service_account_upn'', DStr service_account_upn), (''password'', DStr ''[REDACTED]'')])
     | DirectoryOuTree domain_dns \<Rightarrow> (''DirectoryOuTree'', [(''domain_dns'', DStr domain_dns)])
     | DirectorySearch domain_dns query \<Rightarrow> (''DirectorySearch'', [(''domain_dns'', DStr domain_dns), (''query'', DStr query)])
     | DirectoryGetObject domain_dns dn \<Rightarrow> (''DirectoryGetObject'', [(''domain_dns'', DStr domain_dns), (''dn'', DStr dn)])
     | DirectoryStaleAccounts domain_dns days \<Rightarrow> (''DirectoryStaleAccounts'', [(''domain_dns'', DStr domain_dns), (''days'', DNat (unat days))])
     | DirectoryUnlockAccount domain_dns service_account_upn _ target_dn allow_privileged \<Rightarrow> (''DirectoryUnlockAccount'', [(''domain_dns'', DStr domain_dns), (''service_account_upn'', DStr service_account_upn), (''service_account_password'', DStr ''[REDACTED]''), (''target_dn'', DStr target_dn), (''allow_privileged'', DBool allow_privileged)])
     | DirectorySetEnabled domain_dns service_account_upn _ target_dn enabled allow_privileged \<Rightarrow> (''DirectorySetEnabled'', [(''domain_dns'', DStr domain_dns), (''service_account_upn'', DStr service_account_upn), (''service_account_password'', DStr ''[REDACTED]''), (''target_dn'', DStr target_dn), (''enabled'', DBool enabled), (''allow_privileged'', DBool allow_privileged)])
     | DirectoryCreateUser r \<Rightarrow> (''DirectoryCreateUser'', [(''domain_dns'', DStr (cu_domain_dns r)), (''service_account_upn'', DStr (cu_service_account_upn r)), (''service_account_password'', DStr ''[REDACTED]''), (''target_ou'', DStr (cu_target_ou r)), (''sam_base'', DStr (cu_sam_base r)), (''upn_suffix'', DStr (cu_upn_suffix r)), (''password'', DStr ''[REDACTED]''), (''allow_privileged'', DBool (cu_allow_privileged r))])
     | DirectorySetPassword domain_dns service_account_upn _ target_dn _ allow_privileged \<Rightarrow> (''DirectorySetPassword'', [(''domain_dns'', DStr domain_dns), (''service_account_upn'', DStr service_account_upn), (''service_account_password'', DStr ''[REDACTED]''), (''target_dn'', DStr target_dn), (''new_password'', DStr ''[REDACTED]''), (''allow_privileged'', DBool allow_privileged)]))"

definition exchange_op_debug :: "exchange_op \<Rightarrow> string \<times> (string \<times> debug_value) list" where
  "exchange_op_debug oper = (case oper of
       ExchangeTestConnection uri account_upn _ \<Rightarrow> (''ExchangeTestConnection'', [(''uri'', DStr uri), (''account_upn'', DStr account_upn), (''account_password'', DStr ''[REDACTED]'')])
     | ExchangeEnableMailbox uri account_upn _ target_identity remote_routing_address \<Rightarrow> (''ExchangeEnableMailbox'', [(''uri'', DStr uri), (''account_upn'', DStr account_upn), (''account_password'', DStr ''[REDACTED]''), (''target_identity'', DStr target_identity), (''remote_routing_address'', DStr remote_routing_address)])
     | ExchangeSetMailboxOffboard uri account_upn _ target_identity convert_to_shared \<Rightarrow> (''ExchangeSetMailboxOffboard'', [(''uri'', DStr uri), (''account_upn'', DStr account_upn), (''account_password'', DStr ''[REDACTED]''), (''target_identity'', DStr target_identity), (''convert_to_shared'', DBool convert_to_shared)])
     | DirectoryCreateGroup r \<Rightarrow> (''DirectoryCreateGroup'', [(''domain_dns'', DStr (cg_domain_dns r)), (''service_account_upn'', DStr (cg_service_account_upn r)), (''service_account_password'', DStr ''[REDACTED]''), (''name'', DStr (cg_name r)), (''target_ou'', DStr (cg_target_ou r)), (''scope'', DStr (cg_scope r)), (''category'', DStr (cg_category r))])
     | DirectoryDeleteGroup domain_dns service_account_upn _ target_dn allow_privileged \<Rightarrow> (''DirectoryDeleteGroup'', [(''domain_dns'', DStr domain_dns), (''service_account_upn'', DStr service_account_upn), (''service_account_password'', DStr ''[REDACTED]''), (''target_dn'', DStr target_dn), (''allow_privileged'', DBool allow_privileged)])
     | DirectoryAddGroupMember domain_dns service_account_upn _ group_dn member_dn allow_privileged \<Rightarrow> (''DirectoryAddGroupMember'', [(''domain_dns'', DStr domain_dns), (''service_account_upn'', DStr service_account_upn), (''service_account_password'', DStr ''[REDACTED]''), (''group_dn'', DStr group_dn), (''member_dn'', DStr member_dn), (''allow_privileged'', DBool allow_privileged)])
     | DirectoryRemoveGroupMember domain_dns service_account_upn _ group_dn member_dn allow_privileged \<Rightarrow> (''DirectoryRemoveGroupMember'', [(''domain_dns'', DStr domain_dns), (''service_account_upn'', DStr service_account_upn), (''service_account_password'', DStr ''[REDACTED]''), (''group_dn'', DStr group_dn), (''member_dn'', DStr member_dn), (''allow_privileged'', DBool allow_privileged)])
     | DirectoryMove domain_dns service_account_upn _ target_dn new_parent_ou allow_privileged \<Rightarrow> (''DirectoryMove'', [(''domain_dns'', DStr domain_dns), (''service_account_upn'', DStr service_account_upn), (''service_account_password'', DStr ''[REDACTED]''), (''target_dn'', DStr target_dn), (''new_parent_ou'', DStr new_parent_ou), (''allow_privileged'', DBool allow_privileged)])
     | DirectoryDeleteObject domain_dns service_account_upn _ target_dn allow_privileged \<Rightarrow> (''DirectoryDeleteObject'', [(''domain_dns'', DStr domain_dns), (''service_account_upn'', DStr service_account_upn), (''service_account_password'', DStr ''[REDACTED]''), (''target_dn'', DStr target_dn), (''allow_privileged'', DBool allow_privileged)])
     | DirectoryOffboard domain_dns service_account_upn _ target_dn disabled_ou allow_privileged \<Rightarrow> (''DirectoryOffboard'', [(''domain_dns'', DStr domain_dns), (''service_account_upn'', DStr service_account_upn), (''service_account_password'', DStr ''[REDACTED]''), (''target_dn'', DStr target_dn), (''disabled_ou'', DStr disabled_ou), (''allow_privileged'', DBool allow_privileged)])
     | DirectoryUndoOffboard r \<Rightarrow> (''DirectoryUndoOffboard'', [(''domain_dns'', DStr (uo_domain_dns r)), (''service_account_upn'', DStr (uo_service_account_upn r)), (''service_account_password'', DStr ''[REDACTED]''), (''target_dn'', DStr (uo_target_dn r)), (''original_ou'', DStr (uo_original_ou r)), (''groups'', DNat (length (uo_groups r))), (''allow_privileged'', DBool (uo_allow_privileged r))]))"

definition sepulchre_op_debug :: "sepulchre_op \<Rightarrow> string \<times> (string \<times> debug_value) list" where
  "sepulchre_op_debug oper = (case oper of
       DetectPackageBackend \<Rightarrow> (''DetectPackageBackend'', [])
     | RenderSepulchreConfig target content \<Rightarrow> (''RenderSepulchreConfig'', [(''target'', DEnum (sepulchre_config_target_name target)), (''content_len'', DNat (length content))])
     | ClearSepulchreConfig target \<Rightarrow> (''ClearSepulchreConfig'', [(''target'', DEnum (sepulchre_config_target_name target))])
     | CheckSepulchreConfigIncludeDirective target \<Rightarrow> (''CheckSepulchreConfigIncludeDirective'', [(''target'', DEnum (sepulchre_config_target_name target))])
     | CreateSftpChrootAccount username chroot_dir \<Rightarrow> (''CreateSftpChrootAccount'', [(''username'', DStr username), (''chroot_dir'', DStr chroot_dir)])
     | InstallSepulchreAuthorizedKey username public_key \<Rightarrow> (''InstallSepulchreAuthorizedKey'', [(''username'', DStr username), (''public_key'', DStr public_key)])
     | RemoveSftpChrootAccount username \<Rightarrow> (''RemoveSftpChrootAccount'', [(''username'', DStr username)])
     | CreateSambaServiceUser username _ \<Rightarrow> (''CreateSambaServiceUser'', [(''username'', DStr username), (''password'', DStr ''[REDACTED]'')])
     | RemoveSambaServiceUser username \<Rightarrow> (''RemoveSambaServiceUser'', [(''username'', DStr username)])
     | RenderMountUnit unit_name mount_point content \<Rightarrow> (''RenderMountUnit'', [(''unit_name'', DStr unit_name), (''mount_point'', DStr mount_point), (''content_len'', DNat (length content))])
     | RemoveMountUnit unit_name mount_point \<Rightarrow> (''RemoveMountUnit'', [(''unit_name'', DStr unit_name), (''mount_point'', DStr mount_point)])
     | CheckMountStatus mount_point \<Rightarrow> (''CheckMountStatus'', [(''mount_point'', DStr mount_point)])
     | CreateSepulchreShareDirectory path owner \<Rightarrow> (''CreateSepulchreShareDirectory'', [(''path'', DStr path), (''owner'', DStr owner)])
     | WriteSepulchreMountCredentials path _ \<Rightarrow> (''WriteSepulchreMountCredentials'', [(''path'', DStr path), (''contents'', DStr ''[REDACTED]'')]))"

definition agent_op_debug :: "agent_op \<Rightarrow> string \<times> (string \<times> debug_value) list" where
  "agent_op_debug oper = (case oper of
       SelfUpdate version from_control_plane sha256 \<Rightarrow> (''SelfUpdate'', [(''version'', DStr version), (''from_control_plane'', DBool from_control_plane), (''sha256'', DOpt (map_option DStr sha256))])
     | UninstallAgent purge \<Rightarrow> (''UninstallAgent'', [(''purge'', DBool purge)])
     | ThanatosStream enabled c2_ports \<Rightarrow> (''ThanatosStream'', [(''enabled'', DBool enabled), (''c2_ports'', DSeq (map (\<lambda>x. DNat (unat x)) c2_ports))])
     | DhcpLeases \<Rightarrow> (''DhcpLeases'', [])
     | NeighborTable \<Rightarrow> (''NeighborTable'', [])
     | UpdateTrustedCa bundle_pem \<Rightarrow> (''UpdateTrustedCa'', [(''certificates'', DNat (count_matches bundle_pem ''BEGIN CERTIFICATE''))]))"

definition scourge_op_debug :: "scourge_op \<Rightarrow> string \<times> (string \<times> debug_value) list" where
  "scourge_op_debug oper = (case oper of
       ScourgeSensorStatus \<Rightarrow> (''ScourgeSensorStatus'', [])
     | ScourgeCollectEvents eve_offset eve_inode max_events \<Rightarrow> (''ScourgeCollectEvents'', [(''eve_offset'', DNat (unat eve_offset)), (''eve_inode'', DNat (unat eve_inode)), (''max_events'', DNat (unat max_events))])
     | ScourgeListRules query \<Rightarrow> (''ScourgeListRules'', [(''query'', DStr query)])
     | ScourgePcapList \<Rightarrow> (''ScourgePcapList'', [])
     | ScourgeInstall \<Rightarrow> (''ScourgeInstall'', [])
     | ScourgeApplyConfig interfaces home_net external_net eve_enabled \<Rightarrow> (''ScourgeApplyConfig'', [(''interfaces'', DSeq (map DStr interfaces)), (''home_net'', DStr home_net), (''external_net'', DStr external_net), (''eve_enabled'', DBool eve_enabled)])
     | ScourgeServiceAction verb \<Rightarrow> (''ScourgeServiceAction'', [(''verb'', DStr verb)])
     | ScourgeUpdateRules \<Rightarrow> (''ScourgeUpdateRules'', [])
     | ScourgeSetSidEnabled sid enabled \<Rightarrow> (''ScourgeSetSidEnabled'', [(''sid'', DNat (unat sid)), (''enabled'', DBool enabled)])
     | ScourgeSuppressSid sid suppress \<Rightarrow> (''ScourgeSuppressSid'', [(''sid'', DNat (unat sid)), (''suppress'', DBool suppress)])
     | ScourgeRuleTest pcap_name \<Rightarrow> (''ScourgeRuleTest'', [(''pcap_name'', DStr pcap_name)])
     | ScourgeCaptureStart bpf max_seconds max_mb retention_days max_total_mb \<Rightarrow> (''ScourgeCaptureStart'', [(''bpf'', DStr bpf), (''max_seconds'', DNat (unat max_seconds)), (''max_mb'', DNat (unat max_mb)), (''retention_days'', DNat (unat retention_days)), (''max_total_mb'', DNat (unat max_total_mb))])
     | ScourgeCaptureStatus capture_id \<Rightarrow> (''ScourgeCaptureStatus'', [(''capture_id'', DStr capture_id)])
     | ScourgeCaptureCancel capture_id \<Rightarrow> (''ScourgeCaptureCancel'', [(''capture_id'', DStr capture_id)])
     | ScourgePcapDelete pcap_name shred_passes \<Rightarrow> (''ScourgePcapDelete'', [(''pcap_name'', DStr pcap_name), (''shred_passes'', DNat (unat shred_passes))])
     | ScourgeIpsStatus \<Rightarrow> (''ScourgeIpsStatus'', [])
     | ScourgeSetMode ips \<Rightarrow> (''ScourgeSetMode'', [(''ips'', DBool ips)])
     | ScourgeSetSidAction sid action \<Rightarrow> (''ScourgeSetSidAction'', [(''sid'', DNat (unat sid)), (''action'', DStr action)]))"

fun debug_parts :: "agent_operation \<Rightarrow> string \<times> (string \<times> debug_value) list" where
  "debug_parts (SystemOp x) = system_op_debug x"
| "debug_parts (SessionOp x) = session_op_debug x"
| "debug_parts (LogOp x) = log_op_debug x"
| "debug_parts (ServiceOp x) = service_op_debug x"
| "debug_parts (HardwareOp x) = hardware_op_debug x"
| "debug_parts (ProcessOp x) = process_op_debug x"
| "debug_parts (AccountOp x) = account_op_debug x"
| "debug_parts (PackageOp x) = package_op_debug x"
| "debug_parts (StorageOp x) = storage_op_debug x"
| "debug_parts (ConfigOp x) = config_op_debug x"
| "debug_parts (ContainmentOp x) = containment_op_debug x"
| "debug_parts (SecretOp x) = secret_op_debug x"
| "debug_parts (DirectoryOp x) = directory_op_debug x"
| "debug_parts (ExchangeOp x) = exchange_op_debug x"
| "debug_parts (SepulchreOp x) = sepulchre_op_debug x"
| "debug_parts (AgentOp x) = agent_op_debug x"
| "debug_parts (ScourgeOp x) = scourge_op_debug x"

text \<open>The text of \<^verbatim>\<open>{:?}\<close>: the name alone when there is no field.\<close>

definition debug_text :: "((string \<times> debug_value) list \<Rightarrow> string) \<Rightarrow> agent_operation \<Rightarrow> string" where
  "debug_text show_fields oper = (case debug_parts oper of (name, fs) \<Rightarrow>
     if fs = [] then name else name @ '' { '' @ show_fields fs @ '' }'')"

text \<open>\<^verbatim>\<open>variant_debug_name\<close>, and \<^verbatim>\<open>operation_name\<close> of \<^verbatim>\<open>crates/hosts/src/registry.rs\<close>.\<close>

definition variant_debug_name :: "((string \<times> debug_value) list \<Rightarrow> string) \<Rightarrow> agent_operation \<Rightarrow> string" where
  "variant_debug_name show_fields oper = hd (split_on (\<lambda>c. c = CHR ''{'' \<or> c = CHR '' '') (debug_text show_fields oper))"

definition operation_name :: "((string \<times> debug_value) list \<Rightarrow> string) \<Rightarrow> agent_operation \<Rightarrow> string" where
  "operation_name show_fields oper =
     hd (split_on (\<lambda>c. c = CHR '' '' \<or> c = CHR ''{'' \<or> c = CHR ''('') (debug_text show_fields oper))"

section \<open>Labels\<close>

definition dec_int :: "int \<Rightarrow> string" where
  "dec_int n = (if n < 0 then CHR ''-'' # dec_digits (nat (- n)) else dec_digits (nat n))"

definition shred_verb :: "8 word \<Rightarrow> string" where
  "shred_verb passes = (case unat passes of 0 \<Rightarrow> ''Deleted'' | Suc 0 \<Rightarrow> ''Shredded (1 pass)''
     | n \<Rightarrow> ''Shredded ('' @ dec_digits n @ '' passes)'')"

text \<open>The names are ASCII, where \<^verbatim>\<open>is_uppercase\<close> and \<^verbatim>\<open>is_lowercase\<close> are the ASCII classes.\<close>

fun humanize :: "bool \<Rightarrow> string \<Rightarrow> string" where
  "humanize prev_lower_or_digit [] = []"
| "humanize prev_lower_or_digit (c # s) =
     (if is_ascii_uppercase c \<and> prev_lower_or_digit then '' '' else []) @ c #
     humanize (is_ascii_lowercase c \<or> is_ascii_digit c) s"

definition humanize_variant_name :: "string \<Rightarrow> string" where
  "humanize_variant_name name = humanize False name"

text \<open>The last arm of \<^verbatim>\<open>label\<close>: the name of a variant holds no brace and no space, so it is what
  \<^verbatim>\<open>variant_debug_name\<close> cuts out of the debug text (lemma \<open>variant_debug_name_is_name\<close>).\<close>

definition other_label :: "string \<times> (string \<times> debug_value) list \<Rightarrow> string" where
  "other_label parts = humanize_variant_name (fst parts)"

definition system_op_label :: "system_op \<Rightarrow> string" where
  "system_op_label oper = (case oper of
       SetHostname hostname \<Rightarrow> ''Set hostname to '' @ hostname
     | Reboot \<Rightarrow> ''Rebooted''
     | FirewallAllowPort port protocol \<Rightarrow> ''Allowed port '' @ dec_digits (unat port) @ ''/'' @ protocol
     | FirewallEnable \<Rightarrow> ''Enabled firewall''
     | FirewallDenyPort port protocol \<Rightarrow> ''Denied port '' @ dec_digits (unat port) @ ''/'' @ protocol
     | FirewallRemovePort port protocol \<Rightarrow> ''Removed firewall rule for port '' @ dec_digits (unat port) @ ''/'' @ protocol
     | HardenSshd setting \<Rightarrow> ''Applied SSH hardening: '' @ ssh_hardening_label setting
     | ClearSshHardening \<Rightarrow> ''Cleared SSH hardening''
     | _ \<Rightarrow> other_label (system_op_debug oper))"

definition session_op_label :: "session_op \<Rightarrow> string" where
  "session_op_label oper = (case oper of
       Elevate _ _ \<Rightarrow> ''Elevated privileges''
     | Deescalate \<Rightarrow> ''De-escalated privileges''
     | InterfaceSetState interface up \<Rightarrow> ''Set interface '' @ interface @ '' '' @ (if up then ''up'' else ''down'')
     | NetworkScan_op target _ \<Rightarrow> ''Ran network scan against '' @ target
     | _ \<Rightarrow> other_label (session_op_debug oper))"

definition log_op_label :: "log_op \<Rightarrow> string" where
  "log_op_label oper = (case oper of
       VacuumJournalBySize size_ \<Rightarrow> ''Vacuumed journal to '' @ size_
     | VacuumJournalByTime duration \<Rightarrow> ''Vacuumed journal older than '' @ duration
     | CreateBackup _ name \<Rightarrow> ''Created backup: '' @ name
     | RestoreBackup filename _ \<Rightarrow> ''Restored backup '' @ filename
     | _ \<Rightarrow> other_label (log_op_debug oper))"

definition service_op_label :: "service_op \<Rightarrow> string" where
  "service_op_label oper = (case oper of
       StartService unit_ \<Rightarrow> ''Started service '' @ unit_
     | StopService unit_ \<Rightarrow> ''Stopped service '' @ unit_
     | RestartService unit_ \<Rightarrow> ''Restarted service '' @ unit_
     | EnableService unit_ \<Rightarrow> ''Enabled service '' @ unit_
     | DisableService unit_ \<Rightarrow> ''Disabled service '' @ unit_
     | ReloadSystemdDaemon \<Rightarrow> ''Reloaded systemd daemon''
     | ResetFailedUnits \<Rightarrow> ''Reset failed systemd units''
     | RecoverUnit unit_ \<Rightarrow> ''Recovered unit '' @ unit_
     | RemountReadWrite target \<Rightarrow> ''Remounted '' @ target @ '' read-write''
     | _ \<Rightarrow> other_label (service_op_debug oper))"

definition hardware_op_label :: "hardware_op \<Rightarrow> string" where
  "hardware_op_label oper = (case oper of
       StartContainer container \<Rightarrow> ''Started container '' @ container
     | StopContainer container \<Rightarrow> ''Stopped container '' @ container
     | RestartContainer container \<Rightarrow> ''Restarted container '' @ container
     | RemoveContainer container \<Rightarrow> ''Removed container '' @ container
     | _ \<Rightarrow> other_label (hardware_op_debug oper))"

definition process_op_label :: "process_op \<Rightarrow> string" where
  "process_op_label oper = (case oper of
       RenicePriority pid priority \<Rightarrow> ''Reniced PID '' @ dec_digits (unat pid) @ '' to priority '' @ dec_int (sint priority)
     | SendSignal pid signal \<Rightarrow> ''Sent '' @ signal @ '' to PID '' @ dec_digits (unat pid)
     | SignalByName name signal _ \<Rightarrow> ''Sent '' @ signal @ '' to processes named '' @ name
     | SetIoPriority pid class_ level \<Rightarrow> ''Set I/O priority (class '' @ dec_digits (unat class_) @ '', level '' @ dec_digits (unat level) @ '') for PID '' @ dec_digits (unat pid)
     | SetOomScoreAdj pid adj \<Rightarrow> ''Set OOM score adjustment '' @ dec_int (sint adj) @ '' for PID '' @ dec_digits (unat pid)
     | ForceLogRotation \<Rightarrow> ''Forced log rotation''
     | ClearTmpFiles older_than_days \<Rightarrow> ''Cleared temp files older than '' @ dec_digits (unat older_than_days) @ ''d''
     | ClearCoreDumps \<Rightarrow> ''Cleared core dumps''
     | _ \<Rightarrow> other_label (process_op_debug oper))"

definition account_op_label :: "account_op \<Rightarrow> string" where
  "account_op_label oper = (case oper of
       SetSwappiness value \<Rightarrow> ''Set swappiness to '' @ dec_digits (unat value)
     | SetIoScheduler device scheduler \<Rightarrow> ''Set I/O scheduler on '' @ device @ '' to '' @ scheduler
     | CreateUser username _ \<Rightarrow> ''Created user '' @ username
     | CreateGroup group_ \<Rightarrow> ''Created group '' @ group_
     | AddUserToGroup username group_ \<Rightarrow> ''Added '' @ username @ '' to group '' @ group_
     | RemoveUserFromGroup username group_ \<Rightarrow> ''Removed '' @ username @ '' from group '' @ group_
     | LockUserAccount username \<Rightarrow> ''Locked user '' @ username
     | UnlockUserAccount username \<Rightarrow> ''Unlocked user '' @ username
     | DeleteUser username _ \<Rightarrow> ''Deleted user '' @ username
     | DeleteGroup group_ \<Rightarrow> ''Deleted group '' @ group_
     | _ \<Rightarrow> other_label (account_op_debug oper))"

definition package_op_label :: "package_op \<Rightarrow> string" where
  "package_op_label oper = (case oper of
       TrimFilesystem mountpoint \<Rightarrow> ''Trimmed filesystem at '' @ mountpoint
     | FilesystemRepair device \<Rightarrow> ''Repaired filesystem on '' @ device
     | RefreshPackageIndex \<Rightarrow> ''Refreshed package index''
     | InstallPackage package \<Rightarrow> ''Installed package '' @ package
     | UpgradePackage package \<Rightarrow> ''Upgraded package '' @ package
     | RemovePackage package \<Rightarrow> ''Removed package '' @ package
     | _ \<Rightarrow> other_label (package_op_debug oper))"

definition storage_op_label :: "storage_op \<Rightarrow> string" where
  "storage_op_label oper = (case oper of
       MountFilesystem device target \<Rightarrow> ''Mounted '' @ device @ '' at '' @ target
     | ExtendLogicalVolume lv_path size_ \<Rightarrow> ''Extended logical volume '' @ lv_path @ '' by '' @ size_
     | UnmountFilesystem target \<Rightarrow> ''Unmounted '' @ target
     | CreatePartition device _ _ \<Rightarrow> ''Created partition on '' @ device
     | DeletePartition device partition_number \<Rightarrow> ''Deleted partition '' @ dec_digits (unat partition_number) @ '' on '' @ device
     | CreateRaidArray array_name _ _ \<Rightarrow> ''Created RAID array '' @ array_name
     | StopRaidArray array_name \<Rightarrow> ''Stopped RAID array '' @ array_name
     | CreatePhysicalVolume device \<Rightarrow> ''Created physical volume '' @ device
     | CreateVolumeGroup name _ \<Rightarrow> ''Created volume group '' @ name
     | CreateLogicalVolume vg_name lv_name _ \<Rightarrow> ''Created logical volume '' @ lv_name @ '' in '' @ vg_name
     | RemoveLogicalVolume lv_path \<Rightarrow> ''Removed logical volume '' @ lv_path
     | RemoveVolumeGroup name \<Rightarrow> ''Removed volume group '' @ name
     | RemovePhysicalVolume device \<Rightarrow> ''Removed physical volume '' @ device
     | CreateFilesystem device fstype \<Rightarrow> ''Created '' @ fstype @ '' filesystem on '' @ device)"

definition config_op_label :: "config_op \<Rightarrow> string" where
  "config_op_label oper = (case oper of
       SetPersistentSysctl key value \<Rightarrow> ''Set sysctl '' @ key @ '' = '' @ value
     | RemovePersistentSysctlKey key \<Rightarrow> ''Removed sysctl key '' @ key
     | ClearManagedSysctl \<Rightarrow> ''Cleared all managed sysctl overrides''
     | SetCronJob job_name _ _ _ \<Rightarrow> ''Set cron job '' @ job_name
     | RemoveCronJob job_name \<Rightarrow> ''Removed cron job '' @ job_name
     | ClearManagedCronJobs \<Rightarrow> ''Cleared all managed cron jobs''
     | BlacklistModule module \<Rightarrow> ''Blacklisted kernel module '' @ module
     | RemoveModuleBlacklist module \<Rightarrow> ''Removed kernel module '' @ module @ '' from the blacklist''
     | ClearModuleBlacklist \<Rightarrow> ''Cleared the managed module blacklist''
     | SetJournaldRetention setting value \<Rightarrow> ''Set journald '' @ journald_key setting @ ''='' @ value
     | ClearJournaldConfig \<Rightarrow> ''Cleared managed journald config''
     | _ \<Rightarrow> other_label (config_op_debug oper))"

definition containment_op_label :: "containment_op \<Rightarrow> string" where
  "containment_op_label oper = (case oper of
       BlockRemoteIp ip \<Rightarrow> ''Blocked IP '' @ ip
     | UnblockRemoteIp ip \<Rightarrow> ''Unblocked IP '' @ ip
     | QuarantineFile path \<Rightarrow> ''Quarantined file '' @ path
     | RestoreQuarantinedFile quarantine_filename \<Rightarrow> ''Restored quarantined file '' @ quarantine_filename
     | DeleteQuarantinedFile filename shred_passes \<Rightarrow> shred_verb shred_passes @ '' quarantined file '' @ filename
     | DeisolateHost \<Rightarrow> ''Removed host isolation''
     | IsolateHost \<Rightarrow> ''Isolated host''
     | _ \<Rightarrow> other_label (containment_op_debug oper))"

definition secret_op_label :: "secret_op \<Rightarrow> string" where
  "secret_op_label oper = (case oper of
       GenerateSshKeypair key_type _ path \<Rightarrow> ''Generated '' @ key_type @ '' SSH keypair at '' @ path
     | FixFilePermissions path mode \<Rightarrow> ''Fixed permissions on '' @ path @ '' ('' @ mode @ '')''
     | RemoveAuthorizedKey username _ \<Rightarrow> ''Removed authorized key for '' @ username
     | DeleteSshKeypair path shred_passes \<Rightarrow> shred_verb shred_passes @ '' SSH keypair '' @ path
     | _ \<Rightarrow> other_label (secret_op_debug oper))"

definition directory_op_label :: "directory_op \<Rightarrow> string" where
  "directory_op_label oper = other_label (directory_op_debug oper)"

definition exchange_op_label :: "exchange_op \<Rightarrow> string" where
  "exchange_op_label oper = other_label (exchange_op_debug oper)"

definition sepulchre_op_label :: "sepulchre_op \<Rightarrow> string" where
  "sepulchre_op_label oper = (case oper of
       RenderSepulchreConfig target _ \<Rightarrow> ''Updated Sepulchre '' @ sepulchre_config_target_name target @ '' configuration''
     | ClearSepulchreConfig target \<Rightarrow> ''Cleared Sepulchre '' @ sepulchre_config_target_name target @ '' configuration''
     | CreateSftpChrootAccount username _ \<Rightarrow> ''Created SFTP chroot account '' @ username
     | InstallSepulchreAuthorizedKey username _ \<Rightarrow> ''Installed an authorized key for '' @ username
     | RemoveSftpChrootAccount username \<Rightarrow> ''Removed SFTP chroot account '' @ username
     | CreateSambaServiceUser username _ \<Rightarrow> ''Created Samba service user '' @ username
     | RemoveSambaServiceUser username \<Rightarrow> ''Removed Samba service user '' @ username
     | RenderMountUnit _ mount_point _ \<Rightarrow> ''Mounted '' @ mount_point
     | RemoveMountUnit _ mount_point \<Rightarrow> ''Unmounted '' @ mount_point
     | CreateSepulchreShareDirectory path _ \<Rightarrow> ''Created share directory '' @ path
     | WriteSepulchreMountCredentials path _ \<Rightarrow> ''Wrote mount credentials file '' @ path
     | _ \<Rightarrow> other_label (sepulchre_op_debug oper))"

definition agent_op_label :: "agent_op \<Rightarrow> string" where
  "agent_op_label oper = (case oper of
       SelfUpdate version _ _ \<Rightarrow> ''Updated agent to v'' @ version
     | UninstallAgent purge \<Rightarrow> (if purge then ''Uninstalled the agent and removed its enrollment'' else ''Uninstalled the agent'')
     | ThanatosStream enabled _ \<Rightarrow> (if enabled then ''Started real-time security event streaming'' else ''Stopped real-time security event streaming'')
     | UpdateTrustedCa _ \<Rightarrow> ''Updated the agent's trusted control-plane CA''
     | _ \<Rightarrow> other_label (agent_op_debug oper))"

definition scourge_op_label :: "scourge_op \<Rightarrow> string" where
  "scourge_op_label oper = other_label (scourge_op_debug oper)"

fun operation_label :: "agent_operation \<Rightarrow> string" where
  "operation_label (SystemOp x) = system_op_label x"
| "operation_label (SessionOp x) = session_op_label x"
| "operation_label (LogOp x) = log_op_label x"
| "operation_label (ServiceOp x) = service_op_label x"
| "operation_label (HardwareOp x) = hardware_op_label x"
| "operation_label (ProcessOp x) = process_op_label x"
| "operation_label (AccountOp x) = account_op_label x"
| "operation_label (PackageOp x) = package_op_label x"
| "operation_label (StorageOp x) = storage_op_label x"
| "operation_label (ConfigOp x) = config_op_label x"
| "operation_label (ContainmentOp x) = containment_op_label x"
| "operation_label (SecretOp x) = secret_op_label x"
| "operation_label (DirectoryOp x) = directory_op_label x"
| "operation_label (ExchangeOp x) = exchange_op_label x"
| "operation_label (SepulchreOp x) = sepulchre_op_label x"
| "operation_label (AgentOp x) = agent_op_label x"
| "operation_label (ScourgeOp x) = scourge_op_label x"

section \<open>What the texts reveal\<close>

text \<open>The same operation with its secrets (passwords, and the contents of a credentials file)
  replaced by others, which \<open>g\<close> computes from the ones it carries.\<close>

fun session_with_secrets :: "(string \<Rightarrow> string) \<Rightarrow> session_op \<Rightarrow> session_op" where
  "session_with_secrets g (Elevate password secs) = Elevate (g password) secs"
| "session_with_secrets g oper = oper"

fun directory_with_secrets :: "(string \<Rightarrow> string) \<Rightarrow> directory_op \<Rightarrow> directory_op" where
  "directory_with_secrets g (DirectoryTestDelegation d u password) = DirectoryTestDelegation d u (g password)"
| "directory_with_secrets g (DirectoryUnlockAccount d u password t a) = DirectoryUnlockAccount d u (g password) t a"
| "directory_with_secrets g (DirectorySetEnabled d u password t e a) = DirectorySetEnabled d u (g password) t e a"
| "directory_with_secrets g (DirectoryCreateUser r) = DirectoryCreateUser
     (r\<lparr>cu_service_account_password := g (cu_service_account_password r), cu_password := g (cu_password r)\<rparr>)"
| "directory_with_secrets g (DirectorySetPassword d u password t new_password a) =
     DirectorySetPassword d u (g password) t (g new_password) a"
| "directory_with_secrets g oper = oper"

fun exchange_with_secrets :: "(string \<Rightarrow> string) \<Rightarrow> exchange_op \<Rightarrow> exchange_op" where
  "exchange_with_secrets g (ExchangeTestConnection d u password) = ExchangeTestConnection d u (g password)"
| "exchange_with_secrets g (ExchangeEnableMailbox d u password t r) = ExchangeEnableMailbox d u (g password) t r"
| "exchange_with_secrets g (ExchangeSetMailboxOffboard d u password t c) = ExchangeSetMailboxOffboard d u (g password) t c"
| "exchange_with_secrets g (DirectoryCreateGroup r) =
     DirectoryCreateGroup (r\<lparr>cg_service_account_password := g (cg_service_account_password r)\<rparr>)"
| "exchange_with_secrets g (DirectoryDeleteGroup d u password t a) = DirectoryDeleteGroup d u (g password) t a"
| "exchange_with_secrets g (DirectoryAddGroupMember d u password t m a) = DirectoryAddGroupMember d u (g password) t m a"
| "exchange_with_secrets g (DirectoryRemoveGroupMember d u password t m a) = DirectoryRemoveGroupMember d u (g password) t m a"
| "exchange_with_secrets g (DirectoryMove d u password t p a) = DirectoryMove d u (g password) t p a"
| "exchange_with_secrets g (DirectoryDeleteObject d u password t a) = DirectoryDeleteObject d u (g password) t a"
| "exchange_with_secrets g (DirectoryOffboard d u password t ou a) = DirectoryOffboard d u (g password) t ou a"
| "exchange_with_secrets g (DirectoryUndoOffboard r) =
     DirectoryUndoOffboard (r\<lparr>uo_service_account_password := g (uo_service_account_password r)\<rparr>)"

fun sepulchre_with_secrets :: "(string \<Rightarrow> string) \<Rightarrow> sepulchre_op \<Rightarrow> sepulchre_op" where
  "sepulchre_with_secrets g (CreateSambaServiceUser username password) = CreateSambaServiceUser username (g password)"
| "sepulchre_with_secrets g (WriteSepulchreMountCredentials path contents) = WriteSepulchreMountCredentials path (g contents)"
| "sepulchre_with_secrets g oper = oper"

fun with_secrets :: "(string \<Rightarrow> string) \<Rightarrow> agent_operation \<Rightarrow> agent_operation" where
  "with_secrets g (SessionOp x) = SessionOp (session_with_secrets g x)"
| "with_secrets g (DirectoryOp x) = DirectoryOp (directory_with_secrets g x)"
| "with_secrets g (ExchangeOp x) = ExchangeOp (exchange_with_secrets g x)"
| "with_secrets g (SepulchreOp x) = SepulchreOp (sepulchre_with_secrets g x)"
| "with_secrets g oper = oper"

lemma session_text_secrets:
  "session_op_debug (session_with_secrets g x) = session_op_debug x"
  "session_op_label (session_with_secrets g x) = session_op_label x"
  by (cases x; simp add: session_op_debug_def session_op_label_def)+

lemma directory_debug_secrets: "directory_op_debug (directory_with_secrets g x) = directory_op_debug x"
  by (cases x; simp add: directory_op_debug_def)

lemma exchange_debug_secrets: "exchange_op_debug (exchange_with_secrets g x) = exchange_op_debug x"
  by (cases x; simp add: exchange_op_debug_def)

lemma sepulchre_debug_secrets: "sepulchre_op_debug (sepulchre_with_secrets g x) = sepulchre_op_debug x"
  by (cases x; simp add: sepulchre_op_debug_def)

lemma sepulchre_label_secrets: "sepulchre_op_label (sepulchre_with_secrets g x) = sepulchre_op_label x"
  using sepulchre_debug_secrets [of g x] by (cases x; simp add: sepulchre_op_label_def)

lemmas secret_texts = session_text_secrets directory_debug_secrets exchange_debug_secrets
  sepulchre_debug_secrets sepulchre_label_secrets

lemma debug_parts_with_secrets: "debug_parts (with_secrets g oper) = debug_parts oper"
  by (cases oper) (simp_all add: secret_texts)

lemma label_with_secrets: "operation_label (with_secrets g oper) = operation_label oper"
  by (cases oper) (simp_all add: secret_texts directory_op_label_def exchange_op_label_def)

text \<open>C9: neither the debug text of an operation nor the label the audit trail keeps of it depends on the
  passwords and credentials it carries: with any others in their place both are the same.\<close>

theorem texts_reveal_no_secret:
  "debug_text show_fields (with_secrets g oper) = debug_text show_fields oper
   \<and> operation_label (with_secrets g oper) = operation_label oper"
  by (simp add: debug_text_def debug_parts_with_secrets label_with_secrets)

text \<open>The name cut out of a debug text is the variant's name.\<close>

definition plain_name :: "string \<Rightarrow> bool" where
  "plain_name s \<longleftrightarrow> s \<noteq> [] \<and> (\<forall>c\<in>set s. c \<noteq> CHR '' '' \<and> c \<noteq> CHR ''{'' \<and> c \<noteq> CHR ''('')"

lemma plain_names:
  "plain_name (fst (system_op_debug o1))" "plain_name (fst (session_op_debug o2))"
  "plain_name (fst (log_op_debug o3))" "plain_name (fst (service_op_debug o4))"
  "plain_name (fst (hardware_op_debug o5))" "plain_name (fst (process_op_debug o6))"
  "plain_name (fst (account_op_debug o7))" "plain_name (fst (package_op_debug o8))"
  "plain_name (fst (storage_op_debug o9))" "plain_name (fst (config_op_debug o10))"
  "plain_name (fst (containment_op_debug o11))" "plain_name (fst (secret_op_debug o12))"
  "plain_name (fst (directory_op_debug o13))" "plain_name (fst (exchange_op_debug o14))"
  "plain_name (fst (sepulchre_op_debug o15))" "plain_name (fst (agent_op_debug o16))"
  "plain_name (fst (scourge_op_debug o17))"
  subgoal by (cases o1; simp add: system_op_debug_def plain_name_def)
  subgoal by (cases o2; simp add: session_op_debug_def plain_name_def)
  subgoal by (cases o3; simp add: log_op_debug_def plain_name_def)
  subgoal by (cases o4; simp add: service_op_debug_def plain_name_def)
  subgoal by (cases o5; simp add: hardware_op_debug_def plain_name_def)
  subgoal by (cases o6; simp add: process_op_debug_def plain_name_def)
  subgoal by (cases o7; simp add: account_op_debug_def plain_name_def)
  subgoal by (cases o8; simp add: package_op_debug_def plain_name_def)
  subgoal by (cases o9; simp add: storage_op_debug_def plain_name_def)
  subgoal by (cases o10; simp add: config_op_debug_def plain_name_def)
  subgoal by (cases o11; simp add: containment_op_debug_def plain_name_def)
  subgoal by (cases o12; simp add: secret_op_debug_def plain_name_def)
  subgoal by (cases o13; simp add: directory_op_debug_def plain_name_def)
  subgoal by (cases o14; simp add: exchange_op_debug_def plain_name_def)
  subgoal by (cases o15; simp add: sepulchre_op_debug_def plain_name_def)
  subgoal by (cases o16; simp add: agent_op_debug_def plain_name_def)
  subgoal by (cases o17; simp add: scourge_op_debug_def plain_name_def)
  done

lemma debug_parts_plain: "plain_name (fst (debug_parts oper))"
  by (cases oper) (simp_all add: plain_names)

lemma split_on_hd_cut:
  assumes "\<forall>c\<in>set s. \<not> P c" and "rest = [] \<or> P (hd rest)"
  shows "hd (split_on P (s @ rest)) = s"
  using assms
proof (induction s)
  case Nil
  then show ?case by (cases rest) auto
next
  case (Cons c s)
  then show ?case by (auto split: list.splits)
qed

lemma debug_text_cut:
  assumes "\<And>c. P c \<Longrightarrow> c = CHR '' '' \<or> c = CHR ''{'' \<or> c = CHR ''(''" and "P (CHR '' '')"
  shows "hd (split_on P (debug_text show_fields oper)) = fst (debug_parts oper)"
proof -
  obtain name fs where d: "debug_parts oper = (name, fs)" by (cases "debug_parts oper")
  have n: "\<forall>c\<in>set name. \<not> P c"
    using debug_parts_plain [of oper] assms(1) d by (auto simp: plain_name_def)
  show ?thesis
    using split_on_hd_cut [OF n, of "[]"] split_on_hd_cut [OF n, of "'' { '' @ show_fields fs @ '' }''"] assms(2)
    by (simp add: debug_text_def d)
qed

lemma variant_debug_name_is_name: "variant_debug_name show_fields oper = fst (debug_parts oper)"
  unfolding variant_debug_name_def by (rule debug_text_cut) auto

lemma operation_name_is_name: "operation_name show_fields oper = fst (debug_parts oper)"
  unfolding operation_name_def by (rule debug_text_cut) auto

end
