(* ===== verification/Keyed_Table.thy ===== *)
theory Keyed_Table
  imports Main
begin

text \<open>
  The in-memory tables of the control plane (live connections, hosts believed elevated) are maps from
  a host to an entry behind a lock. This theory states what their clients rely on as an interface, a
  lookup after an insertion and after a removal, and what follows for any sequence of updates: the
  table holds what the last update on a key says.
\<close>

datatype ('k, 'e) table_event = Put 'k 'e | Del 'k

fun event_key :: "('k, 'e) table_event \<Rightarrow> 'k" where
  "event_key (Put k e) = k"
| "event_key (Del k) = k"

text \<open>The last update on a key, if there is one.\<close>

definition last_event :: "'k \<Rightarrow> ('k, 'e) table_event list \<Rightarrow> ('k, 'e) table_event option" where
  "last_event k evs = find (\<lambda>ev. event_key ev = k) (rev evs)"

lemma last_event_append:
  "last_event k (evs @ [ev]) = (if event_key ev = k then Some ev else last_event k evs)"
  by (simp add: last_event_def)

fun apply_event :: "('k \<Rightarrow> 'e \<Rightarrow> 's \<Rightarrow> 's) \<Rightarrow> ('k \<Rightarrow> 's \<Rightarrow> 's) \<Rightarrow> ('k, 'e) table_event \<Rightarrow> 's \<Rightarrow> 's" where
  "apply_event ins del (Put k e) s = ins k e s"
| "apply_event ins del (Del k) s = del k s"

text \<open>\<open>lookup\<close> may show an entry differently from how it was inserted (\<open>shown\<close>, in the state where it was).\<close>

locale keyed_table =
  fixes lookup :: "'s \<Rightarrow> 'k \<Rightarrow> 'v option"
    and insert_entry :: "'k \<Rightarrow> 'e \<Rightarrow> 's \<Rightarrow> 's"
    and remove_entry :: "'k \<Rightarrow> 's \<Rightarrow> 's"
    and shown :: "'s \<Rightarrow> 'e \<Rightarrow> 'v"
  assumes lookup_insert: "lookup (insert_entry k e s) k' = (if k' = k then Some (shown s e) else lookup s k')"
    and lookup_remove: "lookup (remove_entry k s) k' = (if k' = k then None else lookup s k')"
begin

lemma lookup_apply_other: "event_key ev \<noteq> k \<Longrightarrow> lookup (apply_event insert_entry remove_entry ev s) k = lookup s k"
  by (cases ev) (auto simp: lookup_insert lookup_remove)

lemma lookup_events_defined:
  "lookup (fold (apply_event insert_entry remove_entry) evs s) k \<noteq> None \<longleftrightarrow>
     (case last_event k evs of None \<Rightarrow> lookup s k \<noteq> None | Some (Put _ _) \<Rightarrow> True | Some (Del _) \<Rightarrow> False)"
proof (induction evs rule: rev_induct)
  case Nil
  then show ?case by (simp add: last_event_def)
next
  case (snoc ev evs)
  show ?case
  proof (cases "event_key ev = k")
    case True
    then show ?thesis by (cases ev) (simp_all add: last_event_append lookup_insert lookup_remove)
  qed (use snoc in \<open>simp add: last_event_append lookup_apply_other\<close>)
qed

lemma lookup_events_value:
  assumes "last_event k evs = Some (Put k' e)"
  shows "k' = k \<and> (\<exists>before. lookup (fold (apply_event insert_entry remove_entry) evs s) k = Some (shown (fold (apply_event insert_entry remove_entry) before s) e))"
  using assms
proof (induction evs rule: rev_induct)
  case Nil
  then show ?case by (simp add: last_event_def)
next
  case (snoc ev evs)
  show ?case
  proof (cases "event_key ev = k")
    case True
    with snoc.prems have "ev = Put k e" "k' = k" by (auto simp: last_event_append)
    then have "lookup (fold (apply_event insert_entry remove_entry) (evs @ [ev]) s) k = Some (shown (fold (apply_event insert_entry remove_entry) evs s) e)"
      by (simp add: lookup_insert)
    with \<open>k' = k\<close> show ?thesis by blast
  next
    case False
    with snoc.prems have "last_event k evs = Some (Put k' e)" by (simp add: last_event_append)
    from snoc.IH [OF this] False show ?thesis by (simp add: lookup_apply_other)
  qed
qed

end

end
