(* ===== verification/Host_Registry.thy ===== *)
theory Host_Registry
  imports Control_Plane_Guard Operation_Text Keyed_Table
begin

text \<open>
  The registry of live agent connections, \<^verbatim>\<open>crates/hosts/src/registry.rs\<close>, and the part of the agent's
  web-socket handler that registers, resolves and unregisters, \<^verbatim>\<open>crates/web/src/routes/agent.rs\<close>.

  Each method that holds one lock is a function on the state. \<^verbatim>\<open>dispatch\<close> takes its locks one after
  another and waits on a channel, so it is cut at those points: a call is in one of the stages of the
  datatype \<open>call\<close>, and the step relation lets calls, sockets and responses interleave in any order. A call whose future
  is dropped while it waits (the client of the request has gone) ends there, and a channel holds sixteen messages.
\<close>

section \<open>The registry\<close>

record connection =
  sender :: nat
  protocol_version :: "32 word option"
  epoch :: "64 word"

datatype protocol_status = NotConnected_status | Unknown | Version "32 word"

text \<open>A pending request is its host; the one-shot channel it also holds is named by the request.\<close>

record registry =
  connections :: "uuid \<Rightarrow> connection option"
  pending :: "uuid \<Rightarrow> uuid option"
  control_plane :: "uuid set"
  next_epoch :: "64 word"
  reg_protection :: protection

definition new_registry :: registry where
  "new_registry = \<lparr>connections = (\<lambda>_. None), pending = (\<lambda>_. None), control_plane = {}, next_epoch = 0,
     reg_protection = \<lparr>cp_ports = {}, cp_docker_device = None\<rparr>\<rparr>"

definition register :: "uuid \<Rightarrow> nat \<Rightarrow> 32 word option \<Rightarrow> registry \<Rightarrow> registry" where
  "register host_id tx pv r =
     (let e = next_epoch r + 1 in
      r\<lparr>next_epoch := e,
        connections := (connections r)(host_id \<mapsto> \<lparr>sender = tx, protocol_version = pv, epoch = e\<rparr>)\<rparr>)"

definition connection_epoch :: "registry \<Rightarrow> uuid \<Rightarrow> 64 word option" where
  "connection_epoch r host_id = map_option epoch (connections r host_id)"

definition unregister :: "uuid \<Rightarrow> registry \<Rightarrow> registry" where
  "unregister host_id r =
     r\<lparr>connections := (connections r)(host_id := None),
       pending := (\<lambda>req. if pending r req = Some host_id then None else pending r req)\<rparr>"

definition connected_ids :: "registry \<Rightarrow> uuid set" where
  "connected_ids r = dom (connections r)"

definition is_connected :: "registry \<Rightarrow> uuid \<Rightarrow> bool" where
  "is_connected r host_id \<longleftrightarrow> connections r host_id \<noteq> None"

definition agent_protocol_status :: "registry \<Rightarrow> uuid \<Rightarrow> protocol_status" where
  "agent_protocol_status r host_id = (case connections r host_id of
       None \<Rightarrow> NotConnected_status
     | Some c \<Rightarrow> (case protocol_version c of None \<Rightarrow> Unknown | Some v \<Rightarrow> Version v))"

definition agent_supports :: "registry \<Rightarrow> uuid \<Rightarrow> 32 word \<Rightarrow> bool" where
  "agent_supports r host_id needed =
     (case agent_protocol_status r host_id of Version v \<Rightarrow> needed \<le> v | _ \<Rightarrow> False)"

definition supports :: "registry \<Rightarrow> uuid \<Rightarrow> agent_operation \<Rightarrow> bool" where
  "supports r host_id oper = agent_supports r host_id (min_protocol oper)"

definition agent_protocol_mismatch :: "registry \<Rightarrow> uuid \<Rightarrow> bool" where
  "agent_protocol_mismatch r host_id = (case agent_protocol_status r host_id of
       NotConnected_status \<Rightarrow> False | Unknown \<Rightarrow> True | Version v \<Rightarrow> v \<noteq> PROTOCOL_VERSION)"

definition set_control_plane :: "uuid \<Rightarrow> bool \<Rightarrow> registry \<Rightarrow> registry" where
  "set_control_plane host_id flag r =
     r\<lparr>control_plane := (if flag then insert host_id (control_plane r) else control_plane r - {host_id})\<rparr>"

definition is_control_plane :: "registry \<Rightarrow> uuid \<Rightarrow> bool" where
  "is_control_plane r host_id \<longleftrightarrow> host_id \<in> control_plane r"

definition set_protected_ports :: "16 word list \<Rightarrow> registry \<Rightarrow> registry" where
  "set_protected_ports ports r = r\<lparr>reg_protection := (reg_protection r)\<lparr>cp_ports := set ports\<rparr>\<rparr>"

definition set_docker_device :: "string option \<Rightarrow> registry \<Rightarrow> registry" where
  "set_docker_device device r = r\<lparr>reg_protection := (reg_protection r)\<lparr>cp_docker_device := device\<rparr>\<rparr>"

definition guard :: "registry \<Rightarrow> uuid \<Rightarrow> agent_operation \<Rightarrow> string + unit" where
  "guard r host_id oper = (if \<not> is_control_plane r host_id then Ok () else check oper (reg_protection r))"

section \<open>Dispatch\<close>

datatype dispatch_error = NotConnected | Timeout | ConnectionClosed | Refused string
  | AgentTooOld string "32 word" "32 word option"

definition too_old_message :: "string \<Rightarrow> 32 word \<Rightarrow> 32 word option \<Rightarrow> string" where
  "too_old_message operation needed has =
     (let release = (case agent_release_for_protocol needed of
            Some release \<Rightarrow> ''agent '' @ release @ '' or later'' | None \<Rightarrow> ''a newer agent'');
          has = (case has of Some v \<Rightarrow> ''protocol '' @ dec_digits (unat v)
            | None \<Rightarrow> ''an unreported protocol (a very old build)'')
      in ''This host's agent is too old for '' @ operation @ '': it speaks '' @ has @ '', and this needs protocol ''
         @ dec_digits (unat needed) @ '' ('' @ release
         @ ''). Update it with 'Update agent' on /admin/hosts (or re-deploy it), then try again. Nothing was sent to the host.'')"

fun dispatch_error_text :: "dispatch_error \<Rightarrow> string" where
  "dispatch_error_text NotConnected = ''host is not currently connected''"
| "dispatch_error_text Timeout = ''host did not respond within the timeout''"
| "dispatch_error_text ConnectionClosed = ''host disconnected before responding''"
| "dispatch_error_text (Refused reason) = reason"
| "dispatch_error_text (AgentTooOld operation needed has) = too_old_message operation needed has"

text \<open>
  The stages of a call of \<^verbatim>\<open>dispatch\<close>: past the guard; with the connection looked up; with the request
  inserted into \<^verbatim>\<open>pending\<close>, about to send; waiting for the outcome; and returned.
\<close>

datatype call =
    Guarded uuid agent_operation
  | Looked_Up uuid agent_operation nat
  | Sending uuid agent_operation nat
  | Waiting uuid agent_operation
  | Returned "dispatch_error + command_outcome"

definition dispatch_guard :: "registry \<Rightarrow> uuid \<Rightarrow> agent_operation \<Rightarrow> call" where
  "dispatch_guard r host_id oper = (case guard r host_id oper of
       Inl reason \<Rightarrow> Returned (Err (Refused reason)) | Inr _ \<Rightarrow> Guarded host_id oper)"

definition has_version :: "32 word option \<Rightarrow> 32 word" where
  "has_version has = (case has of None \<Rightarrow> 0 | Some v \<Rightarrow> v)"

definition dispatch_lookup :: "((string \<times> debug_value) list \<Rightarrow> string) \<Rightarrow> registry \<Rightarrow> uuid \<Rightarrow> agent_operation \<Rightarrow> call" where
  "dispatch_lookup show_fields r host_id oper = (case connections r host_id of
       None \<Rightarrow> Returned (Err NotConnected)
     | Some c \<Rightarrow>
         let needed = min_protocol oper in
         if has_version (protocol_version c) < needed
         then Returned (Err (AgentTooOld (operation_name show_fields oper) needed (protocol_version c)))
         else Looked_Up host_id oper (sender c))"

definition insert_pending :: "uuid \<Rightarrow> uuid \<Rightarrow> registry \<Rightarrow> registry" where
  "insert_pending req host_id r = r\<lparr>pending := (pending r)(req \<mapsto> host_id)\<rparr>"

definition remove_pending :: "uuid \<Rightarrow> registry \<Rightarrow> registry" where
  "remove_pending req r = r\<lparr>pending := (pending r)(req := None)\<rparr>"

text \<open>
  A whole call of \<^verbatim>\<open>dispatch\<close> with nothing in between, as its caller sees it. What the environment
  does is an argument: the channel is closed, a response arrives, the connection goes away, or the
  time is up. The commands put on a channel are returned with the registry.
\<close>

datatype reply = Channel_Closed | Answer command_outcome | Sender_Dropped | Time_Up

definition dispatch :: "((string \<times> debug_value) list \<Rightarrow> string) \<Rightarrow> uuid \<Rightarrow> reply \<Rightarrow> uuid \<Rightarrow> agent_operation
    \<Rightarrow> registry \<times> (nat \<times> server_message) list
    \<Rightarrow> (dispatch_error + command_outcome) \<times> (registry \<times> (nat \<times> server_message) list)" where
  "dispatch show_fields req reply host_id oper st =
     (let (r, out) = st in
      case dispatch_guard r host_id oper of Returned res \<Rightarrow> (res, st)
      | _ \<Rightarrow> (case dispatch_lookup show_fields r host_id oper of
          Looked_Up _ _ tx \<Rightarrow>
            (let r = insert_pending req host_id r; out' = out @ [(tx, Command req oper)] in
             case reply of
               Channel_Closed \<Rightarrow> (Err ConnectionClosed, (remove_pending req r, out))
             | Answer outcome \<Rightarrow> (Ok outcome, (remove_pending req r, out'))
             | Sender_Dropped \<Rightarrow> (Err ConnectionClosed, (unregister host_id r, out'))
             | Time_Up \<Rightarrow> (Err Timeout, (remove_pending req r, out')))
        | Returned res \<Rightarrow> (res, st)
        | _ \<Rightarrow> (Err NotConnected, st)))"

text \<open>The receiving end of a request's one-shot channel.\<close>

datatype oneshot = Open | Delivered command_outcome | Dropped

text \<open>What the registry's locks do not hold: the calls, the receiving ends of their one-shot channels, the sockets
  that run (with the flag of a handler that has not left its loop), and the messages of each channel that its socket
  has not taken yet. The last three fields record, for the statements below, everything put on a channel, what was
  asked when and who is at the end of a channel.\<close>

definition CHANNEL_CAPACITY :: nat where "CHANNEL_CAPACITY = 16"

record world =
  reg :: registry
  calls :: "uuid \<Rightarrow> call option"
  oneshots :: "uuid \<Rightarrow> oneshot option"
  sockets :: "nat \<Rightarrow> (uuid \<times> bool) option"
  queue :: "nat \<Rightarrow> server_message list"
  wire :: "(nat \<times> server_message) list"
  asked :: "uuid \<Rightarrow> (uuid \<times> agent_operation \<times> protection option) option"
  peer :: "nat \<Rightarrow> (uuid \<times> 32 word option) option"

definition start_world :: world where
  "start_world = \<lparr>reg = new_registry, calls = (\<lambda>_. None), oneshots = (\<lambda>_. None), sockets = (\<lambda>_. None),
     queue = (\<lambda>_. []), wire = [], asked = (\<lambda>_. None), peer = (\<lambda>_. None)\<rparr>"

text \<open>\<^verbatim>\<open>handle_socket\<close> up to its loop.\<close>

definition socket_connect :: "uuid \<Rightarrow> bool \<Rightarrow> nat \<Rightarrow> 32 word option \<Rightarrow> registry \<Rightarrow> registry" where
  "socket_connect host_id is_cp tx pv r = register host_id tx pv (set_control_plane host_id is_cp r)"

definition drop_oneshots :: "uuid \<Rightarrow> world \<Rightarrow> uuid \<Rightarrow> oneshot option" where
  "drop_oneshots host_id w = (\<lambda>req. if pending (reg w) req = Some host_id
     then map_option (\<lambda>_. Dropped) (oneshots w req) else oneshots w req)"

definition do_unregister :: "uuid \<Rightarrow> world \<Rightarrow> world" where
  "do_unregister host_id w = w\<lparr>reg := unregister host_id (reg w), oneshots := drop_oneshots host_id w\<rparr>"

text \<open>Sending on a one-shot channel whose receiving end is gone does nothing.\<close>

definition resolve :: "uuid \<Rightarrow> command_outcome \<Rightarrow> world \<Rightarrow> world" where
  "resolve req outcome w = (case pending (reg w) req of None \<Rightarrow> w
     | Some _ \<Rightarrow> w\<lparr>reg := remove_pending req (reg w), 
       oneshots := (oneshots w)(req := map_option (\<lambda>_. Delivered outcome) (oneshots w req))\<rparr>)"

definition guard_view :: "registry \<Rightarrow> uuid \<Rightarrow> protection option" where
  "guard_view r host_id = (if is_control_plane r host_id then Some (reg_protection r) else None)"

inductive world_step :: "((string \<times> debug_value) list \<Rightarrow> string) \<Rightarrow> world \<Rightarrow> world \<Rightarrow> bool" for show_fields where
  connect: "sockets w tx = None \<Longrightarrow> peer w tx = None \<Longrightarrow>
    world_step show_fields w (w\<lparr>reg := socket_connect h is_cp tx pv (reg w),
      sockets := (sockets w)(tx \<mapsto> (h, True)), peer := (peer w)(tx \<mapsto> (h, pv))\<rparr>)"
| leave_loop: "sockets w tx = Some (h, True) \<Longrightarrow>
    world_step show_fields w ((do_unregister h w)\<lparr>sockets := (sockets w)(tx \<mapsto> (h, False))\<rparr>)"
| close_socket: "sockets w tx = Some (h, False) \<Longrightarrow> 
    world_step show_fields w (w\<lparr>sockets := (sockets w)(tx := None), queue := (queue w)(tx := [])\<rparr>)"
| socket_takes: "sockets w tx = Some (h, True) \<Longrightarrow> queue w tx = m # ms \<Longrightarrow>
    world_step show_fields w (w\<lparr>queue := (queue w)(tx := ms)\<rparr>)"
| response: "sockets w tx = Some (h, True) \<Longrightarrow> world_step show_fields w (resolve req outcome w)"
| ports: "world_step show_fields w (w\<lparr>reg := set_protected_ports ps (reg w)\<rparr>)"
| docker_device: "world_step show_fields w (w\<lparr>reg := set_docker_device dev (reg w)\<rparr>)"
| flag_host: "world_step show_fields w (w\<lparr>reg := set_control_plane h flag (reg w)\<rparr>)"
| call_begins: "calls w req = None \<Longrightarrow> asked w req = None \<Longrightarrow>
    world_step show_fields w (w\<lparr>calls := (calls w)(req \<mapsto> dispatch_guard (reg w) h oper),
      asked := (asked w)(req \<mapsto> (h, oper, guard_view (reg w) h))\<rparr>)"
| call_looks_up: "calls w req = Some (Guarded h oper) \<Longrightarrow>
    world_step show_fields w (w\<lparr>calls := (calls w)(req \<mapsto> dispatch_lookup show_fields (reg w) h oper)\<rparr>)"
| call_inserts: "calls w req = Some (Looked_Up h oper tx) \<Longrightarrow>
    world_step show_fields w (w\<lparr>reg := insert_pending req h (reg w), calls := (calls w)(req \<mapsto> Sending h oper tx),
      oneshots := (oneshots w)(req \<mapsto> Open)\<rparr>)"
| call_sends: "calls w req = Some (Sending h oper tx) \<Longrightarrow> sockets w tx \<noteq> None \<Longrightarrow>
    length (queue w tx) < CHANNEL_CAPACITY \<Longrightarrow>
    world_step show_fields w (w\<lparr>calls := (calls w)(req \<mapsto> Waiting h oper),
      queue := (queue w)(tx := queue w tx @ [Command req oper]), wire := wire w @ [(tx, Command req oper)]\<rparr>)"
| call_send_fails: "calls w req = Some (Sending h oper tx) \<Longrightarrow> sockets w tx = None \<Longrightarrow>
    world_step show_fields w (w\<lparr>reg := remove_pending req (reg w), oneshots := (oneshots w)(req := None),
      calls := (calls w)(req \<mapsto> Returned (Err ConnectionClosed))\<rparr>)"
| call_receives: "calls w req = Some (Waiting h oper) \<Longrightarrow> oneshots w req = Some (Delivered outcome) \<Longrightarrow>
    world_step show_fields w (w\<lparr>oneshots := (oneshots w)(req := None), calls := (calls w)(req \<mapsto> Returned (Ok outcome))\<rparr>)"
| call_dropped: "calls w req = Some (Waiting h oper) \<Longrightarrow> oneshots w req = Some Dropped \<Longrightarrow>
    world_step show_fields w (w\<lparr>oneshots := (oneshots w)(req := None),
      calls := (calls w)(req \<mapsto> Returned (Err ConnectionClosed))\<rparr>)"
| call_times_out: "calls w req = Some (Waiting h oper) \<Longrightarrow>
    world_step show_fields w (w\<lparr>reg := remove_pending req (reg w), oneshots := (oneshots w)(req := None),
      calls := (calls w)(req \<mapsto> Returned (Err Timeout))\<rparr>)"
| sending_abandoned: "calls w req = Some (Sending h oper tx) \<Longrightarrow>
    world_step show_fields w (w\<lparr>oneshots := (oneshots w)(req := None), calls := (calls w)(req := None)\<rparr>)"
| waiting_abandoned: "calls w req = Some (Waiting h oper) \<Longrightarrow>
    world_step show_fields w (w\<lparr>oneshots := (oneshots w)(req := None), calls := (calls w)(req := None)\<rparr>)"

definition reachable :: "((string \<times> debug_value) list \<Rightarrow> string) \<Rightarrow> world \<Rightarrow> bool" where
  "reachable show_fields w \<longleftrightarrow> (world_step show_fields)\<^sup>*\<^sup>* start_world w"

section \<open>Invariants of every interleaving\<close>

lemmas registry_defs = register_def unregister_def set_control_plane_def set_protected_ports_def
  set_docker_device_def insert_pending_def remove_pending_def socket_connect_def Let_def

text \<open>A request is in \<^verbatim>\<open>pending\<close> while its call is between insertion and return and its outcome is still to come.
  An entry without a call is left over from one that was abandoned.\<close>

definition awaits :: "world \<Rightarrow> uuid \<Rightarrow> uuid \<Rightarrow> bool" where
  "awaits w req h \<longleftrightarrow> oneshots w req = Some Open
     \<and> (\<exists>oper. calls w req = Some (Waiting h oper) \<or> (\<exists>tx. calls w req = Some (Sending h oper tx)))"

definition left_over :: "world \<Rightarrow> uuid \<Rightarrow> uuid \<Rightarrow> bool" where
  "left_over w req h \<longleftrightarrow> calls w req = None \<and> oneshots w req = None \<and> (\<exists>oper view. asked w req = Some (h, oper, view))"

definition pending_inv :: "world \<Rightarrow> bool" where
  "pending_inv w \<longleftrightarrow> (\<forall>req h. awaits w req h \<longrightarrow> pending (reg w) req = Some h)
     \<and> (\<forall>req h. pending (reg w) req = Some h \<longrightarrow> awaits w req h \<or> left_over w req h)"

lemma dispatch_guard_stage: "dispatch_guard r h oper \<noteq> Waiting h' oper'" "dispatch_guard r h oper \<noteq> Sending h' oper' tx"
  "dispatch_guard r h oper \<noteq> Looked_Up h' oper' tx"
  by (auto simp: dispatch_guard_def split: sum.splits)

lemma dispatch_lookup_stage: "dispatch_lookup sf r h oper \<noteq> Waiting h' oper'"
  "dispatch_lookup sf r h oper \<noteq> Sending h' oper' tx" "dispatch_lookup sf r h oper \<noteq> Guarded h' oper'"
  by (auto simp: dispatch_lookup_def Let_def split: option.splits)

lemmas stages = dispatch_guard_stage dispatch_lookup_stage

text \<open>What is known of a call past the guard, and of one that has looked its connection up.\<close>

definition cleared :: "protection option \<Rightarrow> agent_operation \<Rightarrow> bool" where
  "cleared view oper \<longleftrightarrow> (case view of None \<Rightarrow> True | Some p \<Rightarrow> is_ok (check oper p))"

definition admitted :: "world \<Rightarrow> uuid \<Rightarrow> uuid \<Rightarrow> agent_operation \<Rightarrow> bool" where
  "admitted w req h oper \<longleftrightarrow> (\<exists>view. asked w req = Some (h, oper, view) \<and> cleared view oper)"

definition reaches :: "world \<Rightarrow> nat \<Rightarrow> uuid \<Rightarrow> agent_operation \<Rightarrow> bool" where
  "reaches w tx h oper \<longleftrightarrow> (\<exists>pv. peer w tx = Some (h, pv) \<and> min_protocol oper \<le> has_version pv)"

fun stage_ok :: "world \<Rightarrow> uuid \<Rightarrow> call \<Rightarrow> bool" where
  "stage_ok w req (Guarded h oper) = admitted w req h oper"
| "stage_ok w req (Looked_Up h oper tx) = (admitted w req h oper \<and> reaches w tx h oper)"
| "stage_ok w req (Sending h oper tx) = (admitted w req h oper \<and> reaches w tx h oper)"
| "stage_ok w req (Waiting h oper) = admitted w req h oper"
| "stage_ok w req (Returned res) = True"

definition sent_ok :: "world \<Rightarrow> nat \<times> server_message \<Rightarrow> bool" where
  "sent_ok w m \<longleftrightarrow> (case m of (tx, Command req oper) \<Rightarrow> \<exists>h. admitted w req h oper \<and> reaches w tx h oper
     | (tx, Server_Ping) \<Rightarrow> False)"

definition sending_inv :: "world \<Rightarrow> bool" where
  "sending_inv w \<longleftrightarrow> (\<forall>h c. connections (reg w) h = Some c \<longrightarrow> peer w (sender c) = Some (h, protocol_version c))
     \<and> (\<forall>req c. calls w req = Some c \<longrightarrow> stage_ok w req c) \<and> list_all (sent_ok w) (wire w)"

text \<open>Both ghost fields only grow, so what held of a call keeps holding.\<close>

definition grows :: "world \<Rightarrow> world \<Rightarrow> bool" where
  "grows w w' \<longleftrightarrow> asked w \<subseteq>\<^sub>m asked w' \<and> peer w \<subseteq>\<^sub>m peer w'"

lemma admitted_grows: "grows w w' \<Longrightarrow> admitted w req h oper \<Longrightarrow> admitted w' req h oper"
  by (fastforce simp: grows_def admitted_def map_le_def dom_def)

lemma reaches_grows: "grows w w' \<Longrightarrow> reaches w tx h oper \<Longrightarrow> reaches w' tx h oper"
  by (fastforce simp: grows_def reaches_def map_le_def dom_def)

lemma stage_ok_grows: "grows w w' \<Longrightarrow> stage_ok w req c \<Longrightarrow> stage_ok w' req c"
  by (cases c) (auto intro: admitted_grows reaches_grows)

lemma sent_ok_grows: "grows w w' \<Longrightarrow> sent_ok w m \<Longrightarrow> sent_ok w' m"
  by (cases m) (auto simp: sent_ok_def intro: admitted_grows reaches_grows split: server_message.splits)

lemma step_grows: "world_step show_fields w w' \<Longrightarrow> grows w w'"
  by (cases rule: world_step.cases)
    (auto simp: grows_def map_le_def do_unregister_def resolve_def split: option.splits)

lemma guard_stage_ok:
  "asked w req = Some (h, oper, guard_view r h) \<Longrightarrow> stage_ok w req (dispatch_guard r h oper)"
  by (auto simp: dispatch_guard_def guard_def guard_view_def admitted_def cleared_def split: sum.splits)

lemma lookup_stage_ok:
  assumes "admitted w req h oper" and "\<forall>h c. connections r h = Some c \<longrightarrow> peer w (sender c) = Some (h, protocol_version c)"
  shows "stage_ok w req (dispatch_lookup show_fields r h oper)"
  using assms by (auto simp: dispatch_lookup_def Let_def reaches_def not_less split: option.splits)

lemma sending_inv_step:
  assumes "world_step show_fields w w'" and "sending_inv w"
  shows "sending_inv w'"
proof -
  note g = step_grows [OF assms(1)]
  have conns: "\<forall>h c. connections (reg w) h = Some c \<longrightarrow> peer w (sender c) = Some (h, protocol_version c)"
    and stages: "\<And>req c. calls w req = Some c \<Longrightarrow> stage_ok w' req c"
    and sent: "list_all (sent_ok w') (wire w)"
    using assms(2) stage_ok_grows [OF g] sent_ok_grows [OF g] by (auto simp: sending_inv_def list_all_iff)
  have conns': "\<forall>h c. connections (reg w) h = Some c \<longrightarrow> peer w' (sender c) = Some (h, protocol_version c)"
    using conns g by (fastforce simp: grows_def map_le_def dom_def)
  from assms(1) have c1: "\<forall>h c. connections (reg w') h = Some c \<longrightarrow> peer w' (sender c) = Some (h, protocol_version c)"
    by (cases rule: world_step.cases)
      (use conns' in \<open>auto simp: registry_defs do_unregister_def resolve_def split: option.splits if_splits\<close>)
  from assms(1) have c2: "stage_ok w' req c" if "calls w' req = Some c" for req c
  proof (cases rule: world_step.cases)
    case (call_begins req' h oper)
    then show ?thesis using that stages guard_stage_ok [of w' req' h oper "reg w"]
      by (auto split: if_splits)
  next
    case (call_looks_up req' h oper)
    have "stage_ok w' req' (dispatch_lookup show_fields (reg w) h oper)"
      using stages [OF call_looks_up(2)] conns' by (intro lookup_stage_ok) auto
    with call_looks_up that stages show ?thesis by (auto split: if_splits)
  next
    case (call_inserts req' h oper tx)
    with stages [OF call_inserts(2)] that stages show ?thesis by (auto split: if_splits)
  next
    case (call_sends req' h oper tx)
    with stages [OF call_sends(2)] that stages show ?thesis by (auto split: if_splits)
  qed (use that stages in \<open>auto simp: do_unregister_def resolve_def split: if_splits option.splits\<close>)
  from assms(1) have c3: "list_all (sent_ok w') (wire w')"
  proof (cases rule: world_step.cases)
    case (call_sends req' h oper tx)
    have "sent_ok w' (tx, Command req' oper)"
      using stages [OF call_sends(2)] by (auto simp: sent_ok_def)
    with call_sends(1) sent show ?thesis by simp
  qed (use sent in \<open>auto simp: do_unregister_def resolve_def split: option.splits\<close>)
  show ?thesis using c1 c2 c3 by (simp add: sending_inv_def)
qed

lemma sending_inv_start: "sending_inv start_world"
  by (simp add: sending_inv_def start_world_def new_registry_def)

text \<open>What is asked is kept, so an abandoned call still names its host.\<close>

lemma stage_asked:
  assumes "sending_inv w" and "calls w req = Some (Waiting h oper) \<or> (\<exists>tx. calls w req = Some (Sending h oper tx))"
  shows "\<exists>oper view. asked w req = Some (h, oper, view)"
  using assms by (fastforce simp: sending_inv_def admitted_def)

lemma pending_by_stage:
  assumes "pending_inv w"
  shows "calls w q = Some (Guarded h oper) \<Longrightarrow> pending (reg w) q = None"
    "calls w q = Some (Looked_Up h oper tx) \<Longrightarrow> pending (reg w) q = None"
    "calls w q = Some (Sending h oper tx) \<Longrightarrow> pending (reg w) q = (if oneshots w q = Some Open then Some h else None)"
    "calls w q = Some (Waiting h oper) \<Longrightarrow> pending (reg w) q = (if oneshots w q = Some Open then Some h else None)"
    "calls w q = None \<Longrightarrow> asked w q = None \<Longrightarrow> pending (reg w) q = None"
  using assms by (cases "pending (reg w) q"; fastforce simp: pending_inv_def awaits_def left_over_def)+

lemma abandoned_pending_inv:
  assumes "pending_inv w" and "sending_inv w" and "calls w req = Some (Waiting h oper) \<or> (\<exists>tx. calls w req = Some (Sending h oper tx))"
  shows "pending_inv (w\<lparr>oneshots := (oneshots w)(req := None), calls := (calls w)(req := None)\<rparr>)"
proof -
  have "k = h" if "pending (reg w) req = Some k" for k
    using assms(1,3) that by (fastforce simp: pending_inv_def awaits_def left_over_def)
  with assms(1) stage_asked [OF assms(2,3)] show ?thesis by (auto simp: pending_inv_def awaits_def left_over_def)
qed

lemma pending_inv_step:
  assumes "world_step show_fields w w'" and "pending_inv w" and "sending_inv w"
  shows "pending_inv w'"
  using assms(1)
proof (cases rule: world_step.cases)
  case (leave_loop tx h)
  have "awaits w' req k \<longleftrightarrow> awaits w req k \<and> pending (reg w) req \<noteq> Some h" "left_over w' req k \<longleftrightarrow> left_over w req k"
    "pending (reg w') req = (if pending (reg w) req = Some h then None else pending (reg w) req)" for req k
    by (auto simp: leave_loop awaits_def left_over_def do_unregister_def drop_oneshots_def registry_defs)
  with assms(2) show ?thesis by (auto simp: pending_inv_def)
next
  case (response tx h req outcome)
  show ?thesis
  proof (cases "pending (reg w) req")
    case (Some k)
    have "awaits w' req' k' \<longleftrightarrow> awaits w req' k' \<and> req' \<noteq> req" "left_over w' req' k' \<longleftrightarrow> left_over w req' k'"
      "pending (reg w') req' = (if req' = req then None else pending (reg w) req')" for req' k'
      using Some by (auto simp: response awaits_def left_over_def resolve_def registry_defs)
    with assms(2) show ?thesis by (auto simp: pending_inv_def)
  qed (use assms(2) in \<open>simp add: response resolve_def\<close>)
next
  case (sending_abandoned req h oper tx)
  with abandoned_pending_inv [OF assms(2,3), of req h oper] show ?thesis by auto
next
  case (waiting_abandoned req h oper)
  with abandoned_pending_inv [OF assms(2,3), of req h oper] show ?thesis by auto
qed (use assms(2) pending_by_stage [OF assms(2)] in \<open>auto simp: pending_inv_def awaits_def left_over_def registry_defs stages\<close>)

lemma pending_inv_start: "pending_inv start_world"
  by (simp add: pending_inv_def awaits_def start_world_def new_registry_def)

lemma reachable_induct [consumes 1, case_names start step]:
  assumes "reachable show_fields w" and "P start_world"
    and "\<And>w w'. reachable show_fields w \<Longrightarrow> P w \<Longrightarrow> world_step show_fields w w' \<Longrightarrow> P w'"
  shows "P w"
  using assms(1) unfolding reachable_def
  by (induction rule: rtranclp_induct) (use assms(2,3) reachable_def in auto)

lemma reachable_sending: "reachable show_fields w \<Longrightarrow> sending_inv w"
  by (induction rule: reachable_induct) (auto intro: sending_inv_start sending_inv_step)

lemma reachable_pending: "reachable show_fields w \<Longrightarrow> pending_inv w"
  by (induction rule: reachable_induct) (auto intro: pending_inv_start pending_inv_step reachable_sending)

text \<open>C4: whatever the interleaving of calls, sockets, responses and changes of flags, a command goes out
  only on a connection of the host it was asked for, whose agent reported a protocol that carries the
  operation out; and if that host was flagged as the control plane's own when the call began, the guard
  let the operation through with what was known then.\<close>

theorem commands_go_only_where_permitted:
  assumes "reachable show_fields w" and "(tx, Command req oper) \<in> set (wire w)"
  shows "\<exists>h pv view. asked w req = Some (h, oper, view) \<and> peer w tx = Some (h, pv)
    \<and> min_protocol oper \<le> has_version pv \<and> (\<forall>p. view = Some p \<longrightarrow> is_ok (check oper p))"
  using reachable_sending [OF assms(1)] assms(2)
  by (fastforce simp: sending_inv_def sent_ok_def admitted_def reaches_def cleared_def list_all_iff)

text \<open>C11: in every reachable state the request of a call is pending exactly while the call has sent or is sending the
  command and no response, disconnection or time-out has ended it, so every caller still waiting can be reached by a
  response and by a disconnection, and no entry outlives a call that returned. An entry without a call belongs to one
  that was asked of that host and abandoned by its caller.\<close>

theorem pending_is_calls_in_flight:
  assumes "reachable show_fields w"
  shows "(pending (reg w) req = Some h \<and> calls w req \<noteq> None \<longleftrightarrow> oneshots w req = Some Open
      \<and> (\<exists>oper. calls w req = Some (Waiting h oper) \<or> (\<exists>tx. calls w req = Some (Sending h oper tx))))
    \<and> (pending (reg w) req = Some h \<and> calls w req = None \<longrightarrow> (\<exists>oper view. asked w req = Some (h, oper, view)))"
  using reachable_pending [OF assms] by (fastforce simp: pending_inv_def awaits_def left_over_def)

section \<open>How far a call gets\<close>

fun rank :: "call \<Rightarrow> nat" where
  "rank (Guarded _ _) = 4"
| "rank (Looked_Up _ _ _) = 3"
| "rank (Sending _ _ _) = 2"
| "rank (Waiting _ _) = 1"
| "rank (Returned _) = 0"

text \<open>A call waits for room in the channel of a socket that runs; the time limit covers only the wait for the outcome.\<close>

definition blocked :: "world \<Rightarrow> uuid \<Rightarrow> bool" where
  "blocked w req \<longleftrightarrow> (\<exists>h oper tx. calls w req = Some (Sending h oper tx) \<and> sockets w tx \<noteq> None
     \<and> CHANNEL_CAPACITY \<le> length (queue w tx))"

lemma rank_lookup: "rank (dispatch_lookup sf r h oper) < 4"
  by (auto simp: dispatch_lookup_def Let_def split: option.splits)

lemma step_rank:
  assumes "world_step show_fields w w'" and "calls w req = Some c"
  shows "calls w' req = None \<and> (rank c = 1 \<or> rank c = 2) \<or> (\<exists>c'. calls w' req = Some c' \<and> (c' = c \<or> rank c' < rank c))"
  using assms(1)
proof (cases rule: world_step.cases)
  case (call_looks_up req' h oper)
  with assms(2) rank_lookup [of show_fields "reg w" h oper] show ?thesis by (cases "req' = req") auto
qed (use assms(2) in \<open>auto simp: do_unregister_def resolve_def split: option.splits\<close>)

lemma call_can_move:
  assumes "calls w req = Some c" and "0 < rank c" and "\<not> blocked w req"
  shows "\<exists>w' c'. world_step show_fields w w' \<and> calls w' req = Some c' \<and> rank c' < rank c"
proof (cases c)
  case (Guarded h oper)
  with assms(1) world_step.call_looks_up [of w req h oper show_fields] rank_lookup [of show_fields "reg w" h oper]
  show ?thesis by fastforce
next
  case (Looked_Up h oper tx)
  with assms(1) world_step.call_inserts [of w req h oper tx show_fields] show ?thesis by fastforce
next
  case (Sending h oper tx)
  with assms(1,3) have "sockets w tx \<noteq> None \<Longrightarrow> length (queue w tx) < CHANNEL_CAPACITY" by (auto simp: blocked_def)
  with Sending assms(1) world_step.call_sends [of w req h oper tx show_fields]
    world_step.call_send_fails [of w req h oper tx show_fields]
  show ?thesis by (cases "sockets w tx = None") fastforce+
next
  case (Waiting h oper)
  with assms(1) world_step.call_times_out [of w req h oper show_fields] show ?thesis by fastforce
qed (use assms(2) in simp)

lemma blocked_call_stays:
  assumes "blocked w req" and "world_step show_fields w w'"
  shows "calls w' req = calls w req \<or> calls w' req = None"
  using assms(2)
  by (cases rule: world_step.cases)
    (use assms(1) in \<open>auto simp: blocked_def do_unregister_def resolve_def split: option.splits\<close>)

text \<open>C16: every step of the system leaves a call of \<^verbatim>\<open>dispatch\<close> as it is, brings it closer to its return, which is at
  most four steps away, or ends it because its caller has gone while it waits. It can make a step of its own unless
  it is sending and the sixteen places of a running socket's channel are taken; then nothing but the socket makes room,
  and neither the time limit nor anything else returns the call.\<close>

theorem dispatch_moves_unless_channel_full:
  assumes "calls w req = Some c"
  shows "rank c \<le> 4
    \<and> (rank c = 0 \<or> blocked w req \<noteq> (\<exists>w' c'. world_step show_fields w w' \<and> calls w' req = Some c' \<and> rank c' < rank c))
    \<and> (\<forall>w'. world_step show_fields w w' \<longrightarrow> calls w' req = None \<and> (rank c = 1 \<or> rank c = 2)
          \<or> (\<exists>c'. calls w' req = Some c' \<and> (c' = c \<or> rank c' < rank c)))"
proof -
  have "rank c \<le> 4" by (cases c) auto
  moreover have "\<not> (\<exists>w' c'. world_step show_fields w w' \<and> calls w' req = Some c' \<and> rank c' < rank c)" if "blocked w req"
    using blocked_call_stays [OF that] assms by fastforce
  ultimately show ?thesis using call_can_move [OF assms] step_rank [OF _ assms] by blast
qed

section \<open>Scenarios\<close>

lemma reachable_start: "reachable show_fields start_world"
  by (simp add: reachable_def)

lemma reachable_step: "reachable show_fields w \<Longrightarrow> world_step show_fields w w' \<Longrightarrow> reachable show_fields w'"
  unfolding reachable_def by (rule rtranclp.rtrancl_into_rtrancl)

text \<open>A call past the guard, to a connected host whose agent is new enough, gets its command sent.\<close>

lemma guarded_call_is_sent:
  assumes r: "reachable show_fields w" and call: "calls w req = Some (Guarded h oper)"
    and conn: "connections (reg w) h = Some c" and v: "min_protocol oper \<le> has_version (protocol_version c)"
    and sock: "sockets w (sender c) \<noteq> None" and room: "length (queue w (sender c)) < CHANNEL_CAPACITY"
  shows "\<exists>w'. reachable show_fields w' \<and> (sender c, Command req oper) \<in> set (wire w')
    \<and> reg w' = insert_pending req h (reg w) \<and> calls w' req = Some (Waiting h oper)
    \<and> oneshots w' req = Some Open \<and> sockets w' = sockets w \<and> asked w' = asked w \<and> peer w' = peer w
    \<and> queue w' = (queue w)(sender c := queue w (sender c) @ [Command req oper]) \<and> (\<forall>k. k \<noteq> req \<longrightarrow> calls w' k = calls w k)"
proof -
  define w1 where "w1 = w\<lparr>calls := (calls w)(req \<mapsto> Looked_Up h oper (sender c))\<rparr>"
  define w2 where "w2 = w1\<lparr>reg := insert_pending req h (reg w1), calls := (calls w1)(req \<mapsto> Sending h oper (sender c)),
      oneshots := (oneshots w1)(req \<mapsto> Open)\<rparr>"
  define w3 where "w3 = w2\<lparr>calls := (calls w2)(req \<mapsto> Waiting h oper),
      queue := (queue w2)(sender c := queue w2 (sender c) @ [Command req oper]), wire := wire w2 @ [(sender c, Command req oper)]\<rparr>"
  have "dispatch_lookup show_fields (reg w) h oper = Looked_Up h oper (sender c)"
    using conn v by (simp add: dispatch_lookup_def Let_def not_less [symmetric])
  with world_step.call_looks_up [OF call, of show_fields] have s1: "world_step show_fields w w1" by (simp add: w1_def)
  have s2: "world_step show_fields w1 w2" unfolding w2_def by (rule world_step.call_inserts) (simp add: w1_def)
  have s3: "world_step show_fields w2 w3" unfolding w3_def
    by (rule world_step.call_sends [where h = h]) (use sock room in \<open>simp_all add: w2_def w1_def\<close>)
  have "reachable show_fields w3" using reachable_step s1 s2 s3 r by blast
  then show ?thesis by (rule exI [where x = w3, OF conjI]) (simp add: w3_def w2_def w1_def)
qed

text \<open>The states the scenarios start from: a socket connects, a call begins.\<close>

definition connected_world :: "uuid \<Rightarrow> bool \<Rightarrow> nat \<Rightarrow> world \<Rightarrow> world" where
  "connected_world h is_cp tx w = w\<lparr>reg := socket_connect h is_cp tx (Some 47) (reg w),
     sockets := (sockets w)(tx \<mapsto> (h, True)), peer := (peer w)(tx \<mapsto> (h, Some 47))\<rparr>"

definition called_world :: "uuid \<Rightarrow> uuid \<Rightarrow> agent_operation \<Rightarrow> world \<Rightarrow> world" where
  "called_world req h oper w = w\<lparr>calls := (calls w)(req \<mapsto> dispatch_guard (reg w) h oper),
     asked := (asked w)(req \<mapsto> (h, oper, guard_view (reg w) h))\<rparr>"

lemma reachable_connected:
  "reachable show_fields w \<Longrightarrow> sockets w tx = None \<Longrightarrow> peer w tx = None \<Longrightarrow>
   reachable show_fields (connected_world h is_cp tx w)"
  unfolding connected_world_def using reachable_step world_step.connect by blast

lemma reachable_called:
  "reachable show_fields w \<Longrightarrow> calls w req = None \<Longrightarrow> asked w req = None \<Longrightarrow>
   reachable show_fields (called_world req h oper w)"
  unfolding called_world_def using reachable_step world_step.call_begins by blast

lemmas scenario_defs = connected_world_def called_world_def start_world_def new_registry_def registry_defs
  dispatch_guard_def guard_def is_control_plane_def guard_view_def has_version_def
  CHANNEL_CAPACITY_def

lemma ping_is_sent:
  "\<exists>w. reachable show_fields w \<and> (7, Command 5 (SystemOp Ping)) \<in> set (wire w)
     \<and> asked w 5 = Some (1, SystemOp Ping, None) \<and> calls w 5 = Some (Waiting 1 (SystemOp Ping))
     \<and> pending (reg w) 5 = Some 1"
proof -
  let ?w = "called_world 5 1 (SystemOp Ping) (connected_world 1 False 7 start_world)"
  have "reachable show_fields ?w"
    by (intro reachable_called reachable_connected reachable_start) (simp_all add: scenario_defs)
  from guarded_call_is_sent [OF this, where req = 5 and h = 1 and oper = "SystemOp Ping"
      and c = "\<lparr>sender = 7, protocol_version = Some 47, epoch = 1\<rparr>"] show ?thesis
    by (auto simp: scenario_defs system_op_min_protocol_def)
qed

theorem commands_go_only_where_permitted_witness:
  "\<exists>w h pv. reachable (\<lambda>_. []) w \<and> (7, Command 5 (SystemOp Ping)) \<in> set (wire w)
     \<and> peer w 7 = Some (h, pv) \<and> min_protocol (SystemOp Ping) \<le> has_version pv"
proof -
  obtain w where w: "reachable (\<lambda>_. []) w" "(7, Command 5 (SystemOp Ping)) \<in> set (wire w)"
    using ping_is_sent [of "\<lambda>_. []"] by blast
  from commands_go_only_where_permitted [OF this] w show ?thesis by blast
qed

theorem pending_is_calls_in_flight_witness:
  "\<exists>w. reachable (\<lambda>_. []) w \<and> calls w 5 = Some (Waiting 1 (SystemOp Ping))
     \<and> (pending (reg w) 5 = Some 1 \<longleftrightarrow> oneshots w 5 = Some Open)"
proof -
  obtain w where w: "reachable (\<lambda>_. []) w" "calls w 5 = Some (Waiting 1 (SystemOp Ping))"
    using ping_is_sent [of "\<lambda>_. []"] by blast
  with pending_is_calls_in_flight [OF w(1), of 5 1] show ?thesis by auto
qed

theorem dispatch_moves_unless_channel_full_witness:
  "\<exists>(w :: world) c. calls w 5 = Some c \<and> rank c = 1
     \<and> blocked w 5 \<noteq> (\<exists>w' c'. world_step (\<lambda>_. []) w w' \<and> calls w' 5 = Some c' \<and> rank c' < rank c)"
proof -
  obtain w :: world where w: "calls w 5 = Some (Waiting 1 (SystemOp Ping))"
    using ping_is_sent [of "\<lambda>_. []"] by blast
  from dispatch_moves_unless_channel_full [OF w, of "\<lambda>_. []"] w show ?thesis
    by (intro exI [where x = w] exI [where x = "Waiting 1 (SystemOp Ping)"]) auto
qed

text \<open>A socket that takes nothing: each call fills one more place of its channel.\<close>

definition stalled :: "((string \<times> debug_value) list \<Rightarrow> string) \<Rightarrow> nat \<Rightarrow> world \<Rightarrow> bool" where
  "stalled show_fields n w \<longleftrightarrow> reachable show_fields w \<and> connections (reg w) 1 = Some \<lparr>sender = 7, protocol_version = Some 47, epoch = 1\<rparr>
     \<and> sockets w 7 = Some (1, True) \<and> length (queue w 7) = n \<and> (\<forall>k \<ge> n. calls w k = None \<and> asked w k = None)
     \<and> control_plane (reg w) = {}"

lemma next_call_begins:
  assumes "stalled show_fields n w"
  shows "reachable show_fields (called_world n 1 (SystemOp Ping) w)"
    "calls (called_world n 1 (SystemOp Ping) w) n = Some (Guarded 1 (SystemOp Ping))"
proof -
  show "reachable show_fields (called_world n 1 (SystemOp Ping) w)"
    by (rule reachable_called) (use assms in \<open>auto simp: stalled_def\<close>)
  show "calls (called_world n 1 (SystemOp Ping) w) n = Some (Guarded 1 (SystemOp Ping))"
    using assms by (simp add: stalled_def called_world_def dispatch_guard_def guard_def is_control_plane_def)
qed

lemma stalled_more:
  assumes "stalled show_fields n w" and "n < CHANNEL_CAPACITY"
  shows "\<exists>w'. stalled show_fields (Suc n) w'"
proof -
  note c = next_call_begins [OF assms(1)]
  have "min_protocol (SystemOp Ping) \<le> has_version (Some 47)" by (simp add: has_version_def system_op_min_protocol_def)
  from guarded_call_is_sent [OF c, where c = "\<lparr>sender = 7, protocol_version = Some 47, epoch = 1\<rparr>"] assms this
  obtain w' where w': "reachable show_fields w'" "reg w' = insert_pending n 1 (reg (called_world n 1 (SystemOp Ping) w))"
    "sockets w' = sockets w" "asked w' = asked (called_world n 1 (SystemOp Ping) w)"
    "queue w' = (queue w)(7 := queue w 7 @ [Command n (SystemOp Ping)])"
    "\<forall>k. k \<noteq> n \<longrightarrow> calls w' k = calls (called_world n 1 (SystemOp Ping) w) k"
    by (auto simp: stalled_def called_world_def)
  then have "stalled show_fields (Suc n) w'"
    using assms(1) by (auto simp: stalled_def called_world_def insert_pending_def)
  then show ?thesis ..
qed

lemma stalled_full: "n \<le> CHANNEL_CAPACITY \<Longrightarrow> \<exists>w. stalled show_fields n w"
proof (induction n)
  case 0
  have "reachable show_fields (connected_world 1 False 7 start_world)"
    by (intro reachable_connected reachable_start) (simp_all add: scenario_defs)
  then have "stalled show_fields 0 (connected_world 1 False 7 start_world)" by (simp add: stalled_def scenario_defs)
  then show ?case ..
next
  case (Suc n)
  then show ?case using stalled_more [of show_fields n] by auto
qed

text \<open>C29: when a socket takes nothing any more, sixteen commands fill its channel, and the next call of \<^verbatim>\<open>dispatch\<close> waits
  for a place without a time limit: no step of the system returns it.\<close>

theorem stalled_socket_blocks_dispatch:
  "\<exists>w req. reachable show_fields w \<and> calls w req = Some (Sending 1 (SystemOp Ping) 7) \<and> sockets w 7 = Some (1, True)
     \<and> (\<forall>w'. world_step show_fields w w' \<longrightarrow> calls w' req = calls w req \<or> calls w' req = None)"
proof -
  obtain w where w: "stalled show_fields 16 w" using stalled_full [of 16] by (auto simp: CHANNEL_CAPACITY_def)
  define w0 where "w0 = called_world 16 1 (SystemOp Ping) w"
  define w1 where "w1 = w0\<lparr>calls := (calls w0)(16 \<mapsto> Looked_Up 1 (SystemOp Ping) 7)\<rparr>"
  define w2 where "w2 = w1\<lparr>reg := insert_pending 16 1 (reg w1), calls := (calls w1)(16 \<mapsto> Sending 1 (SystemOp Ping) 7),
      oneshots := (oneshots w1)(16 \<mapsto> Open)\<rparr>"
  have r0: "reachable show_fields w0" and c0: "calls w0 16 = Some (Guarded 1 (SystemOp Ping))"
    using next_call_begins [OF w] by (simp_all add: w0_def)
  have "dispatch_lookup show_fields (reg w0) 1 (SystemOp Ping) = Looked_Up 1 (SystemOp Ping) 7"
    using w by (simp add: w0_def stalled_def called_world_def dispatch_lookup_def has_version_def system_op_min_protocol_def)
  with world_step.call_looks_up [OF c0, of show_fields] have s1: "world_step show_fields w0 w1" by (simp add: w1_def)
  have s2: "world_step show_fields w1 w2" unfolding w2_def by (rule world_step.call_inserts) (simp add: w1_def)
  have "blocked w2 16" unfolding blocked_def
    by (rule exI [of _ 1], rule exI [of _ "SystemOp Ping"], rule exI [of _ 7])
      (use w in \<open>simp add: w2_def w1_def w0_def called_world_def stalled_def CHANNEL_CAPACITY_def\<close>)
  with blocked_call_stays [OF this] reachable_step [OF reachable_step [OF r0 s1] s2] w show ?thesis
    by (intro exI [where x = w2] exI [where x = 16]) (auto simp: w2_def w1_def w0_def called_world_def stalled_def)
qed

theorem stalled_socket_blocks_dispatch_witness:
  "\<exists>w req w'. reachable (\<lambda>_. []) w \<and> calls w req = Some (Sending 1 (SystemOp Ping) 7) \<and> world_step (\<lambda>_. []) w w'
     \<and> (calls w' req = Some (Sending 1 (SystemOp Ping) 7) \<or> calls w' req = None)"
proof -
  obtain w req where w: "reachable (\<lambda>_. []) w" "calls w req = Some (Sending 1 (SystemOp Ping) 7)"
    "sockets w 7 = Some (1, True)"
    "\<forall>w'. world_step (\<lambda>_. []) w w' \<longrightarrow> calls w' req = calls w req \<or> calls w' req = None"
    using stalled_socket_blocks_dispatch by blast
  from world_step.leave_loop [OF w(3), of "\<lambda>_. []"] w show ?thesis by metis
qed


text \<open>C19: when an agent connects again while its old socket has not gone yet, the old handler's exit
  removes the new connection too: the new socket is running and the host counts as disconnected.\<close>

theorem reconnect_is_undone_by_old_handler:
  "\<exists>w. reachable show_fields w \<and> sockets w 8 = Some (1, True) \<and> \<not> is_connected (reg w) 1
     \<and> dispatch_lookup show_fields (reg w) 1 oper = Returned (Err NotConnected)"
proof -
  let ?w = "connected_world 1 False 8 (connected_world 1 False 7 start_world)"
  let ?w' = "(do_unregister 1 ?w)\<lparr>sockets := (sockets ?w)(7 \<mapsto> (1, False))\<rparr>"
  have r: "reachable show_fields ?w"
    by (intro reachable_connected reachable_start) (simp_all add: scenario_defs)
  have "world_step show_fields ?w ?w'"
    by (rule world_step.leave_loop) (simp add: scenario_defs)
  from reachable_step [OF r this] show ?thesis
    by (intro exI [where x = ?w']) (simp add: scenario_defs do_unregister_def is_connected_def dispatch_lookup_def)
qed

text \<open>C20: the guard of a call is evaluated before its connection is looked up. A call that began before the
  control plane's own agent was flagged, and looks its connection up after, sends an operation the guard
  refuses: flagging the host before registering it does not keep every command behind the guard.\<close>

theorem guard_can_be_passed_before_the_flag:
  "\<exists>w. reachable show_fields w \<and> (7, Command 5 (ContainmentOp IsolateHost)) \<in> set (wire w)
     \<and> is_err (guard (reg w) 1 (ContainmentOp IsolateHost)) \<and> peer w 7 = Some (1, Some 47)"
proof -
  let ?w = "connected_world 1 True 7 (called_world 5 1 (ContainmentOp IsolateHost) start_world)"
  have "reachable show_fields ?w"
    by (intro reachable_called reachable_connected reachable_start) (simp_all add: scenario_defs)
  from guarded_call_is_sent [OF this, where req = 5 and h = 1 and oper = "ContainmentOp IsolateHost"
      and c = "\<lparr>sender = 7, protocol_version = Some 47, epoch = 1\<rparr>"]
  obtain w where w: "reachable show_fields w" "(7, Command 5 (ContainmentOp IsolateHost)) \<in> set (wire w)"
    "control_plane (reg w) = {1}" "peer w = [7 \<mapsto> (1, Some 47)]"
    by (auto simp: scenario_defs containment_op_min_protocol_def)
  then show ?thesis
    by (intro exI [where x = w]) (simp add: guard_def is_control_plane_def check_def check_containment_def)
qed

section \<open>The registry as a table\<close>

definition register_entry :: "uuid \<Rightarrow> nat \<times> 32 word option \<Rightarrow> registry \<Rightarrow> registry" where
  "register_entry h e r = register h (fst e) (snd e) r"

interpretation conn: keyed_table "connections" register_entry unregister
  "\<lambda>r e. \<lparr>sender = fst e, protocol_version = snd e, epoch = next_epoch r + 1\<rparr>"
  by unfold_locales (auto simp: register_entry_def registry_defs)

text \<open>After any sequence of registrations and removals a host counts as connected exactly when the last
  event about it is a registration.\<close>

lemma connected_iff_last_registered:
  "is_connected (fold (apply_event register_entry unregister) evs new_registry) h \<longleftrightarrow>
     (\<exists>e. last_event h evs = Some (Put h e))"
proof -
  have "last_event h evs = Some (Put k e) \<Longrightarrow> k = h" for k e
    using conn.lookup_events_value by blast
  with conn.lookup_events_defined [of evs new_registry h] show ?thesis
    by (auto simp: is_connected_def new_registry_def split: option.splits table_event.splits)
qed

end
