(* ===== verification/Executor.thy ===== *)
theory Executor
  imports Delegation Host_Registry
begin

text \<open>
  The executor, \<^verbatim>\<open>crates/execution\<close>: the only way an operation runs, on the control plane itself or on
  a host. It checks the permission and the confirmation, runs or dispatches, and writes one audit
  record whatever happens. How an \<^verbatim>\<open>Operation\<close> runs and what \<^verbatim>\<open>dispatch\<close> answers are arguments; what
  the executor relies on in a dispatcher is the locale \<open>dispatcher\<close>, of which the registry is an
  instance.
\<close>

section \<open>Operations and errors\<close>

datatype operation_kind = Read | Write | Destructive

datatype execution_error = Exec_Timeout | Cancelled | ConfirmationRequired | Exec_Forbidden
  | Failed string | Exec_Refused string

fun execution_error_text :: "execution_error \<Rightarrow> string" where
  "execution_error_text Exec_Timeout = ''operation timed out''"
| "execution_error_text Cancelled = ''operation was cancelled''"
| "execution_error_text ConfirmationRequired = ''destructive operations require explicit confirmation''"
| "execution_error_text Exec_Forbidden = ''permission denied''"
| "execution_error_text (Failed message) = ''execution failed: '' @ message"
| "execution_error_text (Exec_Refused reason) = reason"

record operation_params =
  args :: "string \<Rightarrow> string option"
  confirm :: bool

text \<open>What the race between the operation, its time limit and the cancellation token ended with.\<close>

datatype race = Finished "execution_error + operation_output" | Limit_Reached | Token_Cancelled

record operation =
  op_name :: string
  op_kind :: operation_kind
  op_required_permission :: permission
  op_run :: "operation_params \<Rightarrow> race"

section \<open>Audit records\<close>

definition with_source_ip :: "string option \<Rightarrow> audit_event \<Rightarrow> audit_event" where
  "with_source_ip source_ip event = (case source_ip of Some ip \<Rightarrow> event\<lparr>ev_source_ip := Some ip\<rparr> | None \<Rightarrow> event)"

text \<open>A record that cannot be written is reported in the log and otherwise ignored.\<close>

definition audit :: "auth_context \<Rightarrow> string \<Rightarrow> audit_outcome \<Rightarrow> string option \<Rightarrow> string \<Rightarrow> database \<Rightarrow> database" where
  "audit ctx resource outcome source_ip detail db =
     snd (audit_record (with_source_ip source_ip
       ((new_event (PlatformAction SystemCommandExecuted) outcome)
         \<lparr>ev_actor := Some (user_id ctx, username ctx), ev_resource := Some resource,
          ev_metadata := Some (JObject [(''detail'', JString detail)])\<rparr>)) db)"

datatype host_op_kind = Kind_Elevate | Kind_Deescalate | Kind_SecurityScan | Kind_Other

definition host_op_kind_of :: "agent_operation \<Rightarrow> host_op_kind" where
  "host_op_kind_of oper = (case oper of
       SessionOp (Elevate _ _) \<Rightarrow> Kind_Elevate
     | SessionOp Deescalate \<Rightarrow> Kind_Deescalate
     | SecretOp (ScanSecurityEvents _ _ _ _) \<Rightarrow> Kind_SecurityScan
     | _ \<Rightarrow> Kind_Other)"

fun host_op_action :: "host_op_kind \<Rightarrow> audit_outcome \<Rightarrow> audit_action" where
  "host_op_action Kind_Elevate Success = HostAction HostElevated"
| "host_op_action Kind_Elevate Failure = HostAction HostElevationFailed"
| "host_op_action Kind_Deescalate _ = HostAction HostDeescalated"
| "host_op_action Kind_SecurityScan _ = SecurityAction SecurityEventScanRun"
| "host_op_action Kind_Other _ = PlatformAction SystemCommandExecuted"

fun kind_key :: "operation_kind \<Rightarrow> string" where
  "kind_key Read = ''read''"
| "kind_key Write = ''write''"
| "kind_key Destructive = ''destructive''"

definition host_op_event :: "auth_context \<Rightarrow> string \<Rightarrow> host_op_kind \<Rightarrow> string \<Rightarrow> operation_kind \<Rightarrow> bool
    \<Rightarrow> audit_outcome \<Rightarrow> string option \<Rightarrow> string \<Rightarrow> audit_event" where
  "host_op_event ctx resource opk op_label kind elevated outcome source_ip detail =
     with_source_ip source_ip
       ((new_event (host_op_action opk outcome) outcome)
         \<lparr>ev_actor := Some (user_id ctx, username ctx), ev_resource := Some resource,
          ev_metadata := Some (JObject [(''detail'', JString detail), (''elevated'', JBool elevated),
            (''operation'', JString op_label), (''kind'', JString (kind_key kind))])\<rparr>)"

definition audit_host_op :: "auth_context \<Rightarrow> string \<Rightarrow> host_op_kind \<Rightarrow> string \<Rightarrow> operation_kind \<Rightarrow> bool
    \<Rightarrow> audit_outcome \<Rightarrow> string option \<Rightarrow> string \<Rightarrow> database \<Rightarrow> database" where
  "audit_host_op ctx resource opk op_label kind elevated outcome source_ip detail db =
     snd (audit_record (host_op_event ctx resource opk op_label kind elevated outcome source_ip detail) db)"

section \<open>The two entry points\<close>

definition race_result :: "race \<Rightarrow> execution_error + operation_output" where
  "race_result ended = (case ended of Finished res \<Rightarrow> res | Limit_Reached \<Rightarrow> Err Exec_Timeout
     | Token_Cancelled \<Rightarrow> Err Cancelled)"

definition execute :: "auth_context \<Rightarrow> operation \<Rightarrow> operation_params \<Rightarrow> string option \<Rightarrow> database
    \<Rightarrow> (execution_error + operation_output) \<times> database" where
  "execute ctx oper params source_ip db =
     (if \<not> has ctx (op_required_permission oper)
      then (Err Exec_Forbidden, audit ctx (op_name oper) Failure source_ip ''permission denied'' db)
      else if op_kind oper = Destructive \<and> \<not> confirm params
      then (Err ConfirmationRequired, audit ctx (op_name oper) Failure source_ip ''confirmation required'' db)
      else let outcome = race_result (op_run oper params) in
        (outcome, case outcome of
           Inr _ \<Rightarrow> audit ctx (op_name oper) Success source_ip ''ok'' db
         | Inl e \<Rightarrow> audit ctx (op_name oper) Failure source_ip (execution_error_text e) db))"

definition dispatch_outcome :: "dispatch_error + command_outcome \<Rightarrow> execution_error + operation_output" where
  "dispatch_outcome res = (case res of
       Inr (Outcome_Ok output) \<Rightarrow> Ok output
     | Inr (Outcome_Err message) \<Rightarrow> Err (Failed message)
     | Inl NotConnected \<Rightarrow> Err (Failed ''host is not currently connected'')
     | Inl Timeout \<Rightarrow> Err Exec_Timeout
     | Inl ConnectionClosed \<Rightarrow> Err (Failed ''host disconnected before responding'')
     | Inl (Refused reason) \<Rightarrow> Err (Exec_Refused reason)
     | Inl (AgentTooOld operation needed has_pv) \<Rightarrow>
         Err (Exec_Refused (dispatch_error_text (AgentTooOld operation needed has_pv))))"

definition execute_on_host ::
    "(uuid \<Rightarrow> agent_operation \<Rightarrow> 'h \<Rightarrow> (dispatch_error + command_outcome) \<times> 'h)
     \<Rightarrow> auth_context \<Rightarrow> uuid \<Rightarrow> string \<Rightarrow> agent_operation \<Rightarrow> permission \<Rightarrow> operation_kind \<Rightarrow> bool
     \<Rightarrow> string option \<Rightarrow> bool \<Rightarrow> 'h \<Rightarrow> database
     \<Rightarrow> (execution_error + operation_output) \<times> 'h \<times> database" where
  "execute_on_host disp ctx host_id host_label oper required_permission kind confirmed source_ip elevated hosts db =
     (let opk = host_op_kind_of oper;
          op_label = operation_label oper;
          trail = (\<lambda>outcome detail db. audit_host_op ctx host_label opk op_label kind elevated outcome source_ip detail db)
      in
      if \<not> has ctx required_permission then (Err Exec_Forbidden, hosts, trail Failure ''permission denied'' db)
      else if kind = Destructive \<and> \<not> confirmed
      then (Err ConfirmationRequired, hosts, trail Failure ''confirmation required'' db)
      else case disp host_id oper hosts of (res, hosts) \<Rightarrow>
        let outcome = dispatch_outcome res in
        (outcome, hosts, case outcome of Inr _ \<Rightarrow> trail Success ''ok'' db
           | Inl e \<Rightarrow> trail Failure (execution_error_text e) db))"

section \<open>What the executor guarantees\<close>

lemma audit_record_row:
  "ev_actor event = Some (u, name) \<Longrightarrow> snd (audit_record event db) =
     (if u \<in> set (db_users db) \<and> \<not> db_log_fails db (entry_of_event event)
      then db\<lparr>db_audit_log := db_audit_log db @ [entry_of_event event]\<rparr> else db)"
  by (simp add: audit_record_def entry_of_event_def Let_def)

lemma with_source_ip_fields [simp]:
  "ev_actor (with_source_ip ip event) = ev_actor event" "ev_action (with_source_ip ip event) = ev_action event"
  "ev_outcome (with_source_ip ip event) = ev_outcome event" "ev_resource (with_source_ip ip event) = ev_resource event"
  "ev_metadata (with_source_ip ip event) = ev_metadata event"
  by (simp_all add: with_source_ip_def split: option.splits)

definition outcome_of :: "execution_error + operation_output \<Rightarrow> audit_outcome" where
  "outcome_of res = (case res of Inr _ \<Rightarrow> Success | Inl _ \<Rightarrow> Failure)"

text \<open>The row an attempt on a host leaves, for whatever detail.\<close>

definition host_op_entry :: "auth_context \<Rightarrow> string \<Rightarrow> agent_operation \<Rightarrow> operation_kind \<Rightarrow> bool
    \<Rightarrow> string option \<Rightarrow> execution_error + operation_output \<Rightarrow> string \<Rightarrow> audit_entry" where
  "host_op_entry ctx host_label oper kind elevated source_ip res detail =
     entry_of_event (host_op_event ctx host_label (host_op_kind_of oper) (operation_label oper) kind elevated
       (outcome_of res) source_ip detail)"

lemma host_op_entry_fields:
  "en_user_id (host_op_entry ctx l oper kind e ip res d) = Some (user_id ctx)"
  "en_username_snapshot (host_op_entry ctx l oper kind e ip res d) = username ctx"
  "en_resource (host_op_entry ctx l oper kind e ip res d) = Some l"
  "en_result (host_op_entry ctx l oper kind e ip res d) = audit_outcome_key (outcome_of res)"
  by (simp_all add: host_op_entry_def host_op_event_def entry_of_event_def new_event_def Let_def)

definition logged :: "auth_context \<Rightarrow> audit_entry \<Rightarrow> database \<Rightarrow> database" where
  "logged ctx row db = (if user_id ctx \<in> set (db_users db) \<and> \<not> db_log_fails db row
     then db\<lparr>db_audit_log := db_audit_log db @ [row]\<rparr> else db)"

lemma audit_host_op_row:
  "audit_host_op ctx l (host_op_kind_of oper) (operation_label oper) kind e (outcome_of res) ip d db
    = logged ctx (host_op_entry ctx l oper kind e ip res d) db"
  unfolding audit_host_op_def host_op_entry_def logged_def
  by (rule audit_record_row [where name = "username ctx"]) (simp add: host_op_event_def)

text \<open>What an attempt answers, what it does to the hosts and what it writes in the row depend on the database in
  no way.\<close>

lemma execute_on_host_row:
  obtains res hosts' row where
    "\<And>db. execute_on_host disp ctx h l oper perm kind confirmed ip e hosts db = (res, hosts', logged ctx row db)"
    "en_user_id row = Some (user_id ctx)" "en_username_snapshot row = username ctx" "en_resource row = Some l"
    "en_result row = audit_outcome_key (outcome_of res)"
proof -
  let ?run = "execute_on_host disp ctx h l oper perm kind confirmed ip e hosts"
  obtain res hosts' d where
    "\<And>db. ?run db = (res, hosts', audit_host_op ctx l (host_op_kind_of oper) (operation_label oper) kind e (outcome_of res) ip d db)"
  proof -
    obtain res' hosts' where d: "disp h oper hosts = (res', hosts')" by fastforce
    note def = execute_on_host_def outcome_of_def Let_def
    consider "\<not> has ctx perm" | "has ctx perm" "kind = Destructive \<and> \<not> confirmed"
      | "has ctx perm" "\<not> (kind = Destructive \<and> \<not> confirmed)" by blast
    then show ?thesis
    proof cases
      case 1
      then show ?thesis by (intro that [of "Err Exec_Forbidden" hosts "''permission denied''"]) (simp add: def)
    next
      case 2
      then show ?thesis
        by (intro that [of "Err ConfirmationRequired" hosts "''confirmation required''"]) (simp add: def)
    next
      case 3
      then show ?thesis
        by (intro that [of "dispatch_outcome res'" hosts'
            "case dispatch_outcome res' of Inr _ \<Rightarrow> ''ok'' | Inl e \<Rightarrow> execution_error_text e"])
          (cases "dispatch_outcome res'"; auto simp: def d)
    qed
  qed
  then have "?run db = (res, hosts', logged ctx (host_op_entry ctx l oper kind e ip res d) db)" for db
    by (simp add: audit_host_op_row)
  then show ?thesis by (rule that) (simp_all add: host_op_entry_fields)
qed

text \<open>C10: every attempt to run an operation on a host that runs to its end, refused, failed or successful, tries to
  write one row, which names who asked and which host, and whose result says whether the attempt succeeded. The
  row is added when the user still exists and the server takes it, and nothing else in the database changes. A row that
  cannot be written changes nothing at all: neither the answer nor what happens on the hosts depends on the database.\<close>

theorem every_host_operation_is_audited:
  "\<exists>res hosts' row. en_user_id row = Some (user_id ctx) \<and> en_username_snapshot row = username ctx
    \<and> en_resource row = Some l \<and> en_result row = (if is_ok res then ''SUCCESS'' else ''FAILURE'')
    \<and> (\<forall>db. execute_on_host disp ctx h l oper perm kind confirmed ip e hosts db
         = (res, hosts', if user_id ctx \<in> set (db_users db) \<and> \<not> db_log_fails db row
            then db\<lparr>db_audit_log := db_audit_log db @ [row]\<rparr> else db))"
proof (rule execute_on_host_row)
  fix res hosts' row
  assume "\<And>db. execute_on_host disp ctx h l oper perm kind confirmed ip e hosts db = (res, hosts', logged ctx row db)"
    "en_user_id row = Some (user_id ctx)" "en_username_snapshot row = username ctx" "en_resource row = Some l"
    "en_result row = audit_outcome_key (outcome_of res)"
  then show ?thesis
    by (intro exI [where x = res] exI [where x = hosts'] exI [where x = row])
      (simp add: logged_def outcome_of_def split: sum.splits)
qed

section \<open>What is sent to a host\<close>

text \<open>The contract of a dispatcher: a call sends its operation at most once and nothing else, and one that
  is turned away (not connected, too old, refused) sends nothing and changes nothing.\<close>

fun turned_away :: "dispatch_error \<Rightarrow> bool" where
  "turned_away NotConnected = True"
| "turned_away (Refused _) = True"
| "turned_away (AgentTooOld _ _ _) = True"
| "turned_away _ = False"

locale dispatcher =
  fixes disp :: "uuid \<Rightarrow> agent_operation \<Rightarrow> 'h \<Rightarrow> (dispatch_error + command_outcome) \<times> 'h"
    and sent :: "'h \<Rightarrow> agent_operation list"
    and allowed :: "uuid \<Rightarrow> agent_operation \<Rightarrow> 'h \<Rightarrow> bool"
  assumes sends_once: "disp h oper s = (res, s') \<Longrightarrow> sent s' = sent s \<or> (sent s' = sent s @ [oper] \<and> allowed h oper s)"
    and turned_away_unchanged: "disp h oper s = (Err e, s') \<Longrightarrow> turned_away e \<Longrightarrow> s' = s"
begin

lemma sent_only_authorized:
  assumes "execute_on_host disp ctx h l oper perm kind confirmed ip e s db = (res, s', db')"
    and "sent s' \<noteq> sent s"
  shows "has ctx perm \<and> (kind = Destructive \<longrightarrow> confirmed) \<and> allowed h oper s \<and> sent s' = sent s @ [oper]"
  using assms sends_once [of h oper s]
  by (auto simp: execute_on_host_def Let_def split: if_splits prod.splits)

lemma refused_unchanged:
  assumes "execute_on_host disp ctx h l oper perm kind confirmed ip e s db = (Err err, s', db')"
    and "err \<in> {Exec_Forbidden, ConfirmationRequired} \<or> (\<exists>reason. err = Exec_Refused reason)"
  shows "s' = s"
proof -
  obtain r' s1 where d: "disp h oper s = (r', s1)" by fastforce
  have "s1 = s" if "dispatch_outcome r' = Err err"
  proof -
    from that assms(2) obtain de where "r' = Err de" "turned_away de"
      by (auto simp: dispatch_outcome_def split: sum.splits dispatch_error.splits command_outcome.splits)
    with d turned_away_unchanged show ?thesis by blast
  qed
  with assms(1) d show ?thesis by (auto simp: execute_on_host_def Let_def split: if_splits)
qed

end

definition commands :: "registry \<times> (nat \<times> server_message) list \<Rightarrow> agent_operation list" where
  "commands st = List.map_filter (\<lambda>m. case m of (_, Command _ oper) \<Rightarrow> Some oper | _ \<Rightarrow> None) (snd st)"

definition dispatch_allowed :: "uuid \<Rightarrow> agent_operation \<Rightarrow> registry \<times> (nat \<times> server_message) list \<Rightarrow> bool" where
  "dispatch_allowed h oper st \<longleftrightarrow> is_ok (guard (fst st) h oper)
     \<and> (\<exists>c. connections (fst st) h = Some c \<and> min_protocol oper \<le> has_version (protocol_version c))"

lemma dispatch_cases:
  assumes "dispatch sf req reply h oper (r, out) = (res, st')"
  obtains (refused) reason where "guard r h oper = Err reason" "res = Err (Refused reason)" "st' = (r, out)"
  | (offline) "guard r h oper = Ok ()" "connections r h = None" "res = Err NotConnected" "st' = (r, out)"
  | (too_old) c where "guard r h oper = Ok ()" "connections r h = Some c" "st' = (r, out)"
      "res = Err (AgentTooOld (operation_name sf oper) (min_protocol oper) (protocol_version c))"
  | (closed) r' where "res = Err ConnectionClosed" "st' = (r', out)"
  | (sent) c r' where "dispatch_allowed h oper (r, out)" "connections r h = Some c"
      "st' = (r', out @ [(sender c, Command req oper)])" "\<And>e. res = Err e \<Longrightarrow> \<not> turned_away e"
  using assms
  by (cases "guard r h oper"; cases "connections r h"; cases reply)
    (auto simp: dispatch_def dispatch_guard_def dispatch_lookup_def dispatch_allowed_def Let_def not_less
      split: if_splits)

interpretation hosts: dispatcher "dispatch sf req reply" commands dispatch_allowed
proof unfold_locales
  fix h oper s res s'
  assume d: "dispatch sf req reply h oper s = (res, s')"
  obtain r out where s: "s = (r, out)" by (cases s)
  from d show "commands s' = commands s \<or> (commands s' = commands s @ [oper] \<and> dispatch_allowed h oper s)"
    unfolding s by (cases rule: dispatch_cases) (auto simp: commands_def map_filter_def)
next
  fix h oper s e s'
  assume d: "dispatch sf req reply h oper s = (Err e, s')" and t: "turned_away e"
  obtain r out where s: "s = (r, out)" by (cases s)
  from d t show "s' = s" unfolding s by (cases rule: dispatch_cases) auto
qed

text \<open>C3: nothing is sent to a host on behalf of a user without the required permission, nor for a
  destructive operation without confirmation, nor past the guard of the control plane's own server, nor
  to an agent too old for it; and what is sent is that one operation.\<close>

theorem host_operations_are_authorized:
  assumes "execute_on_host (dispatch sf req reply) ctx h l oper perm kind confirmed ip e (r, out) db
      = (res, (r', out'), db')"
    and "commands (r', out') \<noteq> commands (r, out)"
  shows "has ctx perm \<and> (kind = Destructive \<longrightarrow> confirmed) \<and> is_ok (guard r h oper)
    \<and> (\<exists>c. connections r h = Some c \<and> min_protocol oper \<le> has_version (protocol_version c))
    \<and> commands (r', out') = commands (r, out) @ [oper]"
  using hosts.sent_only_authorized [OF assms] by (simp add: dispatch_allowed_def)

text \<open>C28: an attempt that is refused (no permission, no confirmation, the guard, an agent too old) leaves
  the registry and everything sent as they were.\<close>

theorem refused_operations_send_nothing:
  assumes "execute_on_host (dispatch sf req reply) ctx h l oper perm kind confirmed ip e st db = (Err err, st', db')"
    and "err \<in> {Exec_Forbidden, ConfirmationRequired} \<or> (\<exists>reason. err = Exec_Refused reason)"
  shows "st' = st"
  using assms by (rule hosts.refused_unchanged)

lemma kind_with_secrets: "host_op_kind_of (with_secrets g oper) = host_op_kind_of oper"
proof (cases oper)
  case (SessionOp x)
  then show ?thesis by (cases x) (simp_all add: host_op_kind_of_def)
qed (simp_all add: host_op_kind_of_def)

lemma min_protocol_with_secrets: "min_protocol (with_secrets g oper) = min_protocol oper"
proof (cases oper)
  case (SessionOp x)
  then show ?thesis by (cases x) (simp_all add: session_op_min_protocol_def)
next
  case (DirectoryOp x)
  then show ?thesis by (cases x) (simp_all add: directory_op_min_protocol_def)
next
  case (ExchangeOp x)
  then show ?thesis by (cases x) (simp_all add: exchange_op_min_protocol_def)
next
  case (SepulchreOp x)
  then show ?thesis by (cases x) (simp_all add: sepulchre_op_min_protocol_def)
qed simp_all

lemma check_with_secrets: "check (with_secrets g oper) p = check oper p"
proof (cases oper)
  case (SessionOp x)
  then show ?thesis by (cases x) (simp_all add: check_def check_session_def)
next
  case (SepulchreOp x)
  then show ?thesis by (cases x) (simp_all add: check_def check_sepulchre_def)
qed (simp_all add: check_def)

text \<open>Messages with the secrets of their operations replaced.\<close>

fun message_with_secrets :: "(string \<Rightarrow> string) \<Rightarrow> server_message \<Rightarrow> server_message" where
  "message_with_secrets g (Command req oper) = Command req (with_secrets g oper)"
| "message_with_secrets g m = m"

lemma dispatch_with_secrets:
  assumes "dispatch sf req reply h oper (r, out) = (res, (r', out'))"
  shows "\<exists>sent. out' = out @ sent \<and> dispatch sf req reply h (with_secrets g oper) (r, out)
    = (res, (r', out @ map (apsnd (message_with_secrets g)) sent))"
  using assms
  by (cases "guard r h oper"; cases "connections r h"; cases reply)
    (auto simp: dispatch_def dispatch_guard_def guard_def check_with_secrets dispatch_lookup_def min_protocol_with_secrets
      operation_name_is_name debug_parts_with_secrets Let_def split: if_splits)

text \<open>C27: the audit trail and the answer reveal no password. An attempt with other secrets in the operation, on the same
  connections and with the same reply of the agent, gives the caller the same result and leaves the same registry and
  the same database; the only difference is in the command sent to the host.\<close>

theorem audit_trail_reveals_no_secret:
  assumes "execute_on_host (dispatch sf req reply) ctx h l oper perm kind confirmed ip e (r, out) db
    = (res, (r', out'), db')"
  shows "\<exists>sent. out' = out @ sent
    \<and> execute_on_host (dispatch sf req reply) ctx h l (with_secrets g oper) perm kind confirmed ip e (r, out) db
      = (res, (r', out @ map (apsnd (message_with_secrets g)) sent), db')"
proof -
  obtain res1 r1 out1 where d: "dispatch sf req reply h oper (r, out) = (res1, (r1, out1))"
    by (metis prod.collapse)
  from dispatch_with_secrets [OF d, of g] obtain sent where sent: "out1 = out @ sent"
    "dispatch sf req reply h (with_secrets g oper) (r, out)
      = (res1, (r1, out @ map (apsnd (message_with_secrets g)) sent))" by blast
  show ?thesis
  proof (cases "has ctx perm \<and> (kind = Destructive \<longrightarrow> confirmed)")
    case True
    with assms d sent show ?thesis
      by (intro exI [where x = sent])
        (auto simp: execute_on_host_def kind_with_secrets label_with_secrets Let_def)
  next
    case False
    with assms show ?thesis
      by (intro exI [where x = "[]"])
        (auto simp: execute_on_host_def kind_with_secrets label_with_secrets Let_def split: if_splits)
  qed
qed

section \<open>Concrete runs\<close>

definition demo_hosts :: "registry \<times> (nat \<times> server_message) list" where
  "demo_hosts = (register 1 7 (Some 47) new_registry, [])"

definition demo_manager :: auth_context where
  "demo_manager = \<lparr>user_id = 70, username = ''nadia'', permissions = {SystemsManage}\<rparr>"

definition demo_reboot :: "bool \<Rightarrow> (execution_error + operation_output)
    \<times> (registry \<times> (nat \<times> server_message) list) \<times> database" where
  "demo_reboot confirmed = execute_on_host (dispatch (\<lambda>_. []) 5 (Answer (Outcome_Err ''busy''))) demo_manager 1 ''web-1''
     (SystemOp Reboot) SystemsManage Destructive confirmed None False demo_hosts demo_db"

lemmas demo_run_defs = demo_reboot_def demo_hosts_def demo_manager_def execute_on_host_def dispatch_def dispatch_guard_def
  dispatch_lookup_def guard_def is_control_plane_def new_registry_def registry_defs has_def has_version_def
  dispatch_outcome_def

lemma demo_reboot_confirmed:
  "fst (demo_reboot True) = Err (Failed ''busy'')"
  "snd (fst (snd (demo_reboot True))) = [(7, Command 5 (SystemOp Reboot))]"
  by (simp_all add: demo_run_defs system_op_min_protocol_def)

lemma demo_reboot_unconfirmed: "fst (demo_reboot False) = Err ConfirmationRequired"
  by (simp add: demo_run_defs)

text \<open>Elevation on a connected host: what is sent carries the password, the rest does not.\<close>

definition demo_elevate :: "string \<Rightarrow> (execution_error + operation_output)
    \<times> (registry \<times> (nat \<times> server_message) list) \<times> database" where
  "demo_elevate password = execute_on_host (dispatch (\<lambda>_. []) 5 (Answer (Outcome_Err ''denied''))) demo_manager 1 ''web-1''
     (SessionOp (Elevate password 60)) SystemsManage Write False None False demo_hosts demo_db"

lemma demo_elevate_sends: "snd (fst (snd (demo_elevate pw))) = [(7, Command 5 (SessionOp (Elevate pw 60)))]"
  by (simp add: demo_run_defs demo_elevate_def session_op_min_protocol_def)

theorem audit_trail_reveals_no_secret_witness:
  "fst (demo_elevate ''********'') = fst (demo_elevate ''hunter2'')
   \<and> snd (snd (demo_elevate ''********'')) = snd (snd (demo_elevate ''hunter2''))
   \<and> snd (fst (snd (demo_elevate ''hunter2''))) = [(7, Command 5 (SessionOp (Elevate ''hunter2'' 60)))]"
proof -
  obtain r0 out0 where h: "demo_hosts = (r0, out0)" by (cases demo_hosts)
  obtain res r out db where d: "demo_elevate ''hunter2'' = (res, (r, out), db)" by (metis prod.collapse)
  have out: "out = [(7, Command 5 (SessionOp (Elevate ''hunter2'' 60)))]"
    using demo_elevate_sends [of "''hunter2''"] d by simp
  from audit_trail_reveals_no_secret [OF d [unfolded demo_elevate_def h], of "\<lambda>_. ''********''"]
  obtain sent where "demo_elevate ''********'' = (res, (r, sent), db)" by (auto simp: demo_elevate_def h)
  with d out show ?thesis by simp
qed

theorem host_operations_are_authorized_witness:
  "commands (fst (snd (demo_reboot True))) = [SystemOp Reboot] \<and> has demo_manager SystemsManage"
proof -
  obtain res r out db where d: "demo_reboot True = (res, (r, out), db)" by (cases "demo_reboot True") auto
  have c: "commands (r, out) = [SystemOp Reboot]"
    using demo_reboot_confirmed(2) by (simp add: d commands_def map_filter_def)
  have n: "commands demo_hosts = []" by (simp add: demo_hosts_def commands_def map_filter_def)
  obtain r0 out0 where h: "demo_hosts = (r0, out0)" by (cases demo_hosts)
  from host_operations_are_authorized [OF d [unfolded demo_reboot_def h]] c n [unfolded h] show ?thesis
    by (simp add: d)
qed

theorem refused_operations_send_nothing_witness:
  "fst (snd (demo_reboot False)) = demo_hosts"
proof -
  obtain st db where d: "demo_reboot False = (Err ConfirmationRequired, st, db)"
    using demo_reboot_unconfirmed by (cases "demo_reboot False") auto
  from refused_operations_send_nothing [OF d [unfolded demo_reboot_def]] show ?thesis by (simp add: d)
qed

text \<open>An operation of the control plane itself that is denied does not run: what it would do is not looked at.\<close>

lemma denied_operations_do_not_run:
  "\<not> has ctx (op_required_permission oper) \<or> op_kind oper = Destructive \<and> \<not> confirm params \<Longrightarrow>
   execute ctx (oper\<lparr>op_run := run\<rparr>) params ip db = execute ctx oper params ip db"
  by (auto simp: execute_def)

end
