(* ===== verification/Process_Signals.thy ===== *)
theory Process_Signals
  imports Executor
begin

text \<open>
  Signals to a process by its PID: \<^verbatim>\<open>check_signal\<close> and \<^verbatim>\<open>audit_refusal\<close> of
  \<^verbatim>\<open>crates/web/src/control_plane.rs\<close> and the handler \<^verbatim>\<open>send_signal\<close> of
  \<^verbatim>\<open>crates/web/src/routes/reanimation.rs\<close>. On the control plane's own server the guard cannot know which process
  a PID is, so the handler first asks the agent and refuses what it cannot identify.

  The handler dispatches twice; \<open>look\<close> and \<open>act\<close> are the request identifier and the agent's reply of each.
  \<open>host_name\<close> stands for the row of the host, \<open>elevation\<close> for the hosts the elevation tracker counts as elevated. The
  page that is rendered at the end is its label, result and error.
\<close>

type_synonym hosts = "registry \<times> (nat \<times> server_message) list"

type_synonym field_printer = "(string \<times> debug_value) list \<Rightarrow> string"

section \<open>Which process a PID is\<close>

definition unknown_process_message :: "32 word \<Rightarrow> string" where
  "unknown_process_message pid = PREFIX @ '': couldn'' @ [CHR 0x27] @ ''t confirm which process PID '' @ dec_digits (unat pid)
     @ '' is, so it might be part of the control plane. Check it with a dry run or from a shell.''"

definition check_signal :: "field_printer \<Rightarrow> uuid \<times> reply \<Rightarrow> uuid \<Rightarrow> 32 word \<Rightarrow> hosts \<Rightarrow> (string + unit) \<times> hosts" where
  "check_signal show_fields look host_id pid st =
     (if \<not> is_control_plane (fst st) host_id then (Ok (), st)
      else case dispatch show_fields (fst look) (snd look) host_id (ProcessOp (ProcessDetail pid)) st of
        (outcome, st) \<Rightarrow>
          let name = (case outcome of Inr (Outcome_Ok output) \<Rightarrow> process_name_from_ps (oo_stdout output) | _ \<Rightarrow> None)
          in (case name of Some name \<Rightarrow> check_process_name pid name
              | None \<Rightarrow> Err (unknown_process_message pid), st))"

definition audit_refusal :: "auth_context \<Rightarrow> string \<Rightarrow> agent_operation \<Rightarrow> string \<Rightarrow> database \<Rightarrow> database" where
  "audit_refusal ctx host_name oper reason db = snd (audit_record
     ((new_event (PlatformAction SystemCommandExecuted) Failure)
        \<lparr>ev_actor := Some (user_id ctx, username ctx), ev_resource := Some host_name,
         ev_metadata := Some (JObject [(''detail'', JString reason), (''operation'', JString (operation_label oper))])\<rparr>) db)"

section \<open>Sending a signal\<close>

definition is_valid_pid :: "32 word \<Rightarrow> bool" where
  "is_valid_pid pid \<longleftrightarrow> 1 < pid"

definition validate_pid :: "32 word \<Rightarrow> app_error + unit" where
  "validate_pid pid = (if is_valid_pid pid then Ok ()
     else Err (Validation (''That doesn'' @ [CHR 0x27] @ ''t look like a valid, non-protected process ID.'')))"

definition without_sig :: "string \<Rightarrow> string" where
  "without_sig signal = (let s = to_ascii_uppercase signal in
     case strip_prefix s ''SIG'' of Some rest \<Rightarrow> rest | None \<Rightarrow> s)"

definition is_valid_signal_name :: "string \<Rightarrow> bool" where
  "is_valid_signal_name signal \<longleftrightarrow>
     without_sig signal \<in> set [''TERM'', ''KILL'', ''HUP'', ''INT'', ''QUIT'', ''USR1'', ''USR2'', ''STOP'', ''CONT'']"

definition validate_signal :: "string \<Rightarrow> app_error + unit" where
  "validate_signal signal = (if is_valid_signal_name signal then Ok ()
     else Err (Validation (''That isn'' @ [CHR 0x27] @ ''t one of the supported signals.'')))"

definition signal_is_destructive :: "string \<Rightarrow> bool" where
  "signal_is_destructive signal \<longleftrightarrow> without_sig signal \<in> set [''TERM'', ''KILL'', ''QUIT'', ''INT'']"

record signal_form =
  sg_csrf_token :: string
  sg_confirm :: bool
  sg_confirm_text :: string

definition confirm_signal :: "string \<Rightarrow> 32 word \<Rightarrow> signal_form \<Rightarrow> app_error + unit" where
  "confirm_signal signal pid form =
     (if \<not> signal_is_destructive signal then Ok ()
      else if \<not> sg_confirm form then Err (Validation ''Send signal was not confirmed.'')
      else require_typed_confirmation (sg_confirm_text form) (dec_digits (unat pid)))"

datatype host_page = Host_Page string "string option" "string option"

definition send_signal :: "field_printer \<Rightarrow> uuid \<times> reply \<Rightarrow> uuid \<times> reply \<Rightarrow> (uuid \<Rightarrow> string option) \<Rightarrow> string option
    \<Rightarrow> auth_context \<Rightarrow> uuid \<Rightarrow> 32 word \<Rightarrow> string \<Rightarrow> signal_form \<Rightarrow> uuid set \<Rightarrow> hosts \<Rightarrow> database
    \<Rightarrow> (app_error + host_page) \<times> uuid set \<times> hosts \<times> database" where
  "send_signal show_fields look act host_name cookie ctx host_id pid signal form elevation st db =
     (case ensure ctx SystemsManage of Inl e \<Rightarrow> (Err e, elevation, st, db) | Inr _ \<Rightarrow>
     (case require_csrf cookie (sg_csrf_token form) of Inl e \<Rightarrow> (Err e, elevation, st, db) | Inr _ \<Rightarrow>
     (case validate_pid pid of Inl e \<Rightarrow> (Err e, elevation, st, db) | Inr _ \<Rightarrow>
     (case validate_signal signal of Inl e \<Rightarrow> (Err e, elevation, st, db) | Inr _ \<Rightarrow>
     (case confirm_signal signal pid form of Inl e \<Rightarrow> (Err e, elevation, st, db) | Inr _ \<Rightarrow>
     (case host_name host_id of None \<Rightarrow> (Err NotFound, elevation, st, db) | Some name \<Rightarrow>
       let label = ''Send Signal (SIG'' @ signal @ '' -> '' @ dec_digits (unat pid) @ '') -- '' @ name;
           destructive = signal_is_destructive signal;
           kind = (if destructive then Destructive else Write);
           oper = ProcessOp (SendSignal pid signal) in
       (case check_signal show_fields look host_id pid st of
          (Inl reason, st) \<Rightarrow>
            (Ok (Host_Page label None (Some reason)), elevation, st, audit_refusal ctx name oper reason db)
        | (Inr _, st) \<Rightarrow>
            (case execute_on_host (dispatch show_fields (fst act) (snd act)) ctx host_id name oper SystemsManage kind
                destructive None (host_id \<in> elevation) st db of
               (Inr output, st, db) \<Rightarrow> (Ok (Host_Page label (Some (oo_stdout output)) None), elevation, st, db)
             | (Inl e, st, db) \<Rightarrow>
                 (Ok (Host_Page label None (Some (execution_error_text e))), elevation - {host_id}, st, db)))))))))"

section \<open>What \<^verbatim>\<open>ps\<close> prints\<close>

definition protected_process :: "string \<Rightarrow> bool" where
  "protected_process name \<longleftrightarrow> to_ascii_lowercase name \<in> set PROTECTED_PROCESSES
     \<or> starts_with (to_ascii_lowercase name) ''abyssal'' \<or> starts_with (to_ascii_lowercase name) ''containerd-shim''"

text \<open>A line of \<^verbatim>\<open>ps\<close> about a process that runs the program \<open>program\<close>: twelve words, then the command line, whose
  first word is the program with or without its directory.\<close>

definition ps_line :: "string \<Rightarrow> string \<Rightarrow> bool" where
  "ps_line line program \<longleftrightarrow> CHR 0x0A \<notin> set line \<and> last line \<noteq> CHR 0x0D \<and> trim line \<noteq> []
     \<and> program \<noteq> [] \<and> CHR ''/'' \<notin> set program \<and> last program \<noteq> CHR '':''
     \<and> (\<exists>words dir args. length words = 12 \<and> split_whitespace line = words @ (dir @ program) # args
          \<and> (dir = [] \<or> last dir = CHR ''/''))"

lemma last_component:
  assumes "CHR ''/'' \<notin> set program" "dir = [] \<or> last dir = CHR ''/''"
  shows "last (split_on (\<lambda>c. c = CHR ''/'') (dir @ program)) = program"
proof -
  have one: "split_on (\<lambda>c. c = CHR ''/'') program = [program]" using assms(1) by (intro split_on_none) auto
  show ?thesis
  proof (cases dir rule: rev_cases)
    case (snoc u c)
    with assms(2) one split_on_last [of "\<lambda>c. c = CHR ''/''" c u program] show ?thesis by simp
  qed (simp add: one)
qed

lemma process_name_of_line:
  assumes "ps_line line program" "CHR 0x0A \<notin> set header"
  shows "process_name_from_ps (header @ CHR 0x0A # line @ [CHR 0x0A]) = Some program"
proof -
  let ?nl = "\<lambda>c. c = CHR 0x0A"
  have "split_on ?nl (line @ [CHR 0x0A]) = [line, []]"
    using assms(1) split_on_append [of line ?nl "[CHR 0x0A]" "[]" "[[]]"] by (auto simp: ps_line_def)
  then have "split_on ?nl (header @ CHR 0x0A # line @ [CHR 0x0A]) = [header, line, []]"
    using assms(2) split_on_append [of header ?nl "CHR 0x0A # line @ [CHR 0x0A]" "[]"] by auto
  then have "rust_lines (header @ CHR 0x0A # line @ [CHR 0x0A]) = [strip_cr header, line]"
    using assms(1) by (simp add: rust_lines_def ps_line_def strip_cr_def)
  moreover obtain words dir args where "length words = 12" "split_whitespace line = words @ (dir @ program) # args"
    "dir = [] \<or> last dir = CHR ''/''" using assms(1) by (auto simp: ps_line_def)
  moreover have "trim_end_matches (\<lambda>c. c = CHR '':'') program = program"
    using assms(1) by (cases program rule: rev_cases) (auto simp: trim_end_matches_def ps_line_def)
  ultimately show ?thesis
    using assms(1) last_component [of program dir]
    by (simp add: process_name_from_ps_def ps_line_def nth_append)
qed

section \<open>What is signalled\<close>

lemma check_signal_commands:
  assumes "check_signal sf look h pid st = (res, st')"
  shows "commands st' = commands st \<or> commands st' = commands st @ [ProcessOp (ProcessDetail pid)]"
proof (cases "is_control_plane (fst st) h")
  case True
  obtain o' st1 where d: "dispatch sf (fst look) (snd look) h (ProcessOp (ProcessDetail pid)) st = (o', st1)"
    by (metis surj_pair)
  with assms True have "st' = st1" by (auto simp: check_signal_def Let_def)
  with hosts.sends_once [OF d] show ?thesis by auto
qed (use assms in \<open>auto simp: check_signal_def\<close>)

lemma check_signal_ok:
  assumes "check_signal sf look h pid st = (Ok (), st')" "is_control_plane (fst st) h"
  obtains reported name where "snd look = Answer (Outcome_Ok reported)"
    "process_name_from_ps (oo_stdout reported) = Some name" "\<not> protected_process name"
proof -
  obtain r out where st: "st = (r, out)" by (cases st)
  obtain o' st1 where d: "dispatch sf (fst look) (snd look) h (ProcessOp (ProcessDetail pid)) (r, out) = (o', st1)"
    by (metis surj_pair)
  with assms st obtain reported name where o: "o' = Ok (Outcome_Ok reported)"
    "process_name_from_ps (oo_stdout reported) = Some name" "check_process_name pid name = Ok ()"
    by (auto simp: check_signal_def Let_def split: sum.splits command_outcome.splits option.splits)
  then have "snd look = Answer (Outcome_Ok reported)"
    using d by (auto simp: dispatch_def dispatch_guard_def dispatch_lookup_def Let_def
        split: sum.splits option.splits if_splits reply.splits)
  with o show ?thesis
    by (intro that) (auto simp: check_process_name_def protected_process_def Let_def split: if_splits)
qed

lemma send_signal_executes:
  assumes "send_signal sf look act host_name cookie ctx h pid signal form elevation st db = (res, elevation', st', db')"
    and "ProcessOp (SendSignal pid signal) \<in> set (commands st') - set (commands st)"
  obtains st1 name db1 res1 where "has ctx SystemsManage" "csrf_verify cookie (sg_csrf_token form)" "1 < pid"
    "is_valid_signal_name signal" "confirm_signal signal pid form = Ok ()" "check_signal sf look h pid st = (Ok (), st1)"
    "execute_on_host (dispatch sf (fst act) (snd act)) ctx h name (ProcessOp (SendSignal pid signal)) SystemsManage
       (if signal_is_destructive signal then Destructive else Write) (signal_is_destructive signal) None
       (h \<in> elevation) st1 db = (res1, st', db1)"
proof -
  obtain c st1 where c: "check_signal sf look h pid st = (c, st1)" by (metis surj_pair)
  have "ProcessOp (SendSignal pid signal) \<notin> set (commands st1) - set (commands st)"
    using check_signal_commands [OF c] by auto
  with assms(2) have ne: "st' \<noteq> st" "st' \<noteq> st1" by auto
  from assms(1) ne c obtain name res1 db1 where "has ctx SystemsManage" "csrf_verify cookie (sg_csrf_token form)"
    "is_valid_pid pid" "is_valid_signal_name signal" "confirm_signal signal pid form = Ok ()" "c = Ok ()"
    "execute_on_host (dispatch sf (fst act) (snd act)) ctx h name (ProcessOp (SendSignal pid signal)) SystemsManage
       (if signal_is_destructive signal then Destructive else Write) (signal_is_destructive signal) None
       (h \<in> elevation) st1 db = (res1, st', db1)"
    unfolding send_signal_def Let_def ensure_def require_csrf_def validate_pid_def validate_signal_def
    by (auto split: if_splits sum.splits option.splits prod.splits)
  with c show ?thesis by (intro that) (auto simp: is_valid_pid_def)
qed

text \<open>C26: the handler sends a signal to a process of a host only for a user with the permission and the CSRF token, to
  another PID than 0 and 1, and, when the signal ends or interrupts the process, after the PID was typed as
  confirmation. On the control plane's own server it is sent only when the agent said which process the PID is and
  that process is none of the control plane's: whatever \<^verbatim>\<open>ps\<close> line the agent answered with, the program in it is not
  a protected one.\<close>

theorem signals_by_pid_spare_control_plane:
  assumes "send_signal sf look act host_name cookie ctx h pid signal form elevation (r, out) db
      = (res, elevation', st', db')"
    and "ProcessOp (SendSignal pid signal) \<in> set (commands st') - set (commands (r, out))"
  shows "has ctx SystemsManage \<and> csrf_verify cookie (sg_csrf_token form) \<and> 1 < pid \<and> is_valid_signal_name signal
    \<and> (signal_is_destructive signal \<longrightarrow> sg_confirm form \<and> trim (sg_confirm_text form) = dec_digits (unat pid))
    \<and> (is_control_plane r h \<longrightarrow> (\<exists>output name. snd look = Answer (Outcome_Ok output)
         \<and> process_name_from_ps (oo_stdout output) = Some name \<and> \<not> protected_process name
         \<and> (\<forall>header line program. oo_stdout output = header @ CHR 0x0A # line @ [CHR 0x0A]
              \<and> CHR 0x0A \<notin> set header \<and> ps_line line program \<longrightarrow> \<not> protected_process program)))"
  using assms
proof (cases rule: send_signal_executes)
  case (1 st1 name db1 res1)
  have "signal_is_destructive signal \<longrightarrow> sg_confirm form \<and> trim (sg_confirm_text form) = dec_digits (unat pid)"
    using 1(5) by (auto simp: confirm_signal_def require_typed_confirmation_def split: if_splits)
  moreover have "\<exists>output name. snd look = Answer (Outcome_Ok output)
      \<and> process_name_from_ps (oo_stdout output) = Some name \<and> \<not> protected_process name
      \<and> (\<forall>header line program. oo_stdout output = header @ CHR 0x0A # line @ [CHR 0x0A]
           \<and> CHR 0x0A \<notin> set header \<and> ps_line line program \<longrightarrow> \<not> protected_process program)"
    if "is_control_plane r h"
  proof (rule check_signal_ok [OF 1(6)])
    show "is_control_plane (fst (r, out)) h" using that by simp
  next
    fix reported name
    assume "snd look = Answer (Outcome_Ok reported)" "process_name_from_ps (oo_stdout reported) = Some name"
      "\<not> protected_process name"
    then show ?thesis using process_name_of_line by (intro exI [where x = reported] exI [where x = name]) auto
  qed
  ultimately show ?thesis using 1 by blast
qed

text \<open>Nginx may be stopped on the control plane's own server.\<close>

definition demo_ps :: operation_output where
  "demo_ps = \<lparr>oo_stdout = ''  PID  PPID USER'' @ CHR 0x0A
     # ''4242 1 root Ss 0.0 0.1 01:02 Mon Jan 1 10:00:00 2024 /usr/sbin/nginx -g'' @ [CHR 0x0A], oo_stderr = [], oo_exit_code = Some 0\<rparr>"

definition demo_own_hosts :: hosts where
  "demo_own_hosts = (set_control_plane 1 True (fst demo_hosts), [])"

definition demo_signal :: "(app_error + host_page) \<times> uuid set \<times> hosts \<times> database" where
  "demo_signal = send_signal (\<lambda>_. []) (5, Answer (Outcome_Ok demo_ps)) (6, Answer (Outcome_Ok demo_ps)) (\<lambda>_. Some ''arsenal'')
     (Some ''t'') demo_manager 1 4242 ''TERM'' \<lparr>sg_csrf_token = ''t'', sg_confirm = True, sg_confirm_text = ''4242''\<rparr>
     {} demo_own_hosts demo_db"

lemma demo_ps_line:
  "ps_line ''4242 1 root Ss 0.0 0.1 01:02 Mon Jan 1 10:00:00 2024 /usr/sbin/nginx -g'' ''nginx''"
proof -
  have w: "split_whitespace ''4242 1 root Ss 0.0 0.1 01:02 Mon Jan 1 10:00:00 2024 /usr/sbin/nginx -g''
      = [''4242'', ''1'', ''root'', ''Ss'', ''0.0'', ''0.1'', ''01:02'', ''Mon'', ''Jan'', ''1'', ''10:00:00'', ''2024'']
        @ (''/usr/sbin/'' @ ''nginx'') # [''-g'']" by code_simp
  have "trim ''4242 1 root Ss 0.0 0.1 01:02 Mon Jan 1 10:00:00 2024 /usr/sbin/nginx -g'' \<noteq> []" by code_simp
  then show ?thesis
    unfolding ps_line_def w
    by (intro conjI exI [where x = "[''4242'', ''1'', ''root'', ''Ss'', ''0.0'', ''0.1'', ''01:02'', ''Mon'', ''Jan'', ''1'', ''10:00:00'', ''2024'']"]
        exI [where x = "''/usr/sbin/''"] exI [where x = "[''-g'']"]) simp_all
qed

lemma demo_ps_name: "process_name_from_ps (oo_stdout demo_ps) = Some ''nginx''"
  using process_name_of_line [OF demo_ps_line, of "''  PID  PPID USER''"] by (simp add: demo_ps_def)

lemma demo_signal_checks:
  "check_process_name 4242 ''nginx'' = Ok ()" "is_valid_signal_name ''TERM''" "signal_is_destructive ''TERM''"
  "trim ''4242'' = dec_digits 4242"
proof -
  have "trim ''4242'' = ''4242''" by (rule trim_graphic) (simp add: rust_str)
  then show "trim ''4242'' = dec_digits 4242" by (simp add: dec_digits.simps)
qed (simp_all add: check_process_name_def PROTECTED_PROCESSES_def is_valid_signal_name_def signal_is_destructive_def
    without_sig_def rust_str)

lemma demo_own_hosts_control_plane: "is_control_plane (fst demo_own_hosts) 1" "commands demo_own_hosts = []"
  by (simp_all add: demo_own_hosts_def demo_run_defs set_control_plane_def commands_def map_filter_def)

lemma demo_signal_sends:
  "commands (fst (snd (snd demo_signal))) = [ProcessOp (ProcessDetail 4242), ProcessOp (SendSignal 4242 ''TERM'')]"
  by (simp add: demo_signal_def send_signal_def ensure_def require_csrf_def csrf_verify_def validate_pid_def is_valid_pid_def
      validate_signal_def confirm_signal_def require_typed_confirmation_def demo_signal_checks check_signal_def demo_ps_name
      demo_run_defs demo_own_hosts_def set_control_plane_def check_def check_process_def process_op_min_protocol_def
      commands_def map_filter_def)

theorem signals_by_pid_spare_control_plane_witness:
  "commands (fst (snd (snd demo_signal))) = [ProcessOp (ProcessDetail 4242), ProcessOp (SendSignal 4242 ''TERM'')]
   \<and> is_control_plane (fst demo_own_hosts) 1 \<and> has demo_manager SystemsManage \<and> \<not> protected_process ''nginx''"
proof -
  obtain r out where h: "demo_own_hosts = (r, out)" by (cases demo_own_hosts)
  obtain res el st db where d: "demo_signal = (res, el, st, db)" by (metis surj_pair)
  have own: "is_control_plane r 1" using demo_own_hosts_control_plane(1) by (simp add: h)
  have "ProcessOp (SendSignal 4242 ''TERM'') \<in> set (commands st) - set (commands (r, out))"
    using demo_signal_sends demo_own_hosts_control_plane(2) by (simp add: d h)
  note claim = signals_by_pid_spare_control_plane [OF d [unfolded demo_signal_def h] this]
  then obtain name where "process_name_from_ps (oo_stdout demo_ps) = Some name" "\<not> protected_process name"
    using own by auto
  with claim demo_ps_name demo_signal_sends demo_own_hosts_control_plane(1) show ?thesis by simp
qed

end
