(* ===== verification/Spec2Isabelle.thy ===== *)
theory Spec2Isabelle
  imports Role_Seed Process_Signals
begin

text \<open>
  A verification development of the Abyssal Arsenal: a control plane (web server, database, audit log) that
  administers hosts through agents. Paths below are under \<^verbatim>\<open>src/crates\<close>.

  \<^bold>\<open>The program.\<close> A user of the web server has roles; roles form a hierarchy and carry permissions, and a role's
  effective permissions are capped by every role above it. Users with \<^verbatim>\<open>roles.manage\<close> administer the roles below
  their own. Every action on a host is a value of the fixed type \<^verbatim>\<open>AgentOperation\<close>. A web handler checks the form and
  calls the executor; the executor checks the permission and the confirmation, hands the operation to the registry of
  live agent connections, which asks the guard whether the operation would damage the control plane's own server and
  whether the agent is new enough, sends it and waits; the executor then writes one audit row.

  \<^bold>\<open>Theories and sources.\<close>
  \<^item> \<open>Prelude\<close>: identifiers, results, and the part of Rust's standard library on strings that the code calls; strings
    are UTF-8 byte lists.
  \<^item> \<open>Permissions\<close> (\<^verbatim>\<open>core/src/permission.rs\<close>, \<^verbatim>\<open>core/src/error.rs\<close>, \<^verbatim>\<open>rbac\<close>): the permissions, their keys, the
    authorization context. \<open>Audit_Events\<close> (\<^verbatim>\<open>audit\<close>): actions, the event builder, the row written.
  \<^item> \<open>Ancestry\<close>: walks up a parent pointer that are cut off after a number of hops. \<open>Role_Store\<close>
    (\<^verbatim>\<open>database/src/repo/roles.rs\<close>): the tables as a record of row lists, one definition per query and statement, with
    the keys and foreign keys of the schema as errors. \<open>Role_Hierarchy\<close>: the locale \<open>role_hierarchy\<close> is what delegation
    relies on (effective sets go down the tree, the subtree test is the ancestor relation); the repository functions
    are its interpretation \<open>roles\<close>.
  \<^item> \<open>Role_Seed\<close> (\<^verbatim>\<open>database/src/seed.rs\<close>, \<^verbatim>\<open>database/src/repo/settings.rs\<close>): the roles written at start-up.
  \<^item> \<open>Delegation\<close> (\<^verbatim>\<open>web/src/common.rs\<close>, \<^verbatim>\<open>web/src/routes/roles.rs\<close>, \<^verbatim>\<open>web/src/csrf.rs\<close>): the handlers that create,
    edit, delete and re-grant roles, as functions from a request and a database to an answer and a database; the relation
    \<open>role_step\<close> joins them and \<open>role_request\<close> is its closure under users.
  \<^item> \<open>Agent_Protocol\<close> (\<^verbatim>\<open>agent-protocol\<close>): the 249 operations with their fields, the protocol version each needs, which
    run concurrently, the messages. \<open>Operation_Text\<close>: their debug texts and labels.
  \<^item> \<open>Control_Plane_Guard\<close> (\<^verbatim>\<open>hosts/src/control_plane_guard.rs\<close>): what is refused on the control plane's own server.
  \<^item> \<open>Keyed_Table\<close>, \<open>Host_Registry\<close> (\<^verbatim>\<open>hosts/src/registry.rs\<close>, \<^verbatim>\<open>web/src/routes/agent.rs\<close>): the registry. \<open>dispatch\<close>
    runs a call alone; the step relation \<open>world_step\<close> cuts it where the code takes a lock or waits and interleaves
    any number of calls with sockets that connect, take messages from their bounded channel, answer, stall and go, with
    callers that give up, and with changes of the control-plane flag. \<open>keyed_table\<close> is the contract of its tables.
  \<^item> \<open>Executor\<close> (\<^verbatim>\<open>execution\<close>): both entry points. The locale \<open>dispatcher\<close> is what the executor relies on; \<open>dispatch\<close> is
    its interpretation \<open>hosts\<close>.
  \<^item> \<open>Process_Signals\<close> (\<^verbatim>\<open>web/src/control_plane.rs\<close>, \<^verbatim>\<open>web/src/routes/reanimation.rs\<close>): a handler through all of these
    layers, signals to a process.

  \<^bold>\<open>What the lemmas show.\<close> Roles: effective permissions are the intersection along all ancestors; revocation cascades;
  no request gives anyone more than its author holds; delegates stay in their subtree; no sequence of requests makes a
  cycle; what is requested for a new role takes effect; forged forms change nothing; seeding completes Super Admin. Hosts:
  nothing is sent without permission, confirmation, guard and version, in every interleaving and only to the host
  asked for; an entry of the pending table belongs to a call in flight or to one its caller gave up; every attempt that
  runs to its end tries to write one audit row, and neither the row nor the answer depends on a password. Guard: disk
  operations spare Docker's disk, signals spare the control plane's processes, quarantine spares its files. Where the code
  does less than it means to (the depth cap of moved roles, \<^verbatim>\<open>..\<close> in quarantined paths, unrecognised disk layouts, a
  reconnecting agent, a stalled socket, a caller that goes), a theorem shows it.

  \<^bold>\<open>Bounds.\<close> Walks up the hierarchy stop after 20 hops, as in the code. The theorems about effective permissions hold for
  hierarchies within 20 levels, those about a request, which may add two, within 18; acyclicity needs no bound, because
  a parent is accepted only when it has at most one role above it. A call of \<^verbatim>\<open>dispatch\<close> is at most four steps from its
  return, but \<open>dispatch\<close> as a function stands only for calls that do return; a full channel (16 messages) can keep one
  from it. Loops over lists and strings are structural or have a termination proof.

  \<^bold>\<open>Parameters.\<close> Code outside the repository is an argument: the database's collation and its failures to write an audit
  row, UUID and JSON texts, the printing of debug fields, the replies of agents, identifiers drawn at random. Row order
  where a query has no \<^verbatim>\<open>ORDER BY\<close>, and the order of a \<^verbatim>\<open>HashSet\<close>, are fixed in the model and used by no statement.
  Requests on roles run one at a time; failures of statements other than audit rows are those of the schema.

  \<^bold>\<open>Not modelled.\<close> Accounts, sessions and passwords; the agent itself, its transport, sensors and posture rules; page
  rendering and the other web handlers, which call the executor with one operation each; directory, network, storage and
  backup modules; deployment over SSH, the certificate authority, program start-up. Time stamps are left out.
\<close>

end
